(* ===== verification/Prelude.thy ===== *)
theory Prelude
  imports Complex_Main
begin

text \<open>
  Shared vocabulary of the development: Python exceptions as values of a sum type, the
  sequencing of fallible steps (\<open>bind\<close>), the loops the sources write most often
  (a comprehension that may raise, a \<open>for\<close> loop over an accumulator), and the
  collections of facts the component theories hand to the simplifier.
\<close>

section \<open>Exceptions\<close>

text \<open>
  One constructor per exception class the sources raise or catch. \<open>OperatorError\<close>
  carries the classified reason and the message (\<open>operators/common.py\<close>), the others
  the message the source passes. \<open>LibError\<close> stands for a \<open>ValueError\<close> raised inside the
  standard library, whose text the sources never look at, so only the name of the failing
  call is kept. \<open>TerminationRequested\<close> is the one that is not an \<open>Exception\<close>: it derives
  from \<open>BaseException\<close>, so \<open>except Exception\<close> does not catch it. \<open>Unfinished\<close> is not an exception of
  the program: it marks a polling loop of the model that used up its rounds.
\<close>

datatype exn =
    ValueError string
  | LibError string
  | KeyError string
  | IndexError
  | TypeError
  | AttributeError
  | StopIteration
  | RuntimeError string
  | OperatorError (err_reason: string) (err_message: string)
  | HTTPError int
  | OSError
  | TimeoutExpired
  | CalledProcessError
  | TerminationRequested
  | Unfinished

definition is_exception :: "exn \<Rightarrow> bool" where
  "is_exception e = (e \<noteq> TerminationRequested \<and> e \<noteq> Unfinished)"

section \<open>Sequencing of fallible steps\<close>

named_theorems exn_simps "inversion of a fallible computation that returned"

definition bind :: "'e + 'a \<Rightarrow> ('a \<Rightarrow> 'e + 'b) \<Rightarrow> 'e + 'b" where
  "bind m f = (case m of Inl e \<Rightarrow> Inl e | Inr x \<Rightarrow> f x)"

lemma bind_simps [simp]:
  "bind (Inl e) f = Inl e"
  "bind (Inr x) f = f x"
  by (simp_all add: bind_def)

lemma bind_cong [fundef_cong]:
  "m = n \<Longrightarrow> (\<And>x. n = Inr x \<Longrightarrow> f x = g x) \<Longrightarrow> bind m f = bind n g"
  by (cases n) auto

lemma bind_eq_Inr [exn_simps]:
  "bind m f = Inr y \<longleftrightarrow> (\<exists>x. m = Inr x \<and> f x = Inr y)"
  by (cases m) auto

lemma bindE:
  assumes "bind m f = Inr y"
  obtains x where "m = Inr x" "f x = Inr y"
  using assms by (auto simp: bind_eq_Inr)

lemma bind_eq_Inl:
  "bind m f = Inl e \<longleftrightarrow> m = Inl e \<or> (\<exists>x. m = Inr x \<and> f x = Inl e)"
  by (cases m) auto

lemma bind_assoc: "bind (bind m f) g = bind m (\<lambda>x. bind (f x) g)"
  by (cases m) auto

definition raise_if :: "bool \<Rightarrow> 'e \<Rightarrow> 'e + unit" where
  "raise_if c e = (if c then Inl e else Inr ())"

lemma raise_if_simps [simp]:
  "raise_if True e = Inl e"
  "raise_if False e = Inr ()"
  by (simp_all add: raise_if_def)

lemma raise_if_eq_Inr [exn_simps]: "raise_if c e = Inr u \<longleftrightarrow> \<not> c"
  by (simp add: raise_if_def)

lemma raise_if_eq_Inl: "raise_if c e = Inl e' \<longleftrightarrow> c \<and> e' = e"
  by (auto simp: raise_if_def)

lemma if_Inl_eq_Inr [exn_simps]:
  "(if c then Inl e else m) = Inr y \<longleftrightarrow> \<not> c \<and> m = Inr y"
  by auto

lemma case_option_eq_Inr [exn_simps]:
  "(case x of None \<Rightarrow> Inl e | Some y \<Rightarrow> f y) = Inr z \<longleftrightarrow> (\<exists>y. x = Some y \<and> f y = Inr z)"
  by (cases x) auto

definition returns :: "'e + 'a \<Rightarrow> bool" where
  "returns m = (case m of Inl e \<Rightarrow> False | Inr x \<Rightarrow> True)"

lemma returns_simps [simp]:
  "returns (Inr x)" "\<not> returns (Inl e)"
  by (simp_all add: returns_def)

lemma returns_iff: "returns m \<longleftrightarrow> (\<exists>x. m = Inr x)"
  by (cases m) auto

section \<open>Loops that may raise\<close>

text \<open>A comprehension \<open>[f(x) for x in xs]\<close>: the first exception ends it.\<close>

fun mapM :: "('a \<Rightarrow> 'e + 'b) \<Rightarrow> 'a list \<Rightarrow> 'e + 'b list" where
  "mapM f [] = Inr []"
| "mapM f (x # xs) = bind (f x) (\<lambda>y. bind (mapM f xs) (\<lambda>ys. Inr (y # ys)))"

lemma mapM_cong [fundef_cong]:
  "xs = ys \<Longrightarrow> (\<And>x. x \<in> set ys \<Longrightarrow> f x = g x) \<Longrightarrow> mapM f xs = mapM g ys"
proof (induction ys arbitrary: xs)
  case (Cons y ys)
  then show ?case by (cases xs) (auto intro!: bind_cong)
qed simp

lemma mapM_Inr_iff: "mapM f xs = Inr ys \<longleftrightarrow> list_all2 (\<lambda>x y. f x = Inr y) xs ys"
proof (induction xs arbitrary: ys)
  case (Cons x xs)
  show ?case by (cases ys) (auto simp: bind_eq_Inr Cons.IH)
qed auto

lemma mapM_length: "mapM f xs = Inr ys \<Longrightarrow> length ys = length xs"
  by (auto simp: mapM_Inr_iff dest: list_all2_lengthD)

lemma mapM_set: "mapM f xs = Inr ys \<Longrightarrow> y \<in> set ys \<Longrightarrow> \<exists>x\<in>set xs. f x = Inr y"
  by (auto simp: mapM_Inr_iff list_all2_conv_all_nth in_set_conv_nth Bex_def)

lemma mapM_set2: "mapM f xs = Inr ys \<Longrightarrow> x \<in> set xs \<Longrightarrow> \<exists>y\<in>set ys. f x = Inr y"
  by (auto simp: mapM_Inr_iff list_all2_conv_all_nth in_set_conv_nth)

lemma mapM_returns: "(\<And>x. x \<in> set xs \<Longrightarrow> \<exists>y. f x = Inr y) \<Longrightarrow> \<exists>ys. mapM f xs = Inr ys"
proof (induction xs)
  case (Cons x xs)
  then obtain y ys where "f x = Inr y" "mapM f xs = Inr ys" by force
  then show ?case by simp
qed simp

text \<open>A \<open>for\<close> loop over an accumulator whose body may raise.\<close>

fun foldM :: "('s \<Rightarrow> 'a \<Rightarrow> 'e + 's) \<Rightarrow> 's \<Rightarrow> 'a list \<Rightarrow> 'e + 's" where
  "foldM f s [] = Inr s"
| "foldM f s (x # xs) = bind (f s x) (\<lambda>t. foldM f t xs)"

lemma foldM_cong [fundef_cong]:
  "s = t \<Longrightarrow> xs = ys \<Longrightarrow> (\<And>u x. x \<in> set ys \<Longrightarrow> f u x = g u x) \<Longrightarrow>
   foldM f s xs = foldM g t ys"
proof (induction ys arbitrary: s t xs)
  case (Cons y ys)
  then show ?case by (cases xs) (auto intro!: bind_cong)
qed simp

lemma foldM_append: "foldM f s (xs @ ys) = bind (foldM f s xs) (\<lambda>t. foldM f t ys)"
  by (induction xs arbitrary: s) (auto simp: bind_assoc)

text \<open>The loop rule: what the body keeps, and extends by its element, holds at the end.\<close>

lemma foldM_invariant:
  assumes "foldM f s xs = Inr t" and "P [] s"
    and "\<And>ys x u v. P ys u \<Longrightarrow> x \<in> set xs \<Longrightarrow> f u x = Inr v \<Longrightarrow> P (ys @ [x]) v"
  shows "P xs t"
proof -
  have "P (ys @ zs) t"
    if "foldM f u zs = Inr t" "P ys u" "set zs \<subseteq> set xs" for u ys zs
    using that
  proof (induction zs arbitrary: u ys)
    case (Cons z zs)
    from Cons.prems obtain v where v: "f u z = Inr v" "foldM f v zs = Inr t"
      by (auto simp: bind_eq_Inr)
    with Cons.prems assms(3) have "P (ys @ [z]) v" by auto
    with Cons.IH [OF v(2) this] Cons.prems show ?case by simp
  qed simp
  from this [of s xs "[]"] assms(1,2) show ?thesis by simp
qed

text \<open>\<open>any(p(x) for x in xs)\<close>: stops at the first true value, raises what it meets before.\<close>

fun anyM :: "('a \<Rightarrow> 'e + bool) \<Rightarrow> 'a list \<Rightarrow> 'e + bool" where
  "anyM p [] = Inr False"
| "anyM p (x # xs) = bind (p x) (\<lambda>b. if b then Inr True else anyM p xs)"

lemma anyM_cong [fundef_cong]:
  "xs = ys \<Longrightarrow> (\<And>x. x \<in> set ys \<Longrightarrow> p x = q x) \<Longrightarrow> anyM p xs = anyM q ys"
proof (induction ys arbitrary: xs)
  case (Cons y ys)
  then show ?case by (cases xs) (auto intro!: bind_cong)
qed simp

lemma anyM_TrueD: "anyM p xs = Inr True \<Longrightarrow> \<exists>x\<in>set xs. p x = Inr True"
  by (induction xs) (auto simp: bind_eq_Inr split: if_splits)

lemma anyM_FalseD: "anyM p xs = Inr False \<Longrightarrow> x \<in> set xs \<Longrightarrow> p x = Inr False"
  by (induction xs) (auto simp: bind_eq_Inr split: if_splits)

text \<open>\<open>a and b\<close>, \<open>a or b\<close> with operands that may raise: the right one is evaluated late.\<close>

definition andM :: "'e + bool \<Rightarrow> 'e + bool \<Rightarrow> 'e + bool" where
  "andM a b = bind a (\<lambda>x. if x then b else Inr False)"

definition orM :: "'e + bool \<Rightarrow> 'e + bool \<Rightarrow> 'e + bool" where
  "orM a b = bind a (\<lambda>x. if x then Inr True else b)"

lemma andM_Inr [exn_simps]:
  "andM a b = Inr r \<longleftrightarrow> (a = Inr False \<and> \<not> r) \<or> (a = Inr True \<and> b = Inr r)"
  by (auto simp: andM_def bind_eq_Inr)

lemma orM_Inr [exn_simps]:
  "orM a b = Inr r \<longleftrightarrow> (a = Inr True \<and> r) \<or> (a = Inr False \<and> b = Inr r)"
  by (auto simp: orM_def bind_eq_Inr)

lemma andM_simps [simp]:
  "andM (Inl e) b = Inl e" "andM (Inr True) b = b" "andM (Inr False) b = Inr False"
  by (simp_all add: andM_def)

lemma orM_simps [simp]:
  "orM (Inl e) b = Inl e" "orM (Inr True) b = Inr True" "orM (Inr False) b = b"
  by (simp_all add: orM_def)

section \<open>Lists\<close>

lemma find_first: "find P xs = Some x \<Longrightarrow> \<exists>ys. filter P xs = x # ys"
  by (induction xs) (auto split: if_splits)

end
