(* ===== verification/PyStr.thy ===== *)
theory PyStr
  imports Prelude "HOL-Library.Char_ord" "HOL-Library.List_Lexorder"
begin

text \<open>
  Python strings and the regular expressions the sources match them against. A string is a
  list of characters, each the code point of the same number: the model covers text whose
  code points are below 256 (Latin-1), and the classifications below (\<open>isdigit\<close>, \<open>isspace\<close>,
  \<open>lower\<close>) are Python's on that range. Regular expressions are transcribed as terms and
  matched by derivatives; \<open>fullmatch_iff_lang\<close> shows the matcher decides the language.
\<close>

section \<open>Characters\<close>

abbreviation code_point :: "char \<Rightarrow> nat" where
  "code_point c \<equiv> of_char c"

definition is_dec :: "char \<Rightarrow> bool" where
  "is_dec c = (48 \<le> code_point c \<and> code_point c \<le> 57)"

text \<open>\<open>str.isdigit\<close>: the decimal digits and the superscripts one, two and three.\<close>

definition isdigit_char :: "char \<Rightarrow> bool" where
  "isdigit_char c = (is_dec c \<or> code_point c \<in> {178, 179, 185})"

definition isspace_char :: "char \<Rightarrow> bool" where
  "isspace_char c =
     (let n = code_point c
      in (9 \<le> n \<and> n \<le> 13) \<or> (28 \<le> n \<and> n \<le> 32) \<or> n = 133 \<or> n = 160)"

definition lower_char :: "char \<Rightarrow> char" where
  "lower_char c =
     (let n = code_point c
      in if (65 \<le> n \<and> n \<le> 90) \<or> (192 \<le> n \<and> n \<le> 222 \<and> n \<noteq> 215)
         then (case c of Char b0 b1 b2 b3 b4 b5 b6 b7 \<Rightarrow> Char b0 b1 b2 b3 b4 True b6 b7)
         else c)"

section \<open>String operations\<close>

definition isdigit :: "string \<Rightarrow> bool" where
  "isdigit s = (s \<noteq> [] \<and> list_all isdigit_char s)"

definition lower :: "string \<Rightarrow> string" where
  "lower s = map lower_char s"

definition startswith :: "string \<Rightarrow> string \<Rightarrow> bool" where
  "startswith s p = (take (length p) s = p)"

definition endswith :: "string \<Rightarrow> string \<Rightarrow> bool" where
  "endswith s p = (length p \<le> length s \<and> drop (length s - length p) s = p)"

definition removeprefix :: "string \<Rightarrow> string \<Rightarrow> string" where
  "removeprefix s p = (if startswith s p then drop (length p) s else s)"

definition replace_char :: "char \<Rightarrow> string \<Rightarrow> string \<Rightarrow> string" where
  "replace_char c r s = concat (map (\<lambda>x. if x = c then r else [x]) s)"

fun contains :: "string \<Rightarrow> string \<Rightarrow> bool" where
  "contains [] p = (p = [])"
| "contains (x # s) p = (startswith (x # s) p \<or> contains s p)"

text \<open>\<open>s.split(c)\<close> for a one-character separator: never empty.\<close>

fun split_on :: "char \<Rightarrow> string \<Rightarrow> string list" where
  "split_on c [] = [[]]"
| "split_on c (x # s) =
     (if x = c then [] # split_on c s
      else case split_on c s of [] \<Rightarrow> [[x]] | w # ws \<Rightarrow> (x # w) # ws)"

text \<open>\<open>s.rpartition(c)\<close>: \<open>None\<close> where the separator does not occur.\<close>

definition rpartition :: "char \<Rightarrow> string \<Rightarrow> (string \<times> string) option" where
  "rpartition c s =
     (if c \<in> set s
      then let t = takeWhile (\<lambda>x. x \<noteq> c) (rev s)
           in Some (take (length s - length t - 1) s, rev t)
      else None)"

text \<open>\<open>c.join(ws)\<close>\<close>

fun join :: "string \<Rightarrow> string list \<Rightarrow> string" where
  "join c [] = []"
| "join c [w] = w"
| "join c (w # v # ws) = w @ c @ join c (v # ws)"

text \<open>
  \<open>int(s)\<close> on a string the caller has checked to hold digits: decimal digits only (a
  superscript digit is refused), and no more than 4300 of them.
\<close>

definition digits_val :: "string \<Rightarrow> nat" where
  "digits_val s = foldl (\<lambda>n c. 10 * n + (code_point c - 48)) 0 s"

definition py_int :: "string \<Rightarrow> exn + nat" where
  "py_int s =
     (if s = [] \<or> \<not> list_all is_dec s \<or> 4300 < length s then Inl (LibError ''int'')
      else Inr (digits_val s))"

subsection \<open>Facts about the operations\<close>

lemma split_on_not_Nil [simp]: "split_on c s \<noteq> []"
  by (induction s) (auto split: list.splits)

lemma split_on_no_sep: "w \<in> set (split_on c s) \<Longrightarrow> c \<notin> set w"
  by (induction s arbitrary: w) (auto split: list.splits if_splits)

lemma join_Cons: "ws \<noteq> [] \<Longrightarrow> join c (w # ws) = w @ c @ join c ws"
  by (cases ws) auto

lemma join_Cons_head: "join c ((x # w) # ws) = x # join c (w # ws)"
  by (cases ws) auto

text \<open>Splitting and joining on the same separator gives the text back.\<close>

lemma join_split_on: "join [c] (split_on c s) = s"
proof (induction s)
  case (Cons x s)
  obtain w ws where ws: "split_on c s = w # ws"
    by (cases "split_on c s") auto
  then show ?case using Cons.IH
    by (cases ws) (auto simp: join_Cons join_Cons_head)
qed simp

lemma split_on_no_occ: "c \<notin> set w \<Longrightarrow> split_on c w = [w]"
  by (induction w) auto

lemma split_on_app: "c \<notin> set w \<Longrightarrow> split_on c (w @ c # s) = w # split_on c s"
  by (induction w) auto

lemma split_on_join:
  "ws \<noteq> [] \<Longrightarrow> \<forall>w\<in>set ws. c \<notin> set w \<Longrightarrow> split_on c (join [c] ws) = ws"
proof (induction ws)
  case (Cons w ws)
  then show ?case
    by (cases "ws = []") (auto simp: split_on_no_occ join_Cons split_on_app)
qed simp

lemma rpartition_Some_iff:
  "rpartition c s = Some (h, t) \<longleftrightarrow> s = h @ c # t \<and> c \<notin> set t"
proof
  assume a: "rpartition c s = Some (h, t)"
  then have c: "c \<in> set s" by (auto simp: rpartition_def split: if_splits)
  then obtain u v where s: "rev s = u @ c # v" "c \<notin> set u"
    by (metis set_rev split_list_first)
  then have "s = rev v @ c # rev u"
    by (metis append.assoc append_Cons append_Nil rev_append rev_rev_ident rev_singleton_conv
        rev.simps(2))
  moreover have "takeWhile (\<lambda>x. x \<noteq> c) (rev s) = u"
    using s by (auto simp: takeWhile_tail)
  ultimately show "s = h @ c # t \<and> c \<notin> set t"
    using a c s by (auto simp: rpartition_def Let_def)
next
  assume s: "s = h @ c # t \<and> c \<notin> set t"
  then have "takeWhile (\<lambda>x. x \<noteq> c) (rev s) = rev t"
    by (auto simp: takeWhile_tail)
  with s show "rpartition c s = Some (h, t)"
    by (auto simp: rpartition_def Let_def)
qed

lemma startswith_iff: "startswith s p \<longleftrightarrow> (\<exists>t. s = p @ t)"
  unfolding startswith_def by (metis append_eq_conv_conj append_take_drop_id)

lemma endswith_iff: "endswith s p \<longleftrightarrow> (\<exists>t. s = t @ p)"
  unfolding endswith_def by (auto, metis append_take_drop_id)

lemma removeprefix_app [simp]: "removeprefix (p @ s) p = s"
  by (simp add: removeprefix_def startswith_def)

section \<open>Regular expressions\<close>

text \<open>
  The fragment the sources use: character classes as unions of ranges, sequence,
  alternative, star, and the bounded repetitions built from them.
\<close>

datatype rx =
    RNone
  | REps
  | RCls "(char \<times> char) list"
  | RSeq rx rx
  | RAlt rx rx
  | RStar rx

definition in_cls :: "(char \<times> char) list \<Rightarrow> char \<Rightarrow> bool" where
  "in_cls rs c = list_ex (\<lambda>(a, b). code_point a \<le> code_point c \<and> code_point c \<le> code_point b) rs"

definition rchr :: "char \<Rightarrow> rx" where
  "rchr c = RCls [(c, c)]"

definition ropt :: "rx \<Rightarrow> rx" where
  "ropt r = RAlt r REps"

definition rplus :: "rx \<Rightarrow> rx" where
  "rplus r = RSeq r (RStar r)"

fun rtimes :: "nat \<Rightarrow> rx \<Rightarrow> rx" where
  "rtimes 0 r = REps"
| "rtimes (Suc n) r = RSeq r (rtimes n r)"

text \<open>\<open>r{0,n}\<close>\<close>

fun rupto :: "nat \<Rightarrow> rx \<Rightarrow> rx" where
  "rupto 0 r = REps"
| "rupto (Suc n) r = ropt (RSeq r (rupto n r))"

fun rlit :: "string \<Rightarrow> rx" where
  "rlit [] = REps"
| "rlit [c] = rchr c"
| "rlit (c # s) = RSeq (rchr c) (rlit s)"

subsection \<open>The language of an expression\<close>

inductive_set star_lang :: "string set \<Rightarrow> string set" for A where
  star_Nil: "[] \<in> star_lang A"
| star_Cons: "u \<in> A \<Longrightarrow> v \<in> star_lang A \<Longrightarrow> u @ v \<in> star_lang A"

fun lang :: "rx \<Rightarrow> string set" where
  "lang RNone = {}"
| "lang REps = {[]}"
| "lang (RCls rs) = {[c] | c. in_cls rs c}"
| "lang (RSeq r s) = {u @ v | u v. u \<in> lang r \<and> v \<in> lang s}"
| "lang (RAlt r s) = lang r \<union> lang s"
| "lang (RStar r) = star_lang (lang r)"

subsection \<open>Matching by derivatives\<close>

fun nullable :: "rx \<Rightarrow> bool" where
  "nullable RNone = False"
| "nullable REps = True"
| "nullable (RCls rs) = False"
| "nullable (RSeq r s) = (nullable r \<and> nullable s)"
| "nullable (RAlt r s) = (nullable r \<or> nullable s)"
| "nullable (RStar r) = True"

fun mk_seq :: "rx \<Rightarrow> rx \<Rightarrow> rx" where
  "mk_seq RNone s = RNone"
| "mk_seq REps s = s"
| "mk_seq r s = RSeq r s"

fun mk_alt :: "rx \<Rightarrow> rx \<Rightarrow> rx" where
  "mk_alt RNone s = s"
| "mk_alt r RNone = r"
| "mk_alt r s = (if r = s then r else RAlt r s)"

fun deriv :: "char \<Rightarrow> rx \<Rightarrow> rx" where
  "deriv c RNone = RNone"
| "deriv c REps = RNone"
| "deriv c (RCls rs) = (if in_cls rs c then REps else RNone)"
| "deriv c (RSeq r s) =
     (if nullable r then mk_alt (mk_seq (deriv c r) s) (deriv c s)
      else mk_seq (deriv c r) s)"
| "deriv c (RAlt r s) = mk_alt (deriv c r) (deriv c s)"
| "deriv c (RStar r) = mk_seq (deriv c r) (RStar r)"

fun fullmatch :: "rx \<Rightarrow> string \<Rightarrow> bool" where
  "fullmatch r [] = nullable r"
| "fullmatch r (c # s) = fullmatch (deriv c r) s"

lemma nullable_iff: "nullable r \<longleftrightarrow> [] \<in> lang r"
  by (induction r) (auto intro: star_Nil)

lemma lang_mk_seq [simp]: "lang (mk_seq r s) = lang (RSeq r s)"
  by (induction r s rule: mk_seq.induct) auto

lemma lang_mk_alt [simp]: "lang (mk_alt r s) = lang (RAlt r s)"
  by (induction r s rule: mk_alt.induct) auto

lemma star_lang_ConsD:
  "w \<in> star_lang A \<Longrightarrow> w = c # s \<Longrightarrow> \<exists>u v. s = u @ v \<and> c # u \<in> A \<and> v \<in> star_lang A"
proof (induction arbitrary: c s rule: star_lang.induct)
  case (star_Cons u v)
  then show ?case by (cases u) auto
qed simp

lemma star_lang_Cons_iff:
  "c # s \<in> star_lang A \<longleftrightarrow> (\<exists>u v. s = u @ v \<and> c # u \<in> A \<and> v \<in> star_lang A)"
  by (auto dest: star_lang_ConsD) (metis append_Cons star_Cons)

lemma lang_deriv: "s \<in> lang (deriv c r) \<longleftrightarrow> c # s \<in> lang r"
proof (induction r arbitrary: s)
  case (RSeq r1 r2)
  then show ?case
    by (auto simp: nullable_iff Cons_eq_append_conv)
next
  case (RStar r)
  then show ?case by (auto simp: star_lang_Cons_iff)
qed auto

theorem fullmatch_iff_lang: "fullmatch r s \<longleftrightarrow> s \<in> lang r"
  by (induction s arbitrary: r) (auto simp: nullable_iff lang_deriv)

subsection \<open>Languages of the derived forms\<close>

lemma lang_rchr [simp]: "lang (rchr c) = {[c]}"
  by (auto simp: rchr_def in_cls_def)

lemma lang_ropt [simp]: "lang (ropt r) = insert [] (lang r)"
  by (auto simp: ropt_def)

lemma lang_rlit [simp]: "lang (rlit s) = {s}"
  by (induction s rule: rlit.induct) auto

lemma star_cls: "s \<in> star_lang {[c] | c. P c} \<longleftrightarrow> list_all P s"
proof (induction s)
  case (Cons c s)
  then show ?case by (auto simp: star_lang_Cons_iff)
qed (simp add: star_Nil)

lemma lang_star_cls [simp]: "s \<in> lang (RStar (RCls rs)) \<longleftrightarrow> list_all (in_cls rs) s"
  by (simp add: star_cls)

lemma lang_seq_cls:
  "s \<in> lang (RSeq (RCls rs) q) \<longleftrightarrow> (\<exists>c t. s = c # t \<and> in_cls rs c \<and> t \<in> lang q)"
proof
  assume "\<exists>c t. s = c # t \<and> in_cls rs c \<and> t \<in> lang q"
  then obtain c t where "s = [c] @ t" "in_cls rs c" "t \<in> lang q" by auto
  then show "s \<in> lang (RSeq (RCls rs) q)" unfolding lang.simps by blast
qed auto

lemma lang_plus_cls [simp]:
  "s \<in> lang (rplus (RCls rs)) \<longleftrightarrow> s \<noteq> [] \<and> list_all (in_cls rs) s"
  unfolding rplus_def lang_seq_cls lang_star_cls by (cases s) auto

lemma lang_times_cls [simp]:
  "s \<in> lang (rtimes n (RCls rs)) \<longleftrightarrow> length s = n \<and> list_all (in_cls rs) s"
proof (induction n arbitrary: s)
  case (Suc n)
  then show ?case
    by (cases s) (simp_all only: rtimes.simps lang_seq_cls, auto)
qed auto

lemma lang_upto_cls [simp]:
  "s \<in> lang (rupto n (RCls rs)) \<longleftrightarrow> length s \<le> n \<and> list_all (in_cls rs) s"
proof (induction n arbitrary: s)
  case (Suc n)
  then show ?case
    by (cases s) (simp_all only: rupto.simps lang_ropt lang_seq_cls insert_iff, auto)
qed auto

lemma RSeq_iff: "s \<in> lang (RSeq p q) \<longleftrightarrow> (\<exists>u v. s = u @ v \<and> u \<in> lang p \<and> v \<in> lang q)"
  by auto

end
