(* ===== verification/Json.thy ===== *)
theory Json
  imports PyStr "HOL-Library.AList"
begin

text \<open>
  The values the sources exchange with the API, Ansible and each other (\<open>JSONValue\<close> of
  \<open>operators/models.py\<close> and \<open>filter_plugins/kube_plan.py\<close>), with Python's equality, truth
  value, \<open>get\<close>, subscription and item assignment on them.

  A dictionary is an association list in insertion order, as Python keeps it; equality
  ignores the order, and so do lookups. A float is the exact value of a finite double.
\<close>

section \<open>Values\<close>

datatype json =
    JNull
  | JBool bool
  | JInt int
  | JFloat rat
  | JStr string
  | JArr "json list"
  | JObj "(string \<times> json) list"

type_synonym jobject = "(string \<times> json) list"

text \<open>Truth value: \<open>None\<close>, \<open>False\<close>, zero and the empty string and containers are false.\<close>

fun truthy :: "json \<Rightarrow> bool" where
  "truthy JNull = False"
| "truthy (JBool b) = b"
| "truthy (JInt i) = (i \<noteq> 0)"
| "truthy (JFloat q) = (q \<noteq> 0)"
| "truthy (JStr s) = (s \<noteq> [])"
| "truthy (JArr xs) = (xs \<noteq> [])"
| "truthy (JObj d) = (d \<noteq> [])"

text \<open>The number a value is for \<open>==\<close>: booleans are the integers 0 and 1.\<close>

fun as_number :: "json \<Rightarrow> rat option" where
  "as_number (JBool b) = Some (if b then 1 else 0)"
| "as_number (JInt i) = Some (of_int i)"
| "as_number (JFloat q) = Some q"
| "as_number _ = None"

text \<open>
  Python's \<open>==\<close>. Arrays compare position by position; dictionaries compare as maps: the
  same number of keys, and every key of the one bound to an equal value in the other.
\<close>

function py_eq :: "json \<Rightarrow> json \<Rightarrow> bool" where
  "py_eq a b =
     (case a of
        JNull \<Rightarrow> b = JNull
      | JStr s \<Rightarrow> b = JStr s
      | JArr xs \<Rightarrow>
          (case b of
             JArr ys \<Rightarrow> length xs = length ys \<and> list_all (\<lambda>(x, y). py_eq x y) (zip xs ys)
           | _ \<Rightarrow> False)
      | JObj d \<Rightarrow>
          (case b of
             JObj e \<Rightarrow>
               length d = length e \<and>
               list_all (\<lambda>(k, x). case map_of e k of None \<Rightarrow> False | Some y \<Rightarrow> py_eq x y) d
           | _ \<Rightarrow> False)
      | _ \<Rightarrow> as_number a \<noteq> None \<and> as_number a = as_number b)"
  by pat_completeness auto

termination
proof (relation "measure (\<lambda>(a, b). size a)", goal_cases)
  case (2 a b xs ys z x y)
  then have "x \<in> set xs" by (auto dest: set_zip_leftD)
  then show ?case using 2
    by (auto dest!: size_list_estimation' [OF _ order_refl, of _ _ size])
next
  case (3 a b d e z k x y)
  then have "size x < size_list (size_prod (\<lambda>_. 0) size) d + 1"
    by (auto dest!: size_list_estimation' [OF _ order_refl, of _ _ "size_prod (\<lambda>_. 0) size"])
  with 3 show ?case by auto
qed auto

declare py_eq.simps [simp del]


section \<open>Well-formed values: the keys of a dictionary are distinct\<close>

fun wf_json :: "json \<Rightarrow> bool" where
  "wf_json (JArr xs) = list_all wf_json xs"
| "wf_json (JObj d) = (distinct (map fst d) \<and> list_all (\<lambda>(k, v). wf_json v) d)"
| "wf_json _ = True"

abbreviation wf_obj :: "jobject \<Rightarrow> bool" where
  "wf_obj d \<equiv> wf_json (JObj d)"

section \<open>Equality is an equivalence on well-formed values\<close>

lemma py_eq_atoms [simp]:
  "py_eq JNull b \<longleftrightarrow> b = JNull"
  "py_eq (JStr s) b \<longleftrightarrow> b = JStr s"
  "py_eq a JNull \<longleftrightarrow> a = JNull"
  "py_eq a (JStr s) \<longleftrightarrow> a = JStr s"
  by (auto simp: py_eq.simps split: json.splits)

lemma py_eq_numbers [simp]:
  "py_eq (JBool x) b \<longleftrightarrow> as_number b = Some (if x then 1 else 0)"
  "py_eq (JInt i) b \<longleftrightarrow> as_number b = Some (of_int i)"
  "py_eq (JFloat q) b \<longleftrightarrow> as_number b = Some q"
  by (auto simp: py_eq.simps)

lemma py_eq_containers [simp]:
  "py_eq (JArr xs) (JArr ys) \<longleftrightarrow> list_all2 py_eq xs ys"
  "\<not> py_eq (JArr xs) (JObj d)" "\<not> py_eq (JObj d) (JArr xs)"
  "\<not> py_eq (JArr xs) (JBool x)" "\<not> py_eq (JArr xs) (JInt i)" "\<not> py_eq (JArr xs) (JFloat q)"
  "\<not> py_eq (JObj d) (JBool x)" "\<not> py_eq (JObj d) (JInt i)" "\<not> py_eq (JObj d) (JFloat q)"
  by (auto simp: py_eq.simps [of "JArr xs"] py_eq.simps [of "JObj d"] list_all2_iff list_all_iff)

lemma py_eq_JObj:
  "py_eq (JObj d) (JObj e) \<longleftrightarrow>
     length d = length e \<and> (\<forall>(k, x)\<in>set d. \<exists>y. map_of e k = Some y \<and> py_eq x y)"
  by (force simp: py_eq.simps [of "JObj d"] list_all_iff split: option.splits)

lemma py_eq_list [simp]: "\<not> py_eq (JArr xs) JNull" "\<not> py_eq (JObj d) JNull"
  by auto

lemma py_eq_JObjD: "py_eq (JObj d) b \<Longrightarrow> \<exists>e. b = JObj e"
  by (cases b) auto

lemma py_eq_JArrD: "py_eq (JArr xs) b \<Longrightarrow> \<exists>ys. b = JArr ys"
  by (cases b) auto

lemma as_number_py_eq: "as_number a \<noteq> None \<Longrightarrow> py_eq a b \<longleftrightarrow> as_number b = as_number a"
  by (cases a) auto

lemma py_eq_refl: "wf_json a \<Longrightarrow> py_eq a a"
proof (induction a rule: wf_json.induct)
  case (1 xs)
  then show ?case by (auto simp: list_all_iff list_all2_same)
next
  case (2 d)
  then show ?case
    by (force simp: py_eq_JObj list_all_iff)
qed auto

lemma map_of_dom_eq:
  assumes "distinct (map fst d)" "distinct (map fst e)" "length d = length e"
    and "\<forall>(k, x)\<in>set d. \<exists>y. map_of e k = Some y \<and> P x y"
  shows "dom (map_of d) = dom (map_of e)"
proof -
  have "fst ` set d \<subseteq> fst ` set e"
    using assms(4) by (force dest: map_of_SomeD)
  moreover have "card (fst ` set d) = card (fst ` set e)"
    using assms(1-3) distinct_card [of "map fst d"] distinct_card [of "map fst e"] by simp
  ultimately show ?thesis
    by (simp add: card_subset_eq dom_map_of_conv_image_fst)
qed

lemma py_eq_JObj_lookup:
  assumes "wf_obj d" "wf_obj e" "py_eq (JObj d) (JObj e)"
  shows "map_of d k = None \<longleftrightarrow> map_of e k = None"
    and "map_of d k = Some x \<Longrightarrow> \<exists>y. map_of e k = Some y \<and> py_eq x y"
proof -
  from assms have "dom (map_of d) = dom (map_of e)"
    by (intro map_of_dom_eq [of d e py_eq]) (auto simp: py_eq_JObj)
  then show "map_of d k = None \<longleftrightarrow> map_of e k = None" by (metis domIff)
  show "map_of d k = Some x \<Longrightarrow> \<exists>y. map_of e k = Some y \<and> py_eq x y"
    using assms(3) by (auto simp: py_eq_JObj dest!: map_of_SomeD)
qed

lemma py_eq_JObjI:
  assumes "wf_obj d" "wf_obj e"
    and "\<And>k. map_of d k = None \<longleftrightarrow> map_of e k = None"
    and "\<And>k x y. map_of d k = Some x \<Longrightarrow> map_of e k = Some y \<Longrightarrow> py_eq x y"
  shows "py_eq (JObj d) (JObj e)"
proof -
  have "dom (map_of d) = dom (map_of e)" using assms(3) by (auto simp: dom_def set_eq_iff)
  then have "length d = length e"
    using assms(1,2) distinct_card [of "map fst d"] distinct_card [of "map fst e"]
    by (simp add: dom_map_of_conv_image_fst)
  moreover have "\<exists>y. map_of e k = Some y \<and> py_eq x y" if "(k, x) \<in> set d" for k x
    using that assms by (metis map_of_eq_Some_iff not_None_eq wf_json.simps(2))
  ultimately show ?thesis by (auto simp: py_eq_JObj)
qed

lemma wf_obj_lookup: "wf_obj d \<Longrightarrow> map_of d k = Some v \<Longrightarrow> wf_json v"
  by (auto simp: list_all_iff dest!: map_of_SomeD)

lemma py_eq_sym: "wf_json a \<Longrightarrow> wf_json b \<Longrightarrow> py_eq a b \<Longrightarrow> py_eq b a"
proof (induction a arbitrary: b)
  case (JArr xs)
  then obtain ys where b: "b = JArr ys" by (auto dest: py_eq_JArrD)
  with JArr show ?case
    by (auto simp: list_all2_conv_all_nth list_all_length)
next
  case (JObj d)
  then obtain e where b: "b = JObj e" by (auto dest: py_eq_JObjD)
  note wf = JObj.prems(1) JObj.prems(2) [unfolded b]
  note look = py_eq_JObj_lookup [OF wf JObj.prems(3) [unfolded b]]
  have "py_eq y x" if k: "map_of d k = Some x" "map_of e k = Some y" for k x y
  proof -
    have "py_eq x y" using look(2) [OF k(1)] k(2) by simp
    with wf_obj_lookup [OF wf(1) k(1)] wf_obj_lookup [OF wf(2) k(2)] map_of_SomeD [OF k(1)]
    show ?thesis by (intro JObj.IH [of "(k, x)" x y]) auto
  qed
  with look(1) show ?case unfolding b by (intro py_eq_JObjI wf) auto
next
  case (JBool x)
  then show ?case by (simp add: as_number_py_eq)
next
  case (JInt x)
  then show ?case by (simp add: as_number_py_eq)
next
  case (JFloat x)
  then show ?case by (simp add: as_number_py_eq)
qed auto

lemma py_eq_trans:
  "wf_json a \<Longrightarrow> wf_json b \<Longrightarrow> wf_json c \<Longrightarrow> py_eq a b \<Longrightarrow> py_eq b c \<Longrightarrow> py_eq a c"
proof (induction a arbitrary: b c)
  case (JArr xs)
  then obtain ys zs where "b = JArr ys" "c = JArr zs" by (auto dest!: py_eq_JArrD)
  with JArr show ?case
    by (auto simp: list_all2_conv_all_nth list_all_length)
next
  case (JObj d)
  then obtain e f where bc: "b = JObj e" "c = JObj f" by (auto dest!: py_eq_JObjD)
  have "py_eq x z" if k: "map_of d k = Some x" "map_of f k = Some z" for k x z
  proof -
    from JObj.prems bc k obtain y where y: "map_of e k = Some y" "py_eq x y"
      using py_eq_JObj_lookup(2) [of d e k x] by auto
    with JObj.prems bc k have "py_eq y z"
      using py_eq_JObj_lookup(2) [of e f k y] by auto
    with y k JObj.prems bc show ?thesis
      by (intro JObj.IH [of "(k, x)" x y z]) (auto simp: list_all_iff dest: map_of_SomeD)
  qed
  moreover have "map_of d k = None \<longleftrightarrow> map_of f k = None" for k
    using JObj.prems bc py_eq_JObj_lookup(1) [of d e k] py_eq_JObj_lookup(1) [of e f k] by auto
  ultimately show ?case using JObj.prems bc by (auto simp del: wf_json.simps intro!: py_eq_JObjI)
qed (auto simp: as_number_py_eq)


section \<open>Dictionary operations\<close>

text \<open>
  \<open>d.get(k)\<close>, \<open>d.get(k, default)\<close>, \<open>d[k]\<close>, \<open>k in d\<close> and \<open>d[k] = v\<close> on a value known to be
  a dictionary. Assignment keeps the position of an existing key and appends a new one.
\<close>

definition dget :: "jobject \<Rightarrow> string \<Rightarrow> json" where
  "dget d k = (case map_of d k of None \<Rightarrow> JNull | Some v \<Rightarrow> v)"

definition dgetd :: "jobject \<Rightarrow> string \<Rightarrow> json \<Rightarrow> json" where
  "dgetd d k v0 = (case map_of d k of None \<Rightarrow> v0 | Some v \<Rightarrow> v)"

definition dsub :: "jobject \<Rightarrow> string \<Rightarrow> exn + json" where
  "dsub d k = (case map_of d k of None \<Rightarrow> Inl (KeyError k) | Some v \<Rightarrow> Inr v)"

definition dhas :: "jobject \<Rightarrow> string \<Rightarrow> bool" where
  "dhas d k = (map_of d k \<noteq> None)"

abbreviation dput :: "string \<Rightarrow> json \<Rightarrow> jobject \<Rightarrow> jobject" where
  "dput k v d \<equiv> AList.update k v d"

abbreviation dpop :: "string \<Rightarrow> jobject \<Rightarrow> jobject" where
  "dpop k d \<equiv> AList.delete k d"

text \<open>\<open>d.update(e)\<close>, also \<open>{**d, **e}\<close>.\<close>

definition dmerge :: "jobject \<Rightarrow> jobject \<Rightarrow> jobject" where
  "dmerge d e = foldl (\<lambda>d (k, v). dput k v d) d e"

lemma dget_put [simp]: "dget (dput k v d) k' = (if k' = k then v else dget d k')"
  by (simp add: dget_def update_conv')

lemma dhas_put [simp]: "dhas (dput k v d) k' \<longleftrightarrow> k' = k \<or> dhas d k'"
  by (simp add: dhas_def update_conv')

lemma map_of_put [simp]: "map_of (AList.update k v d) = (map_of d)(k \<mapsto> v)"
  by (rule update_conv')

lemma fst_set_put [simp]: "fst ` set (AList.update k v d) = insert k (fst ` set d)"
  by (induction d) auto

lemma distinct_put [simp]: "distinct (map fst (AList.update k v d)) = distinct (map fst d)"
  by (induction d) auto

lemma set_put_subset: "set (dput k v d) \<subseteq> insert (k, v) (set d)"
  by (induction d) auto

lemma wf_obj_put [simp]: "wf_obj d \<Longrightarrow> wf_json v \<Longrightarrow> wf_obj (dput k v d)"
  using set_put_subset [of k v d] by (auto simp: list_all_iff)

lemma wf_obj_pop [simp]: "wf_obj d \<Longrightarrow> wf_obj (dpop k d)"
  by (auto simp: list_all_iff AList.delete_eq intro: distinct_map_filter)

lemma wf_dget [simp]: "wf_obj d \<Longrightarrow> wf_json (dget d k)"
  by (auto simp: dget_def simp del: wf_json.simps(2) dest: wf_obj_lookup split: option.splits)

lemma wf_dgetd [simp]: "wf_obj d \<Longrightarrow> wf_json v \<Longrightarrow> wf_json (dgetd d k v)"
  by (auto simp: dgetd_def simp del: wf_json.simps(2) dest: wf_obj_lookup split: option.splits)

section \<open>Operations on values of unknown shape\<close>

text \<open>
  \<open>v.get(k, default)\<close> needs a dictionary (\<open>AttributeError\<close> otherwise), \<open>v[k]\<close> raises
  \<open>KeyError\<close> for an absent key and \<open>TypeError\<close> on anything that is not a dictionary, \<open>for x in v\<close>
  walks the elements of an array, the keys of a dictionary and the characters of a string.
\<close>

fun jget :: "json \<Rightarrow> string \<Rightarrow> json \<Rightarrow> exn + json" where
  "jget (JObj d) k v0 = Inr (dgetd d k v0)"
| "jget _ k v0 = Inl AttributeError"

fun jsub :: "json \<Rightarrow> string \<Rightarrow> exn + json" where
  "jsub (JObj d) k = dsub d k"
| "jsub _ k = Inl TypeError"

fun jput :: "json \<Rightarrow> string \<Rightarrow> json \<Rightarrow> exn + json" where
  "jput (JObj d) k v = Inr (JObj (dput k v d))"
| "jput _ k v = Inl TypeError"

fun jiter :: "json \<Rightarrow> exn + json list" where
  "jiter (JArr xs) = Inr xs"
| "jiter (JObj d) = Inr (map (JStr \<circ> fst) d)"
| "jiter (JStr s) = Inr (map (\<lambda>c. JStr [c]) s)"
| "jiter _ = Inl TypeError"

fun jitems :: "json \<Rightarrow> exn + jobject" where
  "jitems (JObj d) = Inr d"
| "jitems _ = Inl AttributeError"

text \<open>\<open>v[k1][k2]...\<close>\<close>

fun jpath :: "json \<Rightarrow> string list \<Rightarrow> exn + json" where
  "jpath v [] = Inr v"
| "jpath v (k # ks) = bind (jsub v k) (\<lambda>w. jpath w ks)"

text \<open>A number where arithmetic or an order comparison needs one.\<close>

definition num_of :: "json \<Rightarrow> exn + rat" where
  "num_of v = (case as_number v of None \<Rightarrow> Inl TypeError | Some q \<Rightarrow> Inr q)"

text \<open>A string where a string method or pattern match needs one.\<close>

fun str_of :: "exn \<Rightarrow> json \<Rightarrow> exn + string" where
  "str_of e (JStr s) = Inr s"
| "str_of e _ = Inl e"

text \<open>Membership in a Python set: the element must be hashable, equality is \<open>==\<close>.\<close>

fun hashable :: "json \<Rightarrow> bool" where
  "hashable (JArr xs) = False"
| "hashable (JObj d) = False"
| "hashable _ = True"

definition in_set :: "json \<Rightarrow> json list \<Rightarrow> exn + bool" where
  "in_set v vs = (if hashable v then Inr (list_ex (py_eq v) vs) else Inl TypeError)"

lemma dsub_Inr [exn_simps]: "dsub d k = Inr v \<longleftrightarrow> map_of d k = Some v"
  by (auto simp: dsub_def split: option.splits)

lemma map_of_dget: "map_of d k = Some v \<Longrightarrow> dget d k = v"
  by (simp add: dget_def)

lemma jget_Inr [exn_simps]: "jget v k v0 = Inr w \<longleftrightarrow> (\<exists>d. v = JObj d \<and> w = dgetd d k v0)"
  by (cases v) auto

lemma jsub_Inr [exn_simps]: "jsub v k = Inr w \<longleftrightarrow> (\<exists>d. v = JObj d \<and> map_of d k = Some w)"
  by (cases v) (auto simp: dsub_def split: option.splits)

lemma str_of_Inr [exn_simps]: "str_of e v = Inr s \<longleftrightarrow> v = JStr s"
  by (cases v) auto

lemma num_of_Inr [exn_simps]: "num_of v = Inr q \<longleftrightarrow> as_number v = Some q"
  by (auto simp: num_of_def split: option.splits)

lemma jiter_wf: "wf_json v \<Longrightarrow> jiter v = Inr xs \<Longrightarrow> x \<in> set xs \<Longrightarrow> wf_json x"
  by (cases v) (auto simp: list_all_iff)

text \<open>The total reading of a field the specifications use: null where the code would raise.\<close>

definition obj_field :: "string \<Rightarrow> json \<Rightarrow> json" where
  "obj_field k v = (case v of JObj d \<Rightarrow> dget d k | _ \<Rightarrow> JNull)"

lemma obj_field_JObj [simp]: "obj_field k (JObj d) = dget d k"
  by (simp add: obj_field_def)

text \<open>Lookups in a dictionary written out.\<close>

lemma lookup_simps:
  "dget [] k = JNull" "dget ((k', v) # d) k = (if k = k' then v else dget d k)"
  "dgetd [] k w = w" "dgetd ((k', v) # d) k w = (if k = k' then v else dgetd d k w)"
  "dsub [] k = Inl (KeyError k)" "dsub ((k', v) # d) k = (if k = k' then Inr v else dsub d k)"
  "dhas [] k = False" "dhas ((k', v) # d) k = (k = k' \<or> dhas d k)"
  by (simp_all add: dget_def dgetd_def dsub_def dhas_def)

section \<open>Further operations on values of unknown shape\<close>

text \<open>\<open>v.get(k1, {}).get(k2, {})...get(kn)\<close>\<close>

fun jchain :: "json \<Rightarrow> string list \<Rightarrow> exn + json" where
  "jchain v [] = Inr v"
| "jchain v [k] = jget v k JNull"
| "jchain v (k # ks) = bind (jget v k (JObj [])) (\<lambda>w. jchain w ks)"

text \<open>\<open>v or {}\<close>\<close>

definition or_empty :: "json \<Rightarrow> json" where
  "or_empty v = (if truthy v then v else JObj [])"

text \<open>\<open>len(v)\<close> and \<open>v in container\<close>\<close>

fun jlen :: "json \<Rightarrow> exn + nat" where
  "jlen (JArr xs) = Inr (length xs)"
| "jlen (JObj d) = Inr (length d)"
| "jlen (JStr s) = Inr (length s)"
| "jlen _ = Inl TypeError"

fun py_in :: "json \<Rightarrow> json \<Rightarrow> exn + bool" where
  "py_in v (JArr xs) = Inr (list_ex (py_eq v) xs)"
| "py_in (JStr p) (JStr s) = Inr (contains s p)"
| "py_in (JStr k) (JObj d) = Inr (dhas d k)"
| "py_in v (JObj d) = (if hashable v then Inr False else Inl TypeError)"
| "py_in v _ = Inl TypeError"

text \<open>A dictionary whose keys are JSON scalars: keys that are \<open>==\<close> are the same key.\<close>

type_synonym keyed = "(json \<times> json) list"

fun kput :: "json \<Rightarrow> json \<Rightarrow> keyed \<Rightarrow> keyed" where
  "kput k v [] = [(k, v)]"
| "kput k v ((k', v') # d) = (if py_eq k' k then (k', v) # d else (k', v') # kput k v d)"

definition kget :: "keyed \<Rightarrow> json \<Rightarrow> json \<Rightarrow> exn + json" where
  "kget d k dflt =
     (if \<not> hashable k then Inl TypeError
      else Inr (case find (\<lambda>p. py_eq (fst p) k) d of None \<Rightarrow> dflt | Some p \<Rightarrow> snd p))"

section \<open>Reading through lookups that may raise\<close>

lemma read_field:
  "jsub v k = Inr w \<Longrightarrow> obj_field k v = w"
  "jget v k JNull = Inr w \<Longrightarrow> obj_field k v = w"
  by (auto simp: exn_simps map_of_dget dgetd_def dget_def split: option.splits)

lemma read_path: "jpath v ks = Inr w \<Longrightarrow> fold obj_field ks v = w"
  by (induction ks arbitrary: v) (auto simp: bind_eq_Inr dest: read_field)

lemma or_empty_field: "obj_field k (or_empty v) = obj_field k v"
  by (cases v) (auto simp: or_empty_def obj_field_def dget_def)

lemma read_dict: "jget v k (JObj []) = Inr w \<Longrightarrow> obj_field j w = obj_field j (obj_field k v)"
  by (auto simp: exn_simps dgetd_def dget_def obj_field_def split: option.splits)

lemma py_eq_JStr: "py_eq v (JStr s) \<longleftrightarrow> v = JStr s"
  by (cases v) simp_all


end
