(* ===== verification/Ipv4.thy ===== *)
theory Ipv4
  imports PyStr "HOL-Library.Word"
begin

text \<open>
  IPv4 networks as Python's \<open>ipaddress\<close> module has them: parsing of an address with a prefix
  length, a netmask or a hostmask, and the tests the planners use (\<open>overlaps\<close>, \<open>subnet_of\<close>).
  Addresses are 32-bit words. The tests are proved to be intersection and inclusion of the
  sets of addresses the networks hold.
\<close>

unbundle bit_operations_syntax

type_synonym ipv4addr = "32 word"

record ipv4net =
  network_address :: ipv4addr
  prefixlen :: nat

section \<open>Masks and membership\<close>

definition netmask :: "nat \<Rightarrow> ipv4addr" where
  "netmask p = (-1) XOR drop_bit p (-1)"

definition broadcast_address :: "ipv4net \<Rightarrow> ipv4addr" where
  "broadcast_address n = network_address n OR (netmask (prefixlen n) XOR (-1))"

definition in_net :: "ipv4addr \<Rightarrow> ipv4net \<Rightarrow> bool" where
  "in_net a n = (a AND netmask (prefixlen n) = network_address n)"

definition overlaps :: "ipv4net \<Rightarrow> ipv4net \<Rightarrow> bool" where
  "overlaps a b =
     (in_net (network_address a) b \<or> in_net (broadcast_address a) b \<or>
      in_net (network_address b) a \<or> in_net (broadcast_address b) a)"

definition subnet_of :: "ipv4net \<Rightarrow> ipv4net \<Rightarrow> bool" where
  "subnet_of a b =
     (network_address b \<le> network_address a \<and> broadcast_address a \<le> broadcast_address b)"

section \<open>Parsing\<close>

definition ascii_digits :: "string \<Rightarrow> bool" where
  "ascii_digits s = (s \<noteq> [] \<and> list_all is_dec s)"

definition parse_octet :: "string \<Rightarrow> exn + nat" where
  "parse_octet s =
     (if \<not> ascii_digits s \<or> 3 < length s \<or> (s \<noteq> ''0'' \<and> hd s = CHR ''0'') \<or> 255 < digits_val s
      then Inl (LibError ''ip_network'') else Inr (digits_val s))"

definition parse_address :: "string \<Rightarrow> exn + ipv4addr" where
  "parse_address s =
     bind (mapM parse_octet (split_on (CHR ''.'') s)) (\<lambda>os.
       if length os \<noteq> 4 then Inl (LibError ''ip_network'')
       else Inr (of_nat (foldl (\<lambda>n k. 256 * n + k) 0 os)))"

text \<open>The same on integers, for evaluation.\<close>

lemma foldl_int: "int (foldl (\<lambda>n k. 256 * n + k) a ks) = foldl (\<lambda>n k. 256 * n + int k) (int a) ks"
  by (induction ks arbitrary: a) simp_all

lemma parse_address_code [code]: "parse_address s =
     bind (mapM parse_octet (split_on (CHR ''.'') s)) (\<lambda>os.
       if length os \<noteq> 4 then Inl (LibError ''ip_network'')
       else Inr (of_int (foldl (\<lambda>n k. 256 * n + int k) 0 os)))"
proof -
  have "of_int (foldl (\<lambda>n k. 256 * n + int k) 0 os) = (of_nat (foldl (\<lambda>n k. 256 * n + k) 0 os) :: 32 word)" for os
  proof -
    have "foldl (\<lambda>n k. 256 * n + int k) 0 os = int (foldl (\<lambda>n k. 256 * n + k) 0 os)"
      using foldl_int [of 0 os] by simp
    then show ?thesis by (simp only: of_int_of_nat_eq)
  qed
  then show ?thesis by (simp only: parse_address_def)
qed

text \<open>
  The prefix length a mask stands for: the mask must be a run of ones and then zeros
  (\<open>_prefix_from_ip_int\<close>); a dotted quad is tried as a netmask, then as a hostmask.
\<close>

fun right_zeros :: "nat \<Rightarrow> ipv4addr \<Rightarrow> nat" where
  "right_zeros 0 w = 0"
| "right_zeros (Suc b) w = (if bit w 0 then 0 else Suc (right_zeros b (drop_bit 1 w)))"

definition prefix_from_ip_int :: "ipv4addr \<Rightarrow> nat option" where
  "prefix_from_ip_int w =
     (let z = right_zeros 32 w; p = 32 - z
      in if drop_bit z w = mask p then Some p else None)"

definition parse_mask :: "string \<Rightarrow> exn + nat" where
  "parse_mask s =
     (if ascii_digits s \<and> length s \<le> 4300 \<and> digits_val s \<le> 32 then Inr (digits_val s)
      else bind (parse_address s) (\<lambda>w.
        case prefix_from_ip_int w of
          Some p \<Rightarrow> Inr p
        | None \<Rightarrow>
            (case prefix_from_ip_int (w XOR (-1)) of
               Some p \<Rightarrow> Inr p
             | None \<Rightarrow> Inl (LibError ''ip_network''))))"

definition ip_network :: "bool \<Rightarrow> string \<Rightarrow> exn + ipv4net" where
  "ip_network strict s =
     (case split_on (CHR ''/'') s of
        [a] \<Rightarrow>
          bind (parse_address a) (\<lambda>w. Inr \<lparr>network_address = w, prefixlen = 32\<rparr>)
      | [a, m] \<Rightarrow>
          bind (parse_address a) (\<lambda>w.
          bind (parse_mask m) (\<lambda>p.
            if w AND netmask p = w then Inr \<lparr>network_address = w, prefixlen = p\<rparr>
            else if strict then Inl (LibError ''ip_network'')
            else Inr \<lparr>network_address = w AND netmask p, prefixlen = p\<rparr>))
      | _ \<Rightarrow> Inl (LibError ''ip_network''))"

section \<open>The set of addresses of a network\<close>

definition addrs :: "ipv4net \<Rightarrow> ipv4addr set" where
  "addrs n = {a. in_net a n}"

definition valid_net :: "ipv4net \<Rightarrow> bool" where
  "valid_net n = (prefixlen n \<le> 32 \<and> network_address n AND netmask (prefixlen n) = network_address n)"

lemma bit_netmask: "bit (netmask p) i \<longleftrightarrow> i < 32 \<and> 32 \<le> i + p"
  by (auto simp: netmask_def bit_simps)

lemma netmask_eq: "p \<le> 32 \<Longrightarrow> netmask p = NOT (mask (32 - p))"
  by (rule bit_word_eqI) (auto simp: bit_netmask bit_simps)

lemma netmask_and: "p \<le> q \<Longrightarrow> netmask q AND netmask p = netmask p"
  by (rule bit_word_eqI) (auto simp: bit_netmask bit_simps)

lemma netmask_idem: "(a AND netmask p) AND netmask p = a AND netmask p"
  by (simp add: and.assoc)

lemma in_net_shorter:
  assumes "p \<le> q" "x AND netmask q = b" "x AND netmask p = a"
  shows "b AND netmask p = a"
proof -
  have "b AND netmask p = x AND (netmask q AND netmask p)"
    using assms(2) by (simp only: and.assoc [symmetric])
  with assms(3) netmask_and [OF assms(1)] show ?thesis by simp
qed

lemma network_address_in: "valid_net n \<Longrightarrow> in_net (network_address n) n"
  by (simp add: valid_net_def in_net_def)

lemma broadcast_address_in: "valid_net n \<Longrightarrow> in_net (broadcast_address n) n"
proof -
  assume v: "valid_net n"
  have "(netmask p XOR (-1)) AND netmask p = (0 :: ipv4addr)" for p
    by (rule bit_word_eqI) (auto simp: bit_simps)
  with v show ?thesis
    by (simp add: in_net_def broadcast_address_def valid_net_def bit.conj_disj_distrib2)
qed

text \<open>Two networks overlap, in the sense of the library, iff they share an address.\<close>

lemma overlaps_iff:
  assumes "valid_net a" "valid_net b"
  shows "overlaps a b \<longleftrightarrow> addrs a \<inter> addrs b \<noteq> {}"
proof
  assume "overlaps a b"
  then have "\<exists>x. in_net x a \<and> in_net x b"
    unfolding overlaps_def
    using network_address_in [OF assms(1)] network_address_in [OF assms(2)]
      broadcast_address_in [OF assms(1)] broadcast_address_in [OF assms(2)] by blast
  then show "addrs a \<inter> addrs b \<noteq> {}" unfolding addrs_def by blast
next
  assume "addrs a \<inter> addrs b \<noteq> {}"
  then obtain x where x: "in_net x a" "in_net x b" by (auto simp: addrs_def)
  show "overlaps a b"
  proof (cases "prefixlen a \<le> prefixlen b")
    case True
    from in_net_shorter [OF this] x have "in_net (network_address b) a"
      unfolding in_net_def by blast
    then show ?thesis by (simp add: overlaps_def)
  next
    case False
    then have "prefixlen b \<le> prefixlen a" by simp
    from in_net_shorter [OF this] x have "in_net (network_address a) b"
      unfolding in_net_def by blast
    then show ?thesis by (simp add: overlaps_def)
  qed
qed

text \<open>A network is the interval from its own address to its broadcast address.\<close>

lemma unat_bound: "unat (x :: ipv4addr) < 2 ^ 32"
  using unsigned_less [where ?'a = nat and w = x] by simp

lemma and_netmask_unat: "p \<le> 32 \<Longrightarrow> unat (x AND netmask p) = unat x div 2 ^ (32 - p) * 2 ^ (32 - p)"
proof -
  assume p: "p \<le> 32"
  have "x AND netmask p = push_bit (32 - p) (drop_bit (32 - p) x)"
    by (rule bit_word_eqI) (auto simp: bit_netmask bit_simps p)
  moreover have "unat (push_bit (32 - p) (drop_bit (32 - p) x)) =
      take_bit 32 (push_bit (32 - p) (unat x div 2 ^ (32 - p)))"
    by (simp add: unsigned_push_bit_eq unat_drop_bit_eq flip: drop_bit_eq_div)
  moreover have "unat x div 2 ^ (32 - p) * 2 ^ (32 - p) < 2 ^ 32"
    using div_times_less_eq_dividend [of "unat x"] unat_bound by (rule le_less_trans)
  ultimately show ?thesis by (simp add: push_bit_eq_mult take_bit_eq_mod)
qed

lemma broadcast_unat:
  assumes "valid_net n"
  shows "unat (broadcast_address n) = unat (network_address n) + (2 ^ (32 - prefixlen n) - 1)"
proof -
  let ?k = "32 - prefixlen n" and ?a = "network_address n"
  have p: "prefixlen n \<le> 32" and a: "?a AND netmask (prefixlen n) = ?a"
    using assms by (auto simp: valid_net_def)
  have m: "netmask (prefixlen n) XOR (-1) = mask ?k"
    using p by (simp add: netmask_eq)
  have "?a AND mask ?k = 0"
    by (subst a [symmetric], rule bit_word_eqI) (auto simp: bit_netmask bit_simps p)
  then have "broadcast_address n = ?a + mask ?k"
    unfolding broadcast_address_def m by (simp add: disjunctive_add_eq_or)
  moreover have "unat (mask ?k :: ipv4addr) = mask ?k"
    by (rule bit_eqI) (auto simp: bit_simps)
  then have "unat (mask ?k :: ipv4addr) = 2 ^ ?k - 1"
    by (simp add: mask_eq_exp_minus_1)
  moreover have "unat ?a + (2 ^ ?k - 1) < 2 ^ 32"
  proof -
    have d: "unat ?a div 2 ^ ?k * 2 ^ ?k = unat ?a"
      using and_netmask_unat [OF p, of ?a] a by simp
    have "unat ?a div 2 ^ ?k < 2 ^ prefixlen n"
      using unat_bound [of ?a] p
      by (intro less_mult_imp_div_less) (simp flip: power_add)
    then have "unat ?a + 2 ^ ?k \<le> 2 ^ prefixlen n * 2 ^ ?k"
      using d by (metis Suc_leI add.commute mult_Suc mult_le_mono1)
    also have "\<dots> = 2 ^ 32" using p by (simp flip: power_add)
    finally show ?thesis by (simp add: Suc_le_lessD)
  qed
  ultimately show ?thesis by (simp add: unat_word_ariths)
qed

lemma in_net_interval:
  assumes "valid_net n"
  shows "in_net x n \<longleftrightarrow> network_address n \<le> x \<and> x \<le> broadcast_address n"
proof -
  let ?k = "32 - prefixlen n" and ?a = "unat (network_address n)"
  have p: "prefixlen n \<le> 32" and a: "network_address n AND netmask (prefixlen n) = network_address n"
    using assms by (auto simp: valid_net_def)
  have d: "?a div 2 ^ ?k * 2 ^ ?k = ?a" using and_netmask_unat [OF p] a by metis
  have "in_net x n \<longleftrightarrow> unat x div 2 ^ ?k * 2 ^ ?k = ?a"
    unfolding in_net_def and_netmask_unat [OF p, of x, symmetric] by (simp add: word_unat_eq_iff)
  also have "(unat x div 2 ^ ?k * 2 ^ ?k = ?a) \<longleftrightarrow> ?a \<le> unat x \<and> unat x < ?a + 2 ^ ?k"
  proof
    assume "unat x div 2 ^ ?k * 2 ^ ?k = ?a"
    then show "?a \<le> unat x \<and> unat x < ?a + 2 ^ ?k"
      by (metis add.commute div_times_less_eq_dividend dividend_less_div_times zero_less_numeral zero_less_power)
  next
    assume b: "?a \<le> unat x \<and> unat x < ?a + 2 ^ ?k"
    have "unat x div 2 ^ ?k = ?a div 2 ^ ?k"
    proof (rule div_nat_eqI)
      show "2 ^ ?k * (?a div 2 ^ ?k) \<le> unat x" using b d by (simp add: mult.commute)
      show "unat x < 2 ^ ?k * Suc (?a div 2 ^ ?k)" using b d by (simp add: mult.commute)
    qed
    with d show "unat x div 2 ^ ?k * 2 ^ ?k = ?a" by simp
  qed
  also have "\<dots> \<longleftrightarrow> network_address n \<le> x \<and> x \<le> broadcast_address n"
    using zero_less_power [of "2 :: nat" ?k]
    unfolding word_le_nat_alt broadcast_unat [OF assms] by linarith
  finally show ?thesis .
qed

lemma subnet_of_iff:
  assumes "valid_net a" "valid_net b"
  shows "subnet_of a b \<longleftrightarrow> addrs a \<subseteq> addrs b"
proof
  assume "subnet_of a b"
  then show "addrs a \<subseteq> addrs b"
    using assms by (auto simp: addrs_def in_net_interval subnet_of_def)
next
  assume "addrs a \<subseteq> addrs b"
  with network_address_in [OF assms(1)] broadcast_address_in [OF assms(1)]
  have "in_net (network_address a) b" "in_net (broadcast_address a) b"
    by (auto simp: addrs_def)
  then show "subnet_of a b"
    using assms(2) by (simp add: in_net_interval subnet_of_def)
qed

lemma subnet_overlaps: "valid_net a \<Longrightarrow> valid_net b \<Longrightarrow> subnet_of a b \<Longrightarrow> overlaps a b"
  using network_address_in by (auto simp: overlaps_iff subnet_of_iff addrs_def)

section \<open>What the parser returns\<close>

lemma prefix_from_ip_int_le: "prefix_from_ip_int w = Some p \<Longrightarrow> p \<le> 32"
  by (auto simp: prefix_from_ip_int_def Let_def split: if_splits)

lemma parse_mask_le: "parse_mask m = Inr p \<Longrightarrow> p \<le> 32"
  by (auto simp: parse_mask_def exn_simps prefix_from_ip_int_le split: if_splits option.splits)

lemma ip_network_valid: "ip_network strict s = Inr n \<Longrightarrow> valid_net n"
  by (auto simp: ip_network_def valid_net_def exn_simps netmask_idem and.assoc parse_mask_le
      netmask_eq [of 32] split: list.splits if_splits)

section \<open>Room for one /24 network per node\<close>

lemma valid_net_iff:
  "valid_net n \<longleftrightarrow> prefixlen n \<le> 32 \<and> 2 ^ (32 - prefixlen n) dvd unat (network_address n)"
proof -
  have "network_address n AND netmask p = network_address n \<longleftrightarrow>
      unat (network_address n) div 2 ^ (32 - p) * 2 ^ (32 - p) = unat (network_address n)"
    if "p \<le> 32" for p
    unfolding and_netmask_unat [OF that, of "network_address n", symmetric]
    by (simp add: word_unat_eq_iff)
  moreover have "a div b * b = a \<longleftrightarrow> b dvd a" for a b :: nat
    by (metis dvd_div_mult_self dvd_triv_right)
  ultimately show ?thesis by (auto simp: valid_net_def)
qed

text \<open>The \<open>i\<close>-th /24 network inside \<open>n\<close>.\<close>

definition slot :: "ipv4net \<Rightarrow> nat \<Rightarrow> ipv4net" where
  "slot n i = \<lparr>network_address = network_address n + of_nat (i * 256), prefixlen = 24\<rparr>"

lemma slot_unat:
  assumes "valid_net n" "prefixlen n \<le> 24" "i < 2 ^ (24 - prefixlen n)"
  shows "unat (network_address (slot n i)) = unat (network_address n) + i * 256"
    and "i * 256 + 256 \<le> 2 ^ (32 - prefixlen n)"
    and "unat (network_address n) + 2 ^ (32 - prefixlen n) \<le> 2 ^ 32"
proof -
  have "(2 :: nat) ^ (32 - prefixlen n) = 2 ^ (24 - prefixlen n) * 256"
  proof -
    have "32 - prefixlen n = (24 - prefixlen n) + 8" using assms(2) by simp
    then show ?thesis by (simp only: power_add) simp
  qed
  moreover have "(i + 1) * 256 \<le> 2 ^ (24 - prefixlen n) * 256"
    using assms(3) by (intro mult_le_mono) auto
  ultimately show le: "i * 256 + 256 \<le> 2 ^ (32 - prefixlen n)" by simp
  have "unat (broadcast_address n) < 2 ^ 32" by (rule unat_bound)
  then have b: "unat (network_address n) + (2 ^ (32 - prefixlen n) - 1) < 2 ^ 32"
    unfolding broadcast_unat [OF assms(1)] .
  then show "unat (network_address n) + 2 ^ (32 - prefixlen n) \<le> 2 ^ 32"
    using zero_less_power [of "2 :: nat" "32 - prefixlen n"] by linarith
  from b le have "unat (network_address n) + i * 256 < 2 ^ 32" by linarith
  moreover from this have "unat (of_nat (i * 256) :: ipv4addr) = i * 256"
    by (simp only: unat_of_nat) (simp add: take_bit_eq_mod del: of_nat_mult)
  ultimately show "unat (network_address (slot n i)) = unat (network_address n) + i * 256"
    by (simp add: slot_def unat_word_ariths del: of_nat_mult)
qed

lemma slot_valid:
  assumes "valid_net n" "prefixlen n \<le> 24" "i < 2 ^ (24 - prefixlen n)"
  shows "valid_net (slot n i)" "subnet_of (slot n i) n"
proof -
  note u = slot_unat [OF assms]
  have "(256 :: nat) dvd 2 ^ (32 - prefixlen n)"
    using assms(2) le_imp_power_dvd [of 8 "32 - prefixlen n" "2 :: nat"] by simp
  then have "256 dvd unat (network_address n)"
    using assms(1) by (auto simp: valid_net_iff)
  then show v: "valid_net (slot n i)"
    unfolding valid_net_iff u(1) by (simp add: slot_def)
  have "unat (broadcast_address (slot n i)) = unat (network_address n) + i * 256 + 255"
    unfolding broadcast_unat [OF v] u(1) by (simp add: slot_def)
  moreover have "unat (network_address n) + i * 256 + 255 \<le> unat (broadcast_address n)"
    unfolding broadcast_unat [OF assms(1)] using u(2) by linarith
  ultimately show "subnet_of (slot n i) n"
    by (simp add: subnet_of_def word_le_nat_alt u(1))
qed

lemma slot_disjoint:
  assumes "valid_net n" "prefixlen n \<le> 24" "i < 2 ^ (24 - prefixlen n)"
    "j < 2 ^ (24 - prefixlen n)" "i \<noteq> j"
  shows "\<not> overlaps (slot n i) (slot n j)"
proof
  note vi = slot_valid(1) [OF assms(1,2,3)] and vj = slot_valid(1) [OF assms(1,2,4)]
  assume "overlaps (slot n i) (slot n j)"
  then obtain x where "in_net x (slot n i)" "in_net x (slot n j)"
    using overlaps_iff [OF vi vj] by (auto simp: addrs_def)
  then have "network_address (slot n i) \<le> x" "x \<le> broadcast_address (slot n i)"
    "network_address (slot n j) \<le> x" "x \<le> broadcast_address (slot n j)"
    unfolding in_net_interval [OF vi] in_net_interval [OF vj] by blast+
  then have "unat (network_address (slot n i)) \<le> unat (broadcast_address (slot n j))"
    "unat (network_address (slot n j)) \<le> unat (broadcast_address (slot n i))"
    unfolding word_le_nat_alt by linarith+
  then have "i * 256 \<le> j * 256 + 255" "j * 256 \<le> i * 256 + 255"
    unfolding broadcast_unat [OF vi] broadcast_unat [OF vj] slot_unat(1) [OF assms(1,2,3)]
      slot_unat(1) [OF assms(1,2,4)] by (simp_all add: slot_def)
  then have "i = j" by linarith
  with assms(5) show False ..
qed

text \<open>As many pairwise disjoint /24 networks as nodes fit, if the length test passes.\<close>

lemma room_for_nodes:
  assumes "valid_net n" "prefixlen n \<le> 24" "k \<le> 2 ^ (24 - prefixlen n)"
  shows "\<exists>ns. length ns = k \<and>
    (\<forall>m\<in>set ns. valid_net m \<and> prefixlen m = 24 \<and> subnet_of m n) \<and>
    sorted_wrt (\<lambda>a b. \<not> overlaps a b) ns"
proof -
  have "sorted_wrt (\<lambda>i j. \<not> overlaps (slot n i) (slot n j)) [0..<k]"
    unfolding sorted_wrt_iff_nth_less using assms slot_disjoint [OF assms(1,2)] by simp
  then show ?thesis
    using slot_valid [OF assms(1,2)] assms(3)
    by (intro exI [of _ "map (slot n) [0..<k]"]) (auto simp: sorted_wrt_map slot_def)
qed

end
