(* ===== verification/KubePlan.thy ===== *)
theory KubePlan
  imports Json Ipv4 "HOL-Library.Multiset"
begin

text \<open>
  Cluster planning of \<open>filter_plugins/kube_plan.py\<close>: selection of the labelled members,
  validation of the cluster settings, the plan the playbooks run from, and the checks made
  on a host before anything is installed on it.

  \<open>ip_network\<close> refuses text that is no IPv4 network with one exception (\<open>LibError\<close>): the
  code raises a \<open>ValueError\<close> both for malformed text and for an IPv6 network, and only the
  message tells them apart.
\<close>

section \<open>Narrowing at the data boundary\<close>

definition mapping :: "json \<Rightarrow> string \<Rightarrow> exn + jobject" where
  "mapping v context =
     (case v of JObj d \<Rightarrow> Inr d | _ \<Rightarrow> Inl (ValueError (context @ '' must be a mapping'')))"

definition text' :: "json \<Rightarrow> string \<Rightarrow> exn + string" where
  "text' v context =
     (case v of
        JStr s \<Rightarrow>
          if s = [] then Inl (ValueError (context @ '' must be a nonempty string'')) else Inr s
      | _ \<Rightarrow> Inl (ValueError (context @ '' must be a nonempty string'')))"

definition array :: "json \<Rightarrow> string \<Rightarrow> exn + json list" where
  "array v message = (case v of JArr xs \<Rightarrow> Inr xs | _ \<Rightarrow> Inl (ValueError message))"

lemma mapping_Inr [exn_simps]: "mapping v c = Inr d \<longleftrightarrow> v = JObj d"
  by (auto simp: mapping_def split: json.splits)

lemma text_Inr [exn_simps]: "text' v c = Inr s \<longleftrightarrow> v = JStr s \<and> s \<noteq> []"
  by (auto simp: text'_def split: json.splits if_splits)

lemma array_Inr [exn_simps]: "array v m = Inr xs \<longleftrightarrow> v = JArr xs"
  by (auto simp: array_def split: json.splits)

lemma narrow_values [simp]:
  "mapping (JObj d) c = Inr d" "s \<noteq> [] \<Longrightarrow> text' (JStr s) c = Inr s" "array (JArr xs) m = Inr xs"
  by (simp_all add: mapping_def text'_def array_def)

text \<open>Kubernetes DNS-subdomain names: at most 253 characters, each label at most 63.\<close>

definition rx_alnum :: rx where
  "rx_alnum = RCls [(CHR ''a'', CHR ''z''), (CHR ''0'', CHR ''9'')]"

definition rx_dns_label :: rx where
  "rx_dns_label =
     RSeq rx_alnum
       (ropt (RSeq (RStar (RCls [(CHR ''a'', CHR ''z''), (CHR ''0'', CHR ''9''), (CHR ''-'', CHR ''-'')]))
                   rx_alnum))"

definition dns_name :: "string \<Rightarrow> bool" where
  "dns_name value =
     (length value \<le> 253 \<and>
      list_all (\<lambda>label. length label \<le> 63 \<and> fullmatch rx_dns_label label)
        (split_on (CHR ''.'') value))"

definition ipv4_network :: "json \<Rightarrow> string \<Rightarrow> exn + ipv4net" where
  "ipv4_network v context = bind (text' v context) (\<lambda>s. ip_network True s)"

section \<open>Selecting the members\<close>

definition one_of :: "string list \<Rightarrow> string" where
  "one_of allowed = join '' or '' (map (\<lambda>v. [CHR 0x22] @ v @ [CHR 0x22]) allowed)"

definition host_option :: "jobject \<Rightarrow> string \<Rightarrow> string \<Rightarrow> string list \<Rightarrow> exn + string" where
  "host_option annotations annotation dflt allowed =
     bind (text' (dgetd annotations annotation (JStr dflt)) annotation) (\<lambda>value.
       if value \<notin> set allowed then Inl (ValueError (annotation @ '' must be '' @ one_of allowed))
       else Inr value)"

definition host_options :: "jobject \<Rightarrow> exn + jobject" where
  "host_options annotations =
     bind (host_option annotations ''homelab.io/kube-cgroup-version'' ''2'' [''1'', ''2'']) (\<lambda>c.
     bind (host_option annotations ''homelab.io/kube-iptables-backend'' ''nft'' [''legacy'', ''nft''])
       (\<lambda>b.
       Inr [(''cgroupVersion'', JStr c), (''iptablesBackend'', JStr b)]))"

definition member_record ::
  "string \<Rightarrow> string \<Rightarrow> string \<Rightarrow> string \<Rightarrow> jobject \<Rightarrow> jobject" where
  "member_record name uid node_name role options =
     [(''name'', JStr name), (''uid'', JStr uid), (''nodeName'', JStr node_name), (''role'', JStr role)]
     @ options"

text \<open>One iteration of the selection loop; the state is \<open>(members, names)\<close>.\<close>

definition select_node ::
  "string \<Rightarrow> string \<Rightarrow> jobject list \<times> string list \<Rightarrow> json \<Rightarrow> exn + jobject list \<times> string list" where
  "select_node cluster_name cluster_uid st raw_node =
     bind (mapping raw_node ''captured Server'') (\<lambda>node.
     bind (mapping (dgetd node ''labels'' (JObj [])) ''Server labels'') (\<lambda>labels.
     if dget labels ''homelab.io/kube-cluster'' \<noteq> JStr cluster_name then Inr st else
     bind (mapping (dgetd node ''annotations'' (JObj [])) ''Server annotations'') (\<lambda>annotations.
     let binding = dget annotations ''homelab.io/kube-cluster-uid'' in
     if binding \<noteq> JNull \<and> binding \<noteq> JStr cluster_uid
     then Inl (ValueError ''Server cluster UID annotation does not match the target'') else
     bind (text' (dget node ''name'') ''Server name'') (\<lambda>name.
     bind (text' (dgetd annotations ''homelab.io/kube-node-name'' (JStr name)) ''Kubernetes node name'')
       (\<lambda>node_name.
     bind (text' (dget labels ''homelab.io/kube-role'') ''Kubernetes role'') (\<lambda>role.
     if role \<notin> {''control-plane'', ''worker''}
     then Inl (ValueError ''Kubernetes role must be control-plane or worker'') else
     if \<not> dns_name node_name \<or> node_name \<in> set (snd st)
     then Inl (ValueError ''Kubernetes node names must be valid and unique'') else
     bind (text' (dget node ''uid'') ''Server UID'') (\<lambda>uid.
     bind (host_options annotations) (\<lambda>options.
       Inr (fst st @ [member_record name uid node_name role options], node_name # snd st)))))))))"

definition str_field :: "string \<Rightarrow> jobject \<Rightarrow> string" where
  "str_field k m = (case dget m k of JStr s \<Rightarrow> s | _ \<Rightarrow> [])"

definition selected_members :: "json \<Rightarrow> string \<Rightarrow> string \<Rightarrow> exn + jobject list" where
  "selected_members nodes cluster_name cluster_uid =
     bind (array nodes ''configuration_nodes must be an array'') (\<lambda>raw_nodes.
     bind (foldM (select_node cluster_name cluster_uid) ([], []) raw_nodes) (\<lambda>(members, names).
       if length (filter (\<lambda>m. dget m ''role'' = JStr ''control-plane'') members) \<noteq> 1
       then Inl (ValueError ''V1 requires exactly one control-plane Server'')
       else Inr (sort_key (str_field ''name'') members)))"

section \<open>Validating the settings\<close>

definition rx_digit :: rx where
  "rx_digit = RCls [(CHR ''0'', CHR ''9'')]"

definition rx_release :: rx where
  "rx_release =
     RSeq (rplus rx_digit) (RSeq (rchr (CHR ''.''))
       (RSeq (rplus rx_digit) (RSeq (rchr (CHR ''.'')) (rplus rx_digit))))"

definition require_release :: "json \<Rightarrow> string \<Rightarrow> string \<Rightarrow> exn + string" where
  "require_release v context message =
     bind (text' v context) (\<lambda>s.
       if \<not> fullmatch rx_release s then Inl (ValueError message) else Inr s)"

definition require_endpoint :: "string \<Rightarrow> exn + unit" where
  "require_endpoint endpoint =
     (let e = ValueError ''controlPlaneEndpoint must be an IPv4/DNS host and explicit valid port''
      in case rpartition (CHR '':'') endpoint of
           None \<Rightarrow> Inl e
         | Some (host, port) \<Rightarrow>
             if \<not> dns_name host \<or> \<not> isdigit port then Inl e
             else bind (py_int port) (\<lambda>n. if \<not> (1 \<le> n \<and> n \<le> 65535) then Inl e else Inr ()))"

definition settle_release :: "string \<Rightarrow> string \<Rightarrow> jobject \<Rightarrow> exn + jobject" where
  "settle_release field dflt settings =
     (let settings' = dput field (dgetd settings field (JStr dflt)) settings
      in bind (require_release (dget settings' field) field (field @ '' must be an exact release''))
           (\<lambda>_. Inr settings'))"

definition validated_settings :: "json \<Rightarrow> exn + jobject" where
  "validated_settings raw_spec =
     bind (mapping raw_spec ''cluster spec'') (\<lambda>spec.
     bind (require_release (dget spec ''kubernetesVersion'') ''kubernetesVersion''
             ''kubernetesVersion must be an exact release'') (\<lambda>version.
     bind (require_release (dget spec ''containerdVersion'') ''containerdVersion''
             ''containerdVersion must be an exact release'') (\<lambda>_.
     if \<not> startswith version ''1.'' then Inl (ValueError ''Only Kubernetes 1.x is supported'') else
     bind (py_int (split_on (CHR ''.'') version ! 1)) (\<lambda>minor.
     if minor < 31
     then Inl (ValueError ''The kubeadm v1beta4 configuration requires Kubernetes 1.31 or newer'') else
     bind (mapping (dget spec ''network'') ''cluster network'') (\<lambda>network.
     if dget network ''provider'' \<noteq> JStr ''flannel''
     then Inl (ValueError ''The initial platform playbook supports Flannel only'') else
     bind (require_release (dget network ''version'') ''Flannel version''
             ''Flannel version must be an exact release'') (\<lambda>_.
     bind (ipv4_network (dget spec ''podCIDR'') ''podCIDR'') (\<lambda>pod.
     bind (ipv4_network (dget spec ''serviceCIDR'') ''serviceCIDR'') (\<lambda>service.
     if overlaps pod service
     then Inl (ValueError ''Pod and Service networks must not overlap'') else
     bind (text' (dget spec ''controlPlaneEndpoint'') ''control-plane endpoint'') (\<lambda>endpoint.
     bind (require_endpoint endpoint) (\<lambda>_.
     bind (settle_release ''runcVersion'' ''1.5.2'' spec) (\<lambda>settings.
       settle_release ''cniPluginsVersion'' ''1.9.1'' settings)))))))))))"

text \<open>The identity of an installed member without the reconciled Flannel release.\<close>

definition stable_identity :: "json \<Rightarrow> exn + jobject" where
  "stable_identity raw_identity =
     bind (mapping raw_identity ''Kubernetes member identity'') (\<lambda>identity.
     bind (mapping (dget identity ''settings'') ''identity settings'') (\<lambda>settings.
     bind (mapping (dget settings ''network'') ''identity network'') (\<lambda>network.
       Inr (dput ''settings'' (JObj (dput ''network'' (JObj (dpop ''version'' network)) settings))
              identity))))"

section \<open>The plan\<close>

definition cluster_plan :: "json \<Rightarrow> json \<Rightarrow> exn + jobject" where
  "cluster_plan raw_target nodes =
     bind (mapping raw_target ''configuration_target'') (\<lambda>target.
     if dget target ''kind'' \<noteq> JStr ''KubeCluster''
     then Inl (ValueError ''Kubernetes setup requires a KubeCluster target'') else
     bind (mapping (dget target ''metadata'') ''cluster metadata'') (\<lambda>metadata.
     bind (text' (dget metadata ''name'') ''cluster name'') (\<lambda>name.
     bind (text' (dget metadata ''uid'') ''cluster UID'') (\<lambda>uid.
     bind (validated_settings (dget target ''spec'')) (\<lambda>settings.
     bind (selected_members nodes name uid) (\<lambda>members.
     bind (dsub settings ''podCIDR'') (\<lambda>pod_cidr.
     bind (ipv4_network pod_cidr ''podCIDR'') (\<lambda>network.
     if prefixlen network > 24 \<or> 2 ^ (24 - prefixlen network) < length members
     then Inl (ValueError ''Pod network needs one /24 subnet per selected node'') else
     bind (mapping (dgetd metadata ''annotations'' (JObj [])) ''cluster annotations'') (\<lambda>annotations.
     bind (text' (dgetd annotations ''homelab.io/network-api-endpoint'' (JStr ''direct''))
             ''homelab.io/network-api-endpoint'') (\<lambda>api_endpoint.
     if api_endpoint \<notin> {''direct'', ''service''}
     then Inl (ValueError (''homelab.io/network-api-endpoint must be '' @ one_of [''direct'', ''service'']))
     else
     (case find (\<lambda>m. dget m ''role'' = JStr ''control-plane'') members of
        None \<Rightarrow> Inl StopIteration
      | Some cp \<Rightarrow>
          Inr [(''name'', JStr name), (''uid'', JStr uid), (''settings'', JObj settings),
               (''members'', JArr (map JObj members)), (''controlPlane'', JObj cp),
               (''networkApiEndpoint'', JStr api_endpoint)])))))))))))"


section \<open>What a selection holds\<close>

abbreviation node_name_of :: "jobject \<Rightarrow> string" where
  "node_name_of m \<equiv> str_field ''nodeName'' m"

text \<open>A captured node that carries the label of the cluster, and its Server identity.\<close>

definition node_labels :: "json \<Rightarrow> jobject" where
  "node_labels n =
     (case n of
        JObj d \<Rightarrow> (case dgetd d ''labels'' (JObj []) of JObj l \<Rightarrow> l | _ \<Rightarrow> [])
      | _ \<Rightarrow> [])"

definition in_cluster :: "string \<Rightarrow> json \<Rightarrow> bool" where
  "in_cluster cluster_name n =
     (dget (node_labels n) ''homelab.io/kube-cluster'' = JStr cluster_name)"

definition server_identity :: "json \<Rightarrow> json \<times> json" where
  "server_identity n =
     (case n of JObj d \<Rightarrow> (dget d ''name'', dget d ''uid'') | _ \<Rightarrow> (JNull, JNull))"

definition node_annotations :: "json \<Rightarrow> jobject" where
  "node_annotations n =
     (case n of
        JObj d \<Rightarrow> (case dgetd d ''annotations'' (JObj []) of JObj l \<Rightarrow> l | _ \<Rightarrow> [])
      | _ \<Rightarrow> [])"

text \<open>The optional pin of a node to one lifetime of the cluster.\<close>

definition bound_to :: "string \<Rightarrow> json \<Rightarrow> bool" where
  "bound_to cluster_uid n =
     (dget (node_annotations n) ''homelab.io/kube-cluster-uid'' \<in> {JNull, JStr cluster_uid})"

definition member_ok :: "jobject \<Rightarrow> bool" where
  "member_ok m =
     (dns_name (node_name_of m) \<and> node_name_of m \<noteq> [] \<and>
      dget m ''nodeName'' = JStr (node_name_of m) \<and>
      str_field ''name'' m \<noteq> [] \<and> dget m ''name'' = JStr (str_field ''name'' m) \<and>
      str_field ''uid'' m \<noteq> [] \<and> dget m ''uid'' = JStr (str_field ''uid'' m) \<and>
      dget m ''role'' \<in> {JStr ''control-plane'', JStr ''worker''} \<and>
      dget m ''cgroupVersion'' \<in> {JStr ''1'', JStr ''2''} \<and>
      dget m ''iptablesBackend'' \<in> {JStr ''legacy'', JStr ''nft''})"

lemma host_option_Inr [exn_simps]:
  "host_option a n d vs = Inr v \<longleftrightarrow>
     dgetd a n (JStr d) = JStr v \<and> v \<noteq> [] \<and> v \<in> set vs"
  by (auto simp: host_option_def exn_simps)

lemma host_options_Inr [exn_simps]:
  "host_options a = Inr os \<longleftrightarrow>
     (\<exists>c b. host_option a ''homelab.io/kube-cgroup-version'' ''2'' [''1'', ''2''] = Inr c \<and>
            host_option a ''homelab.io/kube-iptables-backend'' ''nft'' [''legacy'', ''nft''] = Inr b \<and>
            os = [(''cgroupVersion'', JStr c), (''iptablesBackend'', JStr b)])"
  by (auto simp: host_options_def bind_eq_Inr)

lemma member_record_fields:
  assumes "m = member_record name uid node_name role
                 [(''cgroupVersion'', JStr c), (''iptablesBackend'', JStr b)]"
  shows "dget m ''name'' = JStr name" "dget m ''uid'' = JStr uid"
    "dget m ''nodeName'' = JStr node_name" "dget m ''role'' = JStr role"
    "dget m ''cgroupVersion'' = JStr c" "dget m ''iptablesBackend'' = JStr b"
  by (simp_all add: assms member_record_def dget_def)

lemma select_node_Inr:
  assumes "select_node c u st n = Inr st'"
  shows "(\<not> in_cluster c n \<and> st' = st) \<or>
    (in_cluster c n \<and> bound_to u n \<and>
     (\<exists>m. st' = (fst st @ [m], node_name_of m # snd st) \<and> member_ok m \<and>
          node_name_of m \<notin> set (snd st) \<and> server_identity (JObj m) = server_identity n))"
proof -
  from assms obtain d l where d: "n = JObj d" "dgetd d ''labels'' (JObj []) = JObj l"
    by (auto simp: select_node_def exn_simps)
  then have lbl: "node_labels n = l" by (simp add: node_labels_def)
  show ?thesis
  proof (cases "in_cluster c n")
    case False
    with assms d lbl show ?thesis by (simp add: select_node_def in_cluster_def)
  next
    case True
    with assms d lbl obtain a name nn role uid co bo
      where a: "dgetd d ''annotations'' (JObj []) = JObj a"
        and b: "dget a ''homelab.io/kube-cluster-uid'' \<in> {JNull, JStr u}"
        and f: "dget d ''name'' = JStr name" "name \<noteq> []" "nn \<noteq> []"
          "role \<in> {''control-plane'', ''worker''}" "dns_name nn" "nn \<notin> set (snd st)"
          "dget d ''uid'' = JStr uid" "uid \<noteq> []" "co \<in> {''1'', ''2''}" "bo \<in> {''legacy'', ''nft''}"
        and st': "st' = (fst st @ [member_record name uid nn role
              [(''cgroupVersion'', JStr co), (''iptablesBackend'', JStr bo)]], nn # snd st)"
      unfolding select_node_def in_cluster_def Let_def by (simp add: exn_simps) blast
    define m where "m = member_record name uid nn role
              [(''cgroupVersion'', JStr co), (''iptablesBackend'', JStr bo)]"
    note fields = member_record_fields [OF m_def]
    have "member_ok m" using f by (simp add: member_ok_def fields str_field_def)
    moreover have "server_identity (JObj m) = server_identity n"
      using f d by (simp add: server_identity_def fields)
    moreover have "bound_to u n" using a b d by (simp add: bound_to_def node_annotations_def)
    ultimately show ?thesis
      using True f st' by (auto simp: str_field_def fields simp flip: m_def)
  qed
qed

lemma selection_invariant:
  assumes "foldM (select_node c u) ([], []) nodes = Inr (ms, names)"
  shows "list_all member_ok ms" "distinct (map node_name_of ms)"
    and "map (server_identity \<circ> JObj) ms = map server_identity (filter (in_cluster c) nodes)"
    and "list_all (bound_to u) (filter (in_cluster c) nodes)"
proof -
  define P where "P = (\<lambda>ys (st :: jobject list \<times> string list).
     list_all member_ok (fst st) \<and> distinct (map node_name_of (fst st)) \<and>
     set (snd st) = set (map node_name_of (fst st)) \<and>
     map (server_identity \<circ> JObj) (fst st) = map server_identity (filter (in_cluster c) ys) \<and>
     list_all (bound_to u) (filter (in_cluster c) ys))"
  have "P nodes (ms, names)"
  proof (rule foldM_invariant [OF assms])
    show "P [] ([], [])" by (simp add: P_def)
  next
    fix ys x s t
    assume "P ys s" "select_node c u s x = Inr t"
    with select_node_Inr [OF this(2)] show "P (ys @ [x]) t" by (auto simp: P_def)
  qed
  then show "list_all member_ok ms" "distinct (map node_name_of ms)"
    "map (server_identity \<circ> JObj) ms = map server_identity (filter (in_cluster c) nodes)"
    "list_all (bound_to u) (filter (in_cluster c) nodes)"
    by (auto simp: P_def)
qed

lemma selected_members_Inr:
  assumes "selected_members nodes c u = Inr ms"
  shows "sorted (map (str_field ''name'') ms)"
    and "distinct (map node_name_of ms)" and "list_all member_ok ms"
    and "length (filter (\<lambda>m. dget m ''role'' = JStr ''control-plane'') ms) = 1"
    and "\<exists>raw. nodes = JArr raw \<and>
      image_mset (server_identity \<circ> JObj) (mset ms) =
        image_mset server_identity (filter_mset (in_cluster c) (mset raw)) \<and>
      list_all (bound_to u) (filter (in_cluster c) raw)"
proof -
  from assms obtain raw ms0 names where raw: "nodes = JArr raw"
    and f: "foldM (select_node c u) ([], []) raw = Inr (ms0, names)"
    and one: "length (filter (\<lambda>m. dget m ''role'' = JStr ''control-plane'') ms0) = 1"
    and ms: "ms = sort_key (str_field ''name'') ms0"
    by (auto simp: selected_members_def exn_simps)
  note inv = selection_invariant [OF f]
  have perm: "mset ms = mset ms0" by (simp add: ms)
  show "sorted (map (str_field ''name'') ms)" by (simp add: ms)
  have "mset (map node_name_of ms) = mset (map node_name_of ms0)" using perm by simp
  then show "distinct (map node_name_of ms)" using inv(2) by (metis mset_eq_imp_distinct_iff)
  show "list_all member_ok ms" using inv(1) by (simp add: ms list_all_iff)
  have "length (filter P ms) = length (filter P ms0)" for P
    using perm by (metis mset_eq_length mset_filter)
  then show "length (filter (\<lambda>m. dget m ''role'' = JStr ''control-plane'') ms) = 1"
    using one by simp
  have "mset (map (server_identity \<circ> JObj) ms) = mset (map server_identity (filter (in_cluster c) raw))"
    unfolding inv(3) [symmetric] mset_map perm ..
  then show "\<exists>raw. nodes = JArr raw \<and>
      image_mset (server_identity \<circ> JObj) (mset ms) =
        image_mset server_identity (filter_mset (in_cluster c) (mset raw)) \<and>
      list_all (bound_to u) (filter (in_cluster c) raw)"
    using raw inv(4) by auto
qed


section \<open>What validated settings hold\<close>

definition is_release :: "json \<Rightarrow> bool" where
  "is_release v = (case v of JStr s \<Rightarrow> fullmatch rx_release s | _ \<Rightarrow> False)"

lemma in_cls_digit: "in_cls [(CHR ''0'', CHR ''9'')] c \<longleftrightarrow> is_dec c"
  by (simp add: in_cls_def is_dec_def)

text \<open>An exact release: three nonempty runs of decimal digits between dots.\<close>

lemma rx_release_iff:
  "fullmatch rx_release s \<longleftrightarrow>
     (\<exists>a b c. s = a @ ''.'' @ b @ ''.'' @ c \<and> ascii_digits a \<and> ascii_digits b \<and> ascii_digits c)"
proof -
  have d: "u \<in> lang (rplus rx_digit) \<longleftrightarrow> ascii_digits u" for u
    by (cases u) (auto simp: rx_digit_def ascii_digits_def in_cls_digit list_all_iff)
  have "fullmatch rx_release s \<longleftrightarrow>
      (\<exists>a b c. ascii_digits a \<and> ascii_digits b \<and> ascii_digits c \<and> s = a @ ''.'' @ b @ ''.'' @ c)"
    unfolding fullmatch_iff_lang rx_release_def RSeq_iff d lang_rchr by blast
  then show ?thesis by blast
qed

lemma rx_release_Nil: "fullmatch rx_release s \<Longrightarrow> s \<noteq> []"
  by (auto simp: rx_release_iff)

lemma require_release_Inr [exn_simps]:
  "require_release v c m = Inr s \<longleftrightarrow> v = JStr s \<and> fullmatch rx_release s"
  by (auto simp: require_release_def exn_simps dest: rx_release_Nil)

lemma ipv4_network_Inr: "ipv4_network v c = Inr n \<longleftrightarrow> (\<exists>s. v = JStr s \<and> s \<noteq> [] \<and> ip_network True s = Inr n)"
  by (auto simp: ipv4_network_def exn_simps)

lemma ipv4_network_valid: "ipv4_network v c = Inr n \<Longrightarrow> valid_net n"
  by (auto simp: ipv4_network_Inr dest: ip_network_valid)

lemma settle_release_Inr [exn_simps]:
  "settle_release f d s = Inr t \<longleftrightarrow>
     t = dput f (dgetd s f (JStr d)) s \<and> is_release (dgetd s f (JStr d))"
  by (auto simp: settle_release_def Let_def exn_simps is_release_def split: json.splits)

text \<open>The settings a plan carries, stated on the settings alone.\<close>

definition settings_ok :: "jobject \<Rightarrow> bool" where
  "settings_ok s =
     ((\<exists>v pod svc network endpoint minor.
        dget s ''kubernetesVersion'' = JStr v \<and> fullmatch rx_release v \<and> startswith v ''1.'' \<and>
        py_int (split_on (CHR ''.'') v ! 1) = Inr minor \<and> 31 \<le> minor \<and>
        dget s ''network'' = JObj network \<and> dget network ''provider'' = JStr ''flannel'' \<and>
        is_release (dget network ''version'') \<and>
        ipv4_network (dget s ''podCIDR'') ''podCIDR'' = Inr pod \<and>
        ipv4_network (dget s ''serviceCIDR'') ''serviceCIDR'' = Inr svc \<and> \<not> overlaps pod svc \<and>
        dget s ''controlPlaneEndpoint'' = JStr endpoint \<and> require_endpoint endpoint = Inr ()) \<and>
      is_release (dget s ''containerdVersion'') \<and>
      is_release (dget s ''runcVersion'') \<and> is_release (dget s ''cniPluginsVersion''))"

lemma is_release_iff: "is_release v \<longleftrightarrow> (\<exists>s. v = JStr s \<and> fullmatch rx_release s)"
  by (auto simp: is_release_def split: json.splits)

lemma require_endpoint_Nil: "require_endpoint e = Inr u \<Longrightarrow> e \<noteq> []"
  by (auto simp: require_endpoint_def rpartition_def split: option.splits)

definition filled :: "jobject \<Rightarrow> jobject" where
  "filled s =
     dput ''cniPluginsVersion'' (dgetd s ''cniPluginsVersion'' (JStr ''1.9.1''))
       (dput ''runcVersion'' (dgetd s ''runcVersion'' (JStr ''1.5.2'')) s)"

lemma dgetd_put [simp]: "dgetd (dput k v d) k' w = (if k' = k then v else dgetd d k' w)"
  by (simp add: dgetd_def)

lemma validated_settings_iff:
  "validated_settings (JObj s) = Inr t \<longleftrightarrow> t = filled s \<and> settings_ok t"
proof -
  have "validated_settings (JObj s) = Inr t \<longleftrightarrow>
    (\<exists>v pod svc network endpoint minor cv fv.
        dget s ''kubernetesVersion'' = JStr v \<and> fullmatch rx_release v \<and>
        dget s ''containerdVersion'' = JStr cv \<and> fullmatch rx_release cv \<and> startswith v ''1.'' \<and>
        py_int (split_on (CHR ''.'') v ! 1) = Inr minor \<and> \<not> minor < 31 \<and>
        dget s ''network'' = JObj network \<and> dget network ''provider'' = JStr ''flannel'' \<and>
        dget network ''version'' = JStr fv \<and> fullmatch rx_release fv \<and>
        ipv4_network (dget s ''podCIDR'') ''podCIDR'' = Inr pod \<and>
        ipv4_network (dget s ''serviceCIDR'') ''serviceCIDR'' = Inr svc \<and> \<not> overlaps pod svc \<and>
        dget s ''controlPlaneEndpoint'' = JStr endpoint \<and> endpoint \<noteq> [] \<and>
        require_endpoint endpoint = Inr ()) \<and>
        t = filled s \<and> is_release (dgetd s ''runcVersion'' (JStr ''1.5.2'')) \<and>
        is_release (dgetd s ''cniPluginsVersion'' (JStr ''1.9.1''))"
    by (simp add: validated_settings_def exn_simps filled_def) blast
  then show ?thesis
    unfolding settings_ok_def is_release_iff
    by (auto simp: filled_def require_endpoint_Nil not_less)
qed

lemma dput_same: "map_of d k = Some v \<Longrightarrow> dput k v d = d"
  by (induction d) (auto split: if_splits)

lemma is_release_dhas: "is_release (dget s k) \<Longrightarrow> map_of s k = Some (dget s k)"
  by (auto simp: is_release_def dget_def split: option.splits)

lemma filled_settings_ok: "settings_ok t \<Longrightarrow> filled t = t"
  using is_release_dhas [of t "''runcVersion''"] is_release_dhas [of t "''cniPluginsVersion''"]
  by (simp add: settings_ok_def filled_def dgetd_def dput_same)

text \<open>The chosen release of an optional component survives, the default fills a gap.\<close>

lemma validated_settings_idem:
  "validated_settings v = Inr t \<Longrightarrow> validated_settings (JObj t) = Inr t"
  by (cases v) (auto simp: validated_settings_iff filled_settings_ok,
      auto simp: validated_settings_def mapping_def)

section \<open>What a plan holds\<close>

lemma cluster_plan_Inr:
  assumes "cluster_plan target nodes = Inr p"
  shows "\<exists>name uid settings members cp e.
    p = [(''name'', JStr name), (''uid'', JStr uid), (''settings'', JObj settings),
         (''members'', JArr (map JObj members)), (''controlPlane'', JObj cp),
         (''networkApiEndpoint'', JStr e)] \<and>
    e \<in> {''direct'', ''service''} \<and> settings_ok settings \<and>
    selected_members nodes name uid = Inr members \<and>
    find (\<lambda>m. dget m ''role'' = JStr ''control-plane'') members = Some cp \<and>
    (\<exists>pod. ipv4_network (dget settings ''podCIDR'') ''podCIDR'' = Inr pod \<and>
           prefixlen pod \<le> 24 \<and> length members \<le> 2 ^ (24 - prefixlen pod))"
proof -
  from assms obtain t where t: "target = JObj t" by (auto simp: cluster_plan_def exn_simps)
  have sok: "validated_settings v = Inr s \<Longrightarrow> settings_ok s" for v s
    by (cases v) (auto simp: validated_settings_iff, auto simp: validated_settings_def mapping_def)
  from assms obtain md name uid settings members pc pod a e cp where
    f: "validated_settings (dget t ''spec'') = Inr settings"
      "selected_members nodes name uid = Inr members"
      "map_of settings ''podCIDR'' = Some pc" "ipv4_network pc ''podCIDR'' = Inr pod"
      "\<not> (prefixlen pod > 24 \<or> 2 ^ (24 - prefixlen pod) < length members)"
      "e \<in> {''direct'', ''service''}"
      "find (\<lambda>m. dget m ''role'' = JStr ''control-plane'') members = Some cp"
    and p: "p = [(''name'', JStr name), (''uid'', JStr uid), (''settings'', JObj settings),
         (''members'', JArr (map JObj members)), (''controlPlane'', JObj cp),
         (''networkApiEndpoint'', JStr e)]"
    unfolding cluster_plan_def t by (simp only: exn_simps) blast
  with sok [OF f(1)] map_of_dget [OF f(3)] show ?thesis by (auto simp: not_less)
qed

end
