(* ===== verification/KubeNodes.thy ===== *)
theory KubeNodes
  imports KubePlan
begin

text \<open>
  Verification of the actual Nodes against the plan, the observations published from them,
  repair of a Node's registration and the report of the actual membership
  (\<open>filter_plugins/kube_plan.py\<close>, from \<open>verify_nodes\<close> to \<open>membership_observation\<close>).
\<close>

section \<open>Verification of the Nodes\<close>

type_synonym index = "(string \<times> jobject) list"

definition index_members :: "string \<Rightarrow> string \<Rightarrow> json list \<Rightarrow> exn + index" where
  "index_members member_context name_context members =
     foldM (\<lambda>indexed raw_member.
       bind (mapping raw_member member_context) (\<lambda>member.
       bind (text' (dget member ''nodeName'') name_context) (\<lambda>name.
         Inr (AList.update name member indexed)))) [] members"

definition is_ready :: "string \<Rightarrow> json \<Rightarrow> exn + bool" where
  "is_ready context condition =
     bind (mapping condition context) (\<lambda>c.
       Inr (dget c ''type'' = JStr ''Ready'' \<and> dget c ''status'' = JStr ''True''))"

definition validate_node :: "jobject \<Rightarrow> jobject \<Rightarrow> jobject \<Rightarrow> jobject \<Rightarrow> exn + unit" where
  "validate_node member node settings plan =
     bind (mapping (dget node ''metadata'') ''Node metadata'') (\<lambda>metadata.
     bind (mapping (dget metadata ''labels'') ''Node labels'') (\<lambda>labels.
     bind (mapping (dget node ''status'') ''Node status'') (\<lambda>status.
     if \<not> py_eq (dget labels ''homelab.io/server-uid'') (dget member ''uid'')
     then Inl (ValueError ''Node Server identity does not match'') else
     if \<not> py_eq (dget labels ''homelab.io/kube-cluster-uid'') (dget plan ''uid'')
     then Inl (ValueError ''Node cluster identity does not match'') else
     if (dget member ''role'' = JStr ''control-plane'') \<noteq>
        dhas labels ''node-role.kubernetes.io/control-plane''
     then Inl (ValueError ''Node control-plane role does not match'') else
     bind (mapping (dget status ''nodeInfo'') ''Node info'') (\<lambda>info.
     bind (text' (dget settings ''kubernetesVersion'') ''Kubernetes version'') (\<lambda>kv.
     if dget info ''kubeletVersion'' \<noteq> JStr (''v'' @ kv)
     then Inl (ValueError ''Node kubelet version does not match'') else
     bind (text' (dget settings ''containerdVersion'') ''containerd version'') (\<lambda>cv.
     if dget info ''containerRuntimeVersion'' \<noteq> JStr (''containerd://'' @ cv)
     then Inl (ValueError ''Node running runtime version does not match'') else
     bind (array (dget status ''conditions'') ''Node conditions must be an array'') (\<lambda>conditions.
     bind (anyM (is_ready ''condition'') conditions) (\<lambda>ready.
     if \<not> ready then Inl (ValueError ''Node is not Ready'') else Inr ()))))))))"

text \<open>One iteration of the loop over the Nodes; the state is \<open>(subnets, seen)\<close>.\<close>

definition verify_node ::
  "jobject \<Rightarrow> jobject \<Rightarrow> index \<Rightarrow> ipv4net list \<times> string list \<Rightarrow> json \<Rightarrow> exn + ipv4net list \<times> string list"
where
  "verify_node plan settings indexed st raw_node =
     bind (mapping raw_node ''Node'') (\<lambda>node.
     bind (mapping (dget node ''metadata'') ''Node metadata'') (\<lambda>metadata.
     bind (text' (dget metadata ''name'') ''Node name'') (\<lambda>name.
     if name \<in> set (snd st) then Inl (ValueError ''Unexpected or duplicate Kubernetes Node identity'')
     else
     (case map_of indexed name of
        None \<Rightarrow> Inl (ValueError ''Unexpected or duplicate Kubernetes Node identity'')
      | Some member \<Rightarrow>
          bind (validate_node member node settings plan) (\<lambda>_.
          bind (mapping (dget node ''spec'') ''Node spec'') (\<lambda>spec.
          bind (ipv4_network (dget spec ''podCIDR'') ''Node podCIDR'') (\<lambda>subnet.
          bind (ipv4_network (dget settings ''podCIDR'') ''podCIDR'') (\<lambda>pod.
          if \<not> subnet_of subnet pod
          then Inl (ValueError ''Node pod subnet is outside the cluster network'') else
          if list_ex (overlaps subnet) (fst st)
          then Inl (ValueError ''Node pod subnets overlap'')
          else Inr (fst st @ [subnet], name # snd st)))))))))"

definition verify_nodes :: "json \<Rightarrow> json \<Rightarrow> exn + jobject" where
  "verify_nodes raw_plan raw_response =
     bind (mapping raw_plan ''cluster plan'') (\<lambda>plan.
     bind (mapping (dget plan ''settings'') ''settings'') (\<lambda>settings.
     bind (mapping raw_response ''Kubernetes Node response'') (\<lambda>response.
     bind (array (dget plan ''members'') ''Expected members and actual Nodes must be arrays'')
       (\<lambda>expected.
     bind (array (dget response ''items'') ''Expected members and actual Nodes must be arrays'')
       (\<lambda>nodes.
     bind (index_members ''expected member'' ''node name'' expected) (\<lambda>indexed.
     if length nodes \<noteq> length indexed
     then Inl (ValueError ''Actual Kubernetes Node membership differs from the selected Servers'')
     else
     bind (foldM (verify_node plan settings indexed) ([], []) nodes) (\<lambda>_.
       Inr plan)))))))"

section \<open>Observations of verified Nodes\<close>

definition internal_addresses :: "json list \<Rightarrow> exn + string list" where
  "internal_addresses addresses =
     bind (mapM (\<lambda>address.
             bind (mapping address ''address'') (\<lambda>a.
               if dget a ''type'' = JStr ''InternalIP''
               then bind (text' (dget a ''address'') ''InternalIP'') (\<lambda>ip. Inr [ip])
               else Inr [])) addresses) (\<lambda>ips. Inr (concat ips))"

definition observe_member :: "index \<Rightarrow> json \<Rightarrow> exn + json" where
  "observe_member indexed raw_member =
     bind (mapping raw_member ''member'') (\<lambda>member.
     bind (text' (dget member ''nodeName'') ''Node name'') (\<lambda>name.
     (case map_of indexed name of
        None \<Rightarrow> Inl (KeyError name)
      | Some node \<Rightarrow>
     bind (mapping (dget node ''status'') ''Node status'') (\<lambda>status.
     bind (mapping (dget status ''nodeInfo'') ''Node info'') (\<lambda>information.
     bind (array (dget status ''addresses'') ''Node addresses must be an array'') (\<lambda>addresses.
     bind (internal_addresses addresses) (\<lambda>internal.
     if length internal \<noteq> 1
     then Inl (ValueError ''V1 requires one actual Node InternalIP'') else
     bind (dsub member ''name'') (\<lambda>server_name.
     bind (dsub member ''uid'') (\<lambda>server_uid.
     bind (dsub member ''nodeName'') (\<lambda>node_name.
     bind (mapping (dget node ''metadata'') ''metadata'') (\<lambda>metadata.
     bind (text' (dget metadata ''uid'') ''Node UID'') (\<lambda>node_uid.
     bind (dsub member ''role'') (\<lambda>role.
     bind (mapping (dget node ''spec'') ''Node spec'') (\<lambda>spec.
     bind (text' (dget spec ''podCIDR'') ''pod CIDR'') (\<lambda>pod_cidr.
     bind (text' (dget information ''kubeletVersion'') ''kubelet version'') (\<lambda>kubelet.
     bind (text' (dget information ''containerRuntimeVersion'') ''runtime'') (\<lambda>runtime.
     bind (text' (dget information ''osImage'') ''OS image'') (\<lambda>os_image.
     bind (text' (dget information ''kernelVersion'') ''kernel version'') (\<lambda>kernel.
       Inr (JObj [(''serverRef'', JObj [(''name'', server_name), (''uid'', server_uid)]),
                  (''nodeName'', node_name), (''nodeUID'', JStr node_uid), (''role'', role),
                  (''ready'', JBool True), (''internalIP'', JStr (hd internal)),
                  (''podCIDR'', JStr pod_cidr), (''kubeletVersion'', JStr kubelet),
                  (''containerdVersion'', JStr (removeprefix runtime ''containerd://'')),
                  (''operatingSystem'', JStr os_image), (''kernelVersion'', JStr kernel)]))))))))))))))))))))"

definition index_nodes :: "json list \<Rightarrow> exn + index" where
  "index_nodes nodes =
     foldM (\<lambda>indexed raw_node.
       bind (mapping raw_node ''Node'') (\<lambda>node.
       bind (mapping (dget node ''metadata'') ''metadata'') (\<lambda>metadata.
       bind (text' (dget metadata ''name'') ''name'') (\<lambda>name.
         Inr (AList.update name node indexed))))) [] nodes"

definition node_observations :: "json \<Rightarrow> json \<Rightarrow> exn + jobject" where
  "node_observations raw_plan raw_response =
     bind (verify_nodes raw_plan raw_response) (\<lambda>plan.
     bind (mapping raw_response ''Node response'') (\<lambda>response.
     bind (array (dget plan ''members'') ''Verified members and Nodes must be arrays'') (\<lambda>members.
     bind (array (dget response ''items'') ''Verified members and Nodes must be arrays'') (\<lambda>nodes.
     bind (index_nodes nodes) (\<lambda>indexed.
     bind (mapM (observe_member indexed) members) (\<lambda>observed.
       Inr [(''nodes'', JArr observed)]))))))"


section \<open>What verified Nodes satisfy\<close>

definition json_name :: "json \<Rightarrow> string" where
  "json_name v = (case v of JStr s \<Rightarrow> s | _ \<Rightarrow> [])"

lemma json_name_JStr [simp]: "json_name (JStr s) = s"
  by (simp add: json_name_def)

definition node_meta_name :: "json \<Rightarrow> string" where
  "node_meta_name n = json_name (obj_field ''name'' (obj_field ''metadata'' n))"

definition node_pod_cidr :: "json \<Rightarrow> json" where
  "node_pod_cidr n = obj_field ''podCIDR'' (obj_field ''spec'' n)"

definition node_label :: "string \<Rightarrow> json \<Rightarrow> json" where
  "node_label k n = obj_field k (obj_field ''labels'' (obj_field ''metadata'' n))"

definition node_info :: "string \<Rightarrow> json \<Rightarrow> json" where
  "node_info k n = obj_field k (obj_field ''nodeInfo'' (obj_field ''status'' n))"

definition node_is_ready :: "json \<Rightarrow> bool" where
  "node_is_ready n =
     (\<exists>cs c. obj_field ''conditions'' (obj_field ''status'' n) = JArr cs \<and> c \<in> set cs \<and>
        obj_field ''type'' c = JStr ''Ready'' \<and> obj_field ''status'' c = JStr ''True'')"

text \<open>A Node agrees with the member selected for it.\<close>

definition node_agrees :: "jobject \<Rightarrow> jobject \<Rightarrow> json \<Rightarrow> json \<Rightarrow> bool" where
  "node_agrees plan settings member n =
     (py_eq (node_label ''homelab.io/server-uid'' n) (obj_field ''uid'' member) \<and>
      py_eq (node_label ''homelab.io/kube-cluster-uid'' n) (dget plan ''uid'') \<and>
      (obj_field ''role'' member = JStr ''control-plane'' \<longleftrightarrow>
       dhas (case obj_field ''labels'' (obj_field ''metadata'' n) of JObj l \<Rightarrow> l | _ \<Rightarrow> [])
         ''node-role.kubernetes.io/control-plane'') \<and>
      (\<exists>v. dget settings ''kubernetesVersion'' = JStr v \<and> node_info ''kubeletVersion'' n = JStr (''v'' @ v)) \<and>
      (\<exists>v. dget settings ''containerdVersion'' = JStr v \<and>
           node_info ''containerRuntimeVersion'' n = JStr (''containerd://'' @ v)) \<and>
      node_is_ready n)"

lemma is_ready_Inr [exn_simps]:
  "is_ready c v = Inr b \<longleftrightarrow>
     (\<exists>d. v = JObj d) \<and> (b \<longleftrightarrow> obj_field ''type'' v = JStr ''Ready'' \<and> obj_field ''status'' v = JStr ''True'')"
  by (auto simp: is_ready_def exn_simps)

lemma validate_node_agrees:
  assumes "validate_node member node settings plan = Inr u"
  shows "node_agrees plan settings (JObj member) (JObj node)"
proof -
  from assms [unfolded validate_node_def exn_simps not_not] obtain md l st i cs kv cv r where
    f: "dget node ''metadata'' = JObj md" "dget md ''labels'' = JObj l" "dget node ''status'' = JObj st"
      "dget st ''nodeInfo'' = JObj i" "dget st ''conditions'' = JArr cs"
      "dget settings ''kubernetesVersion'' = JStr kv" "dget settings ''containerdVersion'' = JStr cv"
    and g: "py_eq (dget l ''homelab.io/server-uid'') (dget member ''uid'')"
      "py_eq (dget l ''homelab.io/kube-cluster-uid'') (dget plan ''uid'')"
      "(dget member ''role'' = JStr ''control-plane'') = dhas l ''node-role.kubernetes.io/control-plane''"
      "dget i ''kubeletVersion'' = JStr (''v'' @ kv)"
      "dget i ''containerRuntimeVersion'' = JStr (''containerd://'' @ cv)"
      "anyM (is_ready ''condition'') cs = Inr r" "r"
    by blast
  from g(6,7) anyM_TrueD [of "is_ready ''condition''" cs]
  have "\<exists>c\<in>set cs. is_ready ''condition'' c = Inr True" by auto
  then have "node_is_ready (JObj node)"
    unfolding node_is_ready_def by (auto simp: f exn_simps)
  with g show ?thesis by (simp add: node_agrees_def node_label_def node_info_def f)
qed

lemma verify_node_Inr:
  assumes "verify_node plan settings indexed st n = Inr t"
  shows "\<exists>member subnet pod.
    t = (fst st @ [subnet], node_meta_name n # snd st) \<and>
    node_meta_name n \<notin> set (snd st) \<and> map_of indexed (node_meta_name n) = Some member \<and>
    node_agrees plan settings (JObj member) n \<and>
    ipv4_network (node_pod_cidr n) ''Node podCIDR'' = Inr subnet \<and>
    ipv4_network (dget settings ''podCIDR'') ''podCIDR'' = Inr pod \<and> subnet_of subnet pod \<and>
    \<not> list_ex (overlaps subnet) (fst st)"
proof -
  from assms obtain node md name member u spec subnet pod where
    f: "n = JObj node" "dget node ''metadata'' = JObj md" "dget md ''name'' = JStr name"
      "dget node ''spec'' = JObj spec"
    and g: "name \<notin> set (snd st)" "map_of indexed name = Some member"
      "validate_node member node settings plan = Inr u"
      "ipv4_network (dget spec ''podCIDR'') ''Node podCIDR'' = Inr subnet"
      "ipv4_network (dget settings ''podCIDR'') ''podCIDR'' = Inr pod" "subnet_of subnet pod"
      "\<not> list_ex (overlaps subnet) (fst st)" "t = (fst st @ [subnet], name # snd st)"
    by (simp only: verify_node_def exn_simps not_not) blast
  have "node_meta_name n = name" by (simp add: node_meta_name_def f)
  moreover have "node_pod_cidr n = dget spec ''podCIDR''" by (simp add: node_pod_cidr_def f)
  ultimately show ?thesis using g validate_node_agrees [OF g(3)] f(1) by auto
qed

lemma index_members_Inr:
  assumes "index_members c1 c2 members = Inr indexed"
  shows "distinct (map fst indexed)"
    and "set (map fst indexed) = set (map (json_name \<circ> obj_field ''nodeName'') members)"
    and "map_of indexed k = Some m \<Longrightarrow>
      JObj m \<in> set members \<and> obj_field ''nodeName'' (JObj m) = JStr k"
proof -
  define P where "P = (\<lambda>ys (st :: index). distinct (map fst st) \<and>
     set (map fst st) = set (map (json_name \<circ> obj_field ''nodeName'') ys) \<and>
     (\<forall>k m. map_of st k = Some m \<longrightarrow> JObj m \<in> set ys \<and> dget m ''nodeName'' = JStr k))"
  have "P members indexed"
  proof (rule foldM_invariant [OF assms [unfolded index_members_def]])
    show "P [] []" by (simp add: P_def)
  next
    fix ys x u v
    assume "P ys u" and "bind (mapping x c1) (\<lambda>member.
       bind (text' (dget member ''nodeName'') c2) (\<lambda>name. Inr (AList.update name member u))) = Inr v"
    then obtain m name where "x = JObj m" "dget m ''nodeName'' = JStr name"
      and v: "v = AList.update name m u" by (auto simp: exn_simps)
    with \<open>P ys u\<close> have "set (map fst v) = set (map (json_name \<circ> obj_field ''nodeName'') (ys @ [x]))"
      unfolding P_def v set_map fst_set_put by simp
    moreover have "distinct (map fst v)" "map_of v = (map_of u)(name \<mapsto> m)"
      using \<open>P ys u\<close> by (simp_all add: P_def v)
    ultimately show "P (ys @ [x]) v"
      using \<open>P ys u\<close> \<open>x = JObj m\<close> \<open>dget m ''nodeName'' = JStr name\<close> by (simp add: P_def)
  qed
  then show "distinct (map fst indexed)"
    "set (map fst indexed) = set (map (json_name \<circ> obj_field ''nodeName'') members)"
    "map_of indexed k = Some m \<Longrightarrow> JObj m \<in> set members \<and> obj_field ''nodeName'' (JObj m) = JStr k"
    by (auto simp: P_def)
qed

lemma verify_loop_Inr:
  assumes "foldM (verify_node plan settings indexed) ([], []) nodes = Inr (subnets, seen)"
  shows "seen = rev (map node_meta_name nodes)" "distinct seen"
    and "\<forall>n\<in>set nodes. \<exists>m. map_of indexed (node_meta_name n) = Some m \<and>
           node_agrees plan settings (JObj m) n"
    and "list_all2 (\<lambda>n s. ipv4_network (node_pod_cidr n) ''Node podCIDR'' = Inr s) nodes subnets"
    and "sorted_wrt (\<lambda>a b. \<not> overlaps b a) subnets"
    and "\<forall>s\<in>set subnets. \<exists>pod. ipv4_network (dget settings ''podCIDR'') ''podCIDR'' = Inr pod \<and>
           subnet_of s pod"
proof -
  define P where "P = (\<lambda>ys (st :: ipv4net list \<times> string list).
     snd st = rev (map node_meta_name ys) \<and> distinct (snd st) \<and>
     (\<forall>n\<in>set ys. \<exists>m. map_of indexed (node_meta_name n) = Some m \<and>
        node_agrees plan settings (JObj m) n) \<and>
     list_all2 (\<lambda>n s. ipv4_network (node_pod_cidr n) ''Node podCIDR'' = Inr s) ys (fst st) \<and>
     sorted_wrt (\<lambda>a b. \<not> overlaps b a) (fst st) \<and>
     (\<forall>s\<in>set (fst st). \<exists>pod. ipv4_network (dget settings ''podCIDR'') ''podCIDR'' = Inr pod \<and>
        subnet_of s pod))"
  have "P nodes (subnets, seen)"
  proof (rule foldM_invariant [OF assms])
    show "P [] ([], [])" by (simp add: P_def)
  next
    fix ys x s t
    assume "P ys s" "verify_node plan settings indexed s x = Inr t"
    with verify_node_Inr [OF this(2)] show "P (ys @ [x]) t"
      by (auto simp: P_def sorted_wrt_append list_all2_appendI list_ex_iff)
  qed
  then show "seen = rev (map node_meta_name nodes)" "distinct seen"
    "\<forall>n\<in>set nodes. \<exists>m. map_of indexed (node_meta_name n) = Some m \<and>
           node_agrees plan settings (JObj m) n"
    "list_all2 (\<lambda>n s. ipv4_network (node_pod_cidr n) ''Node podCIDR'' = Inr s) nodes subnets"
    "sorted_wrt (\<lambda>a b. \<not> overlaps b a) subnets"
    "\<forall>s\<in>set subnets. \<exists>pod. ipv4_network (dget settings ''podCIDR'') ''podCIDR'' = Inr pod \<and>
           subnet_of s pod"
    by (auto simp: P_def)
qed

text \<open>What a successful verification establishes, in terms of the plan and the response.\<close>

definition cluster_verified :: "jobject \<Rightarrow> json list \<Rightarrow> json list \<Rightarrow> bool" where
  "cluster_verified plan members nodes =
     (distinct (map node_meta_name nodes) \<and>
      set (map node_meta_name nodes) = set (map (json_name \<circ> obj_field ''nodeName'') members) \<and>
      (\<forall>n\<in>set nodes. \<exists>m\<in>set members.
         obj_field ''nodeName'' m = JStr (node_meta_name n) \<and>
         (\<exists>settings. dget plan ''settings'' = JObj settings \<and> node_agrees plan settings m n)) \<and>
      (\<exists>subnets.
         list_all2 (\<lambda>n s. ipv4_network (node_pod_cidr n) ''Node podCIDR'' = Inr s) nodes subnets \<and>
         sorted_wrt (\<lambda>a b. addrs a \<inter> addrs b = {}) subnets \<and>
         (\<forall>s\<in>set subnets. \<exists>pod.
            ipv4_network (obj_field ''podCIDR'' (dget plan ''settings'')) ''podCIDR'' = Inr pod \<and>
            addrs s \<subseteq> addrs pod)))"

lemma verify_nodes_Inr:
  assumes "verify_nodes raw_plan raw_response = Inr p"
  shows "raw_plan = JObj p \<and>
    (\<exists>members nodes. dget p ''members'' = JArr members \<and>
       obj_field ''items'' raw_response = JArr nodes \<and> cluster_verified p members nodes)"
proof -
  from assms obtain settings response members nodes indexed st where
    f: "raw_plan = JObj p" "dget p ''settings'' = JObj settings" "raw_response = JObj response"
      "dget p ''members'' = JArr members" "dget response ''items'' = JArr nodes"
    and ix: "index_members ''expected member'' ''node name'' members = Inr indexed"
    and len: "length nodes = length indexed"
    and loop: "foldM (verify_node p settings indexed) ([], []) nodes = Inr st"
    by (simp only: verify_nodes_def exn_simps not_not) blast
  obtain subnets seen where st: "st = (subnets, seen)" by fastforce
  note L = verify_loop_Inr [OF loop [unfolded st]] and I = index_members_Inr [OF ix]
  have dist: "distinct (map node_meta_name nodes)" using L(1,2) by simp
  have sub: "set (map node_meta_name nodes) \<subseteq> set (map fst indexed)"
    using L(3) by (force dest: map_of_SomeD)
  have "card (set (map node_meta_name nodes)) = card (set (map fst indexed))"
    using dist I(1) len by (simp add: distinct_card del: set_map)
  then have names: "set (map node_meta_name nodes) = set (map fst indexed)"
    by (intro card_subset_eq sub) auto
  have "\<exists>m\<in>set members. obj_field ''nodeName'' m = JStr (node_meta_name n) \<and>
      node_agrees p settings m n" if "n \<in> set nodes" for n
    using L(3) that I(3) by blast
  moreover have "valid_net s" if "s \<in> set subnets" for s
    using L(4) that by (auto simp: list_all2_conv_all_nth in_set_conv_nth intro: ipv4_network_valid)
  then have "sorted_wrt (\<lambda>a b. addrs a \<inter> addrs b = {}) subnets"
    using L(5) by (auto simp: sorted_wrt_iff_nth_less overlaps_iff)
  moreover have "\<exists>pod. ipv4_network (dget settings ''podCIDR'') ''podCIDR'' = Inr pod \<and>
      addrs s \<subseteq> addrs pod" if "s \<in> set subnets" for s
    using L(6) that \<open>\<And>s. s \<in> set subnets \<Longrightarrow> valid_net s\<close>
    by (metis ipv4_network_valid subnet_of_iff)
  ultimately have "cluster_verified p members nodes"
    unfolding cluster_verified_def f(2) obj_field_JObj using dist names I(2) L(4) by blast
  with f show ?thesis by simp
qed

end
