(* ===== verification/KubeRegistration.thy ===== *)
theory KubeRegistration
  imports KubeNodes
begin

text \<open>
  Repair of a Node's registration and the report of the actual membership
  (\<open>members_by_name\<close> to \<open>membership_observation\<close> of \<open>filter_plugins/kube_plan.py\<close>), with
  the meaning of the JSON Patch the repair sends.
\<close>

section \<open>Registration\<close>

definition members_by_name :: "json \<Rightarrow> exn + index" where
  "members_by_name raw_plan =
     bind (mapping raw_plan ''cluster plan'') (\<lambda>plan.
     bind (array (dget plan ''members'') ''Cluster members must be an array'') (\<lambda>members.
       index_members ''cluster member'' ''Node name'' members))"

definition role_label :: "string \<Rightarrow> string" where
  "role_label role = ''node-role.kubernetes.io/'' @ role"

definition desired_labels :: "jobject \<Rightarrow> jobject \<Rightarrow> exn + (string \<times> string) list" where
  "desired_labels plan member =
     bind (text' (dget member ''uid'') ''Server UID'') (\<lambda>server_uid.
     bind (text' (dget plan ''uid'') ''cluster UID'') (\<lambda>cluster_uid.
     bind (text' (dget member ''role'') ''Node role'') (\<lambda>role.
       Inr [(''homelab.io/server-uid'', server_uid), (''homelab.io/kube-cluster-uid'', cluster_uid),
            (role_label role, '''')])))"

definition patch_test :: "string \<Rightarrow> json \<Rightarrow> json" where
  "patch_test path v = JObj [(''op'', JStr ''test''), (''path'', JStr path), (''value'', v)]"

definition patch_add :: "string \<Rightarrow> json \<Rightarrow> json" where
  "patch_add path v = JObj [(''op'', JStr ''add''), (''path'', JStr path), (''value'', v)]"

definition patch_remove :: "string \<Rightarrow> json" where
  "patch_remove path = JObj [(''op'', JStr ''remove''), (''path'', JStr path)]"

definition escape_slash :: "string \<Rightarrow> string" where
  "escape_slash k = replace_char (CHR ''/'') ''~1'' k"

definition escape_key :: "string \<Rightarrow> string" where
  "escape_key k = escape_slash (replace_char (CHR ''~'') ''~0'' k)"

definition label_path :: "string \<Rightarrow> string" where
  "label_path key = ''/metadata/labels/'' @ key"

definition managed_label_patch ::
  "jobject \<Rightarrow> (string \<times> string) list \<Rightarrow> string \<Rightarrow> exn + json list" where
  "managed_label_patch metadata desired opposite =
     bind (dsub metadata ''uid'') (\<lambda>uid.
     bind (mapping (dgetd metadata ''labels'' (JObj [])) ''Node labels'') (\<lambda>labels.
     bind (if dhas metadata ''labels''
           then Inr [patch_test ''/metadata/uid'' uid, patch_test ''/metadata/labels'' (JObj labels)]
           else bind (text' (dget metadata ''resourceVersion'') ''Node resource version'') (\<lambda>rv.
             Inr [patch_test ''/metadata/uid'' uid,
                  patch_test ''/metadata/resourceVersion'' (JStr rv),
                  patch_add ''/metadata/labels'' (JObj [])])) (\<lambda>guard.
       Inr (guard @
            map (\<lambda>(key, v). patch_add (label_path (escape_key key)) (JStr v)) desired @
            (if dhas labels opposite
             then [patch_remove (label_path (escape_slash opposite))] else [])))))"

definition opposite_label :: "jobject \<Rightarrow> string" where
  "opposite_label member =
     role_label (if dget member ''role'' = JStr ''control-plane'' then ''worker'' else ''control-plane'')"

definition internal_values :: "json list \<Rightarrow> exn + json list" where
  "internal_values addresses =
     bind (mapM (\<lambda>v.
             bind (mapping v ''Node address'') (\<lambda>a.
               Inr (if dget a ''type'' = JStr ''InternalIP'' then [dget a ''address''] else [])))
           addresses) (\<lambda>ips. Inr (concat ips))"

definition registration_action :: "json \<Rightarrow> json \<Rightarrow> exn + jobject" where
  "registration_action raw_plan raw_request =
     bind (mapping raw_plan ''cluster plan'') (\<lambda>plan.
     bind (mapping raw_request ''registration request'') (\<lambda>request.
     bind (members_by_name (JObj plan)) (\<lambda>members.
     bind (text' (dget request ''nodeName'') ''Node name'') (\<lambda>node_name.
     (case map_of members node_name of
        None \<Rightarrow> Inl (ValueError ''Host is not the selected cluster member'')
      | Some member \<Rightarrow>
     if \<not> py_eq (dget member ''uid'') (dget request ''serverUID'') \<or>
        \<not> py_eq (dget member ''role'') (dget request ''role'')
     then Inl (ValueError ''Host is not the selected cluster member'') else
     bind (mapping (dget request ''node'') ''actual Node'') (\<lambda>node.
     if node = []
     then Inr [(''missing'', JBool True), (''labelsChanged'', JBool False), (''labelPatch'', JArr [])]
     else
     bind (mapping (dget node ''metadata'') ''Node metadata'') (\<lambda>metadata.
     if \<not> py_eq (dget metadata ''name'') (dget request ''nodeName'') \<or>
        \<not> truthy (dget metadata ''uid'')
     then Inl (ValueError ''Actual Node identity does not match the selected member'') else
     bind (mapping (dgetd metadata ''labels'' (JObj [])) ''Node labels'') (\<lambda>labels.
     bind (desired_labels plan member) (\<lambda>desired.
     if list_ex (\<lambda>(key, v). dget labels key \<noteq> JNull \<and> dget labels key \<noteq> JStr v) (take 2 desired)
     then Inl (ValueError ''Refusing to adopt a Node owned by another Server or cluster'') else
     bind (mapping (dgetd node ''status'' (JObj [])) ''Node status'') (\<lambda>status.
     bind (array (dgetd status ''addresses'' (JArr [])) ''Node addresses must be an array'')
       (\<lambda>addresses.
     bind (internal_values addresses) (\<lambda>internal.
     if \<not> py_eq (JArr internal) (JArr [dget request ''address''])
     then Inl (ValueError ''Node address does not match the managed Server'') else
     bind (managed_label_patch metadata desired (opposite_label member)) (\<lambda>patch.
       Inr [(''missing'', JBool False),
            (''labelsChanged'',
             JBool (list_ex (\<lambda>(key, v). dget labels key \<noteq> JStr v) desired \<or>
                    dhas labels (opposite_label member))),
            (''labelPatch'', JArr patch)])))))))))))))"

section \<open>The actual membership\<close>

definition index_actual :: "json list \<Rightarrow> exn + index" where
  "index_actual items =
     foldM (\<lambda>actual item.
       bind (mapping item ''Node'') (\<lambda>node.
       bind (mapping (dget node ''metadata'') ''Node metadata'') (\<lambda>metadata.
       bind (text' (dget metadata ''name'') ''name'') (\<lambda>name.
         if map_of actual name \<noteq> None then Inl (ValueError ''Duplicate Node identity'')
         else Inr (AList.update name node actual))))) [] items"

text \<open>What one member found among the actual Nodes adds: \<open>(not ready, in conflict)\<close>.\<close>

definition observe_node :: "jobject \<Rightarrow> jobject \<Rightarrow> jobject \<Rightarrow> exn + bool \<times> bool" where
  "observe_node plan member node =
     bind (mapping (dget node ''metadata'') ''Node metadata'') (\<lambda>metadata.
     bind (mapping (dgetd metadata ''labels'' (JObj [])) ''Node labels'') (\<lambda>labels.
     bind (desired_labels plan member) (\<lambda>desired.
     bind (mapping (dgetd node ''status'' (JObj [])) ''Node status'') (\<lambda>status.
     bind (array (dgetd status ''conditions'' (JArr [])) ''Node conditions must be an array'')
       (\<lambda>conditions.
     bind (anyM (is_ready ''Node condition'') conditions) (\<lambda>ready.
       Inr (\<not> ready, list_ex (\<lambda>(key, v). dget labels key \<noteq> JStr v) desired)))))))"

definition membership_observation :: "json \<Rightarrow> json \<Rightarrow> exn + jobject" where
  "membership_observation raw_plan raw_response =
     bind (members_by_name raw_plan) (\<lambda>expected.
     bind (mapping raw_response ''Node list'') (\<lambda>response.
     bind (array (dget response ''items'') ''Actual Nodes must be an array'') (\<lambda>items.
     bind (index_actual items) (\<lambda>actual.
     let missing = sort (filter (\<lambda>n. map_of actual n = None) (map fst expected));
         unexpected = sort (filter (\<lambda>n. map_of expected n = None) (map fst actual));
         present = sort (filter (\<lambda>n. map_of actual n \<noteq> None) (map fst expected)) in
     bind (mapping raw_plan ''cluster plan'') (\<lambda>plan.
     bind (mapM (\<lambda>n. observe_node plan (the (map_of expected n)) (the (map_of actual n))) present)
       (\<lambda>seen.
     let not_ready = map fst (filter (fst \<circ> snd) (zip present seen));
         conflicts = map fst (filter (snd \<circ> snd) (zip present seen)) in
       Inr [(''ready'', JBool (missing = [] \<and> unexpected = [] \<and> not_ready = [] \<and> conflicts = [])),
            (''missingMembers'', JArr (map JStr missing)),
            (''notReadyMembers'', JArr (map JStr not_ready)),
            (''unexpectedNodes'', JArr (map JStr unexpected)),
            (''identityConflicts'', JArr (map JStr conflicts))]))))))"


section \<open>The meaning of a JSON Patch (RFC 6902) on objects\<close>

text \<open>
  What the API server does with the operations the repair sends: a pointer is split at its
  slashes and unescaped, \<open>test\<close> compares, \<open>add\<close> stores into an existing parent, \<open>remove\<close>
  needs the member to be there; the first failing operation fails the whole patch.
\<close>

fun unescape :: "string \<Rightarrow> string" where
  "unescape [] = []"
| "unescape [c] = [c]"
| "unescape (c # d # s) =
     (if c = CHR ''~'' \<and> d = CHR ''0'' then CHR ''~'' # unescape s
      else if c = CHR ''~'' \<and> d = CHR ''1'' then CHR ''/'' # unescape s
      else c # unescape (d # s))"

definition pointer :: "string \<Rightarrow> string list" where
  "pointer path = map unescape (tl (split_on (CHR ''/'') path))"

fun get_at :: "json \<Rightarrow> string list \<Rightarrow> json option" where
  "get_at v [] = Some v"
| "get_at (JObj d) (k # ks) = Option.bind (map_of d k) (\<lambda>w. get_at w ks)"
| "get_at _ (k # ks) = None"

fun put_at :: "string list \<Rightarrow> json \<Rightarrow> json \<Rightarrow> json option" where
  "put_at [] w v = Some w"
| "put_at [k] w (JObj d) = Some (JObj (dput k w d))"
| "put_at (k # ks) w (JObj d) =
     Option.bind (map_of d k) (\<lambda>u. map_option (\<lambda>u'. JObj (dput k u' d)) (put_at ks w u))"
| "put_at _ w v = None"

fun del_at :: "string list \<Rightarrow> json \<Rightarrow> json option" where
  "del_at [k] (JObj d) = (if dhas d k then Some (JObj (dpop k d)) else None)"
| "del_at (k # ks) (JObj d) =
     Option.bind (map_of d k) (\<lambda>u. map_option (\<lambda>u'. JObj (dput k u' d)) (del_at ks u))"
| "del_at _ v = None"

definition apply_op :: "json \<Rightarrow> json \<Rightarrow> json option" where
  "apply_op doc op =
     (case op of
        JObj f \<Rightarrow>
          let path = pointer (json_name (dget f ''path'')) in
          if dget f ''op'' = JStr ''test''
          then Option.bind (get_at doc path) (\<lambda>v. if py_eq v (dget f ''value'') then Some doc else None)
          else if dget f ''op'' = JStr ''add'' then put_at path (dget f ''value'') doc
          else if dget f ''op'' = JStr ''remove'' then del_at path doc
          else None
      | _ \<Rightarrow> None)"

fun apply_patch :: "json \<Rightarrow> json list \<Rightarrow> json option" where
  "apply_patch doc [] = Some doc"
| "apply_patch doc (op # ops) = Option.bind (apply_op doc op) (\<lambda>d. apply_patch d ops)"

lemma apply_patch_append:
  "apply_patch doc (ps @ qs) = Option.bind (apply_patch doc ps) (\<lambda>d. apply_patch d qs)"
  by (induction ps arbitrary: doc) (auto split: bind_split)

lemma apply_op_simps:
  "apply_op doc (patch_test p v) =
     Option.bind (get_at doc (pointer p)) (\<lambda>w. if py_eq w v then Some doc else None)"
  "apply_op doc (patch_add p v) = put_at (pointer p) v doc"
  "apply_op doc (patch_remove p) = del_at (pointer p) doc"
  by (simp_all add: apply_op_def patch_test_def patch_add_def patch_remove_def dget_def)

subsection \<open>Escaping\<close>

lemma escape_no_slash: "CHR ''/'' \<notin> set (escape_key k)" "CHR ''/'' \<notin> set (escape_slash k)"
  by (auto simp: escape_key_def escape_slash_def replace_char_def)

lemma unescape_escape_key [simp]: "unescape (escape_key k) = k"
proof (induction k)
  case (Cons c k)
  have "escape_key (c # k) =
      (if c = CHR ''~'' then ''~0'' else if c = CHR ''/'' then ''~1'' else [c]) @ escape_key k"
    by (simp add: escape_key_def escape_slash_def replace_char_def)
  moreover have "unescape (c # escape_key k) = c # unescape (escape_key k)" if "c \<noteq> CHR ''~''"
    using that by (cases "escape_key k") auto
  ultimately show ?case using Cons.IH by simp
qed (simp add: escape_key_def escape_slash_def replace_char_def)

lemma escape_slash_eq: "CHR ''~'' \<notin> set k \<Longrightarrow> escape_slash k = escape_key k"
proof -
  assume "CHR ''~'' \<notin> set k"
  then have "replace_char (CHR ''~'') ''~0'' k = k"
    by (induction k) (auto simp: replace_char_def)
  then show ?thesis by (simp add: escape_key_def)
qed

lemma pointer_label [simp]:
  "pointer (label_path (escape_key k)) = [''metadata'', ''labels'', k]"
  using split_on_no_occ [OF escape_no_slash(1)] by (simp add: pointer_def label_path_def)

lemma pointer_metadata [simp]:
  "pointer ''/metadata/uid'' = [''metadata'', ''uid'']"
  "pointer ''/metadata/labels'' = [''metadata'', ''labels'']"
  "pointer ''/metadata/resourceVersion'' = [''metadata'', ''resourceVersion'']"
  by (simp_all add: pointer_def)

subsection \<open>The effect of the repair patch\<close>

definition with_labels :: "jobject \<Rightarrow> jobject \<Rightarrow> jobject \<Rightarrow> json" where
  "with_labels d md l = JObj (dput ''metadata'' (JObj (dput ''labels'' (JObj l) md)) d)"

lemma put_label:
  "apply_op (with_labels d md l) (patch_add (label_path (escape_key k)) v) =
     Some (with_labels d md (dput k v l))"
  by (simp add: apply_op_simps with_labels_def)

lemma put_labels:
  "apply_patch (with_labels d md l)
     (map (\<lambda>(key, v). patch_add (label_path (escape_key key)) (JStr v)) ls) =
   Some (with_labels d md (foldl (\<lambda>l (k, v). dput k (JStr v) l) l ls))"
  by (induction ls arbitrary: l) (auto simp: put_label)

lemma map_of_put_labels:
  "map_of (foldl (\<lambda>l (k, v). dput k (JStr v) l) l ls) =
     map_of l ++ (map_option JStr \<circ> map_of (rev ls))"
proof (induction ls arbitrary: l)
  case (Cons p ls)
  then show ?case
    by (cases p) (auto simp: map_add_def fun_eq_iff split: option.splits)
qed auto

lemma with_labels_same:
  assumes "map_of d ''metadata'' = Some (JObj md)" "map_of md ''labels'' = Some (JObj l)"
  shows "with_labels d md l = JObj d"
  using assms by (simp add: with_labels_def dput_same)

lemma remove_label:
  "apply_op (with_labels d md l) (patch_remove (label_path (escape_key k))) =
     (if dhas l k then Some (with_labels d md (dpop k l)) else None)"
  by (simp add: apply_op_simps with_labels_def dhas_def)

lemma get_metadata:
  assumes "map_of d ''metadata'' = Some (JObj md)"
  shows "get_at (JObj d) [''metadata'', k] = map_of md k"
  using assms by simp

text \<open>The labels the repair leaves: the desired ones written over, the opposite role gone.\<close>

definition repaired :: "jobject \<Rightarrow> (string \<times> string) list \<Rightarrow> string \<Rightarrow> jobject \<Rightarrow> bool" where
  "repaired l desired opposite l' \<longleftrightarrow>
     map_of l' = (map_of l ++ (map_option JStr \<circ> map_of (rev desired))) (opposite := None)"

lemma edit_labels:
  assumes "opposite \<notin> fst ` set desired" and "CHR ''~'' \<notin> set opposite"
  shows "\<exists>l'. repaired l desired opposite l' \<and>
     apply_patch (with_labels d md l)
       (map (\<lambda>(key, v). patch_add (label_path (escape_key key)) (JStr v)) desired @
        (if dhas l opposite then [patch_remove (label_path (escape_slash opposite))]
         else [])) = Some (with_labels d md l')"
proof -
  let ?l = "foldl (\<lambda>l (k, v). dput k (JStr v) l) l desired"
  from assms(1) have no: "map_of (rev desired) opposite = None"
    by (simp add: map_of_eq_None_iff)
  then have same: "map_of ?l opposite = map_of l opposite"
    by (simp add: map_of_put_labels map_add_def)
  show ?thesis
  proof (cases "dhas l opposite")
    case True
    with same have "dhas ?l opposite" by (simp add: dhas_def)
    with True have "apply_patch (with_labels d md l)
       (map (\<lambda>(key, v). patch_add (label_path (escape_key key)) (JStr v)) desired @
        [patch_remove (label_path (escape_slash opposite))]) =
        Some (with_labels d md (dpop opposite ?l))"
      by (simp add: apply_patch_append put_labels remove_label escape_slash_eq [OF assms(2)]
         )
    moreover have "repaired l desired opposite (dpop opposite ?l)"
      by (simp add: repaired_def delete_conv' map_of_put_labels)
    ultimately show ?thesis using True by auto
  next
    case False
    then have "map_of l opposite = None" by (simp add: dhas_def)
    with no have "repaired l desired opposite ?l"
      by (auto simp: repaired_def map_of_put_labels map_add_def fun_eq_iff)
    with False show ?thesis by (auto simp: put_labels)
  qed
qed

text \<open>
  Whether the object now at the server is the one the repair was computed from: the same UID,
  and the same labels, or the same version when it had none.
\<close>

definition same_object :: "jobject \<Rightarrow> jobject \<Rightarrow> bool" where
  "same_object seen cur \<longleftrightarrow>
     (\<exists>u. map_of cur ''uid'' = Some u \<and> py_eq u (dget seen ''uid'')) \<and>
     (if dhas seen ''labels''
      then \<exists>l. map_of cur ''labels'' = Some (JObj l) \<and> py_eq (JObj l) (dget seen ''labels'')
      else \<exists>v. map_of cur ''resourceVersion'' = Some v \<and> v = dget seen ''resourceVersion'')"

definition current_labels :: "jobject \<Rightarrow> jobject \<Rightarrow> jobject" where
  "current_labels seen cur =
     (if dhas seen ''labels'' then case dget cur ''labels'' of JObj l \<Rightarrow> l | _ \<Rightarrow> [] else [])"

lemma py_eq_JObjD2: "py_eq v (JObj d) \<Longrightarrow> \<exists>e. v = JObj e"
  by (cases v) auto

lemma managed_label_patch_applies:
  assumes "managed_label_patch seen desired opposite = Inr ps"
    and "map_of d ''metadata'' = Some (JObj cur)" "wf_obj seen" "wf_obj cur"
    and "opposite \<notin> fst ` set desired" "CHR ''~'' \<notin> set opposite"
  shows "if same_object seen cur
    then \<exists>l. repaired (current_labels seen cur) desired opposite l \<and>
             apply_patch (JObj d) ps = Some (with_labels d cur l)
    else apply_patch (JObj d) ps = None"
proof -
  let ?edits = "\<lambda>l. map (\<lambda>(key, v). patch_add (label_path (escape_key key)) (JStr v))
      desired @ (if dhas l opposite
        then [patch_remove (label_path (escape_slash opposite))] else [])"
  from assms(1) obtain uid labels where uid: "map_of seen ''uid'' = Some uid"
    and labels: "dgetd seen ''labels'' (JObj []) = JObj labels"
    unfolding managed_label_patch_def exn_simps mapping_Inr by blast
  note edit = edit_labels [OF assms(5,6)]
  show ?thesis
  proof (cases "dhas seen ''labels''")
    case True
    then have l: "map_of seen ''labels'' = Some (JObj labels)"
      using labels by (auto simp: dhas_def dgetd_def)
    have ps: "ps = patch_test ''/metadata/uid'' uid # patch_test ''/metadata/labels'' (JObj labels) #
        ?edits labels"
      using assms(1) True uid labels by (simp add: managed_label_patch_def mapping_def dsub_def)
    have start: "apply_patch (JObj d) ps = (if same_object seen cur
        then apply_patch (JObj d) (?edits labels) else None)"
      using assms(2) True uid l by (auto simp: ps apply_op_simps get_metadata same_object_def
          dget_def dhas_def simp del: py_eq_containers split: bind_split dest: py_eq_JObjD2)
    show ?thesis
    proof (cases "same_object seen cur")
      case True': True
      with True l obtain l' where l': "map_of cur ''labels'' = Some (JObj l')"
          "py_eq (JObj l') (JObj labels)"
        by (auto simp: same_object_def dget_def)
      then have "wf_obj l'" "wf_obj labels"
        using assms(3,4) l wf_obj_lookup by fastforce+
      then have "dhas l' opposite = dhas labels opposite"
        using py_eq_JObj_lookup(1) [OF _ _ l'(2)] by (simp add: dhas_def)
      with edit [of l' d cur] start True' True l' assms(2) show ?thesis
        by (simp add: current_labels_def dget_def with_labels_same)
    qed (simp add: start)
  next
    case False
    then have [simp]: "labels = []" using labels by (simp add: dhas_def dgetd_def)
    obtain rv where rv: "dget seen ''resourceVersion'' = JStr rv"
      and ps: "ps = patch_test ''/metadata/uid'' uid #
        patch_test ''/metadata/resourceVersion'' (JStr rv) #
        patch_add ''/metadata/labels'' (JObj []) # ?edits []"
      using assms(1) False uid labels
      by (auto simp: managed_label_patch_def mapping_def dsub_def exn_simps dhas_def)
    have "apply_patch (JObj d) ps = (if same_object seen cur
        then apply_patch (with_labels d cur []) (?edits []) else None)"
      using assms(2) False uid rv by (auto simp: ps apply_op_simps get_metadata same_object_def
          with_labels_def dget_def [of seen "''uid''"] split: bind_split)
    then show ?thesis using edit [of "[]" d cur] False
      by (auto simp: current_labels_def)
  qed
qed

subsection \<open>The decision about a Node\<close>

lemma if_Inr_eq_Inr:
  "(if c then Inr a else m) = Inr y \<longleftrightarrow> (c \<and> y = a) \<or> (\<not> c \<and> m = Inr y)"
  by auto

text \<open>
  A Node may be taken over when neither ownership label names another Server or cluster, and
  the Server's own address is its only internal one.
\<close>

definition may_register :: "jobject \<Rightarrow> jobject \<Rightarrow> jobject \<Rightarrow> (string \<times> string) list \<Rightarrow> bool" where
  "may_register request node labels desired \<longleftrightarrow>
     (\<forall>(k, v) \<in> set (take 2 desired). dget labels k = JNull \<or> dget labels k = JStr v) \<and>
     (\<exists>status addresses internal.
        dgetd node ''status'' (JObj []) = JObj status \<and>
        dgetd status ''addresses'' (JArr []) = JArr addresses \<and>
        internal_values addresses = Inr internal \<and>
        py_eq (JArr internal) (JArr [dget request ''address'']))"

definition labels_stale :: "jobject \<Rightarrow> (string \<times> string) list \<Rightarrow> string \<Rightarrow> bool" where
  "labels_stale labels desired opposite \<longleftrightarrow>
     (\<exists>(k, v) \<in> set desired. dget labels k \<noteq> JStr v) \<or> dhas labels opposite"

lemma registration_action_Inr:
  assumes "registration_action raw_plan raw_request = Inr r"
  obtains plan request members name member where
    "raw_plan = JObj plan" "raw_request = JObj request" "members_by_name raw_plan = Inr members"
    "dget request ''nodeName'' = JStr name" "map_of members name = Some member"
    "py_eq (dget member ''uid'') (dget request ''serverUID'')"
    "py_eq (dget member ''role'') (dget request ''role'')"
    "dget request ''node'' = JObj [] \<and>
       r = [(''missing'', JBool True), (''labelsChanged'', JBool False), (''labelPatch'', JArr [])]
     \<or> (\<exists>node metadata labels desired patch.
          dget request ''node'' = JObj node \<and> dget node ''metadata'' = JObj metadata \<and>
          py_eq (dget metadata ''name'') (JStr name) \<and> truthy (dget metadata ''uid'') \<and>
          dgetd metadata ''labels'' (JObj []) = JObj labels \<and>
          desired_labels plan member = Inr desired \<and> may_register request node labels desired \<and>
          managed_label_patch metadata desired (opposite_label member) = Inr patch \<and>
          r = [(''missing'', JBool False),
               (''labelsChanged'', JBool (labels_stale labels desired (opposite_label member))),
               (''labelPatch'', JArr patch)])"
proof -
  have adopt: "\<not> list_ex (\<lambda>(key, v). dget labels key \<noteq> JNull \<and> dget labels key \<noteq> JStr v) ds \<longleftrightarrow>
      (\<forall>(k, v) \<in> set ds. dget labels k = JNull \<or> dget labels k = JStr v)" for labels ds
    by (auto simp: list_ex_iff)
  have stale: "(list_ex (\<lambda>(key, v). dget labels key \<noteq> JStr v) ds \<or> dhas labels opp) =
      labels_stale labels ds opp" for labels ds opp
    by (auto simp: list_ex_iff labels_stale_def)
  from assms [unfolded registration_action_def exn_simps if_Inr_eq_Inr de_Morgan_disj not_not
      adopt stale]
  show ?thesis
    apply (elim exE conjE disjE)
    subgoal for plan request members name member
      by (rule that [of plan request members name member]) auto
    subgoal for plan request members name member
      by (rule that [of plan request members name member]) (auto simp: may_register_def)
    done
qed

lemma desired_labels_Inr [exn_simps]:
  "desired_labels plan member = Inr desired \<longleftrightarrow>
     (\<exists>server cluster role. dget member ''uid'' = JStr server \<and> server \<noteq> [] \<and>
        dget plan ''uid'' = JStr cluster \<and> cluster \<noteq> [] \<and>
        dget member ''role'' = JStr role \<and> role \<noteq> [] \<and>
        desired = [(''homelab.io/server-uid'', server), (''homelab.io/kube-cluster-uid'', cluster),
                   (role_label role, '''')])"
  unfolding desired_labels_def exn_simps by auto

lemma opposite_label_fresh:
  assumes "desired_labels plan member = Inr desired"
  shows "opposite_label member \<notin> fst ` set desired" "CHR ''~'' \<notin> set (opposite_label member)"
  using assms by (auto simp: desired_labels_Inr opposite_label_def role_label_def)

subsection \<open>The actual membership\<close>

lemma index_actual_Inr:
  assumes "index_actual items = Inr actual"
  shows "distinct (map fst actual)"
    and "map_of actual name = Some node \<longleftrightarrow>
           JObj node \<in> set items \<and> obj_field ''name'' (dget node ''metadata'') = JStr name \<and> name \<noteq> []"
proof -
  define P where "P = (\<lambda>ys (st :: index). distinct (map fst st) \<and>
     (\<forall>name node. map_of st name = Some node \<longleftrightarrow>
        JObj node \<in> set ys \<and> obj_field ''name'' (dget node ''metadata'') = JStr name \<and> name \<noteq> []))"
  have "P items actual"
  proof (rule foldM_invariant [OF assms [unfolded index_actual_def]])
    fix ys x u v
    assume P: "P ys u" and "bind (mapping x ''Node'') (\<lambda>node.
       bind (mapping (dget node ''metadata'') ''Node metadata'') (\<lambda>metadata.
       bind (text' (dget metadata ''name'') ''name'') (\<lambda>name.
         if map_of u name \<noteq> None then Inl (ValueError ''Duplicate Node identity'')
         else Inr (AList.update name node u)))) = Inr v"
    then obtain n name where "x = JObj n" "obj_field ''name'' (dget n ''metadata'') = JStr name" "name \<noteq> []"
      "map_of u name = None" and v: "v = AList.update name n u"
      by (auto simp: exn_simps)
    with P show "P (ys @ [x]) v"
      by (fastforce simp: P_def v)
  qed (simp add: P_def)
  then show "distinct (map fst actual)"
    "map_of actual name = Some node \<longleftrightarrow>
       JObj node \<in> set items \<and> obj_field ''name'' (dget node ''metadata'') = JStr name \<and> name \<noteq> []"
    by (auto simp: P_def)
qed

lemma observe_filter:
  assumes "mapM f xs = Inr ys"
  shows "set (map fst (filter (P \<circ> snd) (zip xs ys))) = {x \<in> set xs. \<exists>y. f x = Inr y \<and> P y}"
  using assms
proof (induction xs arbitrary: ys)
  case (Cons x xs)
  then obtain y zs where "ys = y # zs" "f x = Inr y" "mapM f xs = Inr zs"
    by (auto simp: bind_eq_Inr)
  with Cons.IH [of zs] show ?case by auto
qed simp

lemma membership_observation_Inr:
  assumes "membership_observation raw_plan raw_response = Inr r"
  obtains plan expected response items actual missing unexpected not_ready conflicts where
    "raw_plan = JObj plan" "members_by_name raw_plan = Inr expected"
    "raw_response = JObj response" "dget response ''items'' = JArr items"
    "index_actual items = Inr actual"
    "set missing = fst ` set expected - fst ` set actual" "sorted missing"
    "set unexpected = fst ` set actual - fst ` set expected" "sorted unexpected"
    "\<And>n m a. map_of expected n = Some m \<Longrightarrow> map_of actual n = Some a \<Longrightarrow>
       \<exists>b c. observe_node plan m a = Inr (b, c) \<and>
             (n \<in> set not_ready \<longleftrightarrow> b) \<and> (n \<in> set conflicts \<longleftrightarrow> c)"
    "set not_ready \<union> set conflicts \<subseteq> fst ` set expected \<inter> fst ` set actual"
    "r = [(''ready'', JBool (missing = [] \<and> unexpected = [] \<and> not_ready = [] \<and> conflicts = [])),
          (''missingMembers'', JArr (map JStr missing)),
          (''notReadyMembers'', JArr (map JStr not_ready)),
          (''unexpectedNodes'', JArr (map JStr unexpected)),
          (''identityConflicts'', JArr (map JStr conflicts))]"
proof -
  from assms obtain plan expected response items actual where
    init: "raw_plan = JObj plan" "members_by_name raw_plan = Inr expected"
    "raw_response = JObj response" "dget response ''items'' = JArr items"
    "index_actual items = Inr actual"
    unfolding membership_observation_def Let_def exn_simps by blast
  let ?f = "\<lambda>n. observe_node plan (the (map_of expected n)) (the (map_of actual n))"
  let ?present = "sort (filter (\<lambda>n. map_of actual n \<noteq> None) (map fst expected))"
  from assms init obtain seen where seen: "mapM ?f ?present = Inr seen"
    by (simp add: membership_observation_def Let_def mapping_def array_def bind_eq_Inr)
      blast
  let ?missing = "sort (filter (\<lambda>n. map_of actual n = None) (map fst expected))"
  let ?unexpected = "sort (filter (\<lambda>n. map_of expected n = None) (map fst actual))"
  let ?not_ready = "map fst (filter (fst \<circ> snd) (zip ?present seen))"
  let ?conflicts = "map fst (filter (snd \<circ> snd) (zip ?present seen))"
  have present: "set ?present = fst ` set expected \<inter> fst ` set actual"
    by (auto simp: map_of_eq_None_iff image_iff)
  note sets = observe_filter [OF seen, of fst] observe_filter [OF seen, of snd]
  show ?thesis
  proof (rule that [of plan expected response items actual ?missing ?unexpected ?not_ready
        ?conflicts, OF init])
    show "\<exists>b c. observe_node plan m a = Inr (b, c) \<and>
        (n \<in> set ?not_ready \<longleftrightarrow> b) \<and> (n \<in> set ?conflicts \<longleftrightarrow> c)"
      if "map_of expected n = Some m" "map_of actual n = Some a" for n m a
    proof -
      from that have n: "n \<in> set ?present" by (force simp: present dest: map_of_SomeD)
      with seen that obtain b c where "observe_node plan m a = Inr (b, c)"
        using mapM_set2 [OF seen n] by auto
      with n that show ?thesis unfolding sets by auto
    qed
    show "set ?not_ready \<union> set ?conflicts \<subseteq> fst ` set expected \<inter> fst ` set actual"
      unfolding sets present by blast
    show "r = [(''ready'', JBool (?missing = [] \<and> ?unexpected = [] \<and> ?not_ready = [] \<and>
            ?conflicts = [])),
          (''missingMembers'', JArr (map JStr ?missing)),
          (''notReadyMembers'', JArr (map JStr ?not_ready)),
          (''unexpectedNodes'', JArr (map JStr ?unexpected)),
          (''identityConflicts'', JArr (map JStr ?conflicts))]" using assms init seen
      by (simp add: membership_observation_def Let_def mapping_def array_def)
  qed (auto simp: map_of_eq_None_iff)
qed

subsection \<open>The labels a repair leaves, key by key\<close>

definition role_keys :: "string set" where
  "role_keys = {role_label ''control-plane'', role_label ''worker''}"

lemma repaired_labels:
  assumes "desired_labels plan member = Inr desired"
    and "repaired l desired (opposite_label member) l'"
    and "dget member ''role'' \<in> {JStr ''control-plane'', JStr ''worker''}"
  shows "map_of l' ''homelab.io/server-uid'' = Some (dget member ''uid'')"
    and "map_of l' ''homelab.io/kube-cluster-uid'' = Some (dget plan ''uid'')"
    and "k \<in> role_keys \<Longrightarrow>
      map_of l' k = (if k = role_label (json_name (dget member ''role'')) then Some (JStr '''') else None)"
    and "k \<notin> insert ''homelab.io/server-uid'' (insert ''homelab.io/kube-cluster-uid'' role_keys) \<Longrightarrow>
      map_of l' k = map_of l k"
proof -
  from assms(1) obtain server cluster role where
    f: "dget member ''uid'' = JStr server" "dget plan ''uid'' = JStr cluster"
      "dget member ''role'' = JStr role"
      "desired = [(''homelab.io/server-uid'', server), (''homelab.io/kube-cluster-uid'', cluster),
                  (role_label role, '''')]"
    by (auto simp: desired_labels_Inr)
  have role: "role = ''control-plane'' \<or> role = ''worker''" using assms(3) f(3) by simp
  have m: "map_of l' = (map_of l ++ [''homelab.io/server-uid'' \<mapsto> JStr server,
      ''homelab.io/kube-cluster-uid'' \<mapsto> JStr cluster, role_label role \<mapsto> JStr ''''])
      (opposite_label member := None)"
    using assms(2) role by (auto simp: repaired_def f(4) role_label_def fun_eq_iff map_add_def)
  show "map_of l' ''homelab.io/server-uid'' = Some (dget member ''uid'')"
    "map_of l' ''homelab.io/kube-cluster-uid'' = Some (dget plan ''uid'')"
    using role by (auto simp: m f opposite_label_def role_label_def map_add_def)
  show "map_of l' k = (if k = role_label (json_name (dget member ''role'')) then Some (JStr '''') else None)"
    if "k \<in> role_keys"
    using role that by (auto simp: m f opposite_label_def role_label_def map_add_def role_keys_def)
  show "map_of l' k = map_of l k"
    if "k \<notin> insert ''homelab.io/server-uid'' (insert ''homelab.io/kube-cluster-uid'' role_keys)"
    using role that by (auto simp: m f opposite_label_def role_label_def map_add_def role_keys_def)
qed

end
