(* ===== verification/KubeHost.thy ===== *)
theory KubeHost
  imports KubePlan
begin

text \<open>
  The checks \<open>filter_plugins/kube_plan.py\<close> makes on one host: overlap of the cluster
  networks with the networks the host is connected to, which installed binaries differ from
  the verified release, and reuse of the protected binary manifest.
\<close>

section \<open>Connected networks\<close>

text \<open>The IPv4 addresses the facts give for one interface.\<close>

definition interface_addresses :: "jobject \<Rightarrow> exn + json list" where
  "interface_addresses details =
     bind (array (dgetd details ''ipv4_secondaries'' (JArr []))
             ''Secondary IPv4 interface facts must be an array'') (\<lambda>addresses.
       Inr (case map_of details ''ipv4'' of None \<Rightarrow> addresses | Some v \<Rightarrow> addresses @ [v]))"

definition connected_network :: "json \<Rightarrow> exn + ipv4net" where
  "connected_network raw_address =
     bind (mapping raw_address ''IPv4 interface facts'') (\<lambda>address.
     bind (text' (dget address ''address'') ''interface address'') (\<lambda>a.
     bind (text' (dget address ''netmask'') ''interface netmask'') (\<lambda>m.
       ip_network False (a @ ''/'' @ m))))"

definition check_connected ::
  "jobject \<Rightarrow> ipv4net \<Rightarrow> ipv4net \<Rightarrow> string \<Rightarrow> json \<Rightarrow> exn + unit" where
  "check_connected plan pod service interface_name raw_address =
     bind (connected_network raw_address) (\<lambda>connected.
       if dget plan ''allowManagedCNI'' = JBool True \<and>
          interface_name \<in> {''cni0'', ''flannel.1''} \<and> subnet_of connected pod
       then Inr ()
       else if overlaps connected pod \<or> overlaps connected service
       then Inl (ValueError (''Cluster CIDRs overlap connected network on '' @ interface_name))
       else Inr ())"

definition check_interface ::
  "jobject \<Rightarrow> jobject \<Rightarrow> ipv4net \<Rightarrow> ipv4net \<Rightarrow> json \<Rightarrow> exn + unit" where
  "check_interface plan facts pod service interface =
     bind (text' interface ''interface name'') (\<lambda>interface_name.
     bind (mapping (dgetd facts interface_name (JObj [])) ''interface facts'') (\<lambda>details.
     bind (interface_addresses details) (\<lambda>addresses.
     bind (mapM (check_connected plan pod service interface_name) addresses) (\<lambda>_. Inr ()))))"

definition validate_host_network :: "json \<Rightarrow> json \<Rightarrow> exn + jobject" where
  "validate_host_network raw_plan raw_facts =
     bind (mapping raw_plan ''cluster plan'') (\<lambda>plan.
     bind (mapping (dget plan ''settings'') ''cluster settings'') (\<lambda>spec.
     bind (mapping raw_facts ''Ansible host facts'') (\<lambda>facts.
     bind (array (dget facts ''interfaces'')
             ''Host interface facts are required for network validation'') (\<lambda>interfaces.
     if interfaces = []
     then Inl (ValueError ''Host interface facts are required for network validation'') else
     bind (ipv4_network (dget spec ''podCIDR'') ''podCIDR'') (\<lambda>pod.
     bind (ipv4_network (dget spec ''serviceCIDR'') ''serviceCIDR'') (\<lambda>service.
     bind (mapM (check_interface plan facts pod service) interfaces) (\<lambda>_. Inr plan)))))))"

section \<open>Installed binaries\<close>

definition changed_binary :: "json list \<Rightarrow> json \<Rightarrow> exn + json list" where
  "changed_binary changed raw_result =
     bind (mapping raw_result ''destination inspection'') (\<lambda>result.
     bind (mapping (dget result ''stat'') ''destination stat'') (\<lambda>actual.
     bind (mapping (dget result ''item'') ''verified artifact'') (\<lambda>source.
     bind (mapping (dget source ''stat'') ''verified artifact stat'') (\<lambda>expected.
     if \<not> truthy (dget actual ''exists'') \<or>
        \<not> py_eq (dget actual ''checksum'') (dget expected ''checksum'')
     then
       bind (mapping (dget source ''item'') ''artifact file'') (\<lambda>item.
       bind (text' (dget item ''dest'') ''destination path'') (\<lambda>dest.
         Inr (changed @ [JStr dest])))
     else Inr changed))))"

definition changed_binaries :: "json \<Rightarrow> exn + jobject" where
  "changed_binaries raw_results =
     bind (array raw_results ''Binary inspection results must be an array'') (\<lambda>results.
     bind (foldM changed_binary [] results) (\<lambda>changed.
       Inr [(''paths'', JArr changed)]))"

definition reviewed_components :: "(string \<times> string) list" where
  "reviewed_components =
     [(''/usr/local/bin/containerd'', ''runtime''),
      (''/usr/local/bin/ctr'', ''runtime''),
      (''/usr/local/bin/containerd-shim-runc-v2'', ''runtime''),
      (''/usr/local/bin/runc'', ''runtime''),
      (''/usr/local/bin/kubeadm'', ''kubernetes''),
      (''/usr/local/bin/kubelet'', ''kubernetes''),
      (''/usr/local/bin/kubectl'', ''kubernetes''),
      (''/opt/cni/bin/bridge'', ''cni''),
      (''/opt/cni/bin/host-local'', ''cni''),
      (''/opt/cni/bin/loopback'', ''cni''),
      (''/opt/cni/bin/portmap'', ''cni'')]"

definition rx_sha256 :: rx where
  "rx_sha256 = rtimes 64 (RCls [(CHR ''0'', CHR ''9''), (CHR ''a'', CHR ''f'')])"

definition installed_artifact :: "jobject \<Rightarrow> string \<times> string \<Rightarrow> exn + json" where
  "installed_artifact files pc =
     bind (dsub files (fst pc)) (\<lambda>v.
     bind (text' v ''installed checksum'') (\<lambda>checksum.
     if \<not> fullmatch rx_sha256 checksum
     then Inl (ValueError ''Protected binary checksum is invalid'')
     else Inr (JObj [(''item'', JObj [(''dest'', JStr (fst pc)), (''component'', JStr (snd pc))]),
                     (''stat'', JObj [(''checksum'', JStr checksum)])])))"

definition installed_artifacts :: "json \<Rightarrow> exn + jobject" where
  "installed_artifacts raw_identity =
     bind (mapping raw_identity ''protected installation'') (\<lambda>identity.
     bind (mapping (dget identity ''files'') ''protected binary manifest'') (\<lambda>files.
     if set (map fst files) \<noteq> set (map fst reviewed_components)
     then Inl (ValueError ''Protected manifest does not contain exactly the reviewed binary paths'')
     else
     bind (mapM (installed_artifact files) reviewed_components) (\<lambda>results.
       Inr [(''files'', JArr results)])))"

section \<open>What the checks establish\<close>

definition cni_exempt :: "jobject \<Rightarrow> string \<Rightarrow> ipv4net \<Rightarrow> ipv4net \<Rightarrow> bool" where
  "cni_exempt plan interface net pod \<longleftrightarrow>
     dget plan ''allowManagedCNI'' = JBool True \<and> interface \<in> {''cni0'', ''flannel.1''} \<and>
     addrs net \<subseteq> addrs pod"

text \<open>The addresses recorded for an interface: its secondary ones and its primary one.\<close>

definition interface_has :: "jobject \<Rightarrow> string \<Rightarrow> json \<Rightarrow> bool" where
  "interface_has facts interface a \<longleftrightarrow>
     (\<exists>details. map_of facts interface = Some (JObj details) \<and>
        (map_of details ''ipv4'' = Some a \<or>
         (\<exists>xs. map_of details ''ipv4_secondaries'' = Some (JArr xs) \<and> a \<in> set xs)))"

lemma connected_network_valid: "connected_network a = Inr n \<Longrightarrow> valid_net n"
  unfolding connected_network_def exn_simps using ip_network_valid by blast

lemma check_connected_Inr:
  assumes "check_connected plan pod service i a = Inr u" "valid_net pod" "valid_net service"
  shows "\<exists>n. connected_network a = Inr n \<and>
    (cni_exempt plan i n pod \<or> addrs n \<inter> addrs pod = {} \<and> addrs n \<inter> addrs service = {})"
proof -
  from assms(1) obtain n where n: "connected_network a = Inr n"
    "dget plan ''allowManagedCNI'' = JBool True \<and> i \<in> {''cni0'', ''flannel.1''} \<and> subnet_of n pod
     \<or> \<not> overlaps n pod \<and> \<not> overlaps n service"
    unfolding check_connected_def exn_simps by (auto split: if_splits)
  with connected_network_valid [OF n(1)] assms(2,3) show ?thesis
    by (auto simp: cni_exempt_def subnet_of_iff overlaps_iff)
qed

lemma interface_addresses_Inr:
  assumes "check_interface plan facts pod service (JStr i) = Inr u" "interface_has facts i a"
  shows "check_connected plan pod service i a = Inr ()"
proof -
  from assms(1) obtain details addresses us where
    "dgetd facts i (JObj []) = JObj details" "interface_addresses details = Inr addresses"
    and checked: "mapM (check_connected plan pod service i) addresses = Inr us"
    unfolding check_interface_def exn_simps by auto
  with assms(2) have "a \<in> set addresses"
    by (auto simp: interface_has_def interface_addresses_def exn_simps dgetd_def
        split: option.splits)
  from mapM_set2 [OF checked this] obtain y where "check_connected plan pod service i a = Inr y"
    by blast
  then show ?thesis by (cases y) simp
qed

lemma validate_host_network_Inr:
  assumes "validate_host_network raw_plan raw_facts = Inr plan"
  obtains settings facts interfaces pod service where
    "raw_plan = JObj plan" "dget plan ''settings'' = JObj settings" "raw_facts = JObj facts"
    "dget facts ''interfaces'' = JArr interfaces" "interfaces \<noteq> []"
    "ipv4_network (dget settings ''podCIDR'') ''podCIDR'' = Inr pod"
    "ipv4_network (dget settings ''serviceCIDR'') ''serviceCIDR'' = Inr service"
    "\<And>i a. JStr i \<in> set interfaces \<Longrightarrow> interface_has facts i a \<Longrightarrow>
       \<exists>n. connected_network a = Inr n \<and>
         (cni_exempt plan i n pod \<or> addrs n \<inter> addrs pod = {} \<and> addrs n \<inter> addrs service = {})"
proof -
  from assms obtain settings facts interfaces pod service us where
    f: "raw_plan = JObj plan" "dget plan ''settings'' = JObj settings" "raw_facts = JObj facts"
    "dget facts ''interfaces'' = JArr interfaces" "interfaces \<noteq> []"
    "ipv4_network (dget settings ''podCIDR'') ''podCIDR'' = Inr pod"
    "ipv4_network (dget settings ''serviceCIDR'') ''serviceCIDR'' = Inr service"
    and m: "mapM (check_interface plan facts pod service) interfaces = Inr us"
    unfolding validate_host_network_def exn_simps by auto
  show ?thesis
  proof (rule that [OF f])
    fix i a assume "JStr i \<in> set interfaces" "interface_has facts i a"
    then have "check_connected plan pod service i a = Inr ()"
      using mapM_set2 [OF m] interface_addresses_Inr by blast
    then show "\<exists>n. connected_network a = Inr n \<and>
       (cni_exempt plan i n pod \<or> addrs n \<inter> addrs pod = {} \<and> addrs n \<inter> addrs service = {})"
      using check_connected_Inr f(6,7) ipv4_network_valid by blast
  qed
qed

subsection \<open>Binaries\<close>

text \<open>An inspected destination differs when it is absent or holds other contents.\<close>

definition binary_differs :: "json \<Rightarrow> bool" where
  "binary_differs r \<longleftrightarrow>
     \<not> truthy (obj_field ''exists'' (obj_field ''stat'' r)) \<or>
     \<not> py_eq (obj_field ''checksum'' (obj_field ''stat'' r)) (obj_field ''checksum'' (obj_field ''stat'' (obj_field ''item'' r)))"

definition binary_dest :: "json \<Rightarrow> json" where
  "binary_dest r = obj_field ''dest'' (obj_field ''item'' (obj_field ''item'' r))"

lemma changed_binary_Inr:
  "changed_binary changed r = Inr out \<Longrightarrow>
     out = changed @ (if binary_differs r then [binary_dest r] else [])"
  by (auto simp: changed_binary_def exn_simps binary_differs_def binary_dest_def split: if_splits)

lemma changed_binaries_Inr:
  assumes "changed_binaries (JArr rs) = Inr out"
  shows "out = [(''paths'', JArr (map binary_dest (filter binary_differs rs)))]"
proof -
  from assms obtain changed where f: "foldM changed_binary [] rs = Inr changed"
    and out: "out = [(''paths'', JArr changed)]"
    by (auto simp: changed_binaries_def exn_simps)
  have "changed = map binary_dest (filter binary_differs rs)"
    by (rule foldM_invariant [OF f]) (auto dest: changed_binary_Inr)
  with out show ?thesis by simp
qed

text \<open>The reused manifest: one digest of the reviewed form for each reviewed path.\<close>

definition sha256_text :: "string \<Rightarrow> bool" where
  "sha256_text s \<longleftrightarrow> length s = 64 \<and>
     (\<forall>c\<in>set s. is_dec c \<or> code_point (CHR ''a'') \<le> code_point c \<and> code_point c \<le> code_point (CHR ''f''))"

lemma rx_sha256_iff: "fullmatch rx_sha256 s \<longleftrightarrow> sha256_text s"
  by (simp add: rx_sha256_def fullmatch_iff_lang sha256_text_def list_all_iff in_cls_def is_dec_def)

lemma installed_artifact_Inr [exn_simps]:
  "installed_artifact files pc = Inr r \<longleftrightarrow>
     (\<exists>checksum. map_of files (fst pc) = Some (JStr checksum) \<and> sha256_text checksum \<and>
        r = JObj [(''item'', JObj [(''dest'', JStr (fst pc)), (''component'', JStr (snd pc))]),
                  (''stat'', JObj [(''checksum'', JStr checksum)])])"
  unfolding installed_artifact_def exn_simps not_not rx_sha256_iff
  by (auto simp: sha256_text_def)

lemma installed_artifacts_Inr:
  assumes "installed_artifacts raw = Inr out"
  obtains identity files results where
    "raw = JObj identity" "dget identity ''files'' = JObj files"
    "fst ` set files = fst ` set reviewed_components"
    "out = [(''files'', JArr results)]"
    "list_all2 (\<lambda>pc r. \<exists>checksum.
       map_of files (fst pc) = Some (JStr checksum) \<and> sha256_text checksum \<and>
       r = JObj [(''item'', JObj [(''dest'', JStr (fst pc)), (''component'', JStr (snd pc))]),
                 (''stat'', JObj [(''checksum'', JStr checksum)])]) reviewed_components results"
proof -
  from assms obtain identity files results where
    f: "raw = JObj identity" "dget identity ''files'' = JObj files"
      "set (map fst files) = set (map fst reviewed_components)" "out = [(''files'', JArr results)]"
    and m: "mapM (installed_artifact files) reviewed_components = Inr results"
    unfolding installed_artifacts_def exn_simps not_not by auto
  from m [unfolded mapM_Inr_iff installed_artifact_Inr] f show ?thesis
    by (intro that [of identity files results]) simp_all
qed

end
