(* ===== verification/KubeProperties.thy ===== *)
theory KubeProperties
  imports KubeRegistration KubeHost
begin

text \<open>
  The properties of the cluster plan, of the checks made against it, and of Node registration,
  each with a concrete cluster of two Servers on which it applies.
\<close>

section \<open>A cluster of two Servers\<close>

definition lab_spec :: jobject where
  "lab_spec =
     [(''kubernetesVersion'', JStr ''1.33.2''), (''containerdVersion'', JStr ''2.1.3''),
      (''network'', JObj [(''provider'', JStr ''flannel''), (''version'', JStr ''0.27.0'')]),
      (''podCIDR'', JStr ''10.244.0.0/16''), (''serviceCIDR'', JStr ''10.96.0.0/12''),
      (''controlPlaneEndpoint'', JStr ''k8s.lab:6443'')]"

definition lab_target :: json where
  "lab_target =
     JObj [(''kind'', JStr ''KubeCluster''),
           (''metadata'', JObj [(''name'', JStr ''lab''), (''uid'', JStr ''c-1'')]),
           (''spec'', JObj lab_spec)]"

definition lab_node :: "string \<Rightarrow> string \<Rightarrow> string \<Rightarrow> json" where
  "lab_node name uid role =
     JObj [(''name'', JStr name), (''uid'', JStr uid),
           (''labels'', JObj [(''homelab.io/kube-cluster'', JStr ''lab''),
                              (''homelab.io/kube-role'', JStr role)])]"

definition lab_nodes :: json where
  "lab_nodes = JArr [lab_node ''srv-b'' ''u-2'' ''worker'', lab_node ''srv-a'' ''u-1'' ''control-plane'',
                     JObj [(''name'', JStr ''other''), (''uid'', JStr ''u-3'')]]"

definition lab_member :: "string \<Rightarrow> string \<Rightarrow> string \<Rightarrow> jobject" where
  "lab_member name uid role =
     member_record name uid name role
       [(''cgroupVersion'', JStr ''2''), (''iptablesBackend'', JStr ''nft'')]"

definition lab_members :: "jobject list" where
  "lab_members = [lab_member ''srv-a'' ''u-1'' ''control-plane'', lab_member ''srv-b'' ''u-2'' ''worker'']"

definition lab_plan :: jobject where
  "lab_plan =
     [(''name'', JStr ''lab''), (''uid'', JStr ''c-1''), (''settings'', JObj (filled lab_spec)),
      (''members'', JArr (map JObj lab_members)), (''controlPlane'', JObj (hd lab_members)),
      (''networkApiEndpoint'', JStr ''direct'')]"

lemma lab_selected: "selected_members lab_nodes ''lab'' ''c-1'' = Inr lab_members"
  by code_simp

lemma lab_octets:
  "parse_octet ''10'' = Inr 10" "parse_octet ''244'' = Inr 244" "parse_octet ''96'' = Inr 96"
  "parse_octet ''0'' = Inr 0" "parse_octet ''1'' = Inr 1"
  by code_simp+

lemma lab_masks: "parse_mask ''16'' = Inr 16" "parse_mask ''12'' = Inr 12" "parse_mask ''24'' = Inr 24"
  by code_simp+

lemma lab_pod:
  "ipv4_network (JStr ''10.244.0.0/16'') c = Inr \<lparr>network_address = 0x0AF40000, prefixlen = 16\<rparr>"
  by (simp add: ipv4_network_def ip_network_def parse_address_def lab_octets lab_masks netmask_def
      mask_eq_exp_minus_1)

lemma lab_service:
  "ipv4_network (JStr ''10.96.0.0/12'') c = Inr \<lparr>network_address = 0x0A600000, prefixlen = 12\<rparr>"
  by (simp add: ipv4_network_def ip_network_def parse_address_def lab_octets lab_masks netmask_def
      mask_eq_exp_minus_1)

lemma lab_apart:
  "\<not> overlaps \<lparr>network_address = 0x0AF40000, prefixlen = 16\<rparr>
              \<lparr>network_address = 0x0A600000, prefixlen = 12\<rparr>"
  by (simp add: overlaps_def netmask_def in_net_def broadcast_address_def mask_eq_exp_minus_1)

lemma lab_releases:
  "fullmatch rx_release ''1.33.2''" "fullmatch rx_release ''2.1.3''"
  "fullmatch rx_release ''0.27.0''" "fullmatch rx_release ''1.5.2''"
  "fullmatch rx_release ''1.9.1''"
  "py_int (split_on (CHR ''.'') ''1.33.2'' ! 1) = Inr 33" "startswith ''1.33.2'' ''1.''"
  by code_simp+

lemma lab_endpoint: "require_endpoint ''k8s.lab:6443'' = Inr ()"
proof -
  have "rpartition (CHR '':'') ''k8s.lab:6443'' = Some (''k8s.lab'', ''6443'')"
    "dns_name ''k8s.lab''" "isdigit ''6443''" "py_int ''6443'' = Inr 6443"
    by code_simp+
  then show ?thesis by (simp add: require_endpoint_def)
qed

lemma lab_spec_fields:
  "dget (filled lab_spec) ''kubernetesVersion'' = JStr ''1.33.2''"
  "dget (filled lab_spec) ''containerdVersion'' = JStr ''2.1.3''"
  "dget (filled lab_spec) ''network'' =
     JObj [(''provider'', JStr ''flannel''), (''version'', JStr ''0.27.0'')]"
  "dget (filled lab_spec) ''podCIDR'' = JStr ''10.244.0.0/16''"
  "dget (filled lab_spec) ''serviceCIDR'' = JStr ''10.96.0.0/12''"
  "dget (filled lab_spec) ''controlPlaneEndpoint'' = JStr ''k8s.lab:6443''"
  "dget (filled lab_spec) ''runcVersion'' = JStr ''1.5.2''"
  "dget (filled lab_spec) ''cniPluginsVersion'' = JStr ''1.9.1''"
  by code_simp+

lemma lab_settings: "validated_settings (JObj lab_spec) = Inr (filled lab_spec)"
  unfolding validated_settings_iff settings_ok_def lab_spec_fields is_release_iff
  using lab_releases lab_pod lab_service lab_apart lab_endpoint
  by (simp add: dget_def)

lemma lab_planned: "cluster_plan lab_target lab_nodes = Inr lab_plan"
proof -
  have f: "find (\<lambda>m. dget m ''role'' = JStr ''control-plane'') lab_members = Some (hd lab_members)"
    "length lab_members = 2" "map_of (filled lab_spec) ''podCIDR'' = Some (JStr ''10.244.0.0/16'')"
    by code_simp+
  show ?thesis
    unfolding cluster_plan_def lab_target_def
    by (simp add: lookup_simps dsub_def lab_settings lab_selected lab_pod f lab_plan_def)
qed

section \<open>The plan\<close>

text \<open>
  C11: a cluster plan that is built selects exactly the captured Servers labelled with the
  cluster, each once, under valid and distinct Node names, sorted by Server name, with exactly
  one control plane (the one the plan names) and no Server pinned to another lifetime of the
  cluster; its settings are the reviewed ones, and its Pod network has room for one /24 network
  per member, all disjoint.
\<close>

theorem cluster_plan_sound:
  assumes "cluster_plan target nodes = Inr p"
  shows "\<exists>name uid settings members cp e raw pod subnets.
    p = [(''name'', JStr name), (''uid'', JStr uid), (''settings'', JObj settings),
         (''members'', JArr (map JObj members)), (''controlPlane'', JObj cp),
         (''networkApiEndpoint'', JStr e)] \<and>
    nodes = JArr raw \<and>
    image_mset (server_identity \<circ> JObj) (mset members) =
      image_mset server_identity (filter_mset (in_cluster name) (mset raw)) \<and>
    list_all (bound_to uid) (filter (in_cluster name) raw) \<and>
    list_all member_ok members \<and> distinct (map node_name_of members) \<and>
    sorted (map (str_field ''name'') members) \<and>
    filter (\<lambda>m. dget m ''role'' = JStr ''control-plane'') members = [cp] \<and>
    settings_ok settings \<and> e \<in> {''direct'', ''service''} \<and>
    ipv4_network (dget settings ''podCIDR'') ''podCIDR'' = Inr pod \<and>
    length subnets = length members \<and>
    (\<forall>s\<in>set subnets. prefixlen s = 24 \<and> addrs s \<subseteq> addrs pod) \<and>
    sorted_wrt (\<lambda>a b. addrs a \<inter> addrs b = {}) subnets"
proof -
  from cluster_plan_Inr [OF assms] obtain name uid settings members cp e pod where
    p: "p = [(''name'', JStr name), (''uid'', JStr uid), (''settings'', JObj settings),
         (''members'', JArr (map JObj members)), (''controlPlane'', JObj cp),
         (''networkApiEndpoint'', JStr e)]" "e \<in> {''direct'', ''service''}" "settings_ok settings"
    and sel: "selected_members nodes name uid = Inr members"
    and cp: "find (\<lambda>m. dget m ''role'' = JStr ''control-plane'') members = Some cp"
    and pod: "ipv4_network (dget settings ''podCIDR'') ''podCIDR'' = Inr pod"
      "prefixlen pod \<le> 24" "length members \<le> 2 ^ (24 - prefixlen pod)"
    by blast
  note valid = ipv4_network_valid [OF pod(1)]
  obtain subnets where room: "length subnets = length members"
    "\<forall>m\<in>set subnets. valid_net m \<and> prefixlen m = 24 \<and> subnet_of m pod"
    "sorted_wrt (\<lambda>a b. \<not> overlaps a b) subnets"
    using room_for_nodes [OF valid pod(2,3)] by blast
  then have subnets: "\<forall>s\<in>set subnets. prefixlen s = 24 \<and> addrs s \<subseteq> addrs pod"
    "sorted_wrt (\<lambda>a b. addrs a \<inter> addrs b = {}) subnets"
    using valid subnet_of_iff by (blast, simp add: sorted_wrt_iff_nth_less overlaps_iff)
  note S = selected_members_Inr [OF sel]
  have "filter (\<lambda>m. dget m ''role'' = JStr ''control-plane'') members = [cp]"
    using S(4) find_first [OF cp] by auto
  with p pod(1) room(1) subnets S show ?thesis by blast
qed

theorem cluster_plan_sound_witness:
  "cluster_plan lab_target lab_nodes = Inr lab_plan \<and>
   (\<exists>members cp. dget lab_plan ''members'' = JArr (map JObj members) \<and>
      filter (\<lambda>m. dget m ''role'' = JStr ''control-plane'') members = [cp])"
proof -
  from cluster_plan_sound [OF lab_planned] obtain name uid settings members cp e where
    "lab_plan = [(''name'', JStr name), (''uid'', JStr uid), (''settings'', JObj settings),
         (''members'', JArr (map JObj members)), (''controlPlane'', JObj cp),
         (''networkApiEndpoint'', JStr e)]"
    "filter (\<lambda>m. dget m ''role'' = JStr ''control-plane'') members = [cp]"
    by blast
  moreover from this(1) have "dget lab_plan ''members'' = JArr (map JObj members)"
    by (rule ssubst) (simp add: lookup_simps)
  ultimately show ?thesis using lab_planned by blast
qed

text \<open>
  C18: settings that pass validation satisfy every rule of the plan (releases, supported
  Kubernetes and network provider, disjoint networks, endpoint), every field the specification
  gave keeps its value, and validating the result again changes nothing.
\<close>

theorem validated_settings_stable:
  assumes "validated_settings v = Inr t"
  shows "settings_ok t \<and> validated_settings (JObj t) = Inr t \<and>
    (\<exists>spec. v = JObj spec \<and> (\<forall>k w. map_of spec k = Some w \<longrightarrow> map_of t k = Some w))"
proof -
  from assms obtain spec where spec: "v = JObj spec"
    by (auto simp: validated_settings_def exn_simps)
  from assms [unfolded spec validated_settings_iff] have t: "t = filled spec" and "settings_ok t"
    by blast+
  moreover from t have "\<forall>k w. map_of spec k = Some w \<longrightarrow> map_of t k = Some w"
    by (simp add: filled_def dgetd_def)
  ultimately show ?thesis
    using spec validated_settings_idem [OF assms] by blast
qed

theorem validated_settings_stable_witness:
  "settings_ok (filled lab_spec) \<and> validated_settings (JObj (filled lab_spec)) = Inr (filled lab_spec)"
  using validated_settings_stable [OF lab_settings] by blast

section \<open>The Nodes of the cluster\<close>

definition lab_actual :: "string \<Rightarrow> string \<Rightarrow> string \<Rightarrow> string \<Rightarrow> string \<Rightarrow> jobject" where
  "lab_actual name uid role cidr address =
     [(''metadata'', JObj [(''name'', JStr name), (''uid'', JStr (''node-'' @ uid)),
        (''resourceVersion'', JStr ''7''),
        (''labels'', JObj [(''homelab.io/server-uid'', JStr uid),
           (''homelab.io/kube-cluster-uid'', JStr ''c-1''),
           (role_label role, JStr '''')])]),
      (''spec'', JObj [(''podCIDR'', JStr cidr)]),
      (''status'', JObj [
        (''nodeInfo'', JObj [(''kubeletVersion'', JStr ''v1.33.2''),
           (''containerRuntimeVersion'', JStr ''containerd://2.1.3'')]),
        (''addresses'', JArr [JObj [(''type'', JStr ''InternalIP''), (''address'', JStr address)]]),
        (''conditions'', JArr [JObj [(''type'', JStr ''Ready''), (''status'', JStr ''True'')]])])]"

definition lab_response :: json where
  "lab_response = JObj [(''items'', JArr [
     JObj (lab_actual ''srv-a'' ''u-1'' ''control-plane'' ''10.244.0.0/24'' ''192.168.1.10''),
     JObj (lab_actual ''srv-b'' ''u-2'' ''worker'' ''10.244.1.0/24'' ''192.168.1.11'')])]"

lemma lab_subnets:
  "ipv4_network (JStr ''10.244.0.0/24'') c = Inr \<lparr>network_address = 0x0AF40000, prefixlen = 24\<rparr>"
  "ipv4_network (JStr ''10.244.1.0/24'') c = Inr \<lparr>network_address = 0x0AF40100, prefixlen = 24\<rparr>"
  by (simp_all add: ipv4_network_def ip_network_def parse_address_def lab_octets lab_masks
      netmask_def mask_eq_exp_minus_1)

lemma lab_indexed:
  "index_members c c' (map JObj lab_members) =
     Inr [(''srv-a'', hd lab_members), (''srv-b'', hd (tl lab_members))]"
  by (simp add: index_members_def lab_members_def lab_member_def member_record_def lookup_simps)

lemma lab_valid:
  "validate_node (lab_member name uid role) (lab_actual name uid role cidr a) (filled lab_spec) lab_plan
     = Inr ()" if "role = ''control-plane'' \<or> role = ''worker''"
  using that
  by (auto simp: validate_node_def lab_member_def member_record_def lab_actual_def lookup_simps
      lab_plan_def lab_spec_fields role_label_def is_ready_def)

lemma lab_verified: "verify_nodes (JObj lab_plan) lab_response = Inr lab_plan"
proof -
  have "dget lab_plan ''settings'' = JObj (filled lab_spec)"
    "dget lab_plan ''members'' = JArr (map JObj lab_members)"
    by (simp_all add: lab_plan_def lookup_simps)
  moreover have "hd lab_members = lab_member ''srv-a'' ''u-1'' ''control-plane''"
    "hd (tl lab_members) = lab_member ''srv-b'' ''u-2'' ''worker''"
    by (simp_all add: lab_members_def)
  moreover have "dget (lab_actual n u r c a) ''metadata'' = JObj [(''name'', JStr n),
        (''uid'', JStr (''node-'' @ u)), (''resourceVersion'', JStr ''7''),
        (''labels'', JObj [(''homelab.io/server-uid'', JStr u),
           (''homelab.io/kube-cluster-uid'', JStr ''c-1''), (role_label r, JStr '''')])]"
    "dget (lab_actual n u r c a) ''spec'' = JObj [(''podCIDR'', JStr c)]" for n u r c a
    by (simp_all add: lab_actual_def lookup_simps)
  ultimately show ?thesis
    by (simp add: verify_nodes_def lab_response_def lookup_simps lab_indexed verify_node_def
        lab_valid lab_spec_fields lab_pod lab_subnets subnet_of_def overlaps_def in_net_def
        broadcast_address_def netmask_def mask_eq_exp_minus_1)
qed

text \<open>
  C12: verification returns the plan it was given, and only when the response holds exactly one
  Node per member, under the member's Node name, each carrying the labels of its Server and of
  this lifetime of the cluster, the role, the planned kubelet and runtime versions and a true
  Ready condition, with Pod networks inside the cluster network and pairwise disjoint.
\<close>

theorem verify_nodes_sound:
  assumes "verify_nodes raw_plan raw_response = Inr p"
  shows "raw_plan = JObj p \<and>
    (\<exists>members nodes. dget p ''members'' = JArr members \<and>
       obj_field ''items'' raw_response = JArr nodes \<and> cluster_verified p members nodes)"
  by (rule verify_nodes_Inr [OF assms])

theorem verify_nodes_sound_witness:
  "\<exists>members nodes. dget lab_plan ''members'' = JArr members \<and>
     obj_field ''items'' lab_response = JArr nodes \<and> cluster_verified lab_plan members nodes"
  using verify_nodes_sound [OF lab_verified] by blast

section \<open>Registration\<close>

definition lab_request :: "string \<Rightarrow> jobject \<Rightarrow> json" where
  "lab_request role node =
     JObj [(''nodeName'', JStr ''srv-b''), (''serverUID'', JStr ''u-2''), (''role'', JStr role),
           (''address'', JStr ''192.168.1.11''), (''node'', JObj node)]"

definition lab_joined :: jobject where
  "lab_joined =
     [(''metadata'', JObj [(''name'', JStr ''srv-b''), (''uid'', JStr ''node-u-2''),
        (''resourceVersion'', JStr ''7''),
        (''labels'', JObj [(''zone'', JStr ''a''), (role_label ''control-plane'', JStr '''')])]),
      (''status'', JObj [
        (''addresses'', JArr [JObj [(''type'', JStr ''InternalIP''), (''address'', JStr ''192.168.1.11'')]])])]"

lemma lab_registration:
  "\<exists>r. registration_action (JObj lab_plan) (lab_request ''worker'' lab_joined) = Inr r \<and>
       dget r ''missing'' = JBool False"
proof -
  have "members_by_name (JObj lab_plan) =
      Inr [(''srv-a'', hd lab_members), (''srv-b'', hd (tl lab_members))]"
    by (simp add: members_by_name_def lab_plan_def lookup_simps lab_indexed)
  moreover have "hd (tl lab_members) = lab_member ''srv-b'' ''u-2'' ''worker''"
    by (simp add: lab_members_def)
  moreover have "dget lab_plan ''uid'' = JStr ''c-1''" by (simp add: lab_plan_def lookup_simps)
  ultimately show ?thesis
    by (simp add: registration_action_def lab_request_def lookup_simps lab_member_def
        member_record_def lab_joined_def desired_labels_def internal_values_def
        managed_label_patch_def opposite_label_def role_label_def)
qed

text \<open>
  C14: a Node that exists is registered only as the Server the request is for: it has the
  requested name and, as its only internal address, the requested one, and an ownership label
  it carries already names that Server and that lifetime of the cluster.
\<close>

theorem registration_never_adopts:
  assumes "registration_action (JObj plan) (JObj request) = Inr r"
    and "dget request ''node'' = JObj node" "node \<noteq> []"
  shows "\<exists>metadata labels server cluster.
    dget node ''metadata'' = JObj metadata \<and> dgetd metadata ''labels'' (JObj []) = JObj labels \<and>
    dget request ''serverUID'' = JStr server \<and> dget plan ''uid'' = JStr cluster \<and>
    py_eq (dget metadata ''name'') (dget request ''nodeName'') \<and>
    dget labels ''homelab.io/server-uid'' \<in> {JNull, JStr server} \<and>
    dget labels ''homelab.io/kube-cluster-uid'' \<in> {JNull, JStr cluster} \<and>
    (\<exists>addresses internal. obj_field ''addresses'' (dget node ''status'') = JArr addresses \<and>
       internal_values addresses = Inr internal \<and>
       py_eq (JArr internal) (JArr [dget request ''address'']))"
proof -
  from assms(1) show ?thesis
  proof (cases rule: registration_action_Inr)
    case (1 plan' request' members name member)
    with assms(2,3) obtain metadata labels desired where
      f: "dget node ''metadata'' = JObj metadata" "dgetd metadata ''labels'' (JObj []) = JObj labels"
        "py_eq (dget metadata ''name'') (JStr name)" "desired_labels plan member = Inr desired"
      and may: "may_register request node labels desired"
      by auto
    from f(4) obtain server cluster role where
      d: "dget member ''uid'' = JStr server" "dget plan ''uid'' = JStr cluster"
        "desired = [(''homelab.io/server-uid'', server), (''homelab.io/kube-cluster-uid'', cluster),
                    (role_label role, '''')]"
      by (auto simp: desired_labels_Inr)
    obtain status addresses internal where
      a: "dgetd node ''status'' (JObj []) = JObj status"
        "dgetd status ''addresses'' (JArr []) = JArr addresses"
        "internal_values addresses = Inr internal"
        "py_eq (JArr internal) (JArr [dget request ''address''])"
      using may by (auto simp: may_register_def)
    have "addresses \<noteq> []" using a(3,4) by (auto simp: internal_values_def)
    with a(1,2) have "obj_field ''addresses'' (dget node ''status'') = JArr addresses"
      by (auto simp: dgetd_def dget_def obj_field_def split: option.splits)
    moreover have "dget request ''serverUID'' = JStr server" using 1 d(1) by simp
    ultimately show ?thesis using f d 1 may a(3,4)
      by (auto simp: may_register_def)
  qed
qed

theorem registration_never_adopts_witness:
  "\<exists>metadata. dget lab_joined ''metadata'' = JObj metadata \<and>
     py_eq (dget metadata ''name'') (JStr ''srv-b'')"
proof -
  obtain r where "registration_action (JObj lab_plan) (lab_request ''worker'' lab_joined) = Inr r"
    using lab_registration by blast
  from registration_never_adopts [OF this [unfolded lab_request_def], of lab_joined]
  show ?thesis by (auto simp: lookup_simps lab_joined_def)
qed

text \<open>
  C13: the repair patch, applied by the API server to the Node as it then is, takes effect only
  on the very object the repair was computed from (same UID, and same labels or, when it had
  none, same version); the result carries the Server UID, the cluster UID and the role of the
  request, not the opposite role, and leaves every other label and everything else as it was.
\<close>

theorem repair_patch_guarded:
  assumes "registration_action (JObj plan) (JObj request) = Inr r"
    and "dget request ''node'' = JObj node" "node \<noteq> []" "dget node ''metadata'' = JObj seen"
    and "dget request ''role'' = JStr role" "role = ''control-plane'' \<or> role = ''worker''"
    and "map_of d ''metadata'' = Some (JObj cur)" "wf_obj seen" "wf_obj cur"
  shows "\<exists>ps. dget r ''labelPatch'' = JArr ps \<and>
    (if same_object seen cur
     then \<exists>l. apply_patch (JObj d) ps =
            Some (JObj (dput ''metadata'' (JObj (dput ''labels'' (JObj l) cur)) d)) \<and>
          map_of l ''homelab.io/server-uid'' = Some (dget request ''serverUID'') \<and>
          map_of l ''homelab.io/kube-cluster-uid'' = Some (dget plan ''uid'') \<and>
          (\<forall>k\<in>role_keys. map_of l k = (if k = role_label role then Some (JStr '''') else None)) \<and>
          (\<forall>k. k \<notin> insert ''homelab.io/server-uid'' (insert ''homelab.io/kube-cluster-uid'' role_keys)
             \<longrightarrow> map_of l k = map_of (current_labels seen cur) k)
     else apply_patch (JObj d) ps = None)"
proof -
  from assms(1) show ?thesis
  proof (cases rule: registration_action_Inr)
    case (1 plan' request' members name member)
    with assms(2-4) obtain desired ps where
      f: "desired_labels plan member = Inr desired"
        "managed_label_patch seen desired (opposite_label member) = Inr ps"
        "dget r ''labelPatch'' = JArr ps"
      by (auto simp: lookup_simps)
    have m: "dget member ''uid'' = dget request ''serverUID''" "dget member ''role'' = JStr role"
      using 1 assms(5) f(1) by (auto simp: desired_labels_Inr)
    then have role: "dget member ''role'' \<in> {JStr ''control-plane'', JStr ''worker''}"
      using assms(6) by auto
    note effect = managed_label_patch_applies [OF f(2) assms(7-9) opposite_label_fresh [OF f(1)]]
    show ?thesis
    proof (cases "same_object seen cur")
      case True
      with effect obtain l where
        "repaired (current_labels seen cur) desired (opposite_label member) l"
        "apply_patch (JObj d) ps = Some (with_labels d cur l)" by auto
      with repaired_labels [OF f(1) this(1) role] f(3) m True show ?thesis
        by (auto simp: with_labels_def)
    qed (use effect f(3) in simp)
  qed
qed

theorem repair_patch_guarded_witness:
  "\<exists>r seen ps l. registration_action (JObj lab_plan) (lab_request ''worker'' lab_joined) = Inr r \<and>
     dget lab_joined ''metadata'' = JObj seen \<and> dget r ''labelPatch'' = JArr ps \<and>
     apply_patch (JObj lab_joined) ps =
       Some (JObj (dput ''metadata'' (JObj (dput ''labels'' (JObj l) seen)) lab_joined)) \<and>
     map_of l (role_label ''control-plane'') = None"
proof -
  define seen where "seen = [(''name'', JStr ''srv-b''), (''uid'', JStr ''node-u-2''),
        (''resourceVersion'', JStr ''7''),
        (''labels'', JObj [(''zone'', JStr ''a''), (role_label ''control-plane'', JStr '''')])]"
  have seen: "dget lab_joined ''metadata'' = JObj seen" "map_of lab_joined ''metadata'' = Some (JObj seen)"
    "lab_joined \<noteq> []"
    by (simp_all add: lab_joined_def seen_def lookup_simps)
  have wf: "wf_obj seen" by (simp add: seen_def role_label_def)
  have same: "same_object seen seen"
    by (simp add: same_object_def seen_def lookup_simps py_eq_JObj role_label_def)
  obtain r where r: "registration_action (JObj lab_plan) (lab_request ''worker'' lab_joined) = Inr r"
    using lab_registration by blast
  from repair_patch_guarded [OF r [unfolded lab_request_def], of lab_joined seen "''worker''" lab_joined seen]
    seen wf same r
  show ?thesis
    by (auto simp: lookup_simps role_keys_def role_label_def)
qed


lemma lab_actual_fields:
  "dget (lab_actual n u r c a) ''metadata'' = JObj [(''name'', JStr n),
     (''uid'', JStr (''node-'' @ u)), (''resourceVersion'', JStr ''7''),
     (''labels'', JObj [(''homelab.io/server-uid'', JStr u),
        (''homelab.io/kube-cluster-uid'', JStr ''c-1''), (role_label r, JStr '''')])]"
  by (simp add: lab_actual_def lookup_simps)

lemma lab_observed:
  "observe_node lab_plan (lab_member n u r) (lab_actual n u r c a) = Inr (False, False)"
  if "u \<noteq> []" "r = ''control-plane'' \<or> r = ''worker''"
  using that
  by (auto simp: observe_node_def lab_actual_def lab_member_def member_record_def lookup_simps
      desired_labels_def lab_plan_def is_ready_def role_label_def)

lemma lab_membership:
  defines "a \<equiv> lab_actual ''srv-a'' ''u-1'' ''control-plane'' ''10.244.0.0/24'' ''192.168.1.10''"
    and "b \<equiv> lab_actual ''srv-b'' ''u-2'' ''worker'' ''10.244.1.0/24'' ''192.168.1.11''"
  shows "members_by_name (JObj lab_plan) =
      Inr [(''srv-a'', hd lab_members), (''srv-b'', hd (tl lab_members))]"
    and "index_actual [JObj a, JObj b] = Inr [(''srv-a'', a), (''srv-b'', b)]"
    and "membership_observation (JObj lab_plan) (JObj [(''items'', JArr [JObj a, JObj b])]) =
     Inr [(''ready'', JBool True), (''missingMembers'', JArr []), (''notReadyMembers'', JArr []),
          (''unexpectedNodes'', JArr []), (''identityConflicts'', JArr [])]"
proof -
  show m: "members_by_name (JObj lab_plan) =
      Inr [(''srv-a'', hd lab_members), (''srv-b'', hd (tl lab_members))]"
    by (simp add: members_by_name_def lab_plan_def lookup_simps lab_indexed)
  show i: "index_actual [JObj a, JObj b] = Inr [(''srv-a'', a), (''srv-b'', b)]"
    by (simp add: index_actual_def a_def b_def lab_actual_fields lookup_simps)
  have "hd lab_members = lab_member ''srv-a'' ''u-1'' ''control-plane''"
    "hd (tl lab_members) = lab_member ''srv-b'' ''u-2'' ''worker''"
    by (simp_all add: lab_members_def)
  moreover have "sort [''srv-a'', ''srv-b''] = [''srv-a'', ''srv-b'']" by code_simp
  ultimately show "membership_observation (JObj lab_plan) (JObj [(''items'', JArr [JObj a, JObj b])]) =
     Inr [(''ready'', JBool True), (''missingMembers'', JArr []), (''notReadyMembers'', JArr []),
          (''unexpectedNodes'', JArr []), (''identityConflicts'', JArr [])]"
    using m i by (simp add: membership_observation_def lookup_simps a_def b_def lab_observed)
qed


section \<open>One host\<close>

text \<open>
  C17: a plan passes the check against the facts of a host only when every IPv4 network recorded
  for a listed interface is disjoint from the Pod and Service networks, or belongs to a managed
  Pod interface, inside the Pod network, on a host that already has the managed network.
\<close>

theorem host_network_disjoint:
  assumes "validate_host_network raw_plan (JObj facts) = Inr plan"
    and "dget facts ''interfaces'' = JArr interfaces" "JStr i \<in> set interfaces"
    and "interface_has facts i address"
  shows "\<exists>settings pod service net.
    raw_plan = JObj plan \<and> dget plan ''settings'' = JObj settings \<and>
    ipv4_network (dget settings ''podCIDR'') ''podCIDR'' = Inr pod \<and>
    ipv4_network (dget settings ''serviceCIDR'') ''serviceCIDR'' = Inr service \<and>
    connected_network address = Inr net \<and>
    (addrs net \<inter> (addrs pod \<union> addrs service) = {} \<or>
     dget plan ''allowManagedCNI'' = JBool True \<and> i \<in> {''cni0'', ''flannel.1''} \<and>
     addrs net \<subseteq> addrs pod)"
  using assms(1)
proof (cases rule: validate_host_network_Inr)
  case (1 settings facts' interfaces' pod service)
  with assms have "\<exists>n. connected_network address = Inr n \<and>
    (cni_exempt plan i n pod \<or> addrs n \<inter> addrs pod = {} \<and> addrs n \<inter> addrs service = {})"
    by simp
  then obtain net where "connected_network address = Inr net"
    "cni_exempt plan i net pod \<or> addrs net \<inter> addrs pod = {} \<and> addrs net \<inter> addrs service = {}"
    by blast
  with 1 show ?thesis unfolding cni_exempt_def Int_Un_distrib by (simp only: Un_empty) blast
qed

definition lab_facts :: jobject where
  "lab_facts =
     [(''interfaces'', JArr [JStr ''eth0'', JStr ''lo'']),
      (''eth0'', JObj [(''ipv4'', JObj [(''address'', JStr ''10.10.1.10''),
                                      (''netmask'', JStr ''24'')])])]"

lemma lab_network:
  "connected_network (JObj [(''address'', JStr ''10.10.1.10''), (''netmask'', JStr ''24'')]) =
     Inr \<lparr>network_address = 0x0A0A0100, prefixlen = 24\<rparr>"
  by (simp add: connected_network_def lookup_simps ip_network_def parse_address_def lab_octets
      lab_masks netmask_def mask_eq_exp_minus_1)

lemma lab_host: "validate_host_network (JObj lab_plan) (JObj lab_facts) = Inr lab_plan"
proof -
  have "dget lab_plan ''settings'' = JObj (filled lab_spec)" "dget lab_plan ''allowManagedCNI'' = JNull"
    by (simp_all add: lab_plan_def lookup_simps)
  then show ?thesis
    by (simp add: validate_host_network_def lab_facts_def lookup_simps lab_spec_fields lab_pod
        lab_service check_interface_def interface_addresses_def check_connected_def lab_network
        overlaps_def in_net_def broadcast_address_def netmask_def mask_eq_exp_minus_1)
qed

theorem host_network_disjoint_witness:
  "\<exists>net. connected_network (JObj [(''address'', JStr ''10.10.1.10''), (''netmask'', JStr ''24'')]) = Inr net \<and>
     addrs net \<inter> addrs \<lparr>network_address = 0x0AF40000, prefixlen = 16\<rparr> = {}"
proof -
  have f: "dget lab_facts ''interfaces'' = JArr [JStr ''eth0'', JStr ''lo'']"
    "interface_has lab_facts ''eth0''
      (JObj [(''address'', JStr ''10.10.1.10''), (''netmask'', JStr ''24'')])"
    "JStr ''eth0'' \<in> set [JStr ''eth0'', JStr ''lo'']"
    by (simp_all add: interface_has_def lab_facts_def lookup_simps)
  have p: "dget lab_plan ''settings'' = JObj (filled lab_spec)"
    "dget (filled lab_spec) ''podCIDR'' = JStr ''10.244.0.0/16''"
    "dget lab_plan ''allowManagedCNI'' \<noteq> JBool True"
    by (simp add: lab_plan_def lookup_simps, rule lab_spec_fields, simp add: lab_plan_def lookup_simps)
  show ?thesis
    using host_network_disjoint [OF lab_host f(1,3,2)] p(3) lab_pod unfolding p(1) by (auto simp: p(2))
qed

text \<open>
  The binaries to replace are the destinations of exactly the inspections that found no
  file or another checksum than the verified artifact, in the order of the inspections.
\<close>

theorem changed_binaries_exact:
  assumes "changed_binaries (JArr inspections) = Inr out"
  shows "out = [(''paths'', JArr (map binary_dest (filter binary_differs inspections)))] \<and>
    (\<forall>r\<in>set inspections. binary_differs r \<longrightarrow> (\<exists>path. binary_dest r = JStr path \<and> path \<noteq> []))"
proof -
  have "foldM changed_binary c xs = Inr d \<Longrightarrow> r \<in> set xs \<Longrightarrow> binary_differs r \<Longrightarrow>
      \<exists>path. binary_dest r = JStr path \<and> path \<noteq> []" for c d xs r
  proof (induction xs arbitrary: c)
    case (Cons x xs)
    then show ?case
      by (auto simp: bind_eq_Inr) (auto simp: changed_binary_def exn_simps binary_differs_def
          binary_dest_def split: if_splits)
  qed simp
  with assms changed_binaries_Inr [OF assms] show ?thesis
    by (fastforce simp: changed_binaries_def exn_simps)
qed

definition lab_inspection :: "string \<Rightarrow> json \<Rightarrow> json" where
  "lab_inspection dest actual =
     JObj [(''stat'', actual),
           (''item'', JObj [(''stat'', JObj [(''checksum'', JStr ''aa'')]),
                            (''item'', JObj [(''dest'', JStr dest)])])]"

theorem changed_binaries_exact_witness:
  "changed_binaries (JArr [lab_inspection ''/a'' (JObj [(''exists'', JBool True), (''checksum'', JStr ''aa'')]),
                           lab_inspection ''/b'' (JObj [(''exists'', JBool False)])]) =
     Inr [(''paths'', JArr [JStr ''/b''])]"
proof -
  obtain out where "changed_binaries (JArr [lab_inspection ''/a''
      (JObj [(''exists'', JBool True), (''checksum'', JStr ''aa'')]),
      lab_inspection ''/b'' (JObj [(''exists'', JBool False)])]) = Inr out"
    by (simp add: changed_binaries_def changed_binary_def lab_inspection_def lookup_simps)
  moreover from changed_binaries_exact [OF this]
  have "out = [(''paths'', JArr [JStr ''/b''])]"
    by (simp add: binary_differs_def lab_inspection_def lookup_simps binary_dest_def)
  ultimately show ?thesis by simp
qed

text \<open>
  C19: a protected installation is reused only when its manifest names the eleven reviewed
  paths and nothing else, each with a lowercase SHA-256 digest; the result lists them in the
  reviewed order with those digests.
\<close>

theorem installed_artifacts_reviewed:
  assumes "installed_artifacts (JObj identity) = Inr out"
  shows "\<exists>files results. dget identity ''files'' = JObj files \<and>
    fst ` set files = fst ` set reviewed_components \<and> out = [(''files'', JArr results)] \<and>
    list_all2 (\<lambda>pc r. \<exists>digest. map_of files (fst pc) = Some (JStr digest) \<and> sha256_text digest \<and>
       r = JObj [(''item'', JObj [(''dest'', JStr (fst pc)), (''component'', JStr (snd pc))]),
                 (''stat'', JObj [(''checksum'', JStr digest)])]) reviewed_components results"
  using assms by (cases rule: installed_artifacts_Inr) auto

definition lab_identity :: jobject where
  "lab_identity =
     [(''files'', JObj (map (\<lambda>(path, _). (path, JStr (replicate 64 (CHR ''0'')))) reviewed_components))]"

lemma lab_artifacts: "\<exists>out. installed_artifacts (JObj lab_identity) = Inr out"
proof -
  define files where
    "files = map (\<lambda>(path, _). (path, JStr (replicate 64 (CHR ''0'')))) reviewed_components"
  have digest: "sha256_text (replicate 64 (CHR ''0''))" by (simp add: sha256_text_def is_dec_def)
  have keys: "fst ` set files = fst ` set reviewed_components" unfolding files_def by force
  have "\<exists>r. installed_artifact files pc = Inr r" if "pc \<in> set reviewed_components" for pc
    unfolding installed_artifact_Inr files_def using that digest
    by (auto simp: reviewed_components_def)
  then obtain rs where "mapM (installed_artifact files) reviewed_components = Inr rs"
    using mapM_returns [of reviewed_components "installed_artifact files"] by blast
  with keys show ?thesis
    by (simp add: installed_artifacts_def lab_identity_def lookup_simps flip: files_def)
qed

theorem installed_artifacts_reviewed_witness:
  "\<exists>files results. dget lab_identity ''files'' = JObj files \<and> length results = 11 \<and>
     installed_artifacts (JObj lab_identity) = Inr [(''files'', JArr results)]"
proof -
  obtain out where out: "installed_artifacts (JObj lab_identity) = Inr out"
    using lab_artifacts by blast
  from installed_artifacts_reviewed [OF out] obtain files results where
    "dget lab_identity ''files'' = JObj files" "out = [(''files'', JArr results)]"
    "length reviewed_components = length results"
    by (blast dest: list_all2_lengthD)
  with out show ?thesis by (auto simp: reviewed_components_def)
qed

end
