(* ===== verification/Codec.thy ===== *)
theory Codec
  imports PyStr "HOL-Library.Word"
begin

unbundle bit_operations_syntax

text \<open>
  The byte-level parts of the Python standard library that \<open>operators/common.py\<close> relies on for
  host identities: Base64 in both directions (\<open>base64.b64encode\<close>, strict
  \<open>base64.b64decode\<close>) and SHA-256 (\<open>hashlib.sha256\<close>). A byte is a character.
\<close>

section \<open>Base64\<close>

text \<open>The alphabet: upper case, lower case, digits, plus and slash.\<close>

definition b64_char :: "nat \<Rightarrow> char" where
  "b64_char n =
     char_of (if n < 26 then n + 65 else if n < 52 then n + 71 else if n < 62 then n - 4
              else if n = 62 then 43 else 47)"

definition b64_value :: "char \<Rightarrow> nat option" where
  "b64_value c =
     (let n = code_point c in
      if 65 \<le> n \<and> n \<le> 90 then Some (n - 65)
      else if 97 \<le> n \<and> n \<le> 122 then Some (n - 71)
      else if 48 \<le> n \<and> n \<le> 57 then Some (n + 4)
      else if n = 43 then Some 62
      else if n = 47 then Some 63
      else None)"

fun b64encode :: "string \<Rightarrow> string" where
  "b64encode [] = []"
| "b64encode [a] =
     [b64_char (code_point a div 4), b64_char (16 * (code_point a mod 4)), CHR ''='', CHR ''='']"
| "b64encode [a, b] =
     [b64_char (code_point a div 4), b64_char (16 * (code_point a mod 4) + code_point b div 16),
      b64_char (4 * (code_point b mod 16)), CHR ''='']"
| "b64encode (a # b # c # s) =
     b64_char (code_point a div 4) #
     b64_char (16 * (code_point a mod 4) + code_point b div 16) #
     b64_char (4 * (code_point b mod 16) + code_point c div 64) #
     b64_char (code_point c mod 64) # b64encode s"

text \<open>
  Strict decoding: groups of four characters of the alphabet; only the last group may end in
  padding, and nothing may follow it.
\<close>

fun b64decode :: "string \<Rightarrow> string option" where
  "b64decode [] = Some []"
| "b64decode (w # x # y # z # s) =
     (case (b64_value w, b64_value x) of
        (Some i, Some j) \<Rightarrow>
          if y = CHR ''='' \<and> z = CHR ''='' \<and> s = [] then Some [char_of (4 * i + j div 16)]
          else
          (case b64_value y of
             None \<Rightarrow> None
           | Some k \<Rightarrow>
               if z = CHR ''='' \<and> s = []
               then Some [char_of (4 * i + j div 16), char_of (16 * (j mod 16) + k div 4)]
               else
               (case (b64_value z, b64decode s) of
                  (Some l, Some r) \<Rightarrow>
                    Some (char_of (4 * i + j div 16) # char_of (16 * (j mod 16) + k div 4) #
                          char_of (64 * (k mod 4) + l) # r)
                | _ \<Rightarrow> None))
      | _ \<Rightarrow> None)"
| "b64decode _ = None"

lemma b64_value_char [simp]: "n < 64 \<Longrightarrow> b64_value (b64_char n) = Some n"
  unfolding b64_value_def b64_char_def Let_def by (simp split: if_split) presburger

lemma b64_char_not_pad [simp]: "n < 64 \<Longrightarrow> b64_char n \<noteq> CHR ''=''"
  using b64_value_char [of n] by (auto simp: b64_value_def)

lemma code_point_less [simp]: "code_point c < 256"
  using of_char_mod_256 [of c] by (metis mod_less_divisor zero_less_numeral)

lemma byte_div:
  "code_point c div 4 < 64" "code_point c div 16 < 16" "code_point c div 64 < 4"
  using code_point_less [of c] by (simp_all add: div_less_iff_less_mult)

lemma b64_parts [simp]:
  "code_point a div 4 < 64" "16 * (code_point a mod 4) < 64"
  "16 * (code_point a mod 4) + code_point b div 16 < 64" "4 * (code_point b mod 16) < 64"
  "4 * (code_point b mod 16) + code_point c div 64 < 64" "code_point c mod 64 < 64"
proof -
  have "code_point a mod 4 < 4" "code_point b mod 16 < 16" "code_point c mod 64 < 64" by simp_all
  with byte_div [of a] byte_div [of b] byte_div [of c]
  show "code_point a div 4 < 64" "16 * (code_point a mod 4) < 64"
    "16 * (code_point a mod 4) + code_point b div 16 < 64" "4 * (code_point b mod 16) < 64"
    "4 * (code_point b mod 16) + code_point c div 64 < 64" "code_point c mod 64 < 64"
    by linarith+
qed

lemma b64_join [simp]:
  "code_point b div 16 div 16 = 0" "code_point b div 16 mod 16 = code_point b div 16"
  "code_point c div 64 div 4 = 0" "code_point c div 64 mod 4 = code_point c div 64"
  "16 * (code_point b div 16) + code_point b mod 16 = code_point b"
  "64 * (code_point b div 64) + code_point b mod 64 = code_point b"
  using byte_div [of b] byte_div [of c] by simp_all

lemma b64decode_encode [simp]: "b64decode (b64encode s) = Some s"
  by (induction s rule: b64encode.induct) simp_all

section \<open>SHA-256\<close>

text \<open>The first 32 bits of the fractions of the cube roots of the first 64 primes, in decimal.\<close>

definition sha_k :: "32 word list" where
  "sha_k =
     [1116352408, 1899447441, 3049323471, 3921009573, 961987163, 1508970993, 2453635748,
      2870763221, 3624381080, 310598401, 607225278, 1426881987, 1925078388, 2162078206,
      2614888103, 3248222580, 3835390401, 4022224774, 264347078, 604807628, 770255983,
      1249150122, 1555081692, 1996064986, 2554220882, 2821834349, 2952996808, 3210313671,
      3336571891, 3584528711, 113926993, 338241895, 666307205, 773529912, 1294757372,
      1396182291, 1695183700, 1986661051, 2177026350, 2456956037, 2730485921, 2820302411,
      3259730800, 3345764771, 3516065817, 3600352804, 4094571909, 275423344, 430227734,
      506948616, 659060556, 883997877, 958139571, 1322822218, 1537002063, 1747873779,
      1955562222, 2024104815, 2227730452, 2361852424, 2428436474, 2756734187, 3204031479,
      3329325298]"

text \<open>The first 32 bits of the fractions of the square roots of the first 8 primes.\<close>

definition sha_init :: "32 word list" where
  "sha_init =
     [1779033703, 3144134277, 1013904242, 2773480762, 1359893119, 2600822924, 528734635,
      1541459225]"

definition rotr :: "nat \<Rightarrow> 32 word \<Rightarrow> 32 word" where
  "rotr n x = word_rotr n x"

definition ssig0 :: "32 word \<Rightarrow> 32 word" where
  "ssig0 x = rotr 7 x XOR rotr 18 x XOR drop_bit 3 x"

definition ssig1 :: "32 word \<Rightarrow> 32 word" where
  "ssig1 x = rotr 17 x XOR rotr 19 x XOR drop_bit 10 x"

definition bsig0 :: "32 word \<Rightarrow> 32 word" where
  "bsig0 x = rotr 2 x XOR rotr 13 x XOR rotr 22 x"

definition bsig1 :: "32 word \<Rightarrow> 32 word" where
  "bsig1 x = rotr 6 x XOR rotr 11 x XOR rotr 25 x"

text \<open>The message schedule, newest word first.\<close>

fun sha_extend :: "nat \<Rightarrow> 32 word list \<Rightarrow> 32 word list" where
  "sha_extend 0 ws = ws"
| "sha_extend (Suc n) ws =
     sha_extend n ((ssig1 (ws ! 1) + ws ! 6 + ssig0 (ws ! 14) + ws ! 15) # ws)"

fun sha_round :: "32 word list \<Rightarrow> 32 word \<times> 32 word \<Rightarrow> 32 word list" where
  "sha_round [a, b, c, d, e, f, g, h] (k, w) =
     (let t1 = h + bsig1 e + ((e AND f) XOR (NOT e AND g)) + k + w;
          t2 = bsig0 a + ((a AND b) XOR (a AND c) XOR (b AND c))
      in [t1 + t2, a, b, c, d + t1, e, f, g])"
| "sha_round st _ = st"

definition sha_block :: "32 word list \<Rightarrow> 32 word list \<Rightarrow> 32 word list" where
  "sha_block st block =
     map2 (+) st (foldl sha_round st (zip sha_k (rev (sha_extend 48 (rev block)))))"

fun be_words :: "string \<Rightarrow> 32 word list" where
  "be_words (a # b # c # d # s) =
     of_nat (code_point a * 2 ^ 24 + code_point b * 2 ^ 16 + code_point c * 2 ^ 8 + code_point d) #
     be_words s"
| "be_words _ = []"

definition be_bytes :: "nat \<Rightarrow> nat \<Rightarrow> string" where
  "be_bytes n v = map (\<lambda>i. char_of (v div 256 ^ i)) (rev [0..<n])"

definition sha_pad :: "string \<Rightarrow> string" where
  "sha_pad s =
     s @ char_of (128 :: nat) # replicate ((119 - length s mod 64) mod 64) (char_of (0 :: nat)) @
     be_bytes 8 (8 * length s)"

function sha_blocks :: "32 word list \<Rightarrow> 32 word list \<Rightarrow> 32 word list" where
  "sha_blocks st ws = (if ws = [] then st else sha_blocks (sha_block st (take 16 ws)) (drop 16 ws))"
  by pat_completeness auto
termination by (relation "measure (length \<circ> snd)") auto

declare sha_blocks.simps [simp del]

definition sha256 :: "string \<Rightarrow> string" where
  "sha256 s = concat (map (be_bytes 4 \<circ> unat) (sha_blocks sha_init (be_words (sha_pad s))))"

text \<open>\<open>hexdigest\<close>\<close>

definition hex_digit :: "nat \<Rightarrow> char" where
  "hex_digit n = char_of (if n < 10 then n + 48 else n + 87)"

definition hexdigest :: "string \<Rightarrow> string" where
  "hexdigest s = concat (map (\<lambda>c. [hex_digit (code_point c div 16), hex_digit (code_point c mod 16)]) s)"

lemma sha_round_length [simp]: "length st = 8 \<Longrightarrow> length (sha_round st kw) = 8"
  by (cases "(st, kw)" rule: sha_round.cases) (auto simp: Let_def)

lemma sha_rounds_length [simp]: "length st = 8 \<Longrightarrow> length (foldl sha_round st kws) = 8"
  by (induction kws arbitrary: st) auto

lemma sha_block_length [simp]: "length st = 8 \<Longrightarrow> length (sha_block st ws) = 8"
  by (simp add: sha_block_def)

lemma sha_blocks_length: "length st = 8 \<Longrightarrow> length (sha_blocks st ws) = 8"
  by (induction st ws rule: sha_blocks.induct) (subst sha_blocks.simps, simp)

lemma sha256_length: "length (sha256 s) = 32"
proof -
  have "length (sha_blocks sha_init ws) = 8" for ws
    by (rule sha_blocks_length) (simp add: sha_init_def)
  then show ?thesis
    by (simp add: sha256_def length_concat comp_def be_bytes_def sum_list_triv)
qed

lemma hexdigest_length [simp]: "length (hexdigest s) = 2 * length s"
  by (induction s) (simp_all add: hexdigest_def)

end
