(* ===== verification/Address.thy ===== *)
theory Address
  imports Ipv4 Json
begin

text \<open>
  Literal management addresses: \<open>ipaddress.ip_address\<close> on text and integers and the canonical
  text of its result (Python 3.12), as \<open>address\<close> of \<open>operators/common.py\<close> uses them.
\<close>

section \<open>Numerals\<close>

fun digits_of :: "nat \<Rightarrow> nat \<Rightarrow> nat list" where
  "digits_of b n = (if n < b \<or> b < 2 then [n] else digits_of b (n div b) @ [n mod b])"

declare digits_of.simps [simp del]

definition digit_char :: "nat \<Rightarrow> char" where
  "digit_char n = char_of (if n < 10 then n + 48 else n + 87)"

definition dec_text :: "nat \<Rightarrow> string" where
  "dec_text n = map digit_char (digits_of 10 n)"

text \<open>The same on integers, for evaluation.\<close>

function int_digits :: "int \<Rightarrow> string" where
  "int_digits i = (if i < 10 then [digit_char (nat i)]
     else int_digits (i div 10) @ [digit_char (nat (i mod 10))])"
  by pat_completeness auto
termination by (relation "measure nat") auto

declare int_digits.simps [simp del]

lemma dec_text_int: "dec_text n = int_digits (int n)"
proof (induction n rule: less_induct)
  case (less n)
  show ?case
  proof (cases "n < 10")
    case False
    then have "dec_text (n div 10) = int_digits (int n div 10)" using less [of "n div 10"] by (simp add: zdiv_int)
    with False show ?thesis
      unfolding dec_text_def by (subst digits_of.simps, subst int_digits.simps) (simp add: nat_mod_distrib dec_text_def)
  qed (simp add: dec_text_def digits_of.simps int_digits.simps)
qed

definition hex_text :: "nat \<Rightarrow> string" where
  "hex_text n = map digit_char (digits_of 16 n)"

section \<open>IPv4 text\<close>

definition ipv4_text :: "nat \<Rightarrow> string" where
  "ipv4_text n =
     join ''.'' (map (\<lambda>i. dec_text (n div 256 ^ i mod 256)) [3, 2, 1, 0])"

section \<open>IPv6 text\<close>

definition hex_value :: "char \<Rightarrow> nat option" where
  "hex_value c =
     (let n = code_point c in
      if 48 \<le> n \<and> n \<le> 57 then Some (n - 48)
      else if 97 \<le> n \<and> n \<le> 102 then Some (n - 87)
      else if 65 \<le> n \<and> n \<le> 70 then Some (n - 55)
      else None)"

text \<open>A hextet: one to four hexadecimal digits.\<close>

definition parse_hextet :: "string \<Rightarrow> nat option" where
  "parse_hextet s =
     (if s = [] \<or> 4 < length s \<or> list_ex (\<lambda>c. hex_value c = None) s then None
      else Some (foldl (\<lambda>n c. 16 * n + the (hex_value c)) 0 s))"

fun option_all :: "'a option list \<Rightarrow> 'a list option" where
  "option_all [] = Some []"
| "option_all (None # xs) = None"
| "option_all (Some x # xs) = map_option ((#) x) (option_all xs)"

text \<open>A trailing dotted quad stands for the last two hextets.\<close>

definition expand_quad :: "string list \<Rightarrow> string list option" where
  "expand_quad parts =
     (if CHR ''.'' \<in> set (last parts)
      then (case parse_address (last parts) of
              Inl e \<Rightarrow> None
            | Inr w \<Rightarrow> Some (butlast parts @ [hex_text (unat w div 65536), hex_text (unat w mod 65536)]))
      else Some parts)"

text \<open>The position of the only empty part between the first and the last one, if any.\<close>

definition inner_gaps :: "string list \<Rightarrow> nat list" where
  "inner_gaps parts = filter (\<lambda>i. parts ! i = []) [1..<length parts - 1]"

text \<open>The hextets before and after the gap and the number of zeros it stands for.\<close>

definition hextet_parts :: "string list \<Rightarrow> (string list \<times> nat \<times> string list) option" where
  "hextet_parts parts =
     (case inner_gaps parts of
        [] \<Rightarrow>
          if length parts \<noteq> 8 \<or> hd parts = [] \<or> last parts = [] then None
          else Some (parts, 0, [])
      | [i] \<Rightarrow>
          let hi = (if hd parts = [] then i - 1 else i);
              lo = (if last parts = [] then length parts - i - 2 else length parts - i - 1)
          in if hd parts = [] \<and> hi \<noteq> 0 \<or> last parts = [] \<and> lo \<noteq> 0 \<or> 8 \<le> hi + lo then None
             else Some (take hi parts, 8 - (hi + lo), drop (length parts - lo) parts)
      | _ \<Rightarrow> None)"

definition parse_ipv6 :: "string \<Rightarrow> nat option" where
  "parse_ipv6 s =
     (let parts = split_on (CHR '':'') s in
      if s = [] \<or> length parts < 3 then None else
      Option.bind (expand_quad parts) (\<lambda>parts.
      if 9 < length parts then None else
      Option.bind (hextet_parts parts) (\<lambda>(hi, zeros, lo).
      Option.bind (option_all (map parse_hextet hi)) (\<lambda>his.
      Option.bind (option_all (map parse_hextet lo)) (\<lambda>los.
        Some (foldl (\<lambda>n h. 65536 * n + h) 0 (his @ replicate zeros 0 @ los)))))))"

text \<open>The longest run of zero hextets (the first of them) of more than one: start and length.\<close>

fun zero_runs :: "nat \<Rightarrow> nat list \<Rightarrow> (nat \<times> nat) list" where
  "zero_runs i [] = []"
| "zero_runs i (h # hs) =
     (if h = 0 then (i, Suc (length (takeWhile (\<lambda>x. x = 0) hs))) # zero_runs (Suc i) hs
      else zero_runs (Suc i) hs)"

definition longest_run :: "nat list \<Rightarrow> (nat \<times> nat) option" where
  "longest_run hs =
     foldl (\<lambda>best r. if snd r > (case best of None \<Rightarrow> 1 | Some b \<Rightarrow> snd b) then Some r else best)
       None (zero_runs 0 hs)"

definition hextets :: "nat \<Rightarrow> nat list" where
  "hextets n = map (\<lambda>i. n div 65536 ^ i mod 65536) (rev [0..<8])"

definition ipv6_text :: "nat \<Rightarrow> string" where
  "ipv6_text n =
     (let hs = hextets n in
      case longest_run hs of
        None \<Rightarrow> join '':'' (map hex_text hs)
      | Some (i, k) \<Rightarrow>
          join '':'' (map hex_text (take i hs)) @ ''::'' @ join '':'' (map hex_text (drop (i + k) hs)))"

section \<open>Addresses\<close>

text \<open>An IPv6 scope: the text after a single percent sign.\<close>

definition split_scope :: "string \<Rightarrow> (string \<times> string) option" where
  "split_scope s =
     (case split_on (CHR ''%'') s of
        [a] \<Rightarrow> Some (a, [])
      | [a, scope] \<Rightarrow> if scope = [] then None else Some (a, CHR ''%'' # scope)
      | _ \<Rightarrow> None)"

definition ip_address :: "string \<Rightarrow> exn + string" where
  "ip_address s =
     (case parse_address s of
        Inr w \<Rightarrow> Inr (ipv4_text (unat w))
      | Inl _ \<Rightarrow>
          (case (if CHR ''/'' \<in> set s then None else split_scope s) of
             None \<Rightarrow> Inl (LibError ''ip_address'')
           | Some (a, scope) \<Rightarrow>
               (case parse_ipv6 a of
                  None \<Rightarrow> Inl (LibError ''ip_address'')
                | Some n \<Rightarrow> Inr (ipv6_text n @ scope))))"

definition ipv4_text_int :: "int => string" where
  "ipv4_text_int i = join ''.'' (map (\<lambda>k. dec_text (nat (i div 256 ^ k mod 256))) [3, 2, 1, 0])"

lemma ip_address_code [code]: "ip_address s =
     (case parse_address s of
        Inr w \<Rightarrow> Inr (ipv4_text_int (uint w))
      | Inl _ \<Rightarrow>
          (case (if CHR ''/'' \<in> set s then None else split_scope s) of
             None \<Rightarrow> Inl (LibError ''ip_address'')
           | Some (a, scope) \<Rightarrow>
               (case parse_ipv6 a of
                  None \<Rightarrow> Inl (LibError ''ip_address'')
                | Some n \<Rightarrow> Inr (ipv6_text n @ scope))))"
proof -
  have "ipv4_text (nat i) = ipv4_text_int i" if "0 \<le> i" for i
    using that by (simp add: ipv4_text_def ipv4_text_int_def nat_div_distrib nat_mod_distrib nat_power_eq)
  from this [of "uint w" for w] have "ipv4_text (unat w) = ipv4_text_int (uint w)" for w :: "32 word" by simp
  then show ?thesis by (simp only: ip_address_def)
qed

text \<open>\<open>str(ipaddress.ip_address(value))\<close> on any JSON value: an integer is an address number.\<close>

definition address_number :: "int \<Rightarrow> exn + string" where
  "address_number i =
     (if 0 \<le> i \<and> i < 2 ^ 32 then Inr (ipv4_text (nat i))
      else if 0 \<le> i \<and> i < 2 ^ 128 then Inr (ipv6_text (nat i))
      else Inl (LibError ''ip_address''))"

fun address :: "json \<Rightarrow> exn + string" where
  "address (JStr s) = ip_address s"
| "address (JInt i) = address_number i"
| "address (JBool b) = address_number (if b then 1 else 0)"
| "address _ = Inl (LibError ''ip_address'')"

end
