(* ===== verification/JsonText.thy ===== *)
theory JsonText
  imports Json Codec Address
begin

text \<open>
  Text the operators hand to other programs: serialised JSON (\<open>json.dumps\<close>), shell words
  (\<open>shlex.quote\<close>, \<open>shlex.join\<close>) and lines. The text of a floating-point number is a parameter
  \<open>float_text\<close>; everything else is computed.
\<close>

section \<open>Serialised JSON\<close>

definition hex4 :: "nat \<Rightarrow> string" where
  "hex4 n = map (\<lambda>i. hex_digit (n div 16 ^ i mod 16)) [3, 2, 1, 0]"

definition json_char :: "char \<Rightarrow> string" where
  "json_char c =
     (let n = code_point c in
      if n = 34 then [CHR 0x5C, CHR 0x22]
      else if n = 92 then [CHR 0x5C, CHR 0x5C]
      else if n = 10 then [CHR 0x5C, CHR ''n'']
      else if n = 13 then [CHR 0x5C, CHR ''r'']
      else if n = 9 then [CHR 0x5C, CHR ''t'']
      else if n = 12 then [CHR 0x5C, CHR ''f'']
      else if n = 8 then [CHR 0x5C, CHR ''b'']
      else if 32 \<le> n \<and> n \<le> 126 then [c]
      else [CHR 0x5C, CHR ''u''] @ hex4 n)"

definition json_string_text :: "string \<Rightarrow> string" where
  "json_string_text s = [CHR 0x22] @ concat (map json_char s) @ [CHR 0x22]"

definition int_text :: "int \<Rightarrow> string" where
  "int_text i = (if i < 0 then CHR ''-'' # dec_text (nat (- i)) else dec_text (nat i))"

lemma int_text_code [code]: "int_text i = (if i < 0 then CHR ''-'' # int_digits (- i) else int_digits i)"
  by (simp add: int_text_def dec_text_int)

text \<open>The separators between items and after a key, and whether keys are sorted.\<close>

record style =
  item_separator :: string
  key_separator :: string
  sort_keys :: bool

definition default_style :: style where
  "default_style = \<lparr>item_separator = '', '', key_separator = '': '', sort_keys = False\<rparr>"

definition canonical_style :: style where
  "canonical_style = \<lparr>item_separator = '','', key_separator = '':'', sort_keys = True\<rparr>"

definition in_order :: "style \<Rightarrow> (string \<times> string) list \<Rightarrow> (string \<times> string) list" where
  "in_order st kvs = (if sort_keys st then sort_key fst kvs else kvs)"

function dumps :: "(rat \<Rightarrow> string) \<Rightarrow> style \<Rightarrow> json \<Rightarrow> string" where
  "dumps float_text st JNull = ''null''"
| "dumps float_text st (JBool b) = (if b then ''true'' else ''false'')"
| "dumps float_text st (JInt i) = int_text i"
| "dumps float_text st (JFloat q) = float_text q"
| "dumps float_text st (JStr s) = json_string_text s"
| "dumps float_text st (JArr xs) =
     ''['' @ join (item_separator st) (map (dumps float_text st) xs) @ '']''"
| "dumps float_text st (JObj d) =
     ''{'' @ join (item_separator st)
       (map (\<lambda>(k, t). json_string_text k @ key_separator st @ t)
         (in_order st (map (\<lambda>(k, v). (k, dumps float_text st v)) d))) @ ''}''"
  by pat_completeness auto
termination
  by (relation "measure (\<lambda>(_, _, v). size v)")
    (auto simp: less_Suc_eq_le intro: size_list_estimation' split: prod.splits)

text \<open>The digest of a plan: SHA-256 of the canonical text.\<close>

definition digest :: "(rat \<Rightarrow> string) \<Rightarrow> json \<Rightarrow> string" where
  "digest float_text v = ''sha256:'' @ hexdigest (sha256 (dumps float_text canonical_style v))"

section \<open>Shell words\<close>

definition shell_safe :: "char \<Rightarrow> bool" where
  "shell_safe c =
     (let n = code_point c in
      (48 \<le> n \<and> n \<le> 57) \<or> (65 \<le> n \<and> n \<le> 90) \<or> (97 \<le> n \<and> n \<le> 122) \<or>
      c \<in> set ''_@%+=:,./-'')"

definition quote_char :: char where
  "quote_char = CHR 0x27"

definition shell_quote :: "string \<Rightarrow> string" where
  "shell_quote s =
     (if s = [] then [quote_char, quote_char]
      else if list_all shell_safe s then s
      else [quote_char] @
           replace_char quote_char [quote_char, CHR 0x22, quote_char, CHR 0x22, quote_char] s @
           [quote_char])"

definition shell_join :: "string list \<Rightarrow> string" where
  "shell_join ws = join '' '' (map shell_quote ws)"

section \<open>Lines and replacement\<close>

definition line_break :: "char \<Rightarrow> bool" where
  "line_break c = (code_point c \<in> {10, 11, 12, 13, 28, 29, 30, 133})"

text \<open>\<open>s.splitlines(keepends=True)\<close>\<close>

fun lines_kept :: "string \<Rightarrow> string list" where
  "lines_kept [] = []"
| "lines_kept [c] = [[c]]"
| "lines_kept (c # d # s) =
     (if c = CHR 0x0D \<and> d = CHR 0x0A then [c, d] # lines_kept s
      else if line_break c then [c] # lines_kept (d # s)
      else (case lines_kept (d # s) of [] \<Rightarrow> [[c]] | w # ws \<Rightarrow> (c # w) # ws))"

definition splitlines :: "string \<Rightarrow> string list" where
  "splitlines s = map (takeWhile (\<lambda>c. \<not> line_break c)) (lines_kept s)"

text \<open>\<open>s.replace(old, new)\<close> for a nonempty \<open>old\<close>\<close>

function replace_text :: "string \<Rightarrow> string \<Rightarrow> string \<Rightarrow> string" where
  "replace_text old new s =
     (if s = [] \<or> old = [] then s
      else if startswith s old then new @ replace_text old new (drop (length old) s)
      else hd s # replace_text old new (tl s))"
  by pat_completeness auto
termination
  by (relation "measure (\<lambda>(_, _, s). length s)") (auto simp: length_greater_0_conv [symmetric] simp del: length_greater_0_conv)

declare replace_text.simps [simp del]

end
