(* ===== verification/JsonParse.thy ===== *)
theory JsonParse
  imports JsonText
begin

text \<open>
  Reading JSON (\<open>json.loads\<close>), as the filters and the probe do on configuration text. Text that is
  no JSON raises a \<open>ValueError\<close> of the library (\<open>LibError\<close>). Outside the range of the model are the
  extensions \<open>NaN\<close> and \<open>Infinity\<close>, and escapes of code points beyond Latin-1: both are refused. The
  value of a number with a fraction or an exponent is the parameter \<open>float_value\<close>.
\<close>

section \<open>Tokens\<close>

definition bad_json :: exn where
  "bad_json = LibError ''json''"

definition json_space :: "char \<Rightarrow> bool" where
  "json_space c = (code_point c \<in> {32, 9, 10, 13})"

definition skip_space :: "string \<Rightarrow> string" where
  "skip_space s = dropWhile json_space s"

definition escape_value :: "char \<Rightarrow> char option" where
  "escape_value c =
     (if c \<in> {CHR 0x22, CHR 0x5C, CHR ''/''} then Some c
      else if c = CHR ''b'' then Some (CHR 0x08)
      else if c = CHR ''f'' then Some (CHR 0x0C)
      else if c = CHR ''n'' then Some (CHR 0x0A)
      else if c = CHR ''r'' then Some (CHR 0x0D)
      else if c = CHR ''t'' then Some (CHR 0x09)
      else None)"

definition unicode_value :: "char \<Rightarrow> char \<Rightarrow> char \<Rightarrow> char \<Rightarrow> exn + char" where
  "unicode_value a b c d =
     (case (hex_value a, hex_value b, hex_value c, hex_value d) of
        (Some h, Some i, Some j, Some k) \<Rightarrow>
          (let n = h * 4096 + i * 256 + j * 16 + k in if n < 256 then Inr (char_of n) else Inl bad_json)
      | _ \<Rightarrow> Inl bad_json)"

text \<open>The rest of a string after its opening quote, with what follows the closing one.\<close>

fun scan_string :: "string \<Rightarrow> exn + (string \<times> string)" where
  "scan_string [] = Inl bad_json"
| "scan_string (c # s) =
     (if c = CHR 0x22 then Inr ([], s)
      else if c = CHR 0x5C then
        (case s of
           [] \<Rightarrow> Inl bad_json
         | e # t \<Rightarrow>
             if e = CHR ''u'' then
               (case t of
                  h # i # j # k # u \<Rightarrow>
                    bind (unicode_value h i j k) (\<lambda>x. bind (scan_string u) (\<lambda>(w, r). Inr (x # w, r)))
                | _ \<Rightarrow> Inl bad_json)
             else
               (case escape_value e of
                  None \<Rightarrow> Inl bad_json
                | Some x \<Rightarrow> bind (scan_string t) (\<lambda>(w, r). Inr (x # w, r))))
      else if code_point c < 32 then Inl bad_json
      else bind (scan_string s) (\<lambda>(w, r). Inr (c # w, r)))"

text \<open>A number: an integer, or with a fraction or an exponent the double nearest to its text.\<close>

definition fraction_part :: "string \<Rightarrow> string" where
  "fraction_part s =
     (case s of
        c # t \<Rightarrow> if c = CHR ''.'' \<and> takeWhile is_dec t \<noteq> [] then c # takeWhile is_dec t else []
      | [] \<Rightarrow> [])"

definition exponent_part :: "string \<Rightarrow> string" where
  "exponent_part s =
     (case s of
        c # t \<Rightarrow>
          if c \<notin> {CHR ''e'', CHR ''E''} then []
          else
            (let sign = (case t of d # u \<Rightarrow> if d \<in> {CHR ''+'', CHR ''-''} then [d] else [] | [] \<Rightarrow> []);
                 digits = takeWhile is_dec (drop (length sign) t)
             in if digits = [] then [] else c # sign @ digits)
      | [] \<Rightarrow> [])"

definition integer_digits :: "string \<Rightarrow> string" where
  "integer_digits s =
     (case s of
        c # t \<Rightarrow> if c = CHR ''0'' then [c] else takeWhile is_dec s
      | [] \<Rightarrow> [])"

definition scan_number :: "(string \<Rightarrow> rat) \<Rightarrow> string \<Rightarrow> exn + (json \<times> string)" where
  "scan_number float_value s =
     (let sign = (case s of c # t \<Rightarrow> if c = CHR ''-'' then [c] else [] | [] \<Rightarrow> []);
          whole = integer_digits (drop (length sign) s);
          rest = drop (length sign + length whole) s;
          fraction = fraction_part rest;
          exponent = exponent_part (drop (length fraction) rest)
      in if whole = [] then Inl bad_json
         else if fraction = [] \<and> exponent = [] then
           bind (py_int whole) (\<lambda>n. Inr (JInt (if sign = [] then int n else - int n), rest))
         else Inr (JFloat (float_value (sign @ whole @ fraction @ exponent)),
                   drop (length fraction + length exponent) rest))"

section \<open>Values\<close>

text \<open>
  A value reads at least one character before the next one, so twice the length of the text bounds
  the recursion; the members of an object are read at the quote of a key, the items of an array at a
  value.
\<close>

fun read_value :: "(string \<Rightarrow> rat) \<Rightarrow> nat \<Rightarrow> string \<Rightarrow> exn + (json \<times> string)"
  and read_items :: "(string \<Rightarrow> rat) \<Rightarrow> nat \<Rightarrow> string \<Rightarrow> exn + (json list \<times> string)"
  and read_members :: "(string \<Rightarrow> rat) \<Rightarrow> nat \<Rightarrow> string \<Rightarrow> jobject \<Rightarrow> exn + (jobject \<times> string)"
where
  "read_value float_value 0 s = Inl bad_json"
| "read_value float_value (Suc n) s =
     (case s of
        [] \<Rightarrow> Inl bad_json
      | c # t \<Rightarrow>
          if c = CHR 0x22 then bind (scan_string t) (\<lambda>(w, r). Inr (JStr w, r))
          else if c = CHR ''['' then
            (case skip_space t of
               d # r \<Rightarrow>
                 if d = CHR '']'' then Inr (JArr [], r)
                 else bind (read_items float_value n (d # r)) (\<lambda>(xs, r). Inr (JArr xs, r))
             | [] \<Rightarrow> Inl bad_json)
          else if c = CHR ''{'' then
            (case skip_space t of
               d # r \<Rightarrow>
                 if d = CHR ''}'' then Inr (JObj [], r)
                 else bind (read_members float_value n (d # r) []) (\<lambda>(d, r). Inr (JObj d, r))
             | [] \<Rightarrow> Inl bad_json)
          else if startswith s ''null'' then Inr (JNull, drop 4 s)
          else if startswith s ''true'' then Inr (JBool True, drop 4 s)
          else if startswith s ''false'' then Inr (JBool False, drop 5 s)
          else scan_number float_value s)"
| "read_items float_value 0 s = Inl bad_json"
| "read_items float_value (Suc n) s =
     bind (read_value float_value n s) (\<lambda>(v, r).
       (case skip_space r of
          c # t \<Rightarrow>
            if c = CHR '']'' then Inr ([v], t)
            else if c = CHR '','' then
              bind (read_items float_value n (skip_space t)) (\<lambda>(vs, r). Inr (v # vs, r))
            else Inl bad_json
        | [] \<Rightarrow> Inl bad_json))"
| "read_members float_value 0 s d = Inl bad_json"
| "read_members float_value (Suc n) s d =
     (case s of
        q # t \<Rightarrow>
          if q \<noteq> CHR 0x22 then Inl bad_json else
          bind (scan_string t) (\<lambda>(k, r).
            (case skip_space r of
               c # t \<Rightarrow>
                 if c \<noteq> CHR '':'' then Inl bad_json else
                 bind (read_value float_value n (skip_space t)) (\<lambda>(v, r).
                   (case skip_space r of
                      c # t \<Rightarrow>
                        if c = CHR ''}'' then Inr (dput k v d, t)
                        else if c = CHR '','' then read_members float_value n (skip_space t) (dput k v d)
                        else Inl bad_json
                    | [] \<Rightarrow> Inl bad_json))
             | [] \<Rightarrow> Inl bad_json))
      | [] \<Rightarrow> Inl bad_json)"

definition json_loads :: "(string \<Rightarrow> rat) \<Rightarrow> string \<Rightarrow> exn + json" where
  "json_loads float_value s =
     bind (read_value float_value (2 * length s) (skip_space s)) (\<lambda>(v, r).
       if skip_space r = [] then Inr v else Inl bad_json)"

section \<open>Reading what was written\<close>

declare scan_string.simps(2) [simp del]

lemma scan_escape:
  "escape_value e = Some x \<Longrightarrow> e \<noteq> CHR ''u'' \<Longrightarrow>
   scan_string (CHR 0x5C # e # s) = bind (scan_string s) (\<lambda>(w, r). Inr (x # w, r))"
  by (simp add: scan_string.simps(2))

lemma scan_unicode:
  "unicode_value h i j k = Inr x \<Longrightarrow>
   scan_string (CHR 0x5C # CHR ''u'' # h # i # j # k # s) = bind (scan_string s) (\<lambda>(w, r). Inr (x # w, r))"
  by (simp add: scan_string.simps(2))

lemma hex_digit_read: "k < 16 \<Longrightarrow> hex_value (hex_digit k) = Some k"
  by (cases "k < 10") (auto simp: hex_value_def hex_digit_def Let_def)

lemma hex4_read:
  assumes "n < 256"
  shows "hex4 n = [hex_digit 0, hex_digit 0, hex_digit (n div 16), hex_digit (n mod 16)]"
    "unicode_value (hex_digit 0) (hex_digit 0) (hex_digit (n div 16)) (hex_digit (n mod 16)) = Inr (char_of n)"
proof -
  have "n div 16 < 16" "n div 4096 = 0" "n div 256 = 0" using assms by auto
  then show "hex4 n = [hex_digit 0, hex_digit 0, hex_digit (n div 16), hex_digit (n mod 16)]"
    by (simp add: hex4_def)
  show "unicode_value (hex_digit 0) (hex_digit 0) (hex_digit (n div 16)) (hex_digit (n mod 16)) = Inr (char_of n)"
    using \<open>n div 16 < 16\<close> assms by (simp add: unicode_value_def hex_digit_read)
qed

text \<open>Every character is read back from its text in a JSON string.\<close>

lemma scan_json_char: "scan_string (json_char c @ s) = bind (scan_string s) (\<lambda>(w, r). Inr (c # w, r))"
proof -
  let ?n = "code_point c"
  have plain: "scan_string (c # s) = bind (scan_string s) (\<lambda>(w, r). Inr (c # w, r))"
    if "32 \<le> ?n" "?n \<noteq> 34" "?n \<noteq> 92"
    using that by (auto simp: scan_string.simps(2))
  have hex: "scan_string ([CHR 0x5C, CHR ''u''] @ hex4 ?n @ s) = bind (scan_string s) (\<lambda>(w, r). Inr (c # w, r))"
    using hex4_read [of ?n] by (simp add: scan_unicode)
  have "c \<in> {CHR 0x22, CHR 0x5C, CHR 0x0A, CHR 0x0D, CHR 0x09, CHR 0x0C, CHR 0x08}" if "?n \<in> {34, 92, 10, 13, 9, 12, 8}"
    using that of_char_eq_iff [where ?'a = nat, of c "CHR 0x22"] of_char_eq_iff [where ?'a = nat, of c "CHR 0x5C"]
      of_char_eq_iff [where ?'a = nat, of c "CHR 0x0A"] of_char_eq_iff [where ?'a = nat, of c "CHR 0x0D"]
      of_char_eq_iff [where ?'a = nat, of c "CHR 0x09"] of_char_eq_iff [where ?'a = nat, of c "CHR 0x0C"]
      of_char_eq_iff [where ?'a = nat, of c "CHR 0x08"] by auto
  moreover have "\<exists>e. json_char c = [CHR 0x5C, e] \<and> escape_value e = Some c \<and> e \<noteq> CHR ''u''"
    if "c \<in> {CHR 0x22, CHR 0x5C, CHR 0x0A, CHR 0x0D, CHR 0x09, CHR 0x0C, CHR 0x08}"
    using that by (elim insertE) (simp_all add: json_char_def escape_value_def Let_def)
  ultimately have "\<exists>e. json_char c = [CHR 0x5C, e] \<and> escape_value e = Some c \<and> e \<noteq> CHR ''u''" if "?n \<in> {34, 92, 10, 13, 9, 12, 8}"
    using that by blast
  with plain hex show ?thesis
    by (cases "?n \<in> {34, 92, 10, 13, 9, 12, 8}") (auto simp: scan_escape json_char_def Let_def)
qed

lemma scan_text: "scan_string (concat (map json_char s) @ CHR 0x22 # r) = Inr (s, r)"
  by (induction s) (simp_all add: scan_json_char scan_string.simps(2))

text \<open>Numerals: only decimal digits, no leading zero, and the value they were written for.\<close>

lemma digit_char_dec: "k < 10 \<Longrightarrow> is_dec (digit_char k) \<and> code_point (digit_char k) = k + 48"
  by (simp add: digit_char_def is_dec_def)

lemma dec_text_step: "dec_text n = (if n < 10 then [digit_char n] else dec_text (n div 10) @ [digit_char (n mod 10)])"
  by (simp add: dec_text_def digits_of.simps [of 10 n])

lemma dec_text_digits: "list_all is_dec (dec_text n) \<and> dec_text n \<noteq> [] \<and> digits_val (dec_text n) = n"
proof (induction n rule: less_induct)
  case (less n)
  then show ?case
    by (subst (1 2 3) dec_text_step) (auto simp: digit_char_dec digits_val_def)
qed

lemma dec_text_head: "0 < n \<Longrightarrow> hd (dec_text n) \<noteq> CHR ''0''"
proof (induction n rule: less_induct)
  case (less n)
  show ?case
  proof (cases "n < 10")
    case True
    have "digit_char n \<noteq> CHR ''0''"
    proof
      assume "digit_char n = CHR ''0''"
      then have "code_point (digit_char n) = 48" by simp
      with digit_char_dec [OF True] less.prems show False by simp
    qed
    with True show ?thesis by (simp add: dec_text_step [of n])
  next
    case False
    then have "hd (dec_text (n div 10)) \<noteq> CHR ''0''" by (intro less.IH) auto
    with False dec_text_digits [of "n div 10"] show ?thesis by (simp add: dec_text_step [of n])
  qed
qed

text \<open>What may follow a value in the text: nothing, or the end of the container, or a comma.\<close>

definition ends_value :: "string \<Rightarrow> bool" where
  "ends_value r \<longleftrightarrow> r = [] \<or> hd r \<in> {CHR '','', CHR '']'', CHR ''}''}"

lemma ends_value_parts:
  assumes "ends_value r"
  shows "takeWhile is_dec r = []" "fraction_part r = []" "exponent_part r = []"
  using assms by (cases r; auto simp: ends_value_def fraction_part_def exponent_part_def is_dec_def)+

definition small_int :: "int \<Rightarrow> bool" where
  "small_int i \<longleftrightarrow> length (dec_text (nat \<bar>i\<bar>)) \<le> 4300"

lemma integer_digits_text: "ends_value r \<Longrightarrow> integer_digits (dec_text n @ r) = dec_text n"
proof -
  assume r: "ends_value r"
  obtain c t where ct: "dec_text n = c # t" using dec_text_digits [of n] by (cases "dec_text n") auto
  have "takeWhile is_dec (dec_text n @ r) = dec_text n"
    using dec_text_digits [of n] ends_value_parts(1) [OF r] by (simp add: takeWhile_append2 list_all_iff)
  moreover have "t = []" if "c = CHR ''0''"
    using that dec_text_head [of n] ct by (cases "n = 0") (auto simp: dec_text_step [of 0])
  ultimately show ?thesis by (auto simp: integer_digits_def ct)
qed

lemma scan_int_text:
  assumes "small_int i" "ends_value r"
  shows "scan_number float_value (int_text i @ r) = Inr (JInt i, r)"
proof -
  let ?w = "dec_text (nat \<bar>i\<bar>)"
  have w: "list_all is_dec ?w" "?w \<noteq> []" "digits_val ?w = nat \<bar>i\<bar>" using dec_text_digits by blast+
  then have "hd ?w \<noteq> CHR ''-''" by (cases ?w) (auto simp: is_dec_def)
  then have sign: "(case ?w @ r of c # t \<Rightarrow> if c = CHR ''-'' then [c] else [] | [] \<Rightarrow> []) = []"
    using w(2) by (cases ?w) auto
  have int: "py_int ?w = Inr (nat \<bar>i\<bar>)" using w assms(1) by (simp add: py_int_def small_int_def)
  note parts = ends_value_parts [OF assms(2)] integer_digits_text [OF assms(2)]
  show ?thesis
  proof (cases "i < 0")
    case True
    then have "int_text i = CHR ''-'' # ?w" by (simp add: int_text_def)
    with True parts int w(2) show ?thesis by (simp add: scan_number_def Let_def)
  next
    case False
    then have "int_text i = ?w" by (simp add: int_text_def)
    with False parts int w(2) sign show ?thesis by (simp add: scan_number_def Let_def)
  qed
qed

text \<open>Values that are read back: exact integers within Python's limit, distinct keys.\<close>

fun plain_json :: "json \<Rightarrow> bool" where
  "plain_json (JInt i) = small_int i"
| "plain_json (JFloat q) = False"
| "plain_json (JArr xs) = list_all plain_json xs"
| "plain_json (JObj d) = (distinct (map fst d) \<and> list_all (\<lambda>(k, v). plain_json v) d)"
| "plain_json _ = True"

definition member_text :: "(rat \<Rightarrow> string) \<Rightarrow> string \<times> json \<Rightarrow> string" where
  "member_text float_text m = json_string_text (fst m) @ '': '' @ dumps float_text default_style (snd m)"

lemma dumps_containers:
  "dumps float_text default_style (JArr xs) = CHR ''['' # join '', '' (map (dumps float_text default_style) xs) @ [CHR '']'']"
  "dumps float_text default_style (JObj d) = CHR ''{'' # join '', '' (map (member_text float_text) d) @ [CHR ''}'']"
  by (simp_all add: default_style_def in_order_def member_text_def case_prod_beta cong: map_cong)

lemma dumps_head:
  "plain_json v \<Longrightarrow> \<exists>c t. dumps float_text default_style v = c # t \<and> \<not> json_space c \<and> c \<notin> {CHR '']'', CHR ''}''}"
proof (cases v)
  case (JInt i)
  obtain c t where "dec_text (nat \<bar>i\<bar>) = c # t" "is_dec c"
    using dec_text_digits [of "nat \<bar>i\<bar>"] by (cases "dec_text (nat \<bar>i\<bar>)") auto
  then show ?thesis by (auto simp: JInt int_text_def json_space_def is_dec_def abs_if split: if_splits)
qed (simp_all add: dumps_containers json_string_text_def json_space_def)

lemma skip_head: "\<not> json_space c \<Longrightarrow> skip_space (c # t) = c # t"
  by (simp add: skip_space_def)

lemma put_new: "k \<notin> fst ` set d \<Longrightarrow> dput k v d = d @ [(k, v)]"
  by (induction d) auto

lemma ends_separators: "ends_value (CHR '','' # r)" "ends_value (CHR '']'' # r)" "ends_value (CHR ''}'' # r)"
  by (simp_all add: ends_value_def)

lemma read_items_text:
  assumes "xs \<noteq> []" "list_all plain_json xs"
    and read: "\<And>x r n. x \<in> set xs \<Longrightarrow> ends_value r \<Longrightarrow> 2 * length (dumps float_text default_style x) \<le> n \<Longrightarrow>
      read_value float_value n (dumps float_text default_style x @ r) = Inr (x, r)"
    and "2 * length (join '', '' (map (dumps float_text default_style) xs)) < n"
  shows "read_items float_value n (join '', '' (map (dumps float_text default_style) xs) @ CHR '']'' # r) = Inr (xs, r)"
  using assms
proof (induction xs arbitrary: n)
  case (Cons x xs)
  then obtain m where n: "n = Suc m" by (cases n) auto
  show ?case
  proof (cases xs)
    case Nil
    with Cons.prems n show ?thesis by (simp add: ends_separators skip_head json_space_def)
  next
    case (Cons y ys)
    obtain c t where "dumps float_text default_style y = c # t" "\<not> json_space c"
      using dumps_head [of y float_text] Cons.prems(2) Cons by auto
    then have skip: "skip_space (CHR '' '' # join '', '' (map (dumps float_text default_style) xs) @ s) =
        join '', '' (map (dumps float_text default_style) xs) @ s" for s
      using Cons by (cases ys) (simp_all add: skip_space_def json_space_def)
    have joined: "join '', '' (map (dumps float_text default_style) (x # xs)) =
        dumps float_text default_style x @ CHR '','' # CHR '' '' # join '', '' (map (dumps float_text default_style) xs)"
      using Cons by simp
    have "read_value float_value m (dumps float_text default_style x @ CHR '','' # s) = Inr (x, CHR '','' # s)" for s
      using Cons.prems(3) [of x "CHR '','' # s" m] Cons.prems(4) n unfolding joined by (simp add: ends_separators)
    moreover have "read_items float_value m (join '', '' (map (dumps float_text default_style) xs) @ CHR '']'' # r) = Inr (xs, r)"
      using Cons.prems(2-4) n Cons unfolding joined by (intro Cons.IH) simp_all
    ultimately show ?thesis unfolding joined n by (simp add: skip skip_head json_space_def)
  qed
qed simp

lemma read_members_text:
  assumes "kvs \<noteq> []" "list_all (\<lambda>(k, v). plain_json v) kvs" "distinct (map fst kvs)" "fst ` set d \<inter> fst ` set kvs = {}"
    and read: "\<And>k x r n. (k, x) \<in> set kvs \<Longrightarrow> ends_value r \<Longrightarrow> 2 * length (dumps float_text default_style x) \<le> n \<Longrightarrow>
      read_value float_value n (dumps float_text default_style x @ r) = Inr (x, r)"
    and "2 * length (join '', '' (map (member_text float_text) kvs)) < n"
  shows "read_members float_value n (join '', '' (map (member_text float_text) kvs) @ CHR ''}'' # r) d = Inr (d @ kvs, r)"
  using assms
proof (induction kvs arbitrary: n d)
  case (Cons kv kvs)
  obtain k x where kv: "kv = (k, x)" by fastforce
  from Cons obtain m where n: "n = Suc m" by (cases n) auto
  obtain c t where head: "dumps float_text default_style x = c # t" "\<not> json_space c"
    using dumps_head [of x float_text] Cons.prems(2) by (auto simp: kv)
  have put: "dput k x d = d @ [(k, x)]" using Cons.prems(4) by (intro put_new) (auto simp: kv)
  have written: "member_text float_text (k, x) @ s =
      CHR 0x22 # concat (map json_char k) @ CHR 0x22 # CHR '':'' # CHR '' '' # dumps float_text default_style x @ s" for s
    by (simp add: member_text_def json_string_text_def kv)
  have one: "read_value float_value m (dumps float_text default_style x @ s) = Inr (x, s)"
    if "ends_value s" for s
  proof (rule Cons.prems(5) [where k = k])
    show "2 * length (dumps float_text default_style x) \<le> m"
      using Cons.prems(6) n by (cases kvs) (simp_all add: member_text_def kv)
  qed (use that in \<open>simp_all add: kv\<close>)
  have skip: "skip_space (CHR '' '' # dumps float_text default_style x @ s) = dumps float_text default_style x @ s" for s
    using head by (simp add: skip_space_def json_space_def)
  show ?case
  proof (cases kvs)
    case Nil
    with Cons.prems(6) n show ?thesis
      by (simp add: written scan_text one ends_separators skip skip_head put json_space_def kv)
  next
    case (Cons y ys)
    have joined: "join '', '' (map (member_text float_text) (kv # kvs)) =
        member_text float_text kv @ CHR '','' # CHR '' '' # join '', '' (map (member_text float_text) kvs)"
      using Cons by simp
    have skip': "skip_space (CHR '' '' # join '', '' (map (member_text float_text) kvs) @ s) =
        join '', '' (map (member_text float_text) kvs) @ s" for s
      using Cons by (cases ys) (simp_all add: skip_space_def json_space_def member_text_def json_string_text_def)
    have "read_members float_value m (join '', '' (map (member_text float_text) kvs) @ CHR ''}'' # r) (d @ [(k, x)]) =
        Inr ((d @ [(k, x)]) @ kvs, r)"
      using Cons.prems(2-6) n Cons unfolding joined by (intro Cons.IH) (auto simp: kv)
    then show ?thesis
      using Cons.prems(6) n unfolding joined n
      by (simp add: written scan_text one ends_separators skip skip' skip_head put json_space_def kv)
  qed
qed simp

text \<open>A written value is read back from any text that goes on after it.\<close>

lemma read_value_text:
  "plain_json v \<Longrightarrow> ends_value r \<Longrightarrow> 2 * length (dumps float_text default_style v) \<le> n \<Longrightarrow>
   read_value float_value n (dumps float_text default_style v @ r) = Inr (v, r)"
proof (induction v arbitrary: r n)
  case (JArr xs)
  then obtain m where n: "n = Suc m" by (cases n) (auto simp: dumps_containers)
  show ?case
  proof (cases "xs = []")
    case False
    let ?j = "join '', '' (map (dumps float_text default_style) xs)"
    obtain y ys where xs: "xs = y # ys" using False by (cases xs) auto
    then obtain c t where head: "?j = c # t" "\<not> json_space c" "c \<noteq> CHR '']''"
      using dumps_head [of y float_text] JArr.prems(1) by (cases ys) auto
    have "read_items float_value m (?j @ CHR '']'' # r) = Inr (xs, r)"
      using JArr.prems n False JArr.IH by (intro read_items_text) (auto simp: dumps_containers list_all_iff simp del: dumps.simps)
    with head show ?thesis by (simp add: n skip_head dumps_containers del: dumps.simps)
  qed (simp add: n skip_head json_space_def dumps_containers del: dumps.simps)
next
  case (JObj d)
  then obtain m where n: "n = Suc m" by (cases n) (auto simp: dumps_containers)
  show ?case
  proof (cases "d = []")
    case False
    let ?j = "join '', '' (map (member_text float_text) d)"
    obtain y ys where d: "d = y # ys" using False by (cases d) auto
    then obtain t where head: "?j = CHR 0x22 # t" by (cases ys) (auto simp: member_text_def json_string_text_def)
    have "read_members float_value m (?j @ CHR ''}'' # r) [] = Inr ([] @ d, r)"
      using JObj.prems n False JObj.IH by (intro read_members_text) (fastforce simp: dumps_containers list_all_iff simp del: dumps.simps)+
    with head show ?thesis by (simp add: n skip_head dumps_containers json_space_def del: dumps.simps)
  qed (simp add: n skip_head json_space_def dumps_containers del: dumps.simps)
next
  case (JStr s)
  then show ?case by (cases n) (simp_all add: json_string_text_def scan_text)
next
  case (JInt i)
  obtain c t where w: "int_text i = c # t" "is_dec c \<or> c = CHR ''-''"
    using dec_text_digits [of "nat \<bar>i\<bar>"] by (cases "dec_text (nat \<bar>i\<bar>)") (auto simp: int_text_def abs_if split: if_splits)
  then have "c \<notin> set [CHR 0x22, CHR ''['', CHR ''{'', CHR ''n'', CHR ''t'', CHR ''f'']" by (auto simp: is_dec_def)
  moreover obtain m where "n = Suc m" using JInt.prems(3) w by (cases n) auto
  ultimately show ?case using scan_int_text [of i r float_value] JInt.prems w by (simp add: startswith_def)
next
  case (JBool b)
  then show ?case by (cases n; cases b) (simp_all add: startswith_def)
next
  case JNull
  then show ?case by (cases n) (simp_all add: startswith_def)
qed simp

text \<open>
  A value without floating-point numbers that is serialised and read again is the same value,
  with the same keys in the same order, whatever characters its strings hold.
\<close>

theorem json_roundtrip:
  assumes "plain_json v"
  shows "json_loads float_value (dumps float_text default_style v) = Inr v"
proof -
  let ?s = "dumps float_text default_style v"
  obtain c t where "?s = c # t" "\<not> json_space c" using dumps_head [OF assms] by blast
  then have "skip_space ?s = ?s" by (simp add: skip_head)
  with read_value_text [OF assms, of "[]" float_text "2 * length ?s" float_value] show ?thesis
    by (simp add: json_loads_def ends_value_def skip_space_def)
qed

end
