(* ===== verification/KubeManifests.thy ===== *)
theory KubeManifests
  imports KubePlan JsonParse
begin

text \<open>
  The manifests the cluster plays apply (\<open>filter_plugins/kube_plan.py\<close>): the adapted Flannel release
  and the probe Pods. The documents are copied before they are changed, so the changes in place of
  the code are updates of values here; \<open>float_value\<close> and \<open>float_text\<close> read and write numbers
  with a fraction.
\<close>

section \<open>Changes in place\<close>

text \<open>
  \<open>mapping(v, context)\<close> of the value of the key \<open>k\<close> of \<open>parent\<close>, changed by \<open>f\<close> and put back.
\<close>

definition inside ::
  "exn + json \<Rightarrow> string \<Rightarrow> string \<Rightarrow> (jobject \<Rightarrow> exn + jobject) \<Rightarrow> jobject \<Rightarrow> exn + jobject" where
  "inside v context k f parent =
     bind v (\<lambda>v. bind (mapping v context) (\<lambda>m. bind (f m) (\<lambda>m'. Inr (dput k (JObj m') parent))))"

text \<open>\<open>parent.setdefault(k, {})\<close> and \<open>parent[k]\<close>, changed in place.\<close>

definition defaulted :: "string \<Rightarrow> string \<Rightarrow> (jobject \<Rightarrow> exn + jobject) \<Rightarrow> jobject \<Rightarrow> exn + jobject" where
  "defaulted context k f parent = inside (Inr (dgetd parent k (JObj []))) context k f parent"

definition entered :: "string \<Rightarrow> string \<Rightarrow> (jobject \<Rightarrow> exn + jobject) \<Rightarrow> jobject \<Rightarrow> exn + jobject" where
  "entered context k f parent = inside (dsub parent k) context k f parent"

definition sorted_style :: style where
  "sorted_style = default_style\<lparr>sort_keys := True\<rparr>"

section \<open>Flannel\<close>

definition pod_spec :: "jobject \<Rightarrow> exn + jobject" where
  "pod_spec document =
     bind (mapping (dget document ''spec'') ''daemon spec'') (\<lambda>daemon.
     bind (mapping (dget daemon ''template'') ''pod template'') (\<lambda>template.
       mapping (dget template ''spec'') ''pod spec''))"

definition flannel_containers :: "jobject \<Rightarrow> exn + json list" where
  "flannel_containers pod = array (dget pod ''containers'') ''Flannel containers must be an array''"

definition flannel_daemon_matches :: "jobject \<Rightarrow> string \<Rightarrow> exn + bool" where
  "flannel_daemon_matches document version =
     bind (pod_spec document) (\<lambda>pod.
     bind (flannel_containers pod) (\<lambda>containers.
       anyM (\<lambda>container.
         bind (mapping container ''Flannel container'') (\<lambda>c.
         bind (text' (dget c ''image'') ''Flannel image'') (\<lambda>image.
           Inr (endswith image ('':v'' @ version))))) containers))"

definition is_flannel :: "json \<Rightarrow> exn + bool" where
  "is_flannel plugin = bind (mapping plugin ''CNI plugin'') (\<lambda>p. Inr (dget p ''type'' = JStr ''flannel''))"

text \<open>The bridge follows the subnet of the Node, and the addresses it hands out do not outlive a boot.\<close>

definition adapt_plugin :: "jobject \<Rightarrow> exn + jobject" where
  "adapt_plugin plugin =
     bind (defaulted ''Flannel bridge delegate'' ''delegate'' (\<lambda>d. Inr (dput ''forceAddress'' (JBool True) d)) plugin)
       (defaulted ''Flannel IPAM'' ''ipam'' (\<lambda>d. Inr (dput ''dataDir'' (JStr ''/run/cni/flannel-networks'') d)))"

definition adapt_plugins :: "json list \<Rightarrow> exn + json list" where
  "adapt_plugins plugins =
     bind (mapM is_flannel plugins) (\<lambda>flags.
     if length (filter (\<lambda>b. b) flags) \<noteq> 1 then Inl (ValueError ''Expected exactly one Flannel CNI plugin'')
     else mapM (\<lambda>(flag, plugin).
       if \<not> flag then Inr plugin
       else bind (mapping plugin ''CNI plugin'') (\<lambda>p. bind (adapt_plugin p) (\<lambda>p'. Inr (JObj p'))))
       (zip flags plugins))"

definition sorted_digest :: "(rat \<Rightarrow> string) \<Rightarrow> json \<Rightarrow> string" where
  "sorted_digest float_text v = hexdigest (sha256 (dumps float_text sorted_style v))"

text \<open>\<open>mapping(json.loads(text(data.get(k), context)), context)\<close>, changed, and written back as text.\<close>

definition rewrite_text ::
  "(string \<Rightarrow> rat) \<Rightarrow> (rat \<Rightarrow> string) \<Rightarrow> string \<Rightarrow> string \<Rightarrow> (jobject \<Rightarrow> exn + jobject) \<Rightarrow> jobject \<Rightarrow> exn + jobject" where
  "rewrite_text float_value float_text context k f data =
     bind (text' (dget data k) context) (\<lambda>s.
     bind (json_loads float_value s) (\<lambda>v.
     bind (mapping v context) (\<lambda>config.
     bind (f config) (\<lambda>config'.
       Inr (dput k (JStr (dumps float_text sorted_style (JObj config'))) data)))))"

definition configure_flannel_cni ::
  "(string \<Rightarrow> rat) \<Rightarrow> (rat \<Rightarrow> string) \<Rightarrow> jobject \<Rightarrow> exn + (jobject \<times> string)" where
  "configure_flannel_cni float_value float_text data =
     bind (rewrite_text float_value float_text ''Flannel CNI config'' ''cni-conf.json''
       (\<lambda>config.
          bind (array (dget config ''plugins'') ''Flannel CNI plugins must be an array'') (\<lambda>plugins.
          bind (adapt_plugins plugins) (\<lambda>plugins'. Inr (dput ''plugins'' (JArr plugins') config)))) data)
       (\<lambda>data'. Inr (data', sorted_digest float_text (JObj data')))"

definition annotate_cni_rollout :: "string \<Rightarrow> jobject \<Rightarrow> exn + jobject" where
  "annotate_cni_rollout config_digest =
     entered ''daemon spec'' ''spec'' (entered ''pod template'' ''template''
       (defaulted ''pod metadata'' ''metadata'' (defaulted ''pod annotations'' ''annotations''
         (\<lambda>annotations. Inr (dput ''homelab.io/cni-config-sha256'' (JStr config_digest) annotations)))))"

text \<open>\<open>name in overrides\<close>: a list or a dictionary cannot be looked up in a dictionary.\<close>

definition overridden :: "json \<Rightarrow> exn + bool" where
  "overridden entry =
     bind (mapping entry ''Flannel env'') (\<lambda>e.
       (case dget e ''name'' of
          JArr xs \<Rightarrow> Inl TypeError
        | JObj d \<Rightarrow> Inl TypeError
        | v \<Rightarrow> Inr (v \<in> {JStr ''KUBERNETES_SERVICE_HOST'', JStr ''KUBERNETES_SERVICE_PORT''})))"

definition env_entry :: "string \<Rightarrow> string \<Rightarrow> json" where
  "env_entry name v = JObj [(''name'', JStr name), (''value'', JStr v)]"

definition direct_container :: "string \<Rightarrow> string \<Rightarrow> json \<Rightarrow> exn + json" where
  "direct_container host port raw =
     bind (mapping raw ''Flannel container'') (\<lambda>container.
     bind (array (dgetd container ''env'' (JArr [])) ''Flannel container env must be an array'') (\<lambda>environment.
     bind (mapM overridden environment) (\<lambda>flags.
       Inr (JObj (dput ''env''
         (JArr (map snd (filter (\<lambda>(flag, e). \<not> flag) (zip flags environment)) @
                [env_entry ''KUBERNETES_SERVICE_HOST'' host, env_entry ''KUBERNETES_SERVICE_PORT'' port])) container)))))"

definition split_endpoint :: "string \<Rightarrow> string \<times> string" where
  "split_endpoint endpoint = (case rpartition (CHR '':'') endpoint of Some p \<Rightarrow> p | None \<Rightarrow> ([], endpoint))"

definition use_direct_api_endpoint :: "string \<Rightarrow> jobject \<Rightarrow> exn + jobject" where
  "use_direct_api_endpoint endpoint =
     (case split_endpoint endpoint of (host, port) \<Rightarrow>
     entered ''daemon spec'' ''spec'' (entered ''pod template'' ''template'' (entered ''pod spec'' ''spec''
       (\<lambda>pod.
          bind (flannel_containers pod) (\<lambda>containers.
          bind (mapM (direct_container host port) containers) (\<lambda>containers'.
            Inr (dput ''containers'' (JArr containers') pod)))))))"

definition release_kinds :: "string list" where
  "release_kinds = [''Namespace'', ''ServiceAccount'', ''ClusterRole'', ''ClusterRoleBinding'', ''ConfigMap'', ''DaemonSet'']"

definition flannel_namespace :: json where
  "flannel_namespace = JStr ''kube-flannel''"

definition check_scope :: "jobject \<Rightarrow> exn + unit" where
  "check_scope document =
     bind (raise_if (dget document ''kind'' \<notin> JStr ` set release_kinds)
       (ValueError ''Unexpected resource in Flannel release manifest'')) (\<lambda>_.
     bind (mapping (dget document ''metadata'') ''Flannel metadata'') (\<lambda>metadata.
     bind (raise_if (dget document ''kind'' = JStr ''Namespace'' \<and> dget metadata ''name'' \<noteq> flannel_namespace)
       (ValueError ''Flannel must use its dedicated kube-flannel namespace'')) (\<lambda>_.
       raise_if (dget document ''kind'' \<in> {JStr ''ServiceAccount'', JStr ''ConfigMap'', JStr ''DaemonSet''} \<and>
                 dget metadata ''namespace'' \<noteq> flannel_namespace)
         (ValueError ''Unexpected Flannel namespace''))))"

definition cluster_uid_label :: string where
  "cluster_uid_label = ''homelab.io/kube-cluster-uid''"

definition label_cluster :: "jobject \<Rightarrow> jobject \<Rightarrow> exn + jobject" where
  "label_cluster plan document =
     inside (Inr (dget document ''metadata'')) ''Flannel metadata'' ''metadata''
       (defaulted ''Flannel labels'' ''labels''
         (\<lambda>labels. bind (dsub plan ''uid'') (\<lambda>uid. Inr (dput cluster_uid_label uid labels)))) document"

text \<open>The network configuration of the release, for the Pod network of the cluster.\<close>

definition is_flannel_config :: "jobject \<Rightarrow> exn + bool" where
  "is_flannel_config document =
     bind (mapping (dget document ''metadata'') ''Flannel metadata'') (\<lambda>metadata.
       Inr (dget document ''kind'' = JStr ''ConfigMap'' \<and> dget metadata ''name'' = JStr ''kube-flannel-cfg''))"

definition adapt_config ::
  "(string \<Rightarrow> rat) \<Rightarrow> (rat \<Rightarrow> string) \<Rightarrow> jobject \<Rightarrow> jobject \<Rightarrow> exn + (jobject \<times> string)" where
  "adapt_config float_value float_text settings data =
     bind (rewrite_text float_value float_text ''Flannel network config'' ''net-conf.json''
       (\<lambda>config. bind (dsub settings ''podCIDR'') (\<lambda>v. Inr (dput ''Network'' v config))) data)
       (configure_flannel_cni float_value float_text)"

record adapted =
  documents :: "jobject list"
  config_digest :: string
  found_daemon :: bool

definition adapt_document ::
  "(string \<Rightarrow> rat) \<Rightarrow> (rat \<Rightarrow> string) \<Rightarrow> jobject \<Rightarrow> jobject \<Rightarrow> string \<Rightarrow> adapted \<Rightarrow> json \<Rightarrow> exn + adapted" where
  "adapt_document float_value float_text plan settings version st raw =
     bind (mapping raw ''Flannel resource'') (\<lambda>document.
     bind (check_scope document) (\<lambda>_.
     bind (label_cluster plan document) (\<lambda>document.
     bind (is_flannel_config document) (\<lambda>config.
     bind (if \<not> config then Inr (document, config_digest st)
           else
             bind (mapping (dget document ''data'') ''Flannel data'') (\<lambda>data.
             bind (adapt_config float_value float_text settings data) (\<lambda>(data', d).
               Inr (dput ''data'' (JObj data') document, d)))) (\<lambda>(document, d).
     bind (if dget document ''kind'' = JStr ''DaemonSet'' then flannel_daemon_matches document version
           else Inr (found_daemon st)) (\<lambda>found.
       Inr \<lparr>documents = documents st @ [document], config_digest = d, found_daemon = found\<rparr>))))))"

text \<open>What is done to the DaemonSets once the digest of the configuration is known.\<close>

definition finish_document :: "jobject \<Rightarrow> jobject \<Rightarrow> string \<Rightarrow> jobject \<Rightarrow> exn + jobject" where
  "finish_document plan settings d document =
     bind (dsub document ''kind'') (\<lambda>kind.
     if kind \<noteq> JStr ''DaemonSet'' then Inr document else
     bind (annotate_cni_rollout d document) (\<lambda>document.
     if dgetd plan ''networkApiEndpoint'' (JStr ''direct'') \<noteq> JStr ''direct'' then Inr document else
     bind (text' (dget settings ''controlPlaneEndpoint'') ''endpoint'') (\<lambda>endpoint.
       use_direct_api_endpoint endpoint document)))"

definition list_object :: "json list \<Rightarrow> jobject" where
  "list_object items = [(''apiVersion'', JStr ''v1''), (''kind'', JStr ''List''), (''items'', JArr items)]"

definition flannel_objects ::
  "(string \<Rightarrow> rat) \<Rightarrow> (rat \<Rightarrow> string) \<Rightarrow> json \<Rightarrow> json \<Rightarrow> exn + jobject" where
  "flannel_objects float_value float_text raw_documents raw_plan =
     bind (mapping raw_plan ''cluster plan'') (\<lambda>plan.
     bind (mapping (dget plan ''settings'') ''settings'') (\<lambda>settings.
     bind (mapping (dget settings ''network'') ''network'') (\<lambda>network.
     bind (text' (dget network ''version'') ''Flannel version'') (\<lambda>version.
     bind (array raw_documents ''Flannel documents must be an array'') (\<lambda>raws.
     bind (foldM (adapt_document float_value float_text plan settings version)
            \<lparr>documents = [], config_digest = [], found_daemon = False\<rparr> raws) (\<lambda>st.
     if config_digest st = [] \<or> \<not> found_daemon st
     then Inl (ValueError ''Release manifest does not contain the selected Flannel version/config'')
     else bind (mapM (finish_document plan settings (config_digest st)) (documents st)) (\<lambda>finished.
       Inr (list_object (map JObj finished)))))))))"

section \<open>Probe Pods\<close>

text \<open>\<open>s.encode()\<close>: UTF-8.\<close>

definition utf8_char :: "char \<Rightarrow> string" where
  "utf8_char c =
     (let n = code_point c in if n < 128 then [c] else [char_of (192 + n div 64), char_of (128 + n mod 64)])"

definition utf8 :: "string \<Rightarrow> string" where
  "utf8 s = concat (map utf8_char s)"

definition rx_probe_image :: rx where
  "rx_probe_image =
     RSeq (rlit ''registry.k8s.io/e2e-test-images/busybox:'')
       (RSeq (RCls [(CHR ''0'', CHR ''9'')])
         (RStar (RCls [(CHR ''0'', CHR ''9''), (CHR ''a'', CHR ''z''), (CHR ''A'', CHR ''Z''),
            (CHR ''_'', CHR ''_''), (CHR ''.'', CHR ''.''), (CHR ''-'', CHR ''-'')])))"

definition probe_name :: "string \<Rightarrow> string" where
  "probe_name uid = ''probe-'' @ take 12 (hexdigest (sha256 (utf8 uid)))"

definition probe_namespace :: "json \<Rightarrow> json" where
  "probe_namespace uid = JObj
     [(''apiVersion'', JStr ''v1''), (''kind'', JStr ''Namespace''),
      (''metadata'', JObj [(''name'', JStr ''homelab-verify''), (''labels'', JObj [(cluster_uid_label, uid)])])]"

definition probe_command :: string where
  "probe_command =
     ''printf '' @ [CHR 0x22] @ ''homelab networking ok'' @ [CHR 0x22] @
     '' > /work/index.html; exec httpd -f -p 8080 -h /work''"

definition probe_container :: "string \<Rightarrow> json" where
  "probe_container img = JObj
     [(''name'', JStr ''probe''), (''image'', JStr img),
      (''command'', JArr [JStr ''sh'', JStr ''-ec'', JStr probe_command]),
      (''volumeMounts'', JArr [JObj [(''name'', JStr ''work''), (''mountPath'', JStr ''/work'')]]),
      (''securityContext'', JObj
         [(''readOnlyRootFilesystem'', JBool True), (''allowPrivilegeEscalation'', JBool False),
          (''capabilities'', JObj [(''drop'', JArr [JStr ''ALL''])])]),
      (''resources'', JObj
         [(''requests'', JObj [(''cpu'', JStr ''10m''), (''memory'', JStr ''16Mi'')]),
          (''limits'', JObj [(''cpu'', JStr ''100m''), (''memory'', JStr ''64Mi'')])]),
      (''readinessProbe'', JObj
         [(''httpGet'', JObj [(''path'', JStr ''/''), (''port'', JInt 8080)]), (''periodSeconds'', JInt 2)])]"

definition probe_pod :: "string \<Rightarrow> json \<Rightarrow> jobject \<Rightarrow> exn + json" where
  "probe_pod img cluster_uid member =
     bind (text' (dget member ''uid'') ''Server UID'') (\<lambda>uid.
     bind (dsub member ''nodeName'') (\<lambda>node_name.
       Inr (JObj
         [(''apiVersion'', JStr ''v1''), (''kind'', JStr ''Pod''),
          (''metadata'', JObj
             [(''name'', JStr (probe_name uid)), (''namespace'', JStr ''homelab-verify''),
              (''labels'', JObj [(cluster_uid_label, cluster_uid), (''homelab.io/server-uid'', JStr uid)])]),
          (''spec'', JObj
             [(''nodeName'', node_name), (''automountServiceAccountToken'', JBool False),
              (''terminationGracePeriodSeconds'', JInt 1),
              (''securityContext'', JObj
                 [(''runAsUser'', JInt 1000), (''runAsNonRoot'', JBool True), (''fsGroup'', JInt 1000),
                  (''seccompProfile'', JObj [(''type'', JStr ''RuntimeDefault'')])]),
              (''volumes'', JArr [JObj [(''name'', JStr ''work''), (''emptyDir'', JObj [])]]),
              (''containers'', JArr [probe_container img])])])))"

definition probe_objects :: "json \<Rightarrow> json \<Rightarrow> exn + jobject" where
  "probe_objects raw_plan raw_image =
     bind (mapping raw_plan ''cluster plan'') (\<lambda>plan.
     bind (text' raw_image ''verification image'') (\<lambda>image.
     bind (raise_if (\<not> fullmatch rx_probe_image image)
       (ValueError ''Verification requires an explicitly pinned official BusyBox test image'')) (\<lambda>_.
     bind (array (dget plan ''members'') ''Members must be an array'') (\<lambda>members.
     bind (dsub plan ''uid'') (\<lambda>uid.
     bind (mapM (\<lambda>raw. bind (mapping raw ''member'') (probe_pod image uid)) members) (\<lambda>pods.
       Inr (list_object (probe_namespace uid # pods))))))))"

end
