(* ===== verification/KubeFlannel.thy ===== *)
theory KubeFlannel
  imports KubeManifests
begin

text \<open>
  What the adapted Flannel release holds: nothing outside its namespace, everything labelled with the
  cluster, the configuration for the cluster's Pod network, and a rollout tied to that configuration.
\<close>

section \<open>Changes in place\<close>

lemma inside_Inr [exn_simps]:
  "inside v context k f parent = Inr q \<longleftrightarrow>
     (\<exists>m m'. v = Inr (JObj m) \<and> f m = Inr m' \<and> q = dput k (JObj m') parent)"
  by (auto simp: inside_def exn_simps)

lemma defaulted_Inr [exn_simps]:
  "defaulted context k f parent = Inr q \<longleftrightarrow>
     (\<exists>m m'. dgetd parent k (JObj []) = JObj m \<and> f m = Inr m' \<and> q = dput k (JObj m') parent)"
  by (simp add: defaulted_def exn_simps)

lemma entered_Inr [exn_simps]:
  "entered context k f parent = Inr q \<longleftrightarrow>
     (\<exists>m m'. dsub parent k = Inr (JObj m) \<and> f m = Inr m' \<and> q = dput k (JObj m') parent)"
  by (simp add: entered_def exn_simps)

lemma rewrite_text_Inr [exn_simps]:
  "rewrite_text float_value float_text context k f data = Inr data' \<longleftrightarrow>
     (\<exists>s config config'. dget data k = JStr s \<and> s \<noteq> [] \<and> json_loads float_value s = Inr (JObj config) \<and>
        f config = Inr config' \<and> data' = dput k (JStr (dumps float_text sorted_style (JObj config'))) data)"
  by (auto simp: rewrite_text_def exn_simps)

lemma dsub_dget: "dsub d k = Inr v \<Longrightarrow> dget d k = v"
  by (auto simp: dsub_def dget_def split: option.splits)

section \<open>The network configuration\<close>

text \<open>One Flannel plugin, whose bridge takes a new address and whose leases do not outlive a boot.\<close>

definition adapted_bridge :: "jobject \<Rightarrow> bool" where
  "adapted_bridge p \<longleftrightarrow>
     (\<exists>delegate ipam. dget p ''delegate'' = JObj delegate \<and> dget delegate ''forceAddress'' = JBool True \<and>
        dget p ''ipam'' = JObj ipam \<and> dget ipam ''dataDir'' = JStr ''/run/cni/flannel-networks'')"

lemma adapt_plugin_bridge:
  assumes "adapt_plugin p = Inr p'"
  shows "adapted_bridge p' \<and> dget p' ''type'' = dget p ''type''"
  using assms by (auto simp: adapt_plugin_def exn_simps adapted_bridge_def)

lemma adapt_plugins_bridge:
  assumes "adapt_plugins plugins = Inr plugins'"
  shows "\<exists>p. filter (\<lambda>v. is_flannel v = Inr True) plugins' = [JObj p] \<and> adapted_bridge p"
proof -
  from assms obtain flags where flags: "mapM is_flannel plugins = Inr flags" "length (filter (\<lambda>b. b) flags) = 1"
      and out: "mapM (\<lambda>(flag, plugin). if \<not> flag then Inr plugin
         else bind (mapping plugin ''CNI plugin'') (\<lambda>p. bind (adapt_plugin p) (\<lambda>p'. Inr (JObj p')))) (zip flags plugins) = Inr plugins'"
    by (auto simp: adapt_plugins_def exn_simps)
  have "\<exists>ps. filter (\<lambda>v. is_flannel v = Inr True) plugins' = map JObj ps \<and> length ps = length (filter (\<lambda>b. b) flags) \<and>
      list_all adapted_bridge ps"
    using flags(1) out
  proof (induction plugins arbitrary: flags plugins')
    case (Cons v vs)
    then obtain b bs w ws where parts: "flags = b # bs" "plugins' = w # ws" "is_flannel v = Inr b" "mapM is_flannel vs = Inr bs"
        "(if \<not> b then Inr v else bind (mapping v ''CNI plugin'') (\<lambda>p. bind (adapt_plugin p) (\<lambda>p'. Inr (JObj p')))) = Inr w"
        "mapM (\<lambda>(flag, plugin). if \<not> flag then Inr plugin
         else bind (mapping plugin ''CNI plugin'') (\<lambda>p. bind (adapt_plugin p) (\<lambda>p'. Inr (JObj p')))) (zip bs vs) = Inr ws"
      by (auto simp: exn_simps)
    then obtain ps where ps: "filter (\<lambda>v. is_flannel v = Inr True) ws = map JObj ps" "length ps = length (filter (\<lambda>b. b) bs)"
        "list_all adapted_bridge ps" using Cons.IH [OF parts(4,6)] by blast
    show ?case
    proof (cases b)
      case True
      with parts(5,3) obtain p where "w = JObj p" "adapted_bridge p" "is_flannel w = Inr True"
        by (auto simp: exn_simps is_flannel_def dest!: adapt_plugin_bridge)
      with ps True show ?thesis by (intro exI [of _ "p # ps"]) (simp add: parts)
    next
      case False
      with parts ps show ?thesis by (intro exI [of _ ps]) simp
    qed
  qed simp
  with flags(2) obtain ps where "filter (\<lambda>v. is_flannel v = Inr True) plugins' = map JObj ps" "length ps = 1" "list_all adapted_bridge ps"
    by auto
  then show ?thesis by (cases ps) auto
qed

definition network_config ::
  "(rat \<Rightarrow> string) \<Rightarrow> json \<Rightarrow> string \<Rightarrow> jobject \<Rightarrow> bool" where
  "network_config float_text pod_network d document \<longleftrightarrow>
     (\<exists>data net cni plugins p.
        dget document ''kind'' = JStr ''ConfigMap'' \<and> dget document ''data'' = JObj data \<and>
        d = sorted_digest float_text (JObj data) \<and>
        dget data ''net-conf.json'' = JStr (dumps float_text sorted_style (JObj net)) \<and> dget net ''Network'' = pod_network \<and>
        dget data ''cni-conf.json'' = JStr (dumps float_text sorted_style (JObj cni)) \<and>
        dget cni ''plugins'' = JArr plugins \<and>
        filter (\<lambda>v. is_flannel v = Inr True) plugins = [JObj p] \<and> adapted_bridge p)"

lemma adapt_config_Inr:
  assumes "adapt_config float_value float_text settings data = Inr (data', d)"
    "dget document ''kind'' = JStr ''ConfigMap''" "dget document ''data'' = JObj data'"
  shows "\<exists>pod_network. dsub settings ''podCIDR'' = Inr pod_network \<and> network_config float_text pod_network d document"
proof -
  from assms(1) obtain pod_network net config plugins plugins' where
    "dsub settings ''podCIDR'' = Inr pod_network" "adapt_plugins plugins = Inr plugins'"
    and data: "data' = dput ''cni-conf.json'' (JStr (dumps float_text sorted_style (JObj (dput ''plugins'' (JArr plugins') config))))
       (dput ''net-conf.json'' (JStr (dumps float_text sorted_style (JObj (dput ''Network'' pod_network net)))) data)"
      "d = sorted_digest float_text (JObj data')"
    unfolding adapt_config_def configure_flannel_cni_def by (auto simp: exn_simps)
  moreover from this(2) obtain p where "filter (\<lambda>v. is_flannel v = Inr True) plugins' = [JObj p]" "adapted_bridge p"
    using adapt_plugins_bridge by blast
  ultimately show ?thesis using assms(2,3) unfolding network_config_def
    by (intro exI [of _ pod_network] conjI exI [of _ data'] exI [of _ "dput ''Network'' pod_network net"]
        exI [of _ "dput ''plugins'' (JArr plugins') config"] exI [of _ plugins'] exI [of _ p]) simp_all
qed

section \<open>The documents\<close>

definition confined :: "json \<Rightarrow> jobject \<Rightarrow> bool" where
  "confined uid document \<longleftrightarrow>
     (\<exists>kind metadata labels.
        kind \<in> set release_kinds \<and> dget document ''kind'' = JStr kind \<and>
        dget document ''metadata'' = JObj metadata \<and> dget metadata ''labels'' = JObj labels \<and>
        dget labels cluster_uid_label = uid \<and>
        (kind = ''Namespace'' \<longrightarrow> dget metadata ''name'' = flannel_namespace) \<and>
        (kind \<in> {''ServiceAccount'', ''ConfigMap'', ''DaemonSet''} \<longrightarrow> dget metadata ''namespace'' = flannel_namespace))"

lemma scope_labelled:
  assumes "check_scope document = Inr u" "label_cluster plan document = Inr document'"
  obtains uid where "dsub plan ''uid'' = Inr uid" "confined uid document'" "dget document' ''kind'' = dget document ''kind''"
proof -
  from assms(2) obtain metadata labels uid where l: "dget document ''metadata'' = JObj metadata" "dsub plan ''uid'' = Inr uid"
      "document' = dput ''metadata'' (JObj (dput ''labels'' (JObj (dput cluster_uid_label uid labels)) metadata)) document"
    by (auto simp: label_cluster_def exn_simps)
  moreover from assms(1) obtain kind where "dget document ''kind'' = JStr kind" "kind \<in> set release_kinds"
      "kind = ''Namespace'' \<longrightarrow> dget metadata ''name'' = flannel_namespace"
      "kind \<in> {''ServiceAccount'', ''ConfigMap'', ''DaemonSet''} \<longrightarrow> dget metadata ''namespace'' = flannel_namespace"
    by (auto simp: check_scope_def exn_simps l(1))
  ultimately show thesis using that [of uid] by (auto simp: confined_def)
qed

lemma confined_put: "k \<notin> {''kind'', ''metadata''} \<Longrightarrow> confined uid (dput k v document) = confined uid document"
  by (auto simp: confined_def)

lemma config_put: "k \<notin> {''kind'', ''data''} \<Longrightarrow> network_config float_text v d (dput k x document) = network_config float_text v d document"
  by (auto simp: network_config_def)

lemma adapt_document_Inr:
  assumes "adapt_document float_value float_text plan settings version st raw = Inr st'"
  obtains uid document where "dsub plan ''uid'' = Inr uid" "documents st' = documents st @ [document]" "confined uid document"
    "config_digest st' = config_digest st \<or>
     (\<exists>v. dsub settings ''podCIDR'' = Inr v \<and> network_config float_text v (config_digest st') document)"
proof -
  from assms obtain document1 document2 config document d found where steps:
      "check_scope document1 = Inr ()" "label_cluster plan document1 = Inr document2"
      "is_flannel_config document2 = Inr config"
      "(if \<not> config then Inr (document2, config_digest st)
        else bind (mapping (dget document2 ''data'') ''Flannel data'') (\<lambda>data.
             bind (adapt_config float_value float_text settings data) (\<lambda>(data', d).
               Inr (dput ''data'' (JObj data') document2, d)))) = Inr (document, d)"
      "st' = \<lparr>documents = documents st @ [document], config_digest = d, found_daemon = found\<rparr>"
    unfolding adapt_document_def by (auto simp: exn_simps)
  obtain uid where uid: "dsub plan ''uid'' = Inr uid" "confined uid document2"
    by (rule scope_labelled [OF steps(1,2)])
  show thesis
  proof (cases config)
    case False
    with steps(4) have "document = document2" "d = config_digest st" by auto
    with uid steps(5) show ?thesis by (intro that [of uid document]) simp_all
  next
    case True
    with steps(4) obtain data data' where out: "document = dput ''data'' (JObj data') document2"
        "adapt_config float_value float_text settings data = Inr (data', d)"
      by (auto simp: exn_simps)
    have "dget document ''kind'' = JStr ''ConfigMap''"
      using steps(3) True out(1) by (auto simp: is_flannel_config_def exn_simps)
    from adapt_config_Inr [OF out(2) this] out(1) uid steps(5) show ?thesis
      by (intro that [of uid document]) (simp_all add: confined_put)
  qed
qed

section \<open>The rollout\<close>

definition rolled_out :: "string \<Rightarrow> jobject \<Rightarrow> bool" where
  "rolled_out d document \<longleftrightarrow>
     (\<exists>daemon template metadata annotations.
        dget document ''spec'' = JObj daemon \<and> dget daemon ''template'' = JObj template \<and>
        dget template ''metadata'' = JObj metadata \<and> dget metadata ''annotations'' = JObj annotations \<and>
        dget annotations ''homelab.io/cni-config-sha256'' = JStr d)"

text \<open>The environment of a container names the API endpoint, once.\<close>

definition direct_env :: "string \<Rightarrow> json \<Rightarrow> bool" where
  "direct_env endpoint container \<longleftrightarrow>
     (\<exists>c env. container = JObj c \<and> dget c ''env'' = JArr env \<and>
        filter (\<lambda>e. overridden e = Inr True) env =
          [env_entry ''KUBERNETES_SERVICE_HOST'' (fst (split_endpoint endpoint)),
           env_entry ''KUBERNETES_SERVICE_PORT'' (snd (split_endpoint endpoint))])"

definition direct_endpoint :: "string \<Rightarrow> jobject \<Rightarrow> bool" where
  "direct_endpoint endpoint document \<longleftrightarrow>
     (\<exists>daemon template pod containers.
        dget document ''spec'' = JObj daemon \<and> dget daemon ''template'' = JObj template \<and>
        dget template ''spec'' = JObj pod \<and> dget pod ''containers'' = JArr containers \<and>
        list_all (direct_env endpoint) containers)"

lemma annotate_rolled_out:
  assumes "annotate_cni_rollout d document = Inr document'"
  obtains spec where "document' = dput ''spec'' spec document" "rolled_out d document'"
proof -
  from assms obtain spec annotations template metadata where
    "document' = dput ''spec'' (JObj (dput ''template'' (JObj (dput ''metadata''
       (JObj (dput ''annotations'' (JObj (dput ''homelab.io/cni-config-sha256'' (JStr d) annotations)) metadata)) template)) spec)) document"
    unfolding annotate_cni_rollout_def by (auto simp: exn_simps)
  with that show thesis by (auto simp: rolled_out_def)
qed

lemma direct_container_env:
  assumes "direct_container (fst (split_endpoint endpoint)) (snd (split_endpoint endpoint)) raw = Inr c"
  shows "direct_env endpoint c"
proof -
  from assms obtain container environment flags where
    flags: "mapM overridden environment = Inr flags"
    and c: "c = JObj (dput ''env'' (JArr (map snd (filter (\<lambda>(flag, e). \<not> flag) (zip flags environment)) @
       [env_entry ''KUBERNETES_SERVICE_HOST'' (fst (split_endpoint endpoint)),
        env_entry ''KUBERNETES_SERVICE_PORT'' (snd (split_endpoint endpoint))])) container)"
    unfolding direct_container_def by (auto simp: exn_simps)
  have "overridden e \<noteq> Inr True" if "(flag, e) \<in> set (zip flags environment)" "\<not> flag" for flag e
    using flags that by (auto simp: mapM_Inr_iff list_all2_conv_all_nth set_zip)
  then have kept: "filter (\<lambda>e. overridden e = Inr True) (map snd (filter (\<lambda>(flag, e). \<not> flag) (zip flags environment))) = []"
    by (auto simp: filter_empty_conv)
  have "overridden (env_entry name v) = Inr (name \<in> {''KUBERNETES_SERVICE_HOST'', ''KUBERNETES_SERVICE_PORT''})" for name v
    by (auto simp: overridden_def env_entry_def dget_def)
  with kept show ?thesis by (simp add: direct_env_def c)
qed

lemma direct_api_endpoint:
  assumes "use_direct_api_endpoint endpoint document = Inr document'" "rolled_out d document"
  obtains spec where "document' = dput ''spec'' spec document" "rolled_out d document'" "direct_endpoint endpoint document'"
proof -
  from assms(1) obtain daemon template pod containers containers' where out:
    "dsub document ''spec'' = Inr (JObj daemon)" "dsub daemon ''template'' = Inr (JObj template)"
    "mapM (direct_container (fst (split_endpoint endpoint)) (snd (split_endpoint endpoint))) containers = Inr containers'"
    "document' = dput ''spec'' (JObj (dput ''template'' (JObj (dput ''spec'' (JObj (dput ''containers'' (JArr containers') pod)) template)) daemon)) document"
    unfolding use_direct_api_endpoint_def by (auto simp: exn_simps case_prod_beta)
  have "list_all (direct_env endpoint) containers'"
    using mapM_set [OF out(3)] direct_container_env by (auto simp: list_all_iff)
  moreover have "rolled_out d document'"
    using assms(2) out(4) dsub_dget [OF out(1)] dsub_dget [OF out(2)] by (auto simp: rolled_out_def)
  ultimately show thesis using out(4) by (intro that) (auto simp: direct_endpoint_def)
qed

section \<open>The adapted release\<close>

definition adapted_release :: "jobject \<Rightarrow> jobject \<Rightarrow> string \<Rightarrow> jobject \<Rightarrow> bool" where
  "adapted_release plan settings d document \<longleftrightarrow>
     confined (dget plan ''uid'') document \<and>
     (dget document ''kind'' = JStr ''DaemonSet'' \<longrightarrow>
        rolled_out d document \<and>
        (dgetd plan ''networkApiEndpoint'' (JStr ''direct'') = JStr ''direct'' \<longrightarrow>
           (\<exists>endpoint. dget settings ''controlPlaneEndpoint'' = JStr endpoint \<and> direct_endpoint endpoint document)))"

lemma finish_document_adapted:
  assumes "finish_document plan settings d document = Inr document'" "confined (dget plan ''uid'') document"
  shows "adapted_release plan settings d document'"
    and "network_config float_text v d document \<Longrightarrow> document' = document"
proof -
  show "network_config float_text v d document \<Longrightarrow> document' = document"
    using assms(1) by (auto simp: finish_document_def network_config_def exn_simps dsub_def dget_def split: option.splits if_splits)
  obtain kind where kind: "dsub document ''kind'' = Inr kind" "dget document ''kind'' = kind"
    using assms(1) by (auto simp: finish_document_def exn_simps dsub_def dget_def split: option.splits)
  show "adapted_release plan settings d document'"
  proof (cases "kind = JStr ''DaemonSet''")
    case False
    with assms kind show ?thesis by (simp add: finish_document_def adapted_release_def)
  next
    case True
    with assms(1) kind obtain document1 where a: "annotate_cni_rollout d document = Inr document1"
      and rest: "(if dgetd plan ''networkApiEndpoint'' (JStr ''direct'') \<noteq> JStr ''direct'' then Inr document1 else
        bind (text' (dget settings ''controlPlaneEndpoint'') ''endpoint'') (\<lambda>endpoint.
          use_direct_api_endpoint endpoint document1)) = Inr document'"
      by (auto simp: finish_document_def exn_simps)
    obtain spec where r: "document1 = dput ''spec'' spec document" "rolled_out d document1"
      by (rule annotate_rolled_out [OF a])
    show ?thesis
    proof (cases "dgetd plan ''networkApiEndpoint'' (JStr ''direct'') = JStr ''direct''")
      case False
      with rest r assms(2) show ?thesis by (auto simp: adapted_release_def confined_put)
    next
      case True
      with rest obtain endpoint where e: "dget settings ''controlPlaneEndpoint'' = JStr endpoint"
          "use_direct_api_endpoint endpoint document1 = Inr document'"
        by (auto simp: exn_simps)
      obtain spec' where "document' = dput ''spec'' spec' document1" "rolled_out d document'" "direct_endpoint endpoint document'"
        by (rule direct_api_endpoint [OF e(2) r(2)])
      with e(1) r(1) assms(2) show ?thesis by (auto simp: adapted_release_def confined_put)
    qed
  qed
qed


section \<open>A release\<close>

text \<open>A release of one configuration and one DaemonSet, and the adapted configuration.\<close>

definition flannel_settings :: jobject where
  "flannel_settings =
     [(''podCIDR'', JStr ''10.244.0.0/16''), (''controlPlaneEndpoint'', JStr ''10.0.0.2:6443''),
      (''network'', JObj [(''version'', JStr ''0.26.1'')])]"

definition flannel_plan :: jobject where
  "flannel_plan = [(''uid'', JStr ''c-1''), (''settings'', JObj flannel_settings)]"

definition unlabelled :: "string \<Rightarrow> jobject" where
  "unlabelled name = [(''name'', JStr name), (''namespace'', JStr ''kube-flannel'')]"

definition labelled :: "string \<Rightarrow> jobject" where
  "labelled name = dput ''labels'' (JObj [(cluster_uid_label, JStr ''c-1'')]) (unlabelled name)"

definition flannel_config :: "jobject \<Rightarrow> jobject \<Rightarrow> jobject" where
  "flannel_config metadata data =
     [(''kind'', JStr ''ConfigMap''), (''metadata'', JObj metadata), (''data'', JObj data)]"

definition flannel_daemon :: "jobject \<Rightarrow> jobject" where
  "flannel_daemon metadata =
     [(''kind'', JStr ''DaemonSet''), (''metadata'', JObj metadata),
      (''spec'', JObj [(''template'', JObj [(''spec'', JObj
         [(''containers'', JArr [JObj [(''image'', JStr ''flannel:v0.26.1'')]])])])])]"

definition flannel_text :: "json \<Rightarrow> json" where
  "flannel_text v = JStr (dumps (\<lambda>x. []) sorted_style v)"

definition flannel_data :: jobject where
  "flannel_data =
     [(''cni-conf.json'', flannel_text (JObj [(''plugins'', JArr [JObj [(''type'', JStr ''flannel'')]])])),
      (''net-conf.json'', flannel_text (JObj []))]"

definition adapted_data :: jobject where
  "adapted_data =
     [(''cni-conf.json'', flannel_text (JObj [(''plugins'', JArr [JObj
         [(''type'', JStr ''flannel''), (''delegate'', JObj [(''forceAddress'', JBool True)]),
          (''ipam'', JObj [(''dataDir'', JStr ''/run/cni/flannel-networks'')])]])])),
      (''net-conf.json'', flannel_text (JObj [(''Network'', JStr ''10.244.0.0/16'')]))]"

lemma adapted_data:
  "adapt_config (\<lambda>s. 0) (\<lambda>x. []) flannel_settings flannel_data =
     Inr (adapted_data, sorted_digest (\<lambda>x. []) (JObj adapted_data))"
proof -
  have "rewrite_text (\<lambda>s. 0) (\<lambda>x. []) ''Flannel network config'' ''net-conf.json''
       (\<lambda>config. bind (dsub flannel_settings ''podCIDR'') (\<lambda>v. Inr (dput ''Network'' v config))) flannel_data =
     Inr (dput ''net-conf.json'' (flannel_text (JObj [(''Network'', JStr ''10.244.0.0/16'')])) flannel_data)"
    by code_simp
  moreover have "rewrite_text (\<lambda>s. 0) (\<lambda>x. []) ''Flannel CNI config'' ''cni-conf.json''
       (\<lambda>config.
          bind (array (dget config ''plugins'') ''Flannel CNI plugins must be an array'') (\<lambda>plugins.
          bind (adapt_plugins plugins) (\<lambda>plugins'. Inr (dput ''plugins'' (JArr plugins') config))))
       (dput ''net-conf.json'' (flannel_text (JObj [(''Network'', JStr ''10.244.0.0/16'')])) flannel_data) = Inr adapted_data"
    by code_simp
  ultimately show ?thesis by (simp add: adapt_config_def configure_flannel_cni_def)
qed

lemma config_adapted:
  "adapt_document (\<lambda>s. 0) (\<lambda>x. []) flannel_plan flannel_settings ''0.26.1'' st
     (JObj (flannel_config (unlabelled ''kube-flannel-cfg'') flannel_data)) =
   Inr \<lparr>documents = documents st @ [flannel_config (labelled ''kube-flannel-cfg'') adapted_data],
        config_digest = sorted_digest (\<lambda>x. []) (JObj adapted_data), found_daemon = found_daemon st\<rparr>"
proof -
  have "check_scope (flannel_config (unlabelled ''kube-flannel-cfg'') flannel_data) = Inr ()"
    "label_cluster flannel_plan (flannel_config (unlabelled ''kube-flannel-cfg'') flannel_data) =
       Inr (flannel_config (labelled ''kube-flannel-cfg'') flannel_data)"
    "is_flannel_config (flannel_config (labelled ''kube-flannel-cfg'') flannel_data) = Inr True"
    by code_simp+
  then show ?thesis
    by (simp add: adapt_document_def adapted_data) (simp add: flannel_config_def dget_def adapted_data)
qed

lemma daemon_adapted:
  "adapt_document (\<lambda>s. 0) (\<lambda>x. []) flannel_plan flannel_settings ''0.26.1'' st
     (JObj (flannel_daemon (unlabelled ''kube-flannel-ds''))) =
   Inr \<lparr>documents = documents st @ [flannel_daemon (labelled ''kube-flannel-ds'')],
        config_digest = config_digest st, found_daemon = True\<rparr>"
proof -
  have "check_scope (flannel_daemon (unlabelled ''kube-flannel-ds'')) = Inr ()"
    "label_cluster flannel_plan (flannel_daemon (unlabelled ''kube-flannel-ds'')) = Inr (flannel_daemon (labelled ''kube-flannel-ds''))"
    "is_flannel_config (flannel_daemon (labelled ''kube-flannel-ds'')) = Inr False"
    "flannel_daemon_matches (flannel_daemon (labelled ''kube-flannel-ds'')) ''0.26.1'' = Inr True"
    "dget (flannel_daemon (labelled ''kube-flannel-ds'')) ''kind'' = JStr ''DaemonSet''"
    by code_simp+
  then show ?thesis by (simp add: adapt_document_def)
qed

definition finished_daemon :: "string \<Rightarrow> jobject" where
  "finished_daemon d =
     [(''kind'', JStr ''DaemonSet''), (''metadata'', JObj (labelled ''kube-flannel-ds'')),
      (''spec'', JObj [(''template'', JObj
         [(''spec'', JObj [(''containers'', JArr [JObj
             [(''image'', JStr ''flannel:v0.26.1''),
              (''env'', JArr [env_entry ''KUBERNETES_SERVICE_HOST'' ''10.0.0.2'', env_entry ''KUBERNETES_SERVICE_PORT'' ''6443''])]])]),
          (''metadata'', JObj [(''annotations'', JObj [(''homelab.io/cni-config-sha256'', JStr d)])])])])]"

lemma config_finished:
  "finish_document flannel_plan flannel_settings d (flannel_config (labelled ''kube-flannel-cfg'') adapted_data) =
   Inr (flannel_config (labelled ''kube-flannel-cfg'') adapted_data)"
  by (simp add: finish_document_def dsub_def flannel_config_def)

lemma daemon_finished:
  "finish_document flannel_plan flannel_settings d (flannel_daemon (labelled ''kube-flannel-ds'')) = Inr (finished_daemon d)"
  by code_simp

lemma sorted_digest_written: "sorted_digest float_text v \<noteq> []"
proof
  assume "sorted_digest float_text v = []"
  then have "length (sorted_digest float_text v) = 0" by simp
  then show False by (simp add: sorted_digest_def sha256_length)
qed


end
