(* ===== verification/Models.thy ===== *)
theory Models
  imports Json
begin

text \<open>
  The resource envelope of the API client (\<open>operators/models.py\<close>): the two narrowing
  functions every operator uses on wire data, and \<open>resource\<close>, which rebuilds a response
  from its validated fields and drops the rest.
\<close>

definition json_object :: "json \<Rightarrow> string \<Rightarrow> exn + jobject" where
  "json_object v context =
     (case v of JObj d \<Rightarrow> Inr d | _ \<Rightarrow> Inl (ValueError (context @ '' must be a JSON mapping'')))"

definition json_string :: "json \<Rightarrow> string \<Rightarrow> exn + string" where
  "json_string v context =
     (case v of JStr s \<Rightarrow> Inr s | _ \<Rightarrow> Inl (ValueError (context @ '' must be a string'')))"

lemma json_object_Inr [exn_simps]: "json_object v c = Inr d \<longleftrightarrow> v = JObj d"
  by (auto simp: json_object_def split: json.splits)

lemma json_string_Inr [exn_simps]: "json_string v c = Inr s \<longleftrightarrow> v = JStr s"
  by (auto simp: json_string_def split: json.splits)

lemma json_narrow [simp]: "json_object (JObj d) c = Inr d" "json_string (JStr s) c = Inr s"
  by (simp_all add: json_object_def json_string_def)

text \<open>
  An optional field: absent, it leaves the record under construction alone; present, its
  narrowed value is stored under the same name.
\<close>

definition opt_field ::
  "jobject \<Rightarrow> string \<Rightarrow> (json \<Rightarrow> exn + json) \<Rightarrow> jobject \<Rightarrow> exn + jobject" where
  "opt_field raw field narrow acc =
     (case map_of raw field of
        None \<Rightarrow> Inr acc
      | Some v \<Rightarrow> bind (narrow v) (\<lambda>w. Inr (dput field w acc)))"

definition narrow_string :: "string \<Rightarrow> json \<Rightarrow> exn + json" where
  "narrow_string context v = bind (json_string v context) (\<lambda>s. Inr (JStr s))"

definition narrow_generation :: "json \<Rightarrow> exn + json" where
  "narrow_generation v =
     (case v of
        JInt i \<Rightarrow> Inr (JInt i)
      | _ \<Rightarrow> Inl (ValueError ''metadata.generation must be an integer''))"

definition narrow_string_map :: "string \<Rightarrow> json \<Rightarrow> exn + json" where
  "narrow_string_map field v =
     bind (json_object v (''metadata.'' @ field)) (\<lambda>values.
     bind (mapM (\<lambda>(key, item).
             bind (json_string item (''metadata.'' @ field @ ''.'' @ key)) (\<lambda>s. Inr (key, JStr s)))
           values) (\<lambda>d.
       Inr (JObj d)))"

definition narrow_finalizers :: "json \<Rightarrow> exn + json" where
  "narrow_finalizers v =
     (case v of
        JArr xs \<Rightarrow> bind (mapM (narrow_string ''finalizer'') xs) (\<lambda>ys. Inr (JArr ys))
      | _ \<Rightarrow> Inl (ValueError ''metadata.finalizers must be a list''))"

definition resource_metadata :: "jobject \<Rightarrow> exn + jobject" where
  "resource_metadata raw =
     bind (json_string (dget raw ''name'') ''metadata.name'') (\<lambda>name.
     bind (json_string (dget raw ''uid'') ''metadata.uid'') (\<lambda>uid.
     bind (json_string (dget raw ''resourceVersion'') ''metadata.resourceVersion'') (\<lambda>rv.
     bind (opt_field raw ''generation'' narrow_generation
             [(''name'', JStr name), (''uid'', JStr uid), (''resourceVersion'', JStr rv)]) (\<lambda>m.
     bind (opt_field raw ''deletionTimestamp'' (narrow_string ''metadata.deletionTimestamp'') m) (\<lambda>m.
     bind (opt_field raw ''annotations'' (narrow_string_map ''annotations'') m) (\<lambda>m.
     bind (opt_field raw ''labels'' (narrow_string_map ''labels'') m) (\<lambda>m.
     bind (opt_field raw ''creationTimestamp'' (narrow_string ''metadata.creationTimestamp'') m) (\<lambda>m.
       opt_field raw ''finalizers'' narrow_finalizers m))))))))"

definition resource :: "jobject \<Rightarrow> exn + jobject" where
  "resource value =
     bind (json_object (dget value ''metadata'') ''metadata'') (\<lambda>raw_metadata.
     bind (resource_metadata raw_metadata) (\<lambda>metadata.
     bind (json_string (dget value ''kind'') ''kind'') (\<lambda>kind.
     bind (json_object (dgetd value ''spec'' (JObj [])) ''spec'') (\<lambda>spec.
     bind (json_object (dgetd value ''status'' (JObj [])) ''status'') (\<lambda>status.
       opt_field value ''apiVersion'' (narrow_string ''apiVersion'')
         [(''kind'', JStr kind), (''metadata'', JObj metadata), (''spec'', JObj spec),
          (''status'', JObj status)])))))"

section \<open>What a validated envelope holds\<close>

lemma narrow_string_Inr [exn_simps]: "narrow_string c v = Inr w \<longleftrightarrow> (\<exists>s. v = JStr s \<and> w = v)"
  by (auto simp: narrow_string_def exn_simps)

lemma narrow_generation_Inr [exn_simps]: "narrow_generation v = Inr w \<longleftrightarrow> (\<exists>i. v = JInt i \<and> w = v)"
  by (auto simp: narrow_generation_def split: json.splits)

lemma narrow_string_map_Inr:
  "narrow_string_map f v = Inr w \<longleftrightarrow> (\<exists>d. v = JObj d \<and> w = v \<and> (\<forall>(k, x)\<in>set d. \<exists>s. x = JStr s))"
proof -
  have "mapM (\<lambda>(key, item).
          bind (json_string item (''metadata.'' @ f @ ''.'' @ key)) (\<lambda>s. Inr (key, JStr s))) d = Inr e
        \<longleftrightarrow> e = d \<and> (\<forall>(k, x)\<in>set d. \<exists>s. x = JStr s)" for d e
  proof (induction d arbitrary: e)
    case (Cons p d)
    then show ?case by (cases p) (auto simp: exn_simps)
  qed auto
  then show ?thesis by (auto simp: narrow_string_map_def exn_simps)
qed

lemma narrow_finalizers_Inr:
  "narrow_finalizers v = Inr w \<longleftrightarrow> (\<exists>xs. v = JArr xs \<and> w = v \<and> (\<forall>x\<in>set xs. \<exists>s. x = JStr s))"
proof -
  have "mapM (narrow_string ''finalizer'') xs = Inr ys \<longleftrightarrow> ys = xs \<and> (\<forall>x\<in>set xs. \<exists>s. x = JStr s)"
    for xs ys
    by (induction xs arbitrary: ys) (auto simp: exn_simps)
  then show ?thesis by (auto simp: narrow_finalizers_def exn_simps split: json.splits)
qed

lemmas narrow_simps = narrow_string_Inr narrow_generation_Inr narrow_string_map_Inr
  narrow_finalizers_Inr

text \<open>The fields an envelope may carry, in the order the code writes them.\<close>

definition field_of :: "jobject \<Rightarrow> string \<Rightarrow> jobject" where
  "field_of raw k = (case map_of raw k of None \<Rightarrow> [] | Some v \<Rightarrow> [(k, v)])"

lemma opt_field_Inr:
  assumes "\<And>v w. narrow v = Inr w \<Longrightarrow> w = v" "k \<notin> fst ` set acc"
  shows "opt_field raw k narrow acc = Inr m \<longleftrightarrow>
    m = acc @ field_of raw k \<and> (\<forall>v. map_of raw k = Some v \<longrightarrow> returns (narrow v))"
proof -
  have "dput k v acc = acc @ [(k, v)]" for v
    using assms(2) by (induction acc) auto
  then show ?thesis
    using assms(1) by (auto simp: opt_field_def field_of_def exn_simps returns_iff split: option.splits)
qed

definition metadata_fields :: "string list" where
  "metadata_fields =
     [''name'', ''uid'', ''resourceVersion'', ''generation'', ''deletionTimestamp'', ''annotations'',
      ''labels'', ''creationTimestamp'', ''finalizers'']"

definition project :: "jobject \<Rightarrow> string list \<Rightarrow> jobject" where
  "project raw ks = concat (map (field_of raw) ks)"

definition all_strings :: "json list \<Rightarrow> bool" where
  "all_strings xs = list_all (\<lambda>x. case x of JStr s \<Rightarrow> True | _ \<Rightarrow> False) xs"

fun is_string_map :: "json \<Rightarrow> bool" where
  "is_string_map (JObj d) = all_strings (map snd d)"
| "is_string_map _ = False"

fun is_string :: "json \<Rightarrow> bool" where
  "is_string (JStr s) = True"
| "is_string _ = False"

fun is_integer :: "json \<Rightarrow> bool" where
  "is_integer (JInt i) = True"
| "is_integer _ = False"

fun is_string_array :: "json \<Rightarrow> bool" where
  "is_string_array (JArr xs) = all_strings xs"
| "is_string_array _ = False"

text \<open>The abstract contract of the metadata of an envelope, field by field.\<close>

definition metadata_ok :: "jobject \<Rightarrow> bool" where
  "metadata_ok m =
     (is_string (dget m ''name'') \<and> is_string (dget m ''uid'') \<and>
      is_string (dget m ''resourceVersion'') \<and>
      (dhas m ''generation'' \<longrightarrow> is_integer (dget m ''generation'')) \<and>
      (dhas m ''deletionTimestamp'' \<longrightarrow> is_string (dget m ''deletionTimestamp'')) \<and>
      (dhas m ''annotations'' \<longrightarrow> is_string_map (dget m ''annotations'')) \<and>
      (dhas m ''labels'' \<longrightarrow> is_string_map (dget m ''labels'')) \<and>
      (dhas m ''creationTimestamp'' \<longrightarrow> is_string (dget m ''creationTimestamp'')) \<and>
      (dhas m ''finalizers'' \<longrightarrow> is_string_array (dget m ''finalizers'')))"

fun is_object :: "json \<Rightarrow> bool" where
  "is_object (JObj d) = True"
| "is_object _ = False"

definition object_of :: "json \<Rightarrow> jobject" where
  "object_of v = (case v of JObj d \<Rightarrow> d | _ \<Rightarrow> [])"

definition envelope_ok :: "jobject \<Rightarrow> bool" where
  "envelope_ok r =
     (is_object (dget r ''metadata'') \<and> metadata_ok (object_of (dget r ''metadata'')) \<and>
      is_string (dget r ''kind'') \<and> is_object (dgetd r ''spec'' (JObj [])) \<and>
      is_object (dgetd r ''status'' (JObj [])) \<and>
      (dhas r ''apiVersion'' \<longrightarrow> is_string (dget r ''apiVersion'')))"

text \<open>The envelope a response is reduced to: the known fields, the defaults filled in.\<close>

definition envelope :: "jobject \<Rightarrow> jobject" where
  "envelope v =
     [(''kind'', dget v ''kind''),
      (''metadata'', JObj (project (object_of (dget v ''metadata'')) metadata_fields)),
      (''spec'', dgetd v ''spec'' (JObj [])), (''status'', dgetd v ''status'' (JObj []))]
     @ field_of v ''apiVersion''"

lemma is_string_iff: "is_string v \<longleftrightarrow> (\<exists>s. v = JStr s)" by (cases v) auto
lemma is_integer_iff: "is_integer v \<longleftrightarrow> (\<exists>s. v = JInt s)" by (cases v) auto
lemma is_object_iff: "is_object v \<longleftrightarrow> (\<exists>s. v = JObj s)" by (cases v) auto

lemma all_strings_iff: "all_strings xs \<longleftrightarrow> (\<forall>x\<in>set xs. \<exists>s. x = JStr s)"
proof -
  have "(case x of JStr s \<Rightarrow> True | _ \<Rightarrow> False) \<longleftrightarrow> (\<exists>s. x = JStr s)" for x by (cases x) auto
  then show ?thesis by (simp add: all_strings_def list_all_iff)
qed

lemma narrow_returns:
  "returns (narrow_string c v) \<longleftrightarrow> is_string v"
  "returns (narrow_generation v) \<longleftrightarrow> is_integer v"
  "returns (narrow_string_map f v) \<longleftrightarrow> is_string_map v"
  "returns (narrow_finalizers v) \<longleftrightarrow> is_string_array v"
  by (cases v; force simp: returns_iff narrow_simps all_strings_iff)+

lemma project_keys: "k \<notin> set ks \<Longrightarrow> k \<notin> fst ` set (project raw ks)"
  by (auto simp: project_def field_of_def split: option.splits)

lemma opt_field_cond:
  "(\<forall>v. map_of raw k = Some v \<longrightarrow> P v) \<longleftrightarrow> (dhas raw k \<longrightarrow> P (dget raw k))"
  by (auto simp: dhas_def dget_def)

lemma opt_field_project:
  assumes "k \<notin> set ks" "\<And>v w. narrow v = Inr w \<Longrightarrow> w = v"
  shows "opt_field raw k narrow (project raw ks) = Inr m \<longleftrightarrow>
    m = project raw (ks @ [k]) \<and> (dhas raw k \<longrightarrow> returns (narrow (dget raw k)))"
  using opt_field_Inr [OF assms(2) project_keys [OF assms(1)]]
  by (simp add: project_def opt_field_cond)

lemma opt_project:
  assumes "k \<notin> set ks"
  shows "opt_field raw k (narrow_string c) (project raw ks) = Inr m \<longleftrightarrow>
      m = project raw (ks @ [k]) \<and> (dhas raw k \<longrightarrow> is_string (dget raw k))"
    and "opt_field raw k narrow_generation (project raw ks) = Inr m \<longleftrightarrow>
      m = project raw (ks @ [k]) \<and> (dhas raw k \<longrightarrow> is_integer (dget raw k))"
    and "opt_field raw k (narrow_string_map f) (project raw ks) = Inr m \<longleftrightarrow>
      m = project raw (ks @ [k]) \<and> (dhas raw k \<longrightarrow> is_string_map (dget raw k))"
    and "opt_field raw k narrow_finalizers (project raw ks) = Inr m \<longleftrightarrow>
      m = project raw (ks @ [k]) \<and> (dhas raw k \<longrightarrow> is_string_array (dget raw k))"
  by (subst opt_field_project [OF assms]; auto simp: narrow_simps narrow_returns)+

lemma field_of_string: "is_string (dget raw k) \<Longrightarrow> field_of raw k = [(k, dget raw k)]"
  by (auto simp: dget_def field_of_def split: option.splits)

lemma resource_metadata_iff:
  "resource_metadata raw = Inr m \<longleftrightarrow> metadata_ok raw \<and> m = project raw metadata_fields"
proof (cases "is_string (dget raw ''name'') \<and> is_string (dget raw ''uid'') \<and>
    is_string (dget raw ''resourceVersion'')")
  case True
  then obtain n u r where s: "dget raw ''name'' = JStr n" "dget raw ''uid'' = JStr u"
      "dget raw ''resourceVersion'' = JStr r" by (auto simp: is_string_iff)
  then have f: "[(''name'', JStr n), (''uid'', JStr u), (''resourceVersion'', JStr r)] =
      project raw [''name'', ''uid'', ''resourceVersion'']"
    by (simp add: project_def field_of_string)
  show ?thesis
    unfolding resource_metadata_def s json_narrow bind_simps f
    by (simp add: bind_eq_Inr opt_project narrow_simps metadata_ok_def metadata_fields_def s) blast
next
  case False
  then show ?thesis by (auto simp: resource_metadata_def metadata_ok_def exn_simps)
qed

lemma map_of_project: "map_of (project raw ks) k = (if k \<in> set ks then map_of raw k else None)"
proof (induction ks)
  case (Cons a ks)
  then show ?case by (auto simp: project_def field_of_def map_add_def split: option.splits)
qed (simp add: project_def)

lemma field_of_project: "k \<in> set ks \<Longrightarrow> field_of (project raw ks) k = field_of raw k"
  by (simp add: field_of_def map_of_project)

lemma project_project: "project (project raw ks) ks = project raw ks"
proof -
  have "map (field_of (project raw ks)) ks = map (field_of raw) ks"
    by (simp add: field_of_project)
  then show ?thesis by (metis project_def)
qed

lemma metadata_ok_project: "metadata_ok (project raw metadata_fields) = metadata_ok raw"
  by (simp add: metadata_ok_def dget_def dhas_def map_of_project metadata_fields_def)

lemma resource_iff: "resource v = Inr r \<longleftrightarrow> envelope_ok v \<and> r = envelope v"
proof -
  have "dput ''apiVersion'' w [(''kind'', a), (''metadata'', b), (''spec'', c), (''status'', d)] =
      [(''kind'', a), (''metadata'', b), (''spec'', c), (''status'', d), (''apiVersion'', w)]"
    for w a b c d by simp
  then show ?thesis
    by (auto simp: resource_def envelope_ok_def envelope_def exn_simps resource_metadata_iff
        is_object_iff is_string_iff object_of_def opt_field_def field_of_def dhas_def dget_def
        narrow_simps split: option.splits)
qed

text \<open>
  Validation keeps exactly the known fields, with the values the response gave them, and
  accepts its own result unchanged.
\<close>

lemma envelope_envelope: "envelope (envelope v) = envelope v"
  by (auto simp: envelope_def dget_def dgetd_def field_of_def object_of_def project_project
      split: option.splits)

lemma envelope_ok_envelope: "envelope_ok v \<Longrightarrow> envelope_ok (envelope v)"
  by (auto simp: envelope_def envelope_ok_def dget_def dgetd_def dhas_def field_of_def object_of_def
      metadata_ok_project split: option.splits)

lemma resource_idem: "resource v = Inr r \<Longrightarrow> resource r = Inr r"
  by (simp add: resource_iff envelope_envelope envelope_ok_envelope)

lemma resource_keeps:
  assumes "resource v = Inr r"
  shows "map_of r k =
    (if k = ''metadata'' then Some (JObj (project (object_of (dget v ''metadata'')) metadata_fields))
     else if k \<in> {''spec'', ''status''} then Some (dgetd v k (JObj []))
     else if k \<in> {''kind'', ''apiVersion''} then map_of v k else None)"
  using assms
  by (auto simp: resource_iff envelope_def envelope_ok_def dget_def field_of_def
      split: option.splits if_splits)

text \<open>
  C20: an API object that passes validation is accepted again unchanged, and keeps, of the
  response, the kind, the API version, the specification and status (empty when absent) and the
  known metadata fields, with their values, and nothing else.
\<close>

theorem resource_exact:
  assumes "resource v = Inr r"
  shows "envelope_ok v \<and> resource r = Inr r \<and>
    map_of r ''metadata'' = Some (JObj (project (object_of (dget v ''metadata'')) metadata_fields)) \<and>
    map_of r ''spec'' = Some (dgetd v ''spec'' (JObj [])) \<and>
    map_of r ''status'' = Some (dgetd v ''status'' (JObj [])) \<and>
    map_of r ''kind'' = map_of v ''kind'' \<and> map_of r ''apiVersion'' = map_of v ''apiVersion'' \<and>
    fst ` set r \<subseteq> {''kind'', ''apiVersion'', ''metadata'', ''spec'', ''status''}"
proof -
  have "k \<in> {''kind'', ''apiVersion'', ''metadata'', ''spec'', ''status''}" if "k \<in> fst ` set r" for k
    using that resource_keeps [OF assms, of k] by (auto simp: map_of_eq_None_iff split: if_splits)
  then show ?thesis
    using assms resource_idem [OF assms] resource_keeps [OF assms] by (auto simp: resource_iff)
qed

definition sample_server :: jobject where
  "sample_server =
     [(''apiVersion'', JStr ''homelab.io/v1''), (''kind'', JStr ''Server''),
      (''metadata'', JObj [(''name'', JStr ''srv-a''), (''uid'', JStr ''u-1''),
                           (''resourceVersion'', JStr ''7''), (''extra'', JInt 3), (''generation'', JInt 2)]),
      (''spec'', JObj [(''address'', JStr ''10.0.0.4'')])]"

theorem resource_exact_witness:
  "resource sample_server =
     Inr [(''kind'', JStr ''Server''),
          (''metadata'', JObj [(''name'', JStr ''srv-a''), (''uid'', JStr ''u-1''),
                              (''resourceVersion'', JStr ''7''), (''generation'', JInt 2)]),
          (''spec'', JObj [(''address'', JStr ''10.0.0.4'')]), (''status'', JObj []),
          (''apiVersion'', JStr ''homelab.io/v1'')] \<and> envelope_ok sample_server"
proof -
  have r: "resource sample_server =
     Inr [(''kind'', JStr ''Server''),
          (''metadata'', JObj [(''name'', JStr ''srv-a''), (''uid'', JStr ''u-1''),
                              (''resourceVersion'', JStr ''7''), (''generation'', JInt 2)]),
          (''spec'', JObj [(''address'', JStr ''10.0.0.4'')]), (''status'', JObj []),
          (''apiVersion'', JStr ''homelab.io/v1'')]"
    by code_simp
  with resource_exact [OF r] show ?thesis by blast
qed

end
