(* ===== verification/Effects.thy ===== *)
theory Effects
  imports Json
begin

text \<open>
  The effects of the operators. A computation runs in a world: an environment that answers
  every request with a function of the whole history (so an answer may depend on anything that
  happened before, and nothing is assumed about the services), the history itself, the text of
  floating-point numbers, and the one dictionary an operator mutates in place. A computation returns or raises, and in
  both cases leaves the world it reached.
\<close>

section \<open>Requests and answers\<close>

text \<open>
  \<open>ApiPatch\<close> names what \<open>patch_status\<close> sends: the collection and name of the URL, the UID of the
  body, the resource version of \<open>If-Match\<close>, the status fields. \<open>VaultRequest\<close> the method, URL, token and body of a request to the secret
  store. \<open>WriteJson\<close> is a private file that holds serialised JSON, \<open>Process\<close> a command with its standard input and time limit,
  \<open>Ansible\<close> one playbook run with its diagnostic file and time limit. \<open>Setenv\<close> sets or removes a
  variable of the process environment, \<open>FileTest\<close> asks whether a path exists, is a link, a file or a
  directory, \<open>FileChange\<close> is a change of the file system other than a private write, and \<open>Command\<close> a
  configured command in its working directory, under the process environment. \<open>Machine\<close> is the
  architecture of the host, \<open>Instant\<close> the current time as a number, \<open>Environ\<close> the whole process environment.

  The lower half of \<open>operators/common.py\<close> implements the first requests by finer ones: \<open>Exchange\<close> is one HTTP
  exchange (method, URL, headers, body), \<open>Upload\<close> the upload of a file, and \<open>Spawn\<close> (command, environment, working directory), \<open>StartReader\<close>,
  \<open>WaitProcess\<close>, \<open>KillGroup\<close>, \<open>JoinReader\<close> and \<open>CloseProcess\<close> are the steps of running one local command.
\<close>

datatype event =
    ApiGet string string
  | ApiList string
  | ApiPatch string string string string jobject
  | ApiCreate string string string jobject
  | Http string string
  | VaultRequest string string string jobject
  | Process "string list" string nat
  | Ansible "string list" string nat
  | WriteFile string string
  | WriteJson string json
  | ReadFile string
  | Getenv string
  | Monotonic
  | Sleep nat
  | Now
  | Uuid
  | Machine
  | TempDir string
  | Setenv string "string option"
  | FileTest string string
  | FileSize string
  | ListDir string
  | RealPath string
  | FileChange "string list"
  | Command "string list" string string nat
  | Instant
  | Environ
  | Exchange string string "(string \<times> string) list" "string option"
  | Upload string string "(string \<times> string) list"
  | Spawn "string list" "jobject option" "string option"
  | StartReader string
  | WaitProcess "nat option"
  | KillGroup
  | JoinReader nat
  | CloseProcess

datatype reply =
    RJson json
  | RText string
  | RProc int string string
  | RNum rat
  | RUnit
  | RRaise exn

type_synonym history = "(event \<times> reply) list"

record world =
  answers :: "history \<Rightarrow> event \<Rightarrow> reply"
  history :: history
  float_text :: "rat \<Rightarrow> string"
  cell :: jobject

type_synonym 'a io = "world \<Rightarrow> (exn + 'a) \<times> world"

text \<open>A status write.\<close>

fun patches :: "event \<Rightarrow> bool" where
  "patches (ApiPatch c n u rv status) = True"
| "patches _ = False"

section \<open>Sequencing\<close>

definition ret :: "'a \<Rightarrow> 'a io" where
  "ret x = (\<lambda>w. (Inr x, w))"

definition raise :: "exn \<Rightarrow> 'a io" where
  "raise e = (\<lambda>w. (Inl e, w))"

definition lift :: "exn + 'a \<Rightarrow> 'a io" where
  "lift r = (\<lambda>w. (r, w))"

definition andthen :: "'a io \<Rightarrow> ('a \<Rightarrow> 'b io) \<Rightarrow> 'b io" where
  "andthen m f = (\<lambda>w. case m w of (Inl e, w') \<Rightarrow> (Inl e, w') | (Inr x, w') \<Rightarrow> f x w')"

text \<open>\<open>try: m except: h\<close>, the handler choosing what it catches.\<close>

definition catch :: "'a io \<Rightarrow> (exn \<Rightarrow> 'a io) \<Rightarrow> 'a io" where
  "catch m h = (\<lambda>w. case m w of (Inl e, w') \<Rightarrow> h e w' | (Inr x, w') \<Rightarrow> (Inr x, w'))"

text \<open>\<open>try: m except Exception: h\<close>\<close>

definition catch_all :: "'a io \<Rightarrow> 'a io \<Rightarrow> 'a io" where
  "catch_all m h = catch m (\<lambda>e. if is_exception e then h else raise e)"

text \<open>\<open>try: m finally: f\<close>: an exception of the second part replaces the outcome of the first.\<close>

definition and_finally :: "'a io \<Rightarrow> unit io \<Rightarrow> 'a io" where
  "and_finally m f =
     (\<lambda>w. case m w of
        (Inl e, w') \<Rightarrow> andthen f (\<lambda>_. raise e) w'
      | (Inr x, w') \<Rightarrow> andthen f (\<lambda>_. ret x) w')"

definition do_if :: "bool \<Rightarrow> unit io \<Rightarrow> unit io" where
  "do_if c m = (if c then m else ret ())"

definition refuse_if :: "bool \<Rightarrow> exn \<Rightarrow> unit io" where
  "refuse_if c e = (if c then raise e else ret ())"

fun each :: "('a \<Rightarrow> unit io) \<Rightarrow> 'a list \<Rightarrow> unit io" where
  "each f [] = ret ()"
| "each f (x # xs) = andthen (f x) (\<lambda>_. each f xs)"

fun collect :: "('a \<Rightarrow> 'b io) \<Rightarrow> 'a list \<Rightarrow> 'b list io" where
  "collect f [] = ret []"
| "collect f (x # xs) = andthen (f x) (\<lambda>y. andthen (collect f xs) (\<lambda>ys. ret (y # ys)))"

definition get_cell :: "jobject io" where
  "get_cell = (\<lambda>w. (Inr (cell w), w))"

definition set_cell :: "jobject \<Rightarrow> unit io" where
  "set_cell s = (\<lambda>w. (Inr (), w\<lparr>cell := s\<rparr>))"

definition get_float_text :: "(rat \<Rightarrow> string) io" where
  "get_float_text = (\<lambda>w. (Inr (float_text w), w))"

section \<open>Asking the environment\<close>

definition ask :: "event \<Rightarrow> reply io" where
  "ask ev =
     (\<lambda>w. let r = answers w (history w) ev; w' = w\<lparr>history := history w @ [(ev, r)]\<rparr>
          in (case r of RRaise e \<Rightarrow> Inl (if e = Unfinished then OSError else e) | _ \<Rightarrow> Inr r, w'))"

text \<open>An answer of another shape than the request has counts as a failure of the transport.\<close>

definition ask_json :: "event \<Rightarrow> json io" where
  "ask_json ev = andthen (ask ev) (\<lambda>r. case r of RJson v \<Rightarrow> ret v | _ \<Rightarrow> raise OSError)"

definition ask_text :: "event \<Rightarrow> string io" where
  "ask_text ev = andthen (ask ev) (\<lambda>r. case r of RText s \<Rightarrow> ret s | _ \<Rightarrow> raise OSError)"

definition ask_num :: "event \<Rightarrow> rat io" where
  "ask_num ev = andthen (ask ev) (\<lambda>r. case r of RNum q \<Rightarrow> ret q | _ \<Rightarrow> raise OSError)"

definition ask_proc :: "event \<Rightarrow> (int \<times> string \<times> string) io" where
  "ask_proc ev =
     andthen (ask ev) (\<lambda>r. case r of RProc c out err \<Rightarrow> ret (c, out, err) | _ \<Rightarrow> raise OSError)"

definition act :: "event \<Rightarrow> unit io" where
  "act ev = andthen (ask ev) (\<lambda>_. ret ())"

text \<open>\<open>os.environ.get(name, default)\<close>, \<open>os.environ[name]\<close> and \<open>os.environ.get(name)\<close>\<close>

definition getenv_default :: "string \<Rightarrow> string \<Rightarrow> string io" where
  "getenv_default name dflt =
     andthen (ask (Getenv name)) (\<lambda>r. case r of RText s \<Rightarrow> ret s | _ \<Rightarrow> ret dflt)"

definition getenv :: "string \<Rightarrow> string io" where
  "getenv name =
     andthen (ask (Getenv name)) (\<lambda>r. case r of RText s \<Rightarrow> ret s | _ \<Rightarrow> raise (KeyError name))"

definition getenv_option :: "string \<Rightarrow> string option io" where
  "getenv_option name =
     andthen (ask (Getenv name)) (\<lambda>r. case r of RText s \<Rightarrow> ret (Some s) | _ \<Rightarrow> ret None)"

text \<open>Tests of a path.\<close>

definition file_test :: "string \<Rightarrow> string \<Rightarrow> bool io" where
  "file_test test path = andthen (ask_json (FileTest test path)) (\<lambda>v. ret (truthy v))"

section \<open>Optimistic updates\<close>

text \<open>
  The loop of every status write: read, patch under the version read, and start over while the
  answer is the conflict 409, a bounded number of times.
\<close>

definition unless_conflict :: "'a io \<Rightarrow> 'a option io" where
  "unless_conflict m =
     catch (andthen m (\<lambda>x. ret (Some x))) (\<lambda>e. if e = HTTPError 409 then ret None else raise e)"

fun attempts :: "nat \<Rightarrow> exn \<Rightarrow> 'a option io \<Rightarrow> 'a io" where
  "attempts 0 e m = raise e"
| "attempts (Suc n) e m = andthen m (\<lambda>r. case r of Some x \<Rightarrow> ret x | None \<Rightarrow> attempts n e m)"

text \<open>The whole loop: read and validate, then write what the read allows.\<close>

definition optimistic :: "exn \<Rightarrow> 'a io \<Rightarrow> ('a \<Rightarrow> 'b io) \<Rightarrow> 'b io" where
  "optimistic e fresh write =
     attempts 5 e (andthen fresh (\<lambda>x. unless_conflict (write x)))"

section \<open>Running\<close>

lemma run_simps [simp]:
  "ret x w = (Inr x, w)" "raise e w = (Inl e, w)" "lift r w = (r, w)"
  "get_cell w = (Inr (cell w), w)" "get_float_text w = (Inr (float_text w), w)" "set_cell s w = (Inr (), w\<lparr>cell := s\<rparr>)"
  by (simp_all add: ret_def raise_def lift_def get_cell_def get_float_text_def set_cell_def)

lemma andthen_run:
  "m w = (Inr x, w') \<Longrightarrow> andthen m f w = f x w'" "m w = (Inl e, w') \<Longrightarrow> andthen m f w = (Inl e, w')"
  by (simp_all add: andthen_def)

lemma andthen_simps [simp]:
  "andthen (ret x) f = f x" "andthen (raise e) f = raise e" "andthen (lift (Inr x)) f = f x"
  "andthen (lift (Inl e)) f = raise e"
  by (simp_all add: andthen_def fun_eq_iff)

lemma andthen_assoc: "andthen (andthen m f) g = andthen m (\<lambda>x. andthen (f x) g)"
  by (auto simp: andthen_def fun_eq_iff split: prod.splits sum.splits)

lemma refuse_if_simps [simp]:
  "refuse_if True e = raise e" "refuse_if False e = ret ()" "do_if True m = m" "do_if False m = ret ()"
  by (simp_all add: refuse_if_def do_if_def)

text \<open>A request that was answered is the last entry of the history.\<close>

lemma answered_simps:
  "ask_json ev w = (Inr v, w') \<longleftrightarrow> answers w (history w) ev = RJson v \<and> w' = w\<lparr>history := history w @ [(ev, RJson v)]\<rparr>"
  "ask_text ev w = (Inr s, w') \<longleftrightarrow> answers w (history w) ev = RText s \<and> w' = w\<lparr>history := history w @ [(ev, RText s)]\<rparr>"
  "ask_num ev w = (Inr q, w') \<longleftrightarrow> answers w (history w) ev = RNum q \<and> w' = w\<lparr>history := history w @ [(ev, RNum q)]\<rparr>"
  "ask_proc ev w = (Inr (c, out, err), w') \<longleftrightarrow>
     answers w (history w) ev = RProc c out err \<and> w' = w\<lparr>history := history w @ [(ev, RProc c out err)]\<rparr>"
  by (auto simp: ask_json_def ask_text_def ask_num_def ask_proc_def ask_def andthen_def Let_def
      split: reply.splits)

lemma act_answered:
  "act ev w = (Inr u, w') \<longleftrightarrow>
     (\<forall>e. answers w (history w) ev \<noteq> RRaise e) \<and> w' = w\<lparr>history := history w @ [(ev, answers w (history w) ev)]\<rparr>"
  by (auto simp: act_def ask_def andthen_def Let_def split: reply.splits)

lemma andthenE:
  assumes "andthen m f w = (Inr y, w')"
  obtains x w1 where "m w = (Inr x, w1)" "f x w1 = (Inr y, w')"
  using assms by (auto simp: andthen_def split: sum.splits prod.splits)

section \<open>Contracts\<close>

text \<open>
  \<open>contract P m Q E\<close>: from a world with \<open>P\<close>, \<open>m\<close> returns \<open>x\<close> in a world with \<open>Q x\<close> or raises
  \<open>e\<close> in one with \<open>E e\<close>.
\<close>

definition contract ::
  "(world \<Rightarrow> bool) \<Rightarrow> 'a io \<Rightarrow> ('a \<Rightarrow> world \<Rightarrow> bool) \<Rightarrow> (exn \<Rightarrow> world \<Rightarrow> bool) \<Rightarrow> bool" where
  "contract P m Q E \<longleftrightarrow>
     (\<forall>w. P w \<longrightarrow> (case m w of (Inl e, w') \<Rightarrow> E e w' | (Inr x, w') \<Rightarrow> Q x w'))"

lemma contractI:
  assumes "\<And>w x w'. P w \<Longrightarrow> m w = (Inr x, w') \<Longrightarrow> Q x w'"
    and "\<And>w e w'. P w \<Longrightarrow> m w = (Inl e, w') \<Longrightarrow> E e w'"
  shows "contract P m Q E"
  using assms by (auto simp: contract_def split: prod.splits sum.splits)

lemma contract_return: "contract P m Q E \<Longrightarrow> P w \<Longrightarrow> m w = (Inr x, w') \<Longrightarrow> Q x w'"
  by (fastforce simp: contract_def)

lemma contract_raise: "contract P m Q E \<Longrightarrow> P w \<Longrightarrow> m w = (Inl e, w') \<Longrightarrow> E e w'"
  by (fastforce simp: contract_def)

lemma contract_weaken:
  assumes "contract P m Q E" "\<And>w. P' w \<Longrightarrow> P w" "\<And>x w. Q x w \<Longrightarrow> Q' x w" "\<And>e w. E e w \<Longrightarrow> E' e w"
  shows "contract P' m Q' E'"
  using assms by (fastforce simp: contract_def split: prod.splits sum.splits)

named_theorems contracts "rules that establish a contract by the structure of the computation"

lemma contract_ret [contracts]: "(\<And>w. P w \<Longrightarrow> Q x w) \<Longrightarrow> contract P (ret x) Q E"
  by (simp add: contract_def)

lemma contract_raise_rule [contracts]: "(\<And>w. P w \<Longrightarrow> E e w) \<Longrightarrow> contract P (raise e) Q E"
  by (simp add: contract_def)

lemma contract_lift [contracts]:
  "(\<And>x w. P w \<Longrightarrow> r = Inr x \<Longrightarrow> Q x w) \<Longrightarrow> (\<And>e w. P w \<Longrightarrow> r = Inl e \<Longrightarrow> E e w) \<Longrightarrow>
   contract P (lift r) Q E"
  by (auto simp: contract_def split: sum.splits)

lemma contract_andthen:
  assumes "contract P m R E" "\<And>x. contract (R x) (f x) Q E"
  shows "contract P (andthen m f) Q E"
  using assms unfolding contract_def andthen_def
  by (fastforce split: prod.splits sum.splits)

lemma contract_if: "contract P m Q E \<Longrightarrow> contract P n Q E \<Longrightarrow> contract P (if c then m else n) Q E"
  by simp

lemma contract_catch:
  assumes "contract P m Q R" "\<And>e. contract (R e) (h e) Q E"
  shows "contract P (catch m h) Q E"
  using assms unfolding contract_def catch_def
  by (fastforce split: prod.splits sum.splits)

lemma contract_and_finally:
  assumes "contract P m R (\<lambda>_. S)" "\<And>x. contract (R x) f (\<lambda>_. Q x) E" "contract S f (\<lambda>_ w. \<forall>e. E e w) E"
  shows "contract P (and_finally m f) Q E"
  using assms unfolding contract_def and_finally_def andthen_def
  by (fastforce split: prod.splits sum.splits)

text \<open>An invariant of the world that a computation keeps, however it ends.\<close>

definition keeps :: "(world \<Rightarrow> bool) \<Rightarrow> 'a io \<Rightarrow> bool" where
  "keeps P m = contract P m (\<lambda>_. P) (\<lambda>_. P)"

named_theorems keeps_intros "rules that establish an invariant by the structure of the computation"

lemma keepsD: "keeps P m \<Longrightarrow> P w \<Longrightarrow> m w = (r, w') \<Longrightarrow> P w'"
  by (cases r) (auto simp: keeps_def contract_def dest!: spec [of _ w])

lemma keeps_andthen [keeps_intros]: "keeps P m \<Longrightarrow> (\<And>x. keeps P (f x)) \<Longrightarrow> keeps P (andthen m f)"
  unfolding keeps_def by (rule contract_andthen)

lemma keeps_catch [keeps_intros]: "keeps P m \<Longrightarrow> (\<And>e. keeps P (h e)) \<Longrightarrow> keeps P (catch m h)"
  unfolding keeps_def by (rule contract_catch)

lemma keeps_do_if [keeps_intros]: "keeps P m \<Longrightarrow> keeps P (do_if c m)"
  by (simp add: do_if_def keeps_def contract_ret)

lemma keeps_if [keeps_intros]: "keeps P m \<Longrightarrow> keeps P n \<Longrightarrow> keeps P (if c then m else n)"
  by simp

lemma keeps_case_option [keeps_intros]:
  "keeps P m \<Longrightarrow> (\<And>x. keeps P (f x)) \<Longrightarrow> keeps P (case v of None \<Rightarrow> m | Some x \<Rightarrow> f x)"
  by (cases v) auto

lemma keeps_case_prod [keeps_intros]: "(\<And>x y. keeps P (f x y)) \<Longrightarrow> keeps P (case p of (x, y) \<Rightarrow> f x y)"
  by (cases p) auto

lemma keeps_Let [keeps_intros]: "(\<And>x. keeps P (f x)) \<Longrightarrow> keeps P (let x = v in f x)"
  by simp

section \<open>What a computation may ask for\<close>

text \<open>
  \<open>only cw A m\<close>: whatever the environment answers, \<open>m\<close> extends the history only by requests with
  \<open>A\<close>, never changes the environment or the text of numbers, and changes the cell only if \<open>cw\<close>. This is the effect system the
  safety properties rest on: it composes along the structure of a computation.
\<close>

definition only :: "bool \<Rightarrow> (event \<Rightarrow> bool) \<Rightarrow> 'a io \<Rightarrow> bool" where
  "only cw A m \<longleftrightarrow>
     (\<forall>w. \<exists>h. history (snd (m w)) = history w @ h \<and> (\<forall>x\<in>set h. A (fst x)) \<and>
              answers (snd (m w)) = answers w \<and> float_text (snd (m w)) = float_text w \<and>
              (\<not> cw \<longrightarrow> cell (snd (m w)) = cell w))"

named_theorems only_intros "rules that bound the requests of a computation by its structure"

lemma onlyD:
  assumes "only cw A m" "m w = (r, w')"
  obtains h where "history w' = history w @ h" "\<forall>x\<in>set h. A (fst x)" "answers w' = answers w"
    "\<not> cw \<Longrightarrow> cell w' = cell w"
  using assms unfolding only_def by (metis snd_conv)

lemma only_float:
  assumes "only cw A m" "m w = (r, w')"
  shows "float_text w' = float_text w"
  using assms unfolding only_def by (metis snd_conv)

lemma only_mono: "only cw A m \<Longrightarrow> (cw \<Longrightarrow> dw) \<Longrightarrow> (\<And>e. A e \<Longrightarrow> B e) \<Longrightarrow> only dw B m"
  unfolding only_def by meson

lemma only_pure:
  "(\<And>w. history (snd (m w)) = history w \<and> answers (snd (m w)) = answers w \<and>
      float_text (snd (m w)) = float_text w \<and> (cw \<or> cell (snd (m w)) = cell w)) \<Longrightarrow> only cw A m"
  unfolding only_def by (intro allI exI [of _ "[]"]) auto

lemma only_ret [only_intros]: "only cw A (ret x)"
  and only_raise [only_intros]: "only cw A (raise e)"
  and only_lift [only_intros]: "only cw A (lift r)"
  and only_get_cell [only_intros]: "only cw A get_cell"
  and only_set_cell [only_intros]: "only True A (set_cell s)"
  and only_get_float_text [only_intros]: "only cw A get_float_text"
  by (rule only_pure; simp)+

lemma only_ask [only_intros]: "A ev \<Longrightarrow> only cw A (ask ev)"
  by (auto simp: only_def ask_def Let_def)

lemma only_andthen [only_intros]:
  assumes "only cw A m" "\<And>x. only cw A (f x)"
  shows "only cw A (andthen m f)"
  unfolding only_def
proof
  fix w
  obtain r w1 where m: "m w = (r, w1)" by fastforce
  from onlyD [OF assms(1) m] obtain h where h: "history w1 = history w @ h"
    "\<forall>x\<in>set h. A (fst x)" "answers w1 = answers w" "\<not> cw \<Longrightarrow> cell w1 = cell w" by blast
  show "\<exists>h. history (snd (andthen m f w)) = history w @ h \<and> (\<forall>x\<in>set h. A (fst x)) \<and>
      answers (snd (andthen m f w)) = answers w \<and> float_text (snd (andthen m f w)) = float_text w \<and>
      (\<not> cw \<longrightarrow> cell (snd (andthen m f w)) = cell w)"
  proof (cases r)
    case (Inl e)
    then show ?thesis using m h only_float [OF assms(1) m] by (auto simp: andthen_def)
  next
    case (Inr x)
    obtain r2 w2 where f: "f x w1 = (r2, w2)" by fastforce
    from onlyD [OF assms(2) this] obtain k where "history w2 = history w1 @ k"
      "\<forall>x\<in>set k. A (fst x)" "answers w2 = answers w1" "\<not> cw \<Longrightarrow> cell w2 = cell w1" by blast
    then show ?thesis using m f h Inr only_float [OF assms(1) m] only_float [OF assms(2) f]
      by (intro exI [of _ "h @ k"]) (auto simp: andthen_def)
  qed
qed

text \<open>The continuation only has to be bounded at the results the first computation returns.\<close>

lemma only_andthen_returned:
  assumes "only cw A m" "\<And>x w w'. m w = (Inr x, w') \<Longrightarrow> only cw A (f x)"
  shows "only cw A (andthen m f)"
proof -
  define g where "g x = (if \<exists>w w'. m w = (Inr x, w') then f x else (\<lambda>w. (Inl OSError, w)))" for x
  have "andthen m f w = andthen m g w" for w
  proof -
    obtain r w1 where m: "m w = (r, w1)" by fastforce
    then have "g x = f x" if "r = Inr x" for x using that by (auto simp: g_def)
    with m show ?thesis by (cases r) (simp_all add: andthen_def)
  qed
  then have "andthen m f = andthen m g" by blast
  moreover have "only cw A (g x)" for x
    using assms(2) by (auto simp: g_def intro: only_pure)
  ultimately show ?thesis using only_andthen [OF assms(1)] by metis
qed

lemma only_catch [only_intros]:
  assumes "only cw A m" "\<And>e. only cw A (h e)"
  shows "only cw A (catch m h)"
proof -
  have "only cw A (\<lambda>w. case m w of (Inl e, w') \<Rightarrow> (Inr (Inl e), w') | (Inr x, w') \<Rightarrow> (Inr (Inr x), w'))"
    (is "only cw A ?m")
    using assms(1) unfolding only_def by (auto split: prod.splits sum.splits) (metis snd_conv)+
  moreover have "catch m h = andthen ?m (\<lambda>r. case r of Inl e \<Rightarrow> h e | Inr x \<Rightarrow> ret x)"
    by (auto simp: catch_def andthen_def fun_eq_iff split: prod.splits sum.splits)
  moreover have "only cw A (case r of Inl e \<Rightarrow> h e | Inr x \<Rightarrow> ret x)" for r
    by (cases r) (auto intro: assms(2) only_intros)
  ultimately show ?thesis by (auto intro: only_andthen)
qed

lemma only_and_finally [only_intros]:
  assumes "only cw A m" "only cw A f"
  shows "only cw A (and_finally m f)"
proof -
  have "and_finally m f = andthen (catch (andthen m (\<lambda>x. ret (Inr x))) (\<lambda>e. ret (Inl e)))
      (\<lambda>r. andthen f (\<lambda>_. case r of Inl e \<Rightarrow> raise e | Inr x \<Rightarrow> ret x))"
    by (auto simp: and_finally_def catch_def andthen_def fun_eq_iff split: prod.splits sum.splits)
  moreover have "only cw A (case r of Inl e \<Rightarrow> raise e | Inr x \<Rightarrow> ret x)" for r
    by (cases r) (auto intro: only_intros)
  ultimately show ?thesis using assms by (auto intro!: only_intros)
qed

lemma only_if [only_intros]: "only cw A m \<Longrightarrow> only cw A n \<Longrightarrow> only cw A (if c then m else n)"
  by simp

lemma only_case_option [only_intros]:
  "only cw A m \<Longrightarrow> (\<And>x. only cw A (f x)) \<Longrightarrow> only cw A (case v of None \<Rightarrow> m | Some x \<Rightarrow> f x)"
  by (cases v) auto

lemma only_case_prod [only_intros]: "(\<And>x y. only cw A (f x y)) \<Longrightarrow> only cw A (case p of (x, y) \<Rightarrow> f x y)"
  by (cases p) auto

lemma only_Let [only_intros]: "(\<And>x. only cw A (f x)) \<Longrightarrow> only cw A (let x = v in f x)"
  by simp

lemma only_do_if [only_intros]: "only cw A m \<Longrightarrow> only cw A (do_if c m)"
  by (simp add: do_if_def only_ret)

lemma only_refuse_if [only_intros]: "only cw A (refuse_if c e)"
  by (simp add: refuse_if_def only_ret only_raise)

lemma only_catch_all [only_intros]: "only cw A m \<Longrightarrow> only cw A h \<Longrightarrow> only cw A (catch_all m h)"
  unfolding catch_all_def by (intro only_intros)

lemma only_lifted:
  "(\<And>x. r = Inr x \<Longrightarrow> only cw A (f x)) \<Longrightarrow> only cw A (andthen (lift r) f)"
  by (cases r) (simp_all add: only_raise del: raise_def)

lemma only_each [only_intros]: "(\<And>x. x \<in> set xs \<Longrightarrow> only cw A (f x)) \<Longrightarrow> only cw A (each f xs)"
  by (induction xs) (auto intro: only_intros)

lemma only_collect [only_intros]: "(\<And>x. x \<in> set xs \<Longrightarrow> only cw A (f x)) \<Longrightarrow> only cw A (collect f xs)"
  by (induction xs) (auto intro!: only_intros)

lemma only_asks [only_intros]:
  assumes "A ev"
  shows "only cw A (ask_json ev)" "only cw A (ask_text ev)" "only cw A (ask_num ev)" "only cw A (ask_proc ev)"
    "only cw A (act ev)"
proof -
  have "only cw A (case r of RJson v \<Rightarrow> ret v | _ \<Rightarrow> raise OSError)"
    "only cw A (case r of RText s \<Rightarrow> ret s | _ \<Rightarrow> raise OSError)"
    "only cw A (case r of RNum q \<Rightarrow> ret q | _ \<Rightarrow> raise OSError)"
    "only cw A (case r of RProc c out err \<Rightarrow> ret (c, out, err) | _ \<Rightarrow> raise OSError)" for r
    by (cases r; simp add: only_ret only_raise)+
  then show "only cw A (ask_json ev)" "only cw A (ask_text ev)" "only cw A (ask_num ev)"
    "only cw A (ask_proc ev)" "only cw A (act ev)"
    unfolding ask_json_def ask_text_def ask_num_def ask_proc_def act_def
    using assms by (auto intro: only_intros)
qed

lemma only_getenv [only_intros]:
  assumes "A (Getenv k)"
  shows "only cw A (getenv k)" "only cw A (getenv_default k d)" "only cw A (getenv_option k)"
proof -
  have "only cw A (case r of RText s \<Rightarrow> ret s | _ \<Rightarrow> raise (KeyError k))"
    "only cw A (case r of RText s \<Rightarrow> ret s | _ \<Rightarrow> ret d)"
    "only cw A (case r of RText s \<Rightarrow> ret (Some s) | _ \<Rightarrow> ret None)" for r
    by (cases r; simp add: only_ret only_raise)+
  then show "only cw A (getenv k)" "only cw A (getenv_default k d)" "only cw A (getenv_option k)"
    unfolding getenv_def getenv_default_def getenv_option_def using assms by (auto intro: only_intros)
qed

lemma only_file_test [only_intros]: "A (FileTest t p) \<Longrightarrow> only cw A (file_test t p)"
  unfolding file_test_def by (intro only_intros)

lemma only_unless_conflict [only_intros]: "only cw A m \<Longrightarrow> only cw A (unless_conflict m)"
  unfolding unless_conflict_def by (intro only_intros)

lemma only_attempts [only_intros]: "only cw A m \<Longrightarrow> only cw A (attempts n e m)"
  by (induction n) (auto intro!: only_intros)

lemma only_optimistic [only_intros]:
  "only cw A fresh \<Longrightarrow> (\<And>x. only cw A (write x)) \<Longrightarrow> only cw A (optimistic e fresh write)"
  unfolding optimistic_def by (intro only_intros)

lemma only_case_json [only_intros]:
  assumes "only cw A a" "\<And>b. only cw A (f1 b)" "\<And>i. only cw A (f2 i)" "\<And>q. only cw A (f3 q)"
    "\<And>s. only cw A (f4 s)" "\<And>xs. only cw A (f5 xs)" "\<And>d. only cw A (f6 d)"
  shows "only cw A (case v of JNull \<Rightarrow> a | JBool b \<Rightarrow> f1 b | JInt i \<Rightarrow> f2 i | JFloat q \<Rightarrow> f3 q
    | JStr s \<Rightarrow> f4 s | JArr xs \<Rightarrow> f5 xs | JObj d \<Rightarrow> f6 d)"
  using assms by (cases v) auto

lemma only_case_reply [only_intros]:
  assumes "\<And>v. only cw A (f1 v)" "\<And>s. only cw A (f2 s)" "\<And>c out err. only cw A (f3 c out err)"
    "\<And>q. only cw A (f4 q)" "only cw A b" "\<And>e. only cw A (f5 e)"
  shows "only cw A (case r of RJson v \<Rightarrow> f1 v | RText s \<Rightarrow> f2 s | RProc c out err \<Rightarrow> f3 c out err
    | RNum q \<Rightarrow> f4 q | RUnit \<Rightarrow> b | RRaise e \<Rightarrow> f5 e)"
  using assms by (cases r) auto

lemma only_case_exn [only_intros]:
  assumes "\<And>r m. only cw A (f r m)" "only cw A d"
  shows "only cw A (case e of OperatorError r m \<Rightarrow> f r m | _ \<Rightarrow> d)"
  using assms by (cases e) auto

section \<open>Reaching a request\<close>

text \<open>The requests a run adds; a computation that made a request went through what comes before it.\<close>

definition added :: "world \<Rightarrow> world \<Rightarrow> history" where
  "added w w' = drop (length (history w)) (history w')"

definition made :: "(event \<Rightarrow> bool) \<Rightarrow> world \<Rightarrow> world \<Rightarrow> bool" where
  "made B w w' \<longleftrightarrow> (\<exists>x\<in>set (added w w'). B (fst x))"

lemma only_cell: "only False A m \<Longrightarrow> m w = (r, w') \<Longrightarrow> cell w' = cell w"
  by (erule (1) onlyD) simp

lemma only_answers: "only cw A m \<Longrightarrow> m w = (r, w') \<Longrightarrow> answers w' = answers w"
  by (erule (1) onlyD) simp

lemma only_not_made: "only cw (\<lambda>e. \<not> B e) m \<Longrightarrow> m w = (r, w') \<Longrightarrow> \<not> made B w w'"
  by (erule (1) onlyD) (auto simp: made_def added_def)

lemma only_made: "only cw A m \<Longrightarrow> m w = (r, w') \<Longrightarrow> x \<in> set (added w w') \<Longrightarrow> A (fst x)"
  by (erule (1) onlyD) (auto simp: added_def)

lemma only_extends: "only cw A m \<Longrightarrow> m w = (r, w') \<Longrightarrow> history w' = history w @ added w w'"
  by (erule (1) onlyD) (auto simp: added_def)

lemma added_append: "history w' = history w @ h \<Longrightarrow> added w w' = h"
  by (simp add: added_def)

lemma added_trans:
  assumes "history w1 = history w @ added w w1" "history w2 = history w1 @ added w1 w2"
  shows "added w w2 = added w w1 @ added w1 w2"
  by (rule added_append, subst assms(2), subst assms(1), simp)

lemma made_andthen:
  assumes "andthen m f w = (r, w')" "only cw (\<lambda>e. \<not> B e) m" "made B w w'"
    "\<And>x. only dw (\<lambda>_. True) (f x)"
  obtains x w1 where "m w = (Inr x, w1)" "f x w1 = (r, w')" "made B w1 w'"
proof -
  obtain r1 w1 where m: "m w = (r1, w1)" by fastforce
  show thesis
  proof (cases r1)
    case (Inl e)
    then have "w' = w1" using assms(1) m by (simp add: andthen_def)
    with only_not_made [OF assms(2) m] assms(3) show thesis by simp
  next
    case (Inr x)
    then have f: "f x w1 = (r, w')" using assms(1) m by (simp add: andthen_def)
    have "history w1 = history w @ added w w1" using only_extends [OF assms(2) m] .
    moreover have "history w' = history w1 @ added w1 w'" using only_extends [OF assms(4) f] .
    ultimately have "added w w' = added w w1 @ added w1 w'" by (rule added_trans)
    with assms(3) only_not_made [OF assms(2) m] have "made B w1 w'" by (auto simp: made_def)
    with m f Inr that show thesis by blast
  qed
qed

lemma made_catch:
  assumes "catch m h w = (r, w')" "made B w w'" "only cw (\<lambda>e. True) m" "\<And>e. only dw (\<lambda>e. \<not> B e) (h e)"
  obtains r1 w1 where "m w = (r1, w1)" "made B w w1"
proof -
  obtain r1 w1 where m: "m w = (r1, w1)" by fastforce
  have "made B w w1"
  proof (cases r1)
    case (Inl e)
    then have h: "h e w1 = (r, w')" using assms(1) m by (simp add: catch_def)
    have "added w w' = added w w1 @ added w1 w'"
      by (rule added_trans [OF only_extends [OF assms(3) m] only_extends [OF assms(4) h]])
    with assms(2) only_not_made [OF assms(4) h] show ?thesis by (auto simp: made_def)
  qed (use assms(1,2) m in \<open>simp add: catch_def\<close>)
  with m that show thesis by blast
qed

lemma made_finally:
  assumes "and_finally m f w = (r, w')" "made B w w'" "only cw (\<lambda>e. True) m" "only dw (\<lambda>e. \<not> B e) f"
  obtains r1 w1 where "m w = (r1, w1)" "made B w w1"
proof -
  obtain r1 w1 where m: "m w = (r1, w1)" by fastforce
  then obtain r2 where f: "f w1 = (r2, w')"
    using assms(1) by (auto simp: and_finally_def andthen_def split: sum.splits prod.splits)
  have "added w w' = added w w1 @ added w1 w'"
    by (rule added_trans [OF only_extends [OF assms(3) m] only_extends [OF assms(4) f]])
  with assms(2) only_not_made [OF assms(4) f] have "made B w w1" by (auto simp: made_def)
  with m that show thesis by blast
qed

text \<open>A world reached from another one, in the same environment.\<close>

definition later :: "world \<Rightarrow> world \<Rightarrow> bool" where
  "later w w' \<longleftrightarrow> history w' = history w @ added w w' \<and> answers w' = answers w \<and> float_text w' = float_text w"

lemma later_refl [simp, intro]: "later w w"
  by (simp add: later_def added_def)

lemma later_trans [trans]: "later w1 w2 \<Longrightarrow> later w2 w3 \<Longrightarrow> later w1 w3"
  by (simp add: later_def) (metis added_append append.assoc)

lemma only_later: "only cw A m \<Longrightarrow> m w = (r, w') \<Longrightarrow> later w w'"
  by (simp add: later_def only_extends only_answers only_float)

lemma later_cell [simp]: "later w (w'\<lparr>cell := c\<rparr>) = later w w'"
  by (simp add: later_def added_def)

text \<open>A request made by the first of two steps, or by the body of a handler.\<close>

lemma made_first:
  assumes "andthen m f w = (r, w')" "made B w w'" "only True (\<lambda>e. True) m" "\<And>x. only True (\<lambda>e. \<not> B e) (f x)"
  obtains r1 w1 where "made B w w1" "m w = (r1, w1)" "later w1 w'"
proof -
  obtain r1 w1 where m: "m w = (r1, w1)" by fastforce
  have "later w1 w' \<and> made B w w1"
  proof (cases r1)
    case (Inr x)
    then have f: "f x w1 = (r, w')" using assms(1) m by (simp add: andthen_def)
    have "added w w' = added w w1 @ added w1 w'"
      by (rule added_trans [OF only_extends [OF assms(3) m] only_extends [OF assms(4) f]])
    with assms(2) only_not_made [OF assms(4) f] only_later [OF assms(4) f] show ?thesis by (auto simp: made_def)
  qed (use assms(1,2) m in \<open>simp add: andthen_def\<close>)
  with m that show thesis by blast
qed

lemma made_caught:
  assumes "catch m h w = (r, w')" "made B w w'" "only True (\<lambda>e. True) m" "\<And>e. only True (\<lambda>e. \<not> B e) (h e)"
  obtains r1 w1 where "m w = (r1, w1)" "made B w w1" "later w1 w'"
proof -
  obtain r1 w1 where m: "m w = (r1, w1)" "made B w w1" by (rule made_catch [OF assms])
  moreover have "later w1 w'"
  proof (cases r1)
    case (Inl e)
    then have "h e w1 = (r, w')" using assms(1) m by (simp add: catch_def)
    from only_later [OF assms(4) this] show ?thesis .
  qed (use assms(1) m in \<open>simp add: catch_def\<close>)
  ultimately show thesis by (rule that)
qed

lemma made_later:
  assumes "later w w1" "later w1 w'" "made B w1 w'"
  shows "made B w w'"
proof -
  have "added w w' = added w w1 @ added w1 w'"
    using assms(1,2) unfolding later_def by (intro added_trans) blast+
  with assms(3) show ?thesis by (auto simp: made_def)
qed

lemma made_counted: "made B w w' \<Longrightarrow> 1 \<le> length (filter (B \<circ> fst) (added w w'))"
  by (auto simp: made_def Suc_le_eq length_greater_0_conv filter_empty_conv)

text \<open>The requests since a world \<open>w0\<close> are all of a class \<open>A\<close>.\<close>

definition since :: "(event \<Rightarrow> bool) \<Rightarrow> world \<Rightarrow> world \<Rightarrow> bool" where
  "since A w0 w \<longleftrightarrow> history w = history w0 @ added w0 w \<and> list_all (A \<circ> fst) (added w0 w)"

lemma since_refl [simp]: "since A w w"
  by (simp add: since_def added_def)

lemma since_only:
  assumes "since A w0 w" "only cw A m" "m w = (r, w')"
  shows "since A w0 w'"
proof -
  have "history w' = history w @ added w w'" by (rule only_extends [OF assms(2,3)])
  with assms(1) have "added w0 w' = added w0 w @ added w w'"
    by (intro added_trans) (simp_all add: since_def)
  with assms(1) only_made [OF assms(2,3)] \<open>history w' = _\<close> show ?thesis
    by (auto simp: since_def list_all_iff)
qed

lemma keeps_since: "only True A m \<Longrightarrow> keeps (since A w0) m"
  unfolding keeps_def by (rule contractI; erule (2) since_only)

lemma keeps_since_cell:
  assumes "only False A m"
  shows "keeps (\<lambda>w. since A w0 w \<and> Q (cell w)) m"
  unfolding keeps_def
  by (rule contractI) (auto intro: since_only [OF _ assms] simp: only_cell [OF assms])

text \<open>What an optimistic update returns was written after a read that allowed it.\<close>

lemma unless_conflict_Inr:
  "unless_conflict m w = (Inr (Some x), w') \<longleftrightarrow> m w = (Inr x, w')"
  by (auto simp: unless_conflict_def catch_def andthen_def split: prod.splits sum.splits)

lemma attempts_returns:
  "attempts n e m w = (Inr x, w') \<Longrightarrow>
   \<exists>w1 h. m w1 = (Inr (Some x), w') \<and> answers w1 = answers w \<and> history w1 = history w @ h"
  if "only cw A m"
proof (induction n arbitrary: w)
  case (Suc n)
  obtain r w1 where m: "m w = (r, w1)" by fastforce
  obtain h where h: "history w1 = history w @ h" "answers w1 = answers w"
    by (rule onlyD [OF \<open>only cw A m\<close> m])
  show ?case
  proof (cases "r = Inr None")
    case True
    with Suc.prems m have "attempts n e m w1 = (Inr x, w')" by (simp add: andthen_def)
    from Suc.IH [OF this] h show ?thesis by auto
  next
    case False
    with Suc.prems m have "m w = (Inr (Some x), w')"
      by (auto simp: andthen_def split: sum.splits option.splits)
    then show ?thesis by (intro exI [of _ w] exI [of _ "[]"]) simp
  qed
qed simp

lemma optimistic_returns:
  assumes "optimistic e fresh store w = (Inr y, w')" "only cw A fresh" "\<And>x. only cw A (store x)"
  obtains w1 x w2 h where "fresh w1 = (Inr x, w2)" "store x w2 = (Inr y, w')"
    "answers w1 = answers w" "history w1 = history w @ h"
proof -
  have "only cw A (andthen fresh (\<lambda>x. unless_conflict (store x)))"
    using assms(2,3) by (intro only_intros)
  from attempts_returns [OF this assms(1) [unfolded optimistic_def]] obtain w1 h
    where "andthen fresh (\<lambda>x. unless_conflict (store x)) w1 = (Inr (Some y), w')"
      "answers w1 = answers w" "history w1 = history w @ h" by blast
  with that show thesis
    by (auto simp: andthen_def unless_conflict_Inr split: prod.splits sum.splits)
qed

lemma optimistic_raises:
  assumes "optimistic e fresh store w = (Inl e', w')" "only False A fresh"
    and "\<And>x w r w'. store x w = (Inl r, w') \<Longrightarrow> cell w' = cell w"
  shows "cell w' = cell w"
proof -
  let ?body = "andthen fresh (\<lambda>x. unless_conflict (store x))"
  have body: "cell w2 = cell w1" if "?body w1 = (r, w2)" "\<nexists>y. r = Inr (Some y)" for r w1 w2
  proof -
    obtain s w3 where f: "fresh w1 = (s, w3)" by fastforce
    have "cell w3 = cell w1" by (rule only_cell [OF assms(2) f])
    with that f show ?thesis
      by (auto simp: andthen_def unless_conflict_def catch_def dest!: assms(3)
          split: sum.splits prod.splits if_splits)
  qed
  have "attempts n e ?body w = (Inl e', w') \<Longrightarrow> cell w' = cell w" for n w
  proof (induction n arbitrary: w)
    case (Suc n)
    obtain r w1 where b: "?body w = (r, w1)" by fastforce
    with Suc.prems have "\<nexists>y. r = Inr (Some y)" by (auto simp: andthen_def)
    from body [OF b this] Suc b show ?case
      by (fastforce simp: andthen_def split: sum.splits option.splits)
  qed simp
  with assms(1) show ?thesis by (simp add: optimistic_def)
qed

section \<open>Counting requests\<close>

definition counted :: "(event \<Rightarrow> bool) \<Rightarrow> history \<Rightarrow> nat" where
  "counted K h = length (filter (K \<circ> fst) h)"

lemma counted_append [simp]: "counted K (h @ k) = counted K h + counted K k"
  by (simp add: counted_def)

text \<open>\<open>at_most n K m\<close>: whatever the environment answers, \<open>m\<close> makes at most \<open>n\<close> requests of the kind \<open>K\<close>.\<close>

definition at_most :: "nat \<Rightarrow> (event \<Rightarrow> bool) \<Rightarrow> 'a io \<Rightarrow> bool" where
  "at_most n K m \<longleftrightarrow>
     (\<forall>w. history (snd (m w)) = history w @ added w (snd (m w)) \<and> counted K (added w (snd (m w))) \<le> n)"

lemma at_mostD:
  assumes "at_most n K m" "m w = (r, w')"
  shows "history w' = history w @ added w w'" "counted K (added w w') \<le> n"
  using assms(1) [unfolded at_most_def, rule_format, of w] assms(2) by simp_all

lemma at_mostI:
  assumes "\<And>w r w'. m w = (r, w') \<Longrightarrow> history w' = history w @ added w w' \<and> counted K (added w w') \<le> n"
  shows "at_most n K m"
  unfolding at_most_def using assms by (metis prod.collapse)

lemma at_most_mono: "at_most n K m \<Longrightarrow> n \<le> k \<Longrightarrow> at_most k K m"
  unfolding at_most_def by (meson le_trans)

lemma at_most_none:
  assumes "only cw (\<lambda>e. \<not> K e) m"
  shows "at_most 0 K m"
proof (rule at_mostI)
  fix w r w'
  assume m: "m w = (r, w')"
  from only_made [OF assms this] have "\<forall>x\<in>set (added w w'). \<not> K (fst x)" by blast
  then show "history w' = history w @ added w w' \<and> counted K (added w w') \<le> 0"
    using only_extends [OF assms m] by (auto simp: counted_def filter_empty_conv)
qed

lemma at_most_andthen:
  assumes "at_most n K m" "\<And>x. at_most k K (f x)"
  shows "at_most (n + k) K (andthen m f)"
proof (rule at_mostI)
  fix w r w'
  assume run: "andthen m f w = (r, w')"
  obtain r1 w1 where m: "m w = (r1, w1)" by fastforce
  note one = at_mostD [OF assms(1) m]
  show "history w' = history w @ added w w' \<and> counted K (added w w') \<le> n + k"
  proof (cases r1)
    case (Inl e)
    with run m one show ?thesis by (auto simp: andthen_def)
  next
    case (Inr x)
    with run m have f: "f x w1 = (r, w')" by (simp add: andthen_def)
    note two = at_mostD [OF assms(2) f]
    have "added w w' = added w w1 @ added w1 w'" by (rule added_trans [OF one(1) two(1)])
    with one two show ?thesis by simp
  qed
qed

lemma at_most_then_pure:
  assumes "at_most n K m" "\<And>x. only True (\<lambda>e. \<not> K e) (f x)"
  shows "at_most n K (andthen m f)"
  using at_most_andthen [OF assms(1) at_most_none [OF assms(2)]] by simp

lemma at_most_after:
  assumes "only True (\<lambda>e. \<not> K e) m" "\<And>x. at_most n K (f x)"
  shows "at_most n K (andthen m f)"
  using at_most_andthen [OF at_most_none [OF assms(1)] assms(2)] by simp

lemma at_most_if: "at_most n K a \<Longrightarrow> at_most n K b \<Longrightarrow> at_most n K (if c then a else b)"
  by simp

lemma at_most_catch:
  assumes "at_most n K m" "\<And>e. at_most 0 K (h e)"
  shows "at_most n K (catch m h)"
proof (rule at_mostI)
  fix w r w'
  assume run: "catch m h w = (r, w')"
  obtain r1 w1 where m: "m w = (r1, w1)" by fastforce
  note one = at_mostD [OF assms(1) m]
  show "history w' = history w @ added w w' \<and> counted K (added w w') \<le> n"
  proof (cases r1)
    case (Inl e)
    with run m have h: "h e w1 = (r, w')" by (simp add: catch_def)
    note two = at_mostD [OF assms(2) h]
    have "added w w' = added w w1 @ added w1 w'" by (rule added_trans [OF one(1) two(1)])
    with one two show ?thesis by simp
  qed (use run m one in \<open>auto simp: catch_def\<close>)
qed

lemma at_most_and_finally:
  assumes "at_most n K m" "at_most k K f"
  shows "at_most (n + k) K (and_finally m f)"
proof (rule at_mostI)
  fix w r w'
  assume run: "and_finally m f w = (r, w')"
  obtain r1 w1 where m: "m w = (r1, w1)" by fastforce
  then obtain r2 where f: "f w1 = (r2, w')"
    using run by (auto simp: and_finally_def andthen_def split: sum.splits prod.splits)
  note one = at_mostD [OF assms(1) m] and two = at_mostD [OF assms(2) f]
  have "added w w' = added w w1 @ added w1 w'" by (rule added_trans [OF one(1) two(1)])
  with one two show "history w' = history w @ added w w' \<and> counted K (added w w') \<le> n + k" by simp
qed

lemma at_most_ask: "at_most 1 K (ask ev)"
  by (rule at_mostI) (auto simp: ask_def Let_def added_def counted_def)

lemma at_most_unless_conflict:
  assumes "at_most n K m"
  shows "at_most n K (unless_conflict m)"
proof -
  have "at_most (n + 0) K (andthen m (\<lambda>x. ret (Some x)))"
    by (rule at_most_andthen [OF assms at_most_none], rule only_ret)
  then show ?thesis
    unfolding unless_conflict_def by (intro at_most_catch at_most_none only_intros) simp
qed

lemma at_most_attempts:
  assumes "at_most k K m"
  shows "at_most (n * k) K (attempts n e m)"
proof (induction n)
  case (Suc n)
  have "at_most (n * k) K (case r of Some x \<Rightarrow> ret x | None \<Rightarrow> attempts n e m)" for r
    by (cases r) (simp_all only: option.case Suc at_most_mono [OF at_most_none [OF only_ret]] le0)
  from at_most_andthen [OF assms this] show ?case by (simp only: attempts.simps mult_Suc)
qed (simp only: attempts.simps at_most_mono [OF at_most_none [OF only_raise]] le0)

section \<open>The interface of an optimistic update\<close>

text \<open>
  What the loop of a status write relies on: the read makes no request of the kind \<open>K\<close> and the write
  makes one. Then the loop makes at most five.
\<close>

locale optimistic_update =
  fixes K :: "event \<Rightarrow> bool" and fresh :: "'a io" and put_back :: "'a \<Rightarrow> 'b io"
  assumes fresh_reads: "only False (\<lambda>e. \<not> K e) fresh"
    and writes_once: "at_most 1 K (put_back x)"
begin

lemma at_most_five: "at_most 5 K (optimistic e fresh put_back)"
proof -
  have "at_most (0 + 1) K (andthen fresh (\<lambda>x. unless_conflict (put_back x)))"
    by (intro at_most_andthen at_most_none [OF fresh_reads] at_most_unless_conflict writes_once)
  from at_most_attempts [OF this, of 5 e] show ?thesis by (simp add: optimistic_def)
qed

end

end
