(* ===== verification/Common.thy ===== *)
theory Common
  imports Codec Address Models Effects
begin

text \<open>
  The shared primitives of \<open>operators/common.py\<close>: public keys and their fingerprints, the
  binding of SSH trust to a Server UID, the typed API client, SSH, and the captured inventory.
\<close>

section \<open>Text\<close>

text \<open>\<open>s.split()\<close>: the runs of characters that are not white space.\<close>

function split_ws :: "string \<Rightarrow> string list" where
  "split_ws s =
     (let t = dropWhile isspace_char s in
      if t = [] then []
      else takeWhile (\<lambda>c. \<not> isspace_char c) t # split_ws (dropWhile (\<lambda>c. \<not> isspace_char c) t))"
  by pat_completeness auto
termination
proof (relation "measure length")
  fix s t :: string
  assume t: "t = dropWhile isspace_char s" "t \<noteq> []"
  then have "\<not> isspace_char (hd t)" by (simp add: hd_dropWhile)
  with t(2) have "length (dropWhile (\<lambda>c. \<not> isspace_char c) t) < length t"
    by (cases t) (auto simp: le_imp_less_Suc length_dropWhile_le)
  also have "\<dots> \<le> length s" by (simp add: t(1) length_dropWhile_le)
  finally show "(dropWhile (\<lambda>c. \<not> isspace_char c) t, s) \<in> measure length" by simp
qed simp

declare split_ws.simps [simp del]

definition rstrip_char :: "char \<Rightarrow> string \<Rightarrow> string" where
  "rstrip_char c s = rev (dropWhile (\<lambda>x. x = c) (rev s))"

definition strip :: "string \<Rightarrow> string" where
  "strip s = rev (dropWhile isspace_char (rev (dropWhile isspace_char s)))"

section \<open>Host identities\<close>

text \<open>
  The wire form of an Ed25519 public key: the length-prefixed algorithm name and the
  length-prefixed key of 32 bytes.
\<close>

definition ed25519_name :: string where
  "ed25519_name = ''ssh-ed25519''"

definition wire_key :: "string \<Rightarrow> bool" where
  "wire_key raw =
     (take 4 raw = be_bytes 4 11 \<and> take 11 (drop 4 raw) = ed25519_name \<and>
      take 4 (drop 15 raw) = be_bytes 4 32 \<and> length raw = 51)"

definition public_key :: "string \<Rightarrow> exn + string" where
  "public_key value =
     (let fields = split_ws (strip value) in
      if length fields < 2 \<or> fields ! 0 \<noteq> ed25519_name
      then Inl (RuntimeError ''An Ed25519 host key is required'') else
      (case b64decode (fields ! 1) of
         None \<Rightarrow> Inl (LibError ''b64decode'')
       | Some raw \<Rightarrow>
           if \<not> wire_key raw then Inl (RuntimeError ''Invalid Ed25519 host key encoding'')
           else Inr (fields ! 0 @ '' '' @ fields ! 1)))"

definition key_of :: "json \<Rightarrow> exn + string" where
  "key_of v = bind (str_of AttributeError v) public_key"

definition fingerprint :: "json \<Rightarrow> exn + string" where
  "fingerprint key =
     bind (key_of key) (\<lambda>k.
       (case b64decode (split_ws k ! 1) of
          None \<Rightarrow> Inl (LibError ''b64decode'')
        | Some raw \<Rightarrow> Inr (''SHA256:'' @ rstrip_char (CHR ''='') (b64encode (sha256 raw)))))"

definition rx_uid :: rx where
  "rx_uid = rplus (RCls [(CHR ''A'', CHR ''Z''), (CHR ''a'', CHR ''z''), (CHR ''0'', CHR ''9''),
                         (CHR ''-'', CHR ''-'')])"

definition host_alias :: "json \<Rightarrow> exn + string" where
  "host_alias server =
     bind (jpath server [''metadata'', ''uid'']) (\<lambda>v.
     bind (str_of TypeError v) (\<lambda>uid.
       if \<not> fullmatch rx_uid uid then Inl (RuntimeError ''Invalid Server UID'')
       else Inr (''server-'' @ uid)))"

definition management_address :: "jobject \<Rightarrow> exn + string option" where
  "management_address server =
     bind (dsub server ''status'') (\<lambda>status.
     bind (jget status ''networking'' (JObj [])) (\<lambda>v.
     bind (json_object v ''networking'') (\<lambda>networking.
     bind (json_object (dgetd networking ''management'' (JObj [])) ''management'') (\<lambda>management.
     bind (json_object (dgetd management ''address'' (JObj [])) ''management address'') (\<lambda>endpoint.
       if dget endpoint ''address'' = JNull then Inr None
       else bind (json_string (dget endpoint ''address'') ''management IP'') (\<lambda>ip. Inr (Some ip)))))))"

section \<open>The API client\<close>

text \<open>\<open>API()\<close>: the URL and a nonempty token come from the environment of the process.\<close>

definition api_init :: "unit io" where
  "api_init =
     andthen (getenv ''STIGMERGY_API_URL'') (\<lambda>_.
     andthen (getenv ''STIGMERGY_API_TOKEN'') (\<lambda>token.
       refuse_if (strip token = []) (RuntimeError ''An API token is required'')))"

text \<open>The transport decodes a JSON object; \<open>resource\<close> narrows it.\<close>

definition request :: "event \<Rightarrow> jobject io" where
  "request ev = andthen (ask_json ev) (\<lambda>v. lift (json_object v ''API response''))"

definition api_get :: "string \<Rightarrow> json \<Rightarrow> jobject io" where
  "api_get collection name =
     andthen (lift (str_of TypeError name)) (\<lambda>n.
     andthen (request (ApiGet collection n)) (\<lambda>v. lift (resource v)))"

definition api_list :: "string \<Rightarrow> jobject list io" where
  "api_list collection =
     andthen (request (ApiList collection)) (\<lambda>response.
     (case dget response ''items'' of
        JArr items \<Rightarrow>
          lift (mapM (\<lambda>item. bind (json_object item ''collection item'') resource) items)
      | _ \<Rightarrow> raise (ValueError ''API collection.items must be a list'')))"

definition collection_of :: "json \<Rightarrow> exn + string" where
  "collection_of kind =
     (if kind = JStr ''Server'' then Inr ''servers''
      else if kind = JStr ''ProvisioningRun'' then Inr ''provisioning-runs''
      else if kind = JStr ''Configuration'' then Inr ''configurations''
      else if kind = JStr ''KubeCluster'' then Inr ''kube-clusters''
      else if kind = JStr ''Operation'' then Inr ''operations''
      else (case kind of JStr k \<Rightarrow> Inl (KeyError k) | _ \<Rightarrow> Inl TypeError))"

definition patch_request :: "json \<Rightarrow> jobject \<Rightarrow> exn + event" where
  "patch_request server status =
     bind (jsub server ''kind'') (\<lambda>kind.
     bind (collection_of kind) (\<lambda>collection.
     bind (bind (jpath server [''metadata'', ''name'']) (str_of TypeError)) (\<lambda>name.
     bind (bind (jpath server [''metadata'', ''uid'']) (str_of TypeError)) (\<lambda>uid.
     bind (bind (jpath server [''metadata'', ''resourceVersion'']) (str_of TypeError)) (\<lambda>rv.
       Inr (ApiPatch collection name uid rv status))))))"

definition patch_status :: "json \<Rightarrow> jobject \<Rightarrow> jobject io" where
  "patch_status server status =
     andthen (lift (patch_request server status)) (\<lambda>ev.
     andthen (request ev) (\<lambda>v. lift (resource v)))"

definition create_resource :: "string \<Rightarrow> string \<Rightarrow> string \<Rightarrow> jobject \<Rightarrow> jobject io" where
  "create_resource collection kind name spec =
     andthen (request (ApiCreate collection kind name spec)) (\<lambda>v. lift (resource v))"

section \<open>SSH\<close>

definition ssh_args :: "json \<Rightarrow> string \<Rightarrow> string \<Rightarrow> string list io" where
  "ssh_args server known_hosts checking =
     andthen (lift (host_alias server)) (\<lambda>name.
     andthen (getenv ''ANSIBLE_CERTIFICATE_FILE'') (\<lambda>certificate.
     andthen (getenv ''ANSIBLE_PRIVATE_KEY_FILE'') (\<lambda>key.
       ret [''-o'', ''BatchMode=yes'', ''-o'', ''ConnectTimeout=15'', ''-o'', ''ConnectionAttempts=1'',
            ''-o'', ''IdentitiesOnly=yes'', ''-o'', ''IdentityAgent=none'', ''-o'', ''ForwardAgent=no'',
            ''-o'', ''UpdateHostKeys=no'', ''-o'', ''HashKnownHosts=no'',
            ''-o'', ''HostKeyAlgorithms=ssh-ed25519'', ''-o'', ''GlobalKnownHostsFile=/dev/null'',
            ''-o'', ''StrictHostKeyChecking='' @ checking, ''-o'', ''UserKnownHostsFile='' @ known_hosts,
            ''-o'', ''HostKeyAlias='' @ name, ''-o'', ''CertificateFile='' @ certificate,
            ''-i'', key])))"

definition ssh_probe :: "json \<Rightarrow> string \<Rightarrow> string \<Rightarrow> string \<Rightarrow> unit io" where
  "ssh_probe server host known_hosts checking =
     andthen (ssh_args server known_hosts checking) (\<lambda>args.
     andthen (lift (ip_address host)) (\<lambda>a.
     andthen (ask_proc (Process (''ssh'' # args @ [''ansible@'' @ a, ''true'']) [] 45))
       (\<lambda>(code, out, err).
     if code = 0 then ret ()
     else if contains err ''Host key verification failed'' \<or>
             contains err ''REMOTE HOST IDENTIFICATION HAS CHANGED''
     then raise (OperatorError ''HostIdentityMismatch''
            ''SSH host identity changed; explicit recovery or reenrollment is required'')
     else if contains err ''Permission denied''
     then raise (OperatorError ''ManagementAuthenticationFailed''
            ''SSH management certificate authentication failed'')
     else raise (OperatorError ''SSHConnectionFailed''
            ''SSH identity/authentication verification failed or the target is unreachable''))))"

section \<open>Captured inventory\<close>

definition merge_host :: "jobject \<Rightarrow> string \<times> json \<Rightarrow> exn + jobject" where
  "merge_host result entry =
     (case entry of (name, variables) \<Rightarrow>
     bind (case map_of result name of
             None \<Rightarrow> Inr False
           | Some known \<Rightarrow>
               bind (jget known ''ansible_host'' JNull) (\<lambda>a.
               bind (jget variables ''ansible_host'' JNull) (\<lambda>b. Inr (\<not> py_eq a b)))) (\<lambda>conflict.
     if conflict then Inl (RuntimeError ''Conflicting inventory addresses'')
     else
       (case (dgetd result name (JObj []), variables) of
          (JObj known, JObj vars) \<Rightarrow> Inr (dput name (JObj (dmerge known vars)) result)
        | _ \<Rightarrow> Inl TypeError)))"

definition inventory_hosts :: "json \<Rightarrow> exn + jobject" where
  "inventory_hosts inventory =
     bind (jitems inventory) (\<lambda>groups.
       foldM (\<lambda>result (_, group).
         bind (jget group ''hosts'' (JObj [])) (\<lambda>hosts.
         bind (jitems hosts) (\<lambda>entries.
           foldM merge_host result entries))) [] groups)"

definition capture_inventory :: "string \<Rightarrow> (jobject \<times> jobject) io" where
  "capture_inventory group_name =
     andthen (api_get ''inventory-capture-groups'' (JStr group_name)) (\<lambda>group.
     andthen (lift (dsub group ''metadata'')) (\<lambda>metadata.
     andthen (lift (jget metadata ''deletionTimestamp'' JNull)) (\<lambda>deleted.
     if truthy deleted then raise (RuntimeError ''Inventory capture group is terminating'') else
     andthen (lift (jget (dgetd group ''status'' (JObj [])) ''observedGeneration'' JNull)) (\<lambda>observed.
     andthen (lift (jsub metadata ''generation'')) (\<lambda>generation.
     if \<not> py_eq observed generation
     then raise (RuntimeError ''Inventory capture group has not reconciled its current generation'')
     else
     andthen (lift (jget (dgetd group ''status'' (JObj [])) ''inventory'' JNull)) (\<lambda>inventory.
     (case inventory of
        JObj d \<Rightarrow> ret (group, d)
      | _ \<Rightarrow> raise (RuntimeError ''Inventory capture group has no resolved inventory''))))))))"

section \<open>Facts about keys\<close>

definition nonspace :: "string \<Rightarrow> bool" where
  "nonspace s \<longleftrightarrow> s \<noteq> [] \<and> list_all (\<lambda>c. \<not> isspace_char c) s"

lemma split_ws_nonspace: "w \<in> set (split_ws s) \<Longrightarrow> nonspace w"
proof (induction s arbitrary: w rule: split_ws.induct)
  case (1 s)
  define t where "t = dropWhile isspace_char s"
  show ?case
  proof (cases "t = []")
    case False
    then have "\<not> isspace_char (hd t)" by (simp add: hd_dropWhile t_def)
    then have "nonspace (takeWhile (\<lambda>c. \<not> isspace_char c) t)"
      using False by (cases t) (auto simp: nonspace_def list_all_iff dest: set_takeWhileD)
    with "1.IH" [OF t_def False] "1.prems" show ?thesis
      by (subst (asm) split_ws.simps) (auto simp: False simp flip: t_def)
  qed (use "1.prems" in \<open>subst (asm) split_ws.simps, simp flip: t_def\<close>)
qed

lemma nonspace_takeWhile:
  assumes "nonspace a"
  shows "takeWhile (\<lambda>c. \<not> isspace_char c) (a @ s) = a @ takeWhile (\<lambda>c. \<not> isspace_char c) s"
    and "dropWhile (\<lambda>c. \<not> isspace_char c) (a @ s) = dropWhile (\<lambda>c. \<not> isspace_char c) s"
    and "dropWhile isspace_char (a @ s) = a @ s"
proof -
  have "\<forall>c\<in>set a. \<not> isspace_char c" "a \<noteq> []" using assms by (auto simp: nonspace_def list_all_iff)
  then show "takeWhile (\<lambda>c. \<not> isspace_char c) (a @ s) = a @ takeWhile (\<lambda>c. \<not> isspace_char c) s"
    "dropWhile (\<lambda>c. \<not> isspace_char c) (a @ s) = dropWhile (\<lambda>c. \<not> isspace_char c) s"
    "dropWhile isspace_char (a @ s) = a @ s"
    by (simp_all add: takeWhile_append2 dropWhile_append2) (cases a; simp)
qed

lemma split_ws_space: "isspace_char c \<Longrightarrow> split_ws (c # s) = split_ws s"
  by (subst (1 2) split_ws.simps) simp

lemma split_ws_word:
  assumes "nonspace a" "isspace_char c"
  shows "split_ws (a @ c # s) = a # split_ws s"
proof -
  have "a \<noteq> []" using assms by (simp add: nonspace_def)
  then show ?thesis
    using nonspace_takeWhile [OF assms(1), of "c # s"] assms(2) split_ws_space [OF assms(2), of s]
    by (subst split_ws.simps) simp
qed

lemma split_ws_single:
  assumes "nonspace a"
  shows "split_ws a = [a]"
proof -
  have nil: "split_ws [] = []" by (subst split_ws.simps) simp
  have "takeWhile (\<lambda>c. \<not> isspace_char c) a = a" "dropWhile (\<lambda>c. \<not> isspace_char c) a = []"
    "dropWhile isspace_char a = a" "a \<noteq> []"
    using nonspace_takeWhile [OF assms, of "[]"] assms
    by (simp_all add: nonspace_def del: takeWhile_eq_all_conv dropWhile_eq_Nil_conv)
  then show ?thesis
    using nil by (subst split_ws.simps) (simp del: takeWhile_eq_all_conv dropWhile_eq_Nil_conv)
qed

lemma split_ws_two:
  assumes "nonspace a" "nonspace b" "isspace_char c"
  shows "split_ws (a @ c # b) = [a, b]"
  using split_ws_word [OF assms(1,3)] split_ws_single [OF assms(2)] by simp

lemma strip_nonspace_ends:
  assumes "s \<noteq> []" "\<not> isspace_char (hd s)" "\<not> isspace_char (last s)"
  shows "strip s = s"
proof -
  have "dropWhile isspace_char s = s" "dropWhile isspace_char (rev s) = rev s"
    using assms by (simp_all add: dropWhile_eq_self_iff hd_rev)
  then show ?thesis by (simp add: strip_def)
qed

lemma space_is_space [simp]: "isspace_char (CHR '' '')"
  by (simp add: isspace_char_def)

lemma ed25519_nonspace [simp]: "nonspace ed25519_name"
  by (simp add: nonspace_def ed25519_name_def isspace_char_def)

lemma two_fields:
  assumes "nonspace a" "nonspace b"
  shows "split_ws (strip (a @ CHR '' '' # b)) = [a, b]" "split_ws (a @ CHR '' '' # b) = [a, b]"
proof -
  have "strip (a @ CHR '' '' # b) = a @ CHR '' '' # b"
    using assms by (intro strip_nonspace_ends) (auto simp: nonspace_def list_all_iff)
  then show "split_ws (strip (a @ CHR '' '' # b)) = [a, b]" "split_ws (a @ CHR '' '' # b) = [a, b]"
    using split_ws_two [OF assms space_is_space] by simp_all
qed

text \<open>A normalised key: the algorithm name, one space, the Base64 text of the wire form.\<close>

lemma public_key_iff:
  "public_key value = Inr k \<longleftrightarrow>
     (\<exists>b raw rest. split_ws (strip value) = ed25519_name # b # rest \<and>
        b64decode b = Some raw \<and> wire_key raw \<and> k = ed25519_name @ '' '' @ b)"
proof (cases "split_ws (strip value)" rule: remdups_adj.cases)
  case (3 x b rest)
  then show ?thesis
    by (cases "b64decode b") (auto simp: public_key_def Let_def)
qed (simp_all add: public_key_def Let_def)

lemma public_key_fields:
  assumes "public_key value = Inr k"
  obtains b raw where "k = ed25519_name @ '' '' @ b" "nonspace b" "b64decode b = Some raw"
    "wire_key raw"
proof -
  from assms obtain b raw rest where s: "split_ws (strip value) = ed25519_name # b # rest"
    "b64decode b = Some raw" "wire_key raw" "k = ed25519_name @ '' '' @ b"
    by (auto simp: public_key_iff)
  moreover have "nonspace b" using s(1) by (intro split_ws_nonspace [of b "strip value"]) simp
  ultimately show thesis using that by blast
qed

lemma public_key_idem: "public_key value = Inr k \<Longrightarrow> public_key k = Inr k"
  by (erule public_key_fields) (auto simp: public_key_iff two_fields)

lemma fingerprint_of_key:
  assumes "public_key value = Inr k"
  shows "fingerprint (JStr value) = fingerprint (JStr k)"
  using assms public_key_idem [OF assms] by (simp add: fingerprint_def key_of_def)

lemma fingerprint_Inr:
  assumes "public_key value = Inr k"
  shows "\<exists>b raw. k = ed25519_name @ '' '' @ b \<and> b64decode b = Some raw \<and> wire_key raw \<and>
    fingerprint (JStr value) = Inr (''SHA256:'' @ rstrip_char (CHR ''='') (b64encode (sha256 raw)))"
proof -
  from assms obtain b raw where "k = ed25519_name @ '' '' @ b" "nonspace b" "b64decode b = Some raw"
    "wire_key raw" by (rule public_key_fields)
  with assms show ?thesis
    by (auto simp: fingerprint_def key_of_def two_fields)
qed

text \<open>The text form of a key of 32 bytes, as an OpenSSH public key file has it.\<close>

definition wire_of :: "string \<Rightarrow> string" where
  "wire_of k = be_bytes 4 11 @ ed25519_name @ be_bytes 4 32 @ k"

definition key_text :: "string \<Rightarrow> string" where
  "key_text k = ed25519_name @ '' '' @ b64encode (wire_of k)"

lemma b64_char_nonspace: "n < 64 \<Longrightarrow> \<not> isspace_char (b64_char n)"
proof -
  assume n: "n < 64"
  then have "b64_value (b64_char n) = Some n" by simp
  then show ?thesis by (auto simp: b64_value_def isspace_char_def Let_def split: if_splits)
qed

lemma pad_nonspace: "\<not> isspace_char (CHR ''='')"
  by (simp add: isspace_char_def)

lemma b64encode_nonspace: "c \<in> set (b64encode s) \<Longrightarrow> \<not> isspace_char c"
proof (induction s rule: b64encode.induct)
  case (4 a b c' s)
  then show ?case by (auto simp: b64_char_nonspace)
qed (auto simp: b64_char_nonspace pad_nonspace)

lemma b64encode_Nil [simp]: "b64encode s = [] \<longleftrightarrow> s = []"
  by (cases s rule: b64encode.cases) simp_all

lemma wire_of_wire: "length k = 32 \<Longrightarrow> wire_key (wire_of k)"
  by (simp add: wire_key_def wire_of_def ed25519_name_def be_bytes_def)

lemma key_text_split:
  "split_ws (key_text k) = [ed25519_name, b64encode (wire_of k)]"
  "split_ws (strip (key_text k)) = [ed25519_name, b64encode (wire_of k)]"
  "nonspace (b64encode (wire_of k))"
proof -
  show b: "nonspace (b64encode (wire_of k))"
    using b64encode_nonspace by (auto simp: nonspace_def list_all_iff wire_of_def ed25519_name_def)
  show "split_ws (key_text k) = [ed25519_name, b64encode (wire_of k)]"
    "split_ws (strip (key_text k)) = [ed25519_name, b64encode (wire_of k)]"
    using two_fields [OF ed25519_nonspace b] by (simp_all add: key_text_def)
qed

lemma public_key_text: "length k = 32 \<Longrightarrow> public_key (key_text k) = Inr (key_text k)"
  using wire_of_wire [of k] by (auto simp: public_key_iff key_text_split) (simp add: key_text_def)

text \<open>
  C39: every Ed25519 key survives the round trip through its text form: the text of the key is
  accepted unchanged, with whatever white space and comment around it, and its fingerprint is the
  unpadded Base64 text of the SHA-256 of the wire form.
\<close>

theorem public_key_roundtrip:
  assumes "length k = 32" "nonspace comment"
  shows "public_key (key_text k) = Inr (key_text k) \<and>
    public_key (key_text k @ '' '' @ comment) = Inr (key_text k) \<and>
    b64decode (split_ws (key_text k) ! 1) = Some (wire_of k) \<and>
    fingerprint (JStr (key_text k)) = Inr (''SHA256:'' @ rstrip_char (CHR ''='') (b64encode (sha256 (wire_of k))))"
proof -
  have "strip (key_text k @ '' '' @ comment) = key_text k @ '' '' @ comment"
    using assms(2) ed25519_nonspace
    by (intro strip_nonspace_ends) (auto simp: nonspace_def list_all_iff key_text_def)
  then have "split_ws (strip (key_text k @ '' '' @ comment)) = [ed25519_name, b64encode (wire_of k), comment]"
    using key_text_split(3) [of k] assms(2) by (simp add: key_text_def split_ws_word split_ws_single)
  then have "public_key (key_text k @ '' '' @ comment) = Inr (key_text k)"
    using wire_of_wire [OF assms(1)] by (auto simp: public_key_iff) (simp add: key_text_def)
  with public_key_text [OF assms(1)] fingerprint_Inr [OF public_key_text [OF assms(1)]]
  show ?thesis by (auto simp: key_text_split) (auto simp: key_text_def)
qed

lemma public_key_roundtrip_witness:
  "public_key (key_text (replicate 32 (CHR 0x00)) @ '' root@host'') = Inr (key_text (replicate 32 (CHR 0x00)))"
  using public_key_roundtrip [of "replicate 32 (CHR 0x00)" "''root@host''"]
  by (simp add: nonspace_def isspace_char_def)

section \<open>What the client asks for\<close>

lemma only_request [only_intros]: "A ev \<Longrightarrow> only cw A (request ev)"
  unfolding request_def by (intro only_intros)

lemma only_api_get [only_intros]: "(\<And>n. A (ApiGet c n)) \<Longrightarrow> only cw A (api_get c name)"
  unfolding api_get_def by (intro only_intros)

lemma only_api_list [only_intros]: "A (ApiList c) \<Longrightarrow> only cw A (api_list c)"
  unfolding api_list_def
  by (intro only_intros; (auto split: json.splits intro!: only_intros)?)

lemma only_patch_status [only_intros]:
  assumes "\<And>c n u rv. A (ApiPatch c n u rv status)"
  shows "only cw A (patch_status server status)"
proof -
  have "only cw A (andthen (lift (patch_request server status)) (\<lambda>ev. andthen (request ev) (\<lambda>v. lift (resource v))))"
  proof (cases "patch_request server status")
    case (Inr ev)
    then have "A ev" using assms by (auto simp: patch_request_def exn_simps)
    then show ?thesis using Inr by (auto intro!: only_intros)
  qed (simp add: only_raise)
  then show ?thesis by (simp add: patch_status_def)
qed

text \<open>A status write that returns was the last request, and was accepted.\<close>

lemma patch_status_Inr:
  assumes "patch_status server status w = (Inr updated, w')"
  obtains c n u rv d where "w' = w\<lparr>history := history w @ [(ApiPatch c n u rv status, RJson (JObj d))]\<rparr>"
    "patch_request server status = Inr (ApiPatch c n u rv status)" "resource d = Inr updated"
proof -
  obtain ev where ev: "patch_request server status = Inr ev"
    using assms by (cases "patch_request server status") (auto simp: patch_status_def)
  then obtain c n u rv where e: "ev = ApiPatch c n u rv status"
    by (auto simp: patch_request_def exn_simps)
  from assms ev obtain d where "w' = w\<lparr>history := history w @ [(ev, RJson (JObj d))]\<rparr>"
    "resource d = Inr updated"
    by (auto simp: patch_status_def request_def ask_json_def ask_def andthen_def Let_def json_object_Inr
        split: reply.splits sum.splits prod.splits)
  with ev e that show thesis by blast
qed

lemma at_most_patch_status: "at_most 1 K (patch_status server status)"
proof -
  have "at_most (0 + ((1 + 0) + 0 + 0)) K (patch_status server status)"
    unfolding patch_status_def request_def ask_json_def
    by (intro at_most_andthen at_most_ask at_most_none [OF only_lift])
      (rule at_most_none, intro only_intros)
  then show ?thesis by simp
qed

lemma only_ssh_args [only_intros]:
  "(\<And>k. A (Getenv k)) \<Longrightarrow> only cw A (ssh_args server known checking)"
  unfolding ssh_args_def by (intro only_intros)

lemma only_ssh_probe [only_intros]:
  "(\<And>k. A (Getenv k)) \<Longrightarrow> (\<And>argv input t. A (Process argv input t)) \<Longrightarrow>
   only cw A (ssh_probe server host known checking)"
  unfolding ssh_probe_def by (intro only_intros)

lemma only_api_init [only_intros]: "(\<And>k. A (Getenv k)) \<Longrightarrow> only cw A api_init"
  unfolding api_init_def by (intro only_intros)

lemma only_create_resource [only_intros]:
  "A (ApiCreate c k n spec) \<Longrightarrow> only cw A (create_resource c k n spec)"
  unfolding create_resource_def by (intro only_intros)

lemma only_capture_inventory [only_intros]:
  "(\<And>c n. A (ApiGet c n)) \<Longrightarrow> only cw A (capture_inventory g)"
  unfolding capture_inventory_def
  by (intro only_intros; (auto split: json.splits intro!: only_intros)?)

text \<open>An object that was read is in the history.\<close>

lemma api_get_Inr:
  assumes "api_get c (JStr n) w = (Inr r, w')"
  obtains d where "w' = w\<lparr>history := history w @ [(ApiGet c n, RJson (JObj d))]\<rparr>" "resource d = Inr r"
proof -
  from assms obtain d where "w' = w\<lparr>history := history w @ [(ApiGet c n, RJson (JObj d))]\<rparr>" "resource d = Inr r"
    by (auto simp: api_get_def request_def ask_json_def ask_def andthen_def Let_def json_object_Inr
        split: reply.splits sum.splits prod.splits)
  then show thesis by (rule that)
qed

section \<open>Hosts of an inventory\<close>

text \<open>A group of an inventory lists a host.\<close>

definition lists_host :: "json \<Rightarrow> string \<Rightarrow> bool" where
  "lists_host members name \<longleftrightarrow> (\<exists>g d. members = JObj g \<and> map_of g ''hosts'' = Some (JObj d) \<and> dhas d name)"

lemma merge_host_put: "merge_host result (name, variables) = Inr result' \<Longrightarrow> \<exists>v. result' = dput name v result"
  unfolding merge_host_def
  by (cases "dgetd result name (JObj [])"; cases variables) (auto simp: bind_eq_Inr if_Inl_eq_Inr)

lemma merge_hosts_keys:
  "foldM merge_host result entries = Inr result' \<Longrightarrow> fst ` set result' = fst ` set entries \<union> fst ` set result"
proof (induction entries arbitrary: result)
  case (Cons e es)
  then obtain result1 where r: "merge_host result (fst e, snd e) = Inr result1" "foldM merge_host result1 es = Inr result'"
    by (auto simp: bind_eq_Inr)
  from merge_host_put [OF r(1)] obtain v where "result1 = dput (fst e) v result" by blast
  then have "fst ` set result1 = insert (fst e) (fst ` set result)" by (simp only: fst_set_put)
  with Cons.IH [OF r(2)] show ?case by simp
qed simp

lemma inventory_hosts_lists:
  assumes "inventory_hosts (JObj groups) = Inr result" "(g, members) \<in> set groups" "lists_host members name"
  shows "name \<in> fst ` set result"
proof -
  let ?step = "\<lambda>result (_, group). bind (jget group ''hosts'' (JObj [])) (\<lambda>hosts.
     bind (jitems hosts) (\<lambda>entries. foldM merge_host result entries))"
  have fold: "foldM ?step [] groups = Inr result" using assms(1) by (simp add: inventory_hosts_def)
  have "fst ` set r \<subseteq> fst ` set result \<and> (\<forall>(g, m)\<in>set gs. lists_host m name \<longrightarrow> name \<in> fst ` set result)"
    if "foldM ?step r gs = Inr result" for r gs
    using that
  proof (induction gs arbitrary: r)
    case (Cons e es)
    obtain g m where e: "e = (g, m)" by fastforce
    from Cons.prems obtain hosts entries r1 where
      h: "jget m ''hosts'' (JObj []) = Inr hosts" "jitems hosts = Inr entries" "foldM merge_host r entries = Inr r1"
        "foldM ?step r1 es = Inr result"
      by (auto simp: e bind_eq_Inr)
    have "name \<in> fst ` set entries" if "lists_host m name"
      using that h(1,2) by (cases hosts) (auto simp: lists_host_def dgetd_def dhas_def map_of_eq_None_iff)
    with merge_hosts_keys [OF h(3)] Cons.IH [OF h(4)] e show ?case by auto
  qed simp
  with fold assms(2,3) show ?thesis by blast
qed

end
