(* ===== verification/RunnerCredentials.thy ===== *)
theory RunnerCredentials
  imports Common
begin

text \<open>
  The client credentials of an interactive runner (\<open>operators/runner_credentials.py\<close>): the existing key and
  its certificate are read and checked against each other before the private key is requested, checked
  again with OpenSSH in a scratch directory, and only then installed. How a timestamp is read is a
  parameter: \<open>read_instant\<close> is \<open>datetime.fromisoformat\<close>, whose result has no instant when it names no
  time zone.
\<close>

section \<open>The checks\<close>

record credentials =
  cred_private :: string
  cred_public :: string
  cred_certificate :: string

definition require_ready :: "jobject \<Rightarrow> string \<Rightarrow> exn + unit" where
  "require_ready v kind =
     bind (dsub v ''kind'') (\<lambda>k.
     bind (if k \<noteq> JStr kind then Inr True else
       bind (dsub v ''metadata'') (\<lambda>metadata.
       bind (jget metadata ''deletionTimestamp'' JNull) (\<lambda>deleted.
       if truthy deleted then Inr True else
       bind (dsub v ''status'') (\<lambda>status.
       bind (jget status ''phase'' JNull) (\<lambda>phase.
       if phase \<noteq> JStr ''Ready'' then Inr True else
       bind (jget status ''observedGeneration'' JNull) (\<lambda>observed.
       bind (jget metadata ''generation'' JNull) (\<lambda>generation.
       if \<not> py_eq observed generation then Inr True else
       bind (py_in (JStr ''generation'') metadata) (\<lambda>there. Inr (\<not> there))))))))) (\<lambda>refused.
       raise_if refused (ValueError (kind @ '' is not current and Ready''))))"

definition require_reference :: "json \<Rightarrow> jobject \<Rightarrow> exn + unit" where
  "require_reference reference v =
     bind (json_object reference ''resource reference'') (\<lambda>identity.
     bind (jpath (JObj v) [''metadata'', ''name'']) (\<lambda>name.
     bind (if \<not> py_eq (dget identity ''name'') name then Inr True
           else bind (jpath (JObj v) [''metadata'', ''uid'']) (\<lambda>uid. Inr (\<not> py_eq (dget identity ''uid'') uid))) (\<lambda>changed.
       raise_if changed (ValueError ''Runner credential reference changed''))))"

definition field :: "jobject \<Rightarrow> string \<Rightarrow> string \<Rightarrow> exn + json" where
  "field v part k = bind (dsub v part) (\<lambda>p. jget p k JNull)"

definition check_subject :: "jobject \<Rightarrow> jobject \<Rightarrow> exn + unit" where
  "check_subject certificate key =
     bind (bind (field certificate ''spec'' ''keyPairRef'') (\<lambda>v. json_object v ''certificate subject'')) (\<lambda>subject.
     bind (jpath (JObj key) [''metadata'', ''name'']) (\<lambda>name.
     bind (raise_if (\<not> py_eq (dget subject ''name'') name) (ValueError ''Certificate requests a different runner key'')) (\<lambda>_.
     bind (jpath (JObj key) [''metadata'', ''uid'']) (\<lambda>uid.
       raise_if (dget subject ''uid'' \<noteq> JNull \<and> \<not> py_eq (dget subject ''uid'') uid)
         (ValueError ''Certificate requests a replaced runner key'')))))"

definition check_principals :: "jobject \<Rightarrow> exn + unit" where
  "check_principals certificate =
     bind (field certificate ''spec'' ''principals'') (\<lambda>principals.
       raise_if (case principals of JArr xs \<Rightarrow> \<not> list_ex (py_eq (JStr ''ansible'')) xs | _ \<Rightarrow> True)
         (ValueError ''Runner certificate must authorize the ansible principal''))"

type_synonym instants = "string \<Rightarrow> exn + rat option"

definition read_field :: "instants \<Rightarrow> jobject \<Rightarrow> string \<Rightarrow> exn + rat option" where
  "read_field read_instant certificate k =
     bind (field certificate ''status'' k) (\<lambda>v.
     bind (json_string v (''certificate '' @ k)) read_instant)"

definition require_valid :: "rat option \<Rightarrow> rat option \<Rightarrow> rat \<Rightarrow> exn + unit" where
  "require_valid valid_after valid_before current_time =
     (case (valid_after, valid_before) of
        (Some a, Some b) \<Rightarrow>
          raise_if (\<not> (a \<le> current_time \<and> current_time < b - 60))
            (ValueError ''Runner certificate is not valid or is too close to expiry'')
      | _ \<Rightarrow> Inl (ValueError ''Certificate validity must include a timezone''))"

definition require_current_certificate :: "instants \<Rightarrow> jobject \<Rightarrow> jobject \<Rightarrow> unit io" where
  "require_current_certificate read_instant certificate key =
     andthen (lift (bind (require_ready certificate ''SSHCertificate'') (\<lambda>_.
       bind (bind (field certificate ''status'' ''keyPairRef'') (\<lambda>r. require_reference r key)) (\<lambda>_.
       bind (check_subject certificate key) (\<lambda>_.
       bind (check_principals certificate) (\<lambda>_.
       bind (read_field read_instant certificate ''validAfter'') (\<lambda>valid_after.
       bind (read_field read_instant certificate ''validBefore'') (\<lambda>valid_before.
         Inr (valid_after, valid_before))))))))) (\<lambda>(valid_after, valid_before).
     andthen (ask_num Instant) (\<lambda>current_time.
       lift (require_valid valid_after valid_before current_time)))"

section \<open>Fetching\<close>

definition check_secret :: "jobject \<Rightarrow> jobject \<Rightarrow> json \<Rightarrow> exn + unit" where
  "check_secret secret key reference =
     bind (require_reference reference secret) (\<lambda>_.
     bind (require_ready secret ''Secret'') (\<lambda>_.
     bind (bind (dsub secret ''metadata'') (\<lambda>m. bind (jget m ''annotations'' (JObj []))
             (\<lambda>a. jget a ''homelab.io/ssh-key-pair-uid'' JNull))) (\<lambda>owner.
     bind (jpath (JObj key) [''metadata'', ''uid'']) (\<lambda>uid.
     bind (raise_if (\<not> py_eq owner uid) (ValueError ''Runner Secret ownership does not match the key pair'')) (\<lambda>_.
     bind (mapM (\<lambda>k.
         bind (field secret ''spec'' k) (\<lambda>a.
         bind (field key ''spec'' k) (\<lambda>b.
           raise_if (\<not> py_eq a b) (ValueError ''Runner Secret storage does not match the key pair''))))
         [''path'', ''secretStoreRef'']) (\<lambda>_. Inr ()))))))"

definition secret_key :: "jobject \<Rightarrow> string \<Rightarrow> string \<Rightarrow> exn + string" where
  "secret_key data k context = bind (json_string (dget data k) context) public_key"

definition assemble :: "jobject \<Rightarrow> jobject \<Rightarrow> jobject \<Rightarrow> exn + credentials" where
  "assemble key certificate secret =
     bind (bind (field secret ''spec'' ''data'') (\<lambda>v. json_object v ''runner Secret data'')) (\<lambda>data.
     bind (bind (field key ''status'' ''publicKey'') (\<lambda>v. bind (json_string v ''runner publicKey'') public_key)) (\<lambda>expected_public.
     bind (secret_key data ''publicKey'' ''Secret publicKey'') (\<lambda>stored_public.
     bind (if stored_public \<noteq> expected_public then Inr True
           else bind (fingerprint (JStr expected_public)) (\<lambda>own.
                bind (field key ''status'' ''fingerprint'') (\<lambda>reported. Inr (reported \<noteq> JStr own)))) (\<lambda>wrong.
     bind (raise_if wrong (ValueError ''Runner public identity does not match its Secret'')) (\<lambda>_.
     bind (json_string (dget data ''privateKey'') ''Secret privateKey'') (\<lambda>private.
     bind (bind (field certificate ''status'' ''certificate'') (\<lambda>v. json_string v ''certificate'')) (\<lambda>cert.
       Inr \<lparr>cred_private = strip private @ [CHR 0x0A], cred_public = expected_public @ [CHR 0x0A],
            cred_certificate = strip cert @ [CHR 0x0A]\<rparr>)))))))"

definition fetch_credentials :: "instants \<Rightarrow> credentials io" where
  "fetch_credentials read_instant =
     andthen (api_get ''ssh-key-pairs'' (JStr ''ansible-runner'')) (\<lambda>key.
     andthen (lift (require_ready key ''SSHKeyPair'')) (\<lambda>_.
     andthen (api_get ''ssh-certificates'' (JStr ''ansible-runner'')) (\<lambda>certificate.
     andthen (require_current_certificate read_instant certificate key) (\<lambda>_.
     andthen (lift (bind (field key ''status'' ''secretRef'') (\<lambda>v. json_object v ''runner Secret reference''))) (\<lambda>reference.
     andthen (lift (json_string (dget reference ''name'') ''runner Secret name'')) (\<lambda>name.
     andthen (api_get ''secrets'' (JStr name)) (\<lambda>secret.
     andthen (lift (check_secret secret key (JObj reference))) (\<lambda>_.
       lift (assemble key certificate secret)))))))))"

section \<open>Validation and installation\<close>

definition keygen :: "string list \<Rightarrow> (int \<times> string \<times> string) io" where
  "keygen args = ask_proc (Process (''ssh-keygen'' # args) [] 15)"

definition validate_credentials :: "credentials \<Rightarrow> string \<Rightarrow> unit io" where
  "validate_credentials c directory =
     (let key_path = directory @ ''/key''; cert_path = directory @ ''/key-cert.pub'' in
     andthen (act (WriteFile key_path (cred_private c))) (\<lambda>_.
     andthen (act (WriteFile cert_path (cred_certificate c))) (\<lambda>_.
     andthen (keygen [''-y'', ''-f'', key_path]) (\<lambda>(derived, out, _).
     andthen (lift (if derived \<noteq> 0 then Inr True
        else bind (public_key out) (\<lambda>a. bind (public_key (cred_public c)) (\<lambda>b. Inr (a \<noteq> b))))) (\<lambda>mismatch.
     andthen (refuse_if mismatch (ValueError ''Runner private/public key mismatch'')) (\<lambda>_.
     andthen (keygen [''-L'', ''-f'', cert_path]) (\<lambda>(description, described, _).
     andthen (keygen [''-l'', ''-E'', ''sha256'', ''-f'', cert_path]) (\<lambda>(identity, identified, _).
     andthen (lift (if description \<noteq> 0 \<or> \<not> contains described '' user certificate'' \<or> identity \<noteq> 0 then Inr True
        else bind (fingerprint (JStr (cred_public c))) (\<lambda>own. Inr (own \<notin> set (split_ws identified))))) (\<lambda>foreign.
       refuse_if foreign (ValueError ''Runner certificate does not match the subject key''))))))))))"

definition install_credentials :: "instants \<Rightarrow> string \<Rightarrow> unit io" where
  "install_credentials read_instant directory =
     andthen (act (FileChange [''mkdir'', directory, ''0700''])) (\<lambda>_.
     andthen (act (FileChange [''chmod'', directory, ''0700''])) (\<lambda>_.
     andthen (fetch_credentials read_instant) (\<lambda>c.
     andthen (ask_text (TempDir (directory @ ''/runner-credentials-''))) (\<lambda>temporary.
     andthen (validate_credentials c temporary) (\<lambda>_.
     andthen (act (WriteFile (directory @ ''/id_ansible_mgmt'') (cred_private c))) (\<lambda>_.
     andthen (act (WriteFile (directory @ ''/id_ansible_mgmt.pub'') (cred_public c))) (\<lambda>_.
       act (WriteFile (directory @ ''/id_ansible_mgmt-cert.pub'') (cred_certificate c)))))))))"

definition credentials_main :: "instants \<Rightarrow> int io" where
  "credentials_main read_instant =
     catch_all
       (andthen api_init (\<lambda>_.
        andthen (install_credentials read_instant ''/home/keiichi/.ssh'') (\<lambda>_. ret 0)))
       (ret 1)"


section \<open>What the checks establish\<close>

definition ready :: "jobject \<Rightarrow> string \<Rightarrow> bool" where
  "ready v kind \<longleftrightarrow>
     dget v ''kind'' = JStr kind \<and>
     \<not> truthy (obj_field ''deletionTimestamp'' (dget v ''metadata'')) \<and>
     obj_field ''phase'' (dget v ''status'') = JStr ''Ready'' \<and>
     py_eq (obj_field ''observedGeneration'' (dget v ''status'')) (obj_field ''generation'' (dget v ''metadata''))"

definition refers :: "json \<Rightarrow> jobject \<Rightarrow> bool" where
  "refers reference v \<longleftrightarrow>
     py_eq (obj_field ''name'' reference) (obj_field ''name'' (dget v ''metadata'')) \<and>
     py_eq (obj_field ''uid'' reference) (obj_field ''uid'' (dget v ''metadata''))"

lemma require_ready_Inr:
  assumes "require_ready v kind = Inr u"
  shows "ready v kind"
  using assms by (auto simp: require_ready_def exn_simps ready_def map_of_dget dgetd_def dget_def obj_field_def
      split: if_splits option.splits json.splits)

lemma require_reference_Inr:
  assumes "require_reference reference v = Inr u"
  shows "refers reference v"
  using assms by (auto simp: require_reference_def exn_simps refers_def map_of_dget obj_field_def split: if_splits)

lemma field_Inr: "field v part k = Inr x \<Longrightarrow> obj_field k (dget v part) = x"
  by (auto simp: field_def exn_simps map_of_dget dgetd_def dget_def)

text \<open>
  The certificate is Ready, was issued for the present key, for the \<open>ansible\<close> principal, and is
  valid at the time \<open>t\<close> and for at least another minute.
\<close>

definition current_certificate :: "instants \<Rightarrow> jobject \<Rightarrow> jobject \<Rightarrow> rat \<Rightarrow> bool" where
  "current_certificate read_instant key certificate t \<longleftrightarrow>
     ready certificate ''SSHCertificate'' \<and>
     refers (obj_field ''keyPairRef'' (dget certificate ''status'')) key \<and>
     py_eq (obj_field ''name'' (obj_field ''keyPairRef'' (dget certificate ''spec'')))
       (obj_field ''name'' (dget key ''metadata'')) \<and>
     (\<exists>xs. obj_field ''principals'' (dget certificate ''spec'') = JArr xs \<and> JStr ''ansible'' \<in> set xs) \<and>
     (\<exists>s a s' b. obj_field ''validAfter'' (dget certificate ''status'') = JStr s \<and> read_instant s = Inr (Some a) \<and>
        obj_field ''validBefore'' (dget certificate ''status'') = JStr s' \<and> read_instant s' = Inr (Some b) \<and>
        a \<le> t \<and> t + 60 < b)"

lemma require_current_certificate_Inr:
  assumes "require_current_certificate read_instant certificate key w = (Inr u, w')"
  obtains t where "current_certificate read_instant key certificate t"
    "w' = w\<lparr>history := history w @ [(Instant, RNum t)]\<rparr>"
proof -
  from assms obtain v0 v1 a b t where parts:
      "require_ready certificate ''SSHCertificate'' = Inr v0"
      "bind (field certificate ''status'' ''keyPairRef'') (\<lambda>r. require_reference r key) = Inr v1"
      "check_subject certificate key = Inr ()" "check_principals certificate = Inr ()"
      "read_field read_instant certificate ''validAfter'' = Inr a"
      "read_field read_instant certificate ''validBefore'' = Inr b"
      "ask_num Instant w = (Inr t, w')" "require_valid a b t = Inr ()"
    unfolding require_current_certificate_def
    by - (erule andthenE, auto simp: exn_simps lift_def elim!: andthenE)
  from parts(8) obtain x y where xy: "a = Some x" "b = Some y" "x \<le> t" "t < y - 60"
    by (auto simp: require_valid_def exn_simps split: option.splits)
  have "current_certificate read_instant key certificate t"
    unfolding current_certificate_def
  proof (intro conjI)
    show "ready certificate ''SSHCertificate''" by (rule require_ready_Inr [OF parts(1)])
    show "refers (obj_field ''keyPairRef'' (dget certificate ''status'')) key"
      using parts(2) by (auto simp: exn_simps dest!: field_Inr require_reference_Inr)
    show "py_eq (obj_field ''name'' (obj_field ''keyPairRef'' (dget certificate ''spec''))) (obj_field ''name'' (dget key ''metadata''))"
      using parts(3) by (auto simp: check_subject_def exn_simps map_of_dget dest!: field_Inr)
    show "\<exists>xs. obj_field ''principals'' (dget certificate ''spec'') = JArr xs \<and> JStr ''ansible'' \<in> set xs"
    proof -
      from parts(4) obtain p where "field certificate ''spec'' ''principals'' = Inr p"
          "\<not> (case p of JArr xs \<Rightarrow> \<not> list_ex (py_eq (JStr ''ansible'')) xs | _ \<Rightarrow> True)"
        by (auto simp: check_principals_def exn_simps)
      then show ?thesis by (cases p) (auto simp: list_ex_iff dest!: field_Inr)
    qed
    show "\<exists>s a s' b. obj_field ''validAfter'' (dget certificate ''status'') = JStr s \<and> read_instant s = Inr (Some a) \<and>
        obj_field ''validBefore'' (dget certificate ''status'') = JStr s' \<and> read_instant s' = Inr (Some b) \<and> a \<le> t \<and> t + 60 < b"
      using parts(5,6) xy by (auto simp: read_field_def exn_simps dest!: field_Inr)
  qed
  with parts(7) that show thesis by (simp add: answered_simps)
qed

section \<open>Reading the Secret last\<close>

fun reads_secret :: "event \<Rightarrow> bool" where
  "reads_secret (ApiGet c name) = (c = ''secrets'')"
| "reads_secret _ = False"

lemma only_current_certificate [only_intros]:
  "A Instant \<Longrightarrow> only cw A (require_current_certificate read_instant certificate key)"
  unfolding require_current_certificate_def by (intro only_intros)

lemma lifted_made:
  assumes "andthen (lift m) f w = (r, w')" "made B w w'"
  obtains x where "m = Inr x" "f x w = (r, w')"
  using assms by (cases m) (auto simp: made_def added_def)

lemma api_get_once:
  assumes "api_get c (JStr n) w = (r, w')"
  obtains x where "history w' = history w @ [(ApiGet c n, x)]"
  using assms
  by (auto simp: api_get_def request_def ask_json_def ask_def andthen_def Let_def split: reply.splits sum.splits prod.splits)

text \<open>
  C35: the Secret with the private key is requested only after the key pair was read and Ready and its
  certificate was read, bound to that very key, authorised for the \<open>ansible\<close> principal and valid at a
  time asked for after both, with more than a minute left; that request is the last one, and names the
  Secret the key pair refers to.
\<close>

theorem secret_read_last:
  assumes "fetch_credentials read_instant w = (r, w')" "made reads_secret w w'"
  shows "\<exists>key w1 certificate w2 t name reply.
    api_get ''ssh-key-pairs'' (JStr ''ansible-runner'') w = (Inr key, w1) \<and> ready key ''SSHKeyPair'' \<and>
    api_get ''ssh-certificates'' (JStr ''ansible-runner'') w1 = (Inr certificate, w2) \<and>
    current_certificate read_instant key certificate t \<and>
    obj_field ''name'' (obj_field ''secretRef'' (dget key ''status'')) = JStr name \<and>
    history w' = history w2 @ [(Instant, RNum t), (ApiGet ''secrets'' name, reply)]"
proof -
  let ?rest = "\<lambda>key certificate. andthen (lift (bind (field key ''status'' ''secretRef'') (\<lambda>v. json_object v ''runner Secret reference''))) (\<lambda>reference.
     andthen (lift (json_string (dget reference ''name'') ''runner Secret name'')) (\<lambda>name.
     andthen (api_get ''secrets'' (JStr name)) (\<lambda>secret.
     andthen (lift (check_secret secret key (JObj reference))) (\<lambda>_. lift (assemble key certificate secret)))))"
  note fetch = assms(1) [unfolded fetch_credentials_def]
  have quiet: "only False (\<lambda>e. \<not> reads_secret e) (api_get ''ssh-key-pairs'' n)"
    "only False (\<lambda>e. \<not> reads_secret e) (api_get ''ssh-certificates'' n)"
    "only False (\<lambda>e. \<not> reads_secret e) (require_current_certificate read_instant c k)" for n c k
    by (intro only_intros; simp)+
  obtain key w1 where 1: "api_get ''ssh-key-pairs'' (JStr ''ansible-runner'') w = (Inr key, w1)"
      "andthen (lift (require_ready key ''SSHKeyPair'')) (\<lambda>_.
        andthen (api_get ''ssh-certificates'' (JStr ''ansible-runner'')) (\<lambda>certificate.
        andthen (require_current_certificate read_instant certificate key) (\<lambda>_. ?rest key certificate))) w1 = (r, w')"
      "made reads_secret w1 w'"
    by (rule made_andthen [OF fetch quiet(1) assms(2)]) (intro only_intros TrueI)
  obtain u v1 where 2: "lift (require_ready key ''SSHKeyPair'') w1 = (Inr u, v1)"
      "andthen (api_get ''ssh-certificates'' (JStr ''ansible-runner'')) (\<lambda>certificate.
        andthen (require_current_certificate read_instant certificate key) (\<lambda>_. ?rest key certificate)) v1 = (r, w')"
      "made reads_secret v1 w'"
    by (rule made_andthen [OF 1(2) only_lift 1(3)]) (intro only_intros TrueI)
  from 2(1) have v1: "v1 = w1" "require_ready key ''SSHKeyPair'' = Inr u" by (simp_all add: lift_def)
  obtain certificate w2 where 3: "api_get ''ssh-certificates'' (JStr ''ansible-runner'') w1 = (Inr certificate, w2)"
      "andthen (require_current_certificate read_instant certificate key) (\<lambda>_. ?rest key certificate) w2 = (r, w')"
      "made reads_secret w2 w'"
    by (rule made_andthen [OF 2(2) [unfolded v1] quiet(2) 2(3) [unfolded v1]]) (intro only_intros TrueI)
  obtain u' w3 where 4: "require_current_certificate read_instant certificate key w2 = (Inr u', w3)"
      "?rest key certificate w3 = (r, w')" "made reads_secret w3 w'"
    by (rule made_andthen [OF 3(2) quiet(3) 3(3)]) (intro only_intros TrueI)
  obtain t where t: "current_certificate read_instant key certificate t" "w3 = w2\<lparr>history := history w2 @ [(Instant, RNum t)]\<rparr>"
    by (rule require_current_certificate_Inr [OF 4(1)])
  obtain name reply where "obj_field ''name'' (obj_field ''secretRef'' (dget key ''status'')) = JStr name"
      "history w' = history w3 @ [(ApiGet ''secrets'' name, reply)]"
  proof -
    obtain reference where 5: "bind (field key ''status'' ''secretRef'') (\<lambda>v. json_object v ''runner Secret reference'') = Inr reference"
        "andthen (lift (json_string (dget reference ''name'') ''runner Secret name'')) (\<lambda>name.
         andthen (api_get ''secrets'' (JStr name)) (\<lambda>secret.
         andthen (lift (check_secret secret key (JObj reference))) (\<lambda>_. lift (assemble key certificate secret)))) w3 = (r, w')"
      by (rule lifted_made [OF 4(2,3)])
    obtain name where 6: "json_string (dget reference ''name'') ''runner Secret name'' = Inr name"
        "andthen (api_get ''secrets'' (JStr name)) (\<lambda>secret.
         andthen (lift (check_secret secret key (JObj reference))) (\<lambda>_. lift (assemble key certificate secret))) w3 = (r, w')"
      by (rule lifted_made [OF 5(2) 4(3)])
    obtain s w4 where 7: "api_get ''secrets'' (JStr name) w3 = (s, w4)" by fastforce
    obtain reply where "history w4 = history w3 @ [(ApiGet ''secrets'' name, reply)]" by (rule api_get_once [OF 7])
    moreover have "w' = w4" using 6(2) 7 by (auto simp: andthen_def lift_def split: sum.splits prod.splits)
    moreover have "obj_field ''name'' (obj_field ''secretRef'' (dget key ''status'')) = JStr name"
      using 5(1) 6(1) by (auto simp: exn_simps dest!: field_Inr)
    ultimately show thesis using that by simp
  qed
  with 1(1) 3(1) t require_ready_Inr [OF v1(2)] show ?thesis
    by (intro exI conjI) (assumption | simp)+
qed

section \<open>What is installed\<close>

text \<open>The credentials are those of the key, taken from the very Secret it refers to and owns.\<close>

definition matching :: "jobject \<Rightarrow> jobject \<Rightarrow> jobject \<Rightarrow> credentials \<Rightarrow> bool" where
  "matching key certificate secret c \<longleftrightarrow>
     refers (obj_field ''secretRef'' (dget key ''status'')) secret \<and> ready secret ''Secret'' \<and>
     py_eq (obj_field ''homelab.io/ssh-key-pair-uid'' (obj_field ''annotations'' (dget secret ''metadata'')))
       (obj_field ''uid'' (dget key ''metadata'')) \<and>
     list_all (\<lambda>k. py_eq (obj_field k (dget secret ''spec'')) (obj_field k (dget key ''spec''))) [''path'', ''secretStoreRef''] \<and>
     (\<exists>own_text stored k own private cert.
        obj_field ''publicKey'' (dget key ''status'') = JStr own_text \<and> public_key own_text = Inr k \<and>
        obj_field ''publicKey'' (obj_field ''data'' (dget secret ''spec'')) = JStr stored \<and> public_key stored = Inr k \<and>
        fingerprint (JStr k) = Inr own \<and> obj_field ''fingerprint'' (dget key ''status'') = JStr own \<and>
        obj_field ''privateKey'' (obj_field ''data'' (dget secret ''spec'')) = JStr private \<and>
        obj_field ''certificate'' (dget certificate ''status'') = JStr cert \<and>
        c = \<lparr>cred_private = strip private @ [CHR 0x0A], cred_public = k @ [CHR 0x0A],
             cred_certificate = strip cert @ [CHR 0x0A]\<rparr>)"

lemma assemble_matching:
  assumes "check_secret secret key reference = Inr u" "assemble key certificate secret = Inr c"
    "obj_field ''secretRef'' (dget key ''status'') = reference"
  shows "matching key certificate secret c"
proof -
  have "refers reference secret" "ready secret ''Secret''"
    using assms(1) by (auto simp: check_secret_def exn_simps dest!: require_reference_Inr require_ready_Inr)
  moreover have "py_eq (obj_field ''homelab.io/ssh-key-pair-uid'' (obj_field ''annotations'' (dget secret ''metadata'')))
       (obj_field ''uid'' (dget key ''metadata''))"
    using assms(1) by (auto simp: check_secret_def exn_simps map_of_dget dgetd_def dget_def obj_field_def split: option.splits)
  moreover have "list_all (\<lambda>k. py_eq (obj_field k (dget secret ''spec'')) (obj_field k (dget key ''spec''))) [''path'', ''secretStoreRef'']"
    using assms(1) by (auto simp: check_secret_def exn_simps dest!: field_Inr)
  moreover have "\<exists>own_text stored k own private cert.
        obj_field ''publicKey'' (dget key ''status'') = JStr own_text \<and> public_key own_text = Inr k \<and>
        obj_field ''publicKey'' (obj_field ''data'' (dget secret ''spec'')) = JStr stored \<and> public_key stored = Inr k \<and>
        fingerprint (JStr k) = Inr own \<and> obj_field ''fingerprint'' (dget key ''status'') = JStr own \<and>
        obj_field ''privateKey'' (obj_field ''data'' (dget secret ''spec'')) = JStr private \<and>
        obj_field ''certificate'' (dget certificate ''status'') = JStr cert \<and>
        c = \<lparr>cred_private = strip private @ [CHR 0x0A], cred_public = k @ [CHR 0x0A],
             cred_certificate = strip cert @ [CHR 0x0A]\<rparr>"
    using assms(2) by (fastforce simp: assemble_def secret_key_def exn_simps dest!: field_Inr split: if_splits)
  ultimately show ?thesis using assms(3) by (simp add: matching_def)
qed

lemma fetch_returned:
  assumes "fetch_credentials read_instant w = (Inr c, w')"
  obtains key certificate secret t where "current_certificate read_instant key certificate t" "matching key certificate secret c"
proof -
  from assms obtain key w1 certificate w2 v w3 reference secret v' where
      "require_current_certificate read_instant certificate key w2 = (Inr v, w3)"
      "bind (field key ''status'' ''secretRef'') (\<lambda>v. json_object v ''runner Secret reference'') = Inr reference"
      "check_secret secret key (JObj reference) = Inr v'" "assemble key certificate secret = Inr c"
    unfolding fetch_credentials_def by (auto simp: lift_def elim!: andthenE)
  moreover from this(2) have "obj_field ''secretRef'' (dget key ''status'') = JObj reference"
    by (auto simp: exn_simps dest!: field_Inr)
  ultimately show thesis
    by (metis that require_current_certificate_Inr assemble_matching)
qed

text \<open>OpenSSH derived the public key from the private one, and read the certificate as a user certificate of that key.\<close>

definition openssh_agrees :: "credentials \<Rightarrow> string \<Rightarrow> history \<Rightarrow> bool" where
  "openssh_agrees c directory h \<longleftrightarrow>
     (\<exists>out err described err' identified err'' k own.
        (Process [''ssh-keygen'', ''-y'', ''-f'', directory @ ''/key''] [] 15, RProc 0 out err) \<in> set h \<and>
        public_key out = Inr k \<and> public_key (cred_public c) = Inr k \<and>
        (Process [''ssh-keygen'', ''-L'', ''-f'', directory @ ''/key-cert.pub''] [] 15, RProc 0 described err') \<in> set h \<and>
        contains described '' user certificate'' \<and>
        (Process [''ssh-keygen'', ''-l'', ''-E'', ''sha256'', ''-f'', directory @ ''/key-cert.pub''] [] 15, RProc 0 identified err'') \<in> set h \<and>
        fingerprint (JStr (cred_public c)) = Inr own \<and> own \<in> set (split_ws identified))"

lemma openssh_agrees_mono: "openssh_agrees c directory h \<Longrightarrow> set h \<subseteq> set k \<Longrightarrow> openssh_agrees c directory k"
  unfolding openssh_agrees_def by blast

lemma validate_returned:
  assumes "validate_credentials c directory w = (Inr u, w')"
  shows "openssh_agrees c directory (added w w')"
proof -
  define key_path cert_path where paths: "key_path = directory @ ''/key''" "cert_path = directory @ ''/key-cert.pub''"
  from assms obtain r1 r2 derived out err description described err' identity identified err'' where
      mismatch: "(if derived \<noteq> 0 then Inr True
        else bind (public_key out) (\<lambda>a. bind (public_key (cred_public c)) (\<lambda>b. Inr (a \<noteq> b)))) = Inr False"
      and foreign: "(if description \<noteq> 0 \<or> \<not> contains described '' user certificate'' \<or> identity \<noteq> 0 then Inr True
        else bind (fingerprint (JStr (cred_public c))) (\<lambda>own. Inr (own \<notin> set (split_ws identified)))) = Inr False"
      and asked: "history w' = history w @ [(WriteFile key_path (cred_private c), r1), (WriteFile cert_path (cred_certificate c), r2),
        (Process [''ssh-keygen'', ''-y'', ''-f'', key_path] [] 15, RProc derived out err),
        (Process [''ssh-keygen'', ''-L'', ''-f'', cert_path] [] 15, RProc description described err'),
        (Process [''ssh-keygen'', ''-l'', ''-E'', ''sha256'', ''-f'', cert_path] [] 15, RProc identity identified err'')]"
    unfolding validate_credentials_def Let_def keygen_def paths
    by (auto simp: lift_def answered_simps act_answered refuse_if_def elim!: andthenE split: if_splits)
  from mismatch obtain k where "derived = 0" "public_key out = Inr k" "public_key (cred_public c) = Inr k"
    by (auto simp: exn_simps split: if_splits)
  moreover from foreign obtain own where "description = 0" "contains described '' user certificate''" "identity = 0"
      "fingerprint (JStr (cred_public c)) = Inr own" "own \<in> set (split_ws identified)"
    by (auto simp: exn_simps split: if_splits)
  ultimately show ?thesis
    unfolding openssh_agrees_def added_append [OF asked] paths by auto
qed

section \<open>Installing\<close>

lemma asked_later:
  "act ev w = (r, w') \<Longrightarrow> later w w'" "ask_text ev w = (s, w') \<Longrightarrow> later w w'"
proof -
  have "only False (\<lambda>e. True) (act ev)" "only False (\<lambda>e. True) (ask_text ev)" by (intro only_intros TrueI)+
  then show "act ev w = (r, w') \<Longrightarrow> later w w'" "ask_text ev w = (s, w') \<Longrightarrow> later w w'"
    by (blast intro: only_later)+
qed

fun writes_key :: "string \<Rightarrow> event \<Rightarrow> bool" where
  "writes_key directory (WriteFile path s) = (path = directory @ ''/id_ansible_mgmt'')"
| "writes_key directory _ = False"

lemma other_path [simp]:
  "d @ ''/key'' \<noteq> directory @ ''/id_ansible_mgmt''" "d @ ''/key-cert.pub'' \<noteq> directory @ ''/id_ansible_mgmt''"
  "directory @ ''/id_ansible_mgmt.pub'' \<noteq> directory @ ''/id_ansible_mgmt''"
  "directory @ ''/id_ansible_mgmt-cert.pub'' \<noteq> directory @ ''/id_ansible_mgmt''"
  by (auto dest: arg_cong [of _ _ last])

lemma quiet_fetch: "only False (\<lambda>e. \<not> writes_key directory e) (fetch_credentials read_instant)"
  unfolding fetch_credentials_def by (intro only_intros; simp)

lemma quiet_validate: "only False (\<lambda>e. \<not> writes_key directory e) (validate_credentials c d)"
  unfolding validate_credentials_def Let_def keygen_def by (intro only_intros; simp)


section \<open>A runner\<close>

definition runner_key :: string where
  "runner_key = key_text (replicate 32 (CHR ''r''))"

definition runner_object :: "string \<Rightarrow> string \<Rightarrow> string \<Rightarrow> jobject \<Rightarrow> jobject \<Rightarrow> jobject \<Rightarrow> jobject" where
  "runner_object kind name uid extra spec status =
     [(''kind'', JStr kind),
      (''metadata'', JObj ([(''name'', JStr name), (''uid'', JStr uid), (''resourceVersion'', JStr ''1''),
         (''generation'', JInt 1)] @ extra)),
      (''spec'', JObj spec),
      (''status'', JObj ([(''phase'', JStr ''Ready''), (''observedGeneration'', JInt 1)] @ status))]"

definition object_ref :: "string \<Rightarrow> string \<Rightarrow> json" where
  "object_ref name uid = JObj [(''name'', JStr name), (''uid'', JStr uid)]"

definition runner_pair :: "string \<Rightarrow> string \<Rightarrow> jobject" where
  "runner_pair k own = runner_object ''SSHKeyPair'' ''ansible-runner'' ''k-1'' [] [(''path'', JStr ''ssh/runner'')]
     [(''publicKey'', JStr k), (''fingerprint'', JStr own), (''secretRef'', object_ref ''runner-key'' ''s-1'')]"

definition runner_certificate :: jobject where
  "runner_certificate = runner_object ''SSHCertificate'' ''ansible-runner'' ''c-1'' []
     [(''keyPairRef'', object_ref ''ansible-runner'' ''k-1''), (''principals'', JArr [JStr ''ansible''])]
     [(''keyPairRef'', object_ref ''ansible-runner'' ''k-1''), (''validAfter'', JStr ''from''), (''validBefore'', JStr ''to''),
      (''certificate'', JStr ''cert'')]"

definition runner_secret :: "string \<Rightarrow> jobject" where
  "runner_secret k = runner_object ''Secret'' ''runner-key'' ''s-1''
     [(''annotations'', JObj [(''homelab.io/ssh-key-pair-uid'', JStr ''k-1'')])]
     [(''path'', JStr ''ssh/runner''), (''data'', JObj [(''publicKey'', JStr k), (''privateKey'', JStr ''private'')])] []"

fun runner_answers :: "string \<Rightarrow> string \<Rightarrow> event \<Rightarrow> reply" where
  "runner_answers k own (ApiGet c name) =
     RJson (JObj (if c = ''ssh-key-pairs'' then runner_pair k own
                  else if c = ''ssh-certificates'' then runner_certificate else runner_secret k))"
| "runner_answers k own Instant = RNum 1000"
| "runner_answers k own (TempDir prefix) = RText ''/t''"
| "runner_answers k own (Process command input limit) =
     RProc 0 (if ''-y'' \<in> set command then k else if ''-L'' \<in> set command then '' user certificate'' else own) []"
| "runner_answers k own ev = RUnit"

definition runner_world :: "string \<Rightarrow> string \<Rightarrow> history \<Rightarrow> world" where
  "runner_world k own h = \<lparr>answers = (\<lambda>h ev. runner_answers k own ev), history = h, float_text = (\<lambda>q. []), cell = []\<rparr>"

definition runner_clock :: instants where
  "runner_clock s = Inr (Some (if s = ''from'' then 0 else 2000))"

theorem secret_read_last_witness:
  "\<exists>key certificate t name reply h w'.
     snd (fetch_credentials runner_clock (runner_world [] [] [])) = w' \<and> ready key ''SSHKeyPair'' \<and>
     current_certificate runner_clock key certificate t \<and>
     history w' = h @ [(Instant, RNum t), (ApiGet ''secrets'' name, reply)]"
proof -
  obtain r w' where run: "fetch_credentials runner_clock (runner_world [] [] []) = (r, w')" by fastforce
  have "list_ex (reads_secret \<circ> fst)
      (added (runner_world [] [] []) (snd (fetch_credentials runner_clock (runner_world [] [] []))))"
    by code_simp
  then have "made reads_secret (runner_world [] [] []) w'" by (simp add: run made_def list_ex_iff)
  from secret_read_last [OF run this] run show ?thesis by (metis snd_conv)
qed

lemma runner_objects:
  "resource (runner_pair k own) = Inr (runner_pair k own)"
  "resource runner_certificate = Inr runner_certificate"
  "resource (runner_secret k) = Inr (runner_secret k)"
  "require_ready (runner_pair k own) ''SSHKeyPair'' = Inr ()"
  "field (runner_pair k own) ''status'' ''secretRef'' = Inr (object_ref ''runner-key'' ''s-1'')"
  "check_secret (runner_secret k) (runner_pair k own) (object_ref ''runner-key'' ''s-1'') = Inr ()"
  by code_simp+

lemma runner_assembled:
  assumes "public_key k = Inr k" "fingerprint (JStr k) = Inr own"
  shows "assemble (runner_pair k own) runner_certificate (runner_secret k) =
    Inr \<lparr>cred_private = ''private'' @ [CHR 0x0A], cred_public = k @ [CHR 0x0A], cred_certificate = ''cert'' @ [CHR 0x0A]\<rparr>"
proof -
  have "bind (field (runner_secret k) ''spec'' ''data'') (\<lambda>v. json_object v ''runner Secret data'') =
      Inr [(''publicKey'', JStr k), (''privateKey'', JStr ''private'')]"
    "field (runner_pair k own) ''status'' ''publicKey'' = Inr (JStr k)"
    "field (runner_pair k own) ''status'' ''fingerprint'' = Inr (JStr own)"
    "field runner_certificate ''status'' ''certificate'' = Inr (JStr ''cert'')"
    "strip ''private'' = ''private''" "strip ''cert'' = ''cert''"
    by code_simp+
  then show ?thesis using assms by (simp add: assemble_def secret_key_def lookup_simps)
qed

lemma runner_certificate_current:
  "require_current_certificate runner_clock runner_certificate (runner_pair k own) (runner_world k own h) =
   (Inr (), runner_world k own (h @ [(Instant, RNum 1000)]))"
proof -
  have "(bind (require_ready runner_certificate ''SSHCertificate'') (\<lambda>_.
       bind (bind (field runner_certificate ''status'' ''keyPairRef'') (\<lambda>r. require_reference r (runner_pair k own))) (\<lambda>_.
       bind (check_subject runner_certificate (runner_pair k own)) (\<lambda>_.
       bind (check_principals runner_certificate) (\<lambda>_.
       bind (read_field runner_clock runner_certificate ''validAfter'') (\<lambda>valid_after.
       bind (read_field runner_clock runner_certificate ''validBefore'') (\<lambda>valid_before.
         Inr (valid_after, valid_before)))))))) = Inr (Some 0, Some 2000)"
    by code_simp
  then show ?thesis
    by (simp add: require_current_certificate_def ask_num_def ask_def andthen_def runner_world_def Let_def require_valid_def)
qed

lemma runner_reads:
  "\<exists>x. api_get ''ssh-key-pairs'' (JStr ''ansible-runner'') (runner_world k own h) =
     (Inr (runner_pair k own), runner_world k own (h @ [x]))"
  "\<exists>x. api_get ''ssh-certificates'' (JStr ''ansible-runner'') (runner_world k own h) =
     (Inr runner_certificate, runner_world k own (h @ [x]))"
  "\<exists>x. api_get ''secrets'' (JStr ''runner-key'') (runner_world k own h) =
     (Inr (runner_secret k), runner_world k own (h @ [x]))"
  by (simp_all add: api_get_def request_def ask_json_def ask_def andthen_def runner_world_def Let_def runner_objects)

lemma runner_fetched:
  assumes "public_key k = Inr k" "fingerprint (JStr k) = Inr own"
  obtains h' where "fetch_credentials runner_clock (runner_world k own h) =
    (Inr \<lparr>cred_private = ''private'' @ [CHR 0x0A], cred_public = k @ [CHR 0x0A], cred_certificate = ''cert'' @ [CHR 0x0A]\<rparr>,
     runner_world k own h')"
proof -
  have ref: "json_object (object_ref ''runner-key'' ''s-1'') c = Inr [(''name'', JStr ''runner-key''), (''uid'', JStr ''s-1'')]" for c
    by (simp add: object_ref_def)
  obtain x y z where
    "api_get ''ssh-key-pairs'' (JStr ''ansible-runner'') (runner_world k own h) = (Inr (runner_pair k own), runner_world k own (h @ [x]))"
    "api_get ''ssh-certificates'' (JStr ''ansible-runner'') (runner_world k own (h @ [x])) =
       (Inr runner_certificate, runner_world k own ((h @ [x]) @ [y]))"
    "api_get ''secrets'' (JStr ''runner-key'') (runner_world k own (((h @ [x]) @ [y]) @ [(Instant, RNum 1000)])) =
       (Inr (runner_secret k), runner_world k own ((((h @ [x]) @ [y]) @ [(Instant, RNum 1000)]) @ [z]))"
    using runner_reads [of k own] by metis
  with that show thesis
    by (simp add: fetch_credentials_def andthen_run runner_objects runner_certificate_current ref lookup_simps
        runner_assembled [OF assms] object_ref_def [symmetric] del: append_assoc)
qed

lemma runner_acts:
  "act (FileChange c) (runner_world k own h) = (Inr (), runner_world k own (h @ [(FileChange c, RUnit)]))"
  "act (WriteFile p s) (runner_world k own h) = (Inr (), runner_world k own (h @ [(WriteFile p s, RUnit)]))"
  "ask_text (TempDir p) (runner_world k own h) = (Inr ''/t'', runner_world k own (h @ [(TempDir p, RText ''/t'')]))"
  "ask_proc (Process c i t) (runner_world k own h) =
     (Inr (0, if ''-y'' \<in> set c then k else if ''-L'' \<in> set c then '' user certificate'' else own, []),
      runner_world k own (h @ [(Process c i t, RProc 0 (if ''-y'' \<in> set c then k
        else if ''-L'' \<in> set c then '' user certificate'' else own) [])]))"
  by (simp_all add: act_def ask_text_def ask_proc_def ask_def andthen_def runner_world_def Let_def)

lemma runner_validated:
  assumes "public_key k = Inr k" "public_key (k @ [CHR 0x0A]) = Inr k" "fingerprint (JStr k) = Inr own" "split_ws own = [own]"
  shows "\<exists>h'. validate_credentials \<lparr>cred_private = p, cred_public = k @ [CHR 0x0A], cred_certificate = c\<rparr> d (runner_world k own h) =
    (Inr (), runner_world k own h')"
proof -
  have "fingerprint (JStr (k @ [CHR 0x0A])) = Inr own" using fingerprint_of_key [OF assms(2)] assms(3) by simp
  moreover have "contains '' user certificate'' '' user certificate''" by code_simp
  ultimately show ?thesis using assms
    by (simp add: validate_credentials_def Let_def keygen_def andthen_run runner_acts del: contains.simps) blast
qed

lemma runner_installed:
  assumes "public_key k = Inr k" "public_key (k @ [CHR 0x0A]) = Inr k" "fingerprint (JStr k) = Inr own" "split_ws own = [own]"
  shows "\<exists>h. install_credentials runner_clock ''/d'' (runner_world k own []) = (Inr (), runner_world k own
     (h @ [(WriteFile ''/d/id_ansible_mgmt'' (''private'' @ [CHR 0x0A]), RUnit), (WriteFile ''/d/id_ansible_mgmt.pub'' (k @ [CHR 0x0A]), RUnit),
           (WriteFile ''/d/id_ansible_mgmt-cert.pub'' (''cert'' @ [CHR 0x0A]), RUnit)]))"
proof -
  let ?h = "[(FileChange [''mkdir'', ''/d'', ''0700''], RUnit), (FileChange [''chmod'', ''/d'', ''0700''], RUnit)]"
  let ?c = "\<lparr>cred_private = ''private'' @ [CHR 0x0A], cred_public = k @ [CHR 0x0A], cred_certificate = ''cert'' @ [CHR 0x0A]\<rparr>"
  obtain h1 where 1: "fetch_credentials runner_clock (runner_world k own ?h) = (Inr ?c, runner_world k own h1)"
    by (rule runner_fetched [OF assms(1,3)])
  obtain h2 where 2: "validate_credentials ?c ''/t'' (runner_world k own (h1 @ [(TempDir ''/d/runner-credentials-'', RText ''/t'')])) =
      (Inr (), runner_world k own h2)"
    using runner_validated [OF assms] by blast
  show ?thesis
    by (rule exI [of _ h2]) (simp add: install_credentials_def andthen_run runner_acts 1 [simplified] 2 [simplified])
qed

lemma runner_key_read:
  "public_key runner_key = Inr runner_key" "public_key (runner_key @ [CHR 0x0A]) = Inr runner_key"
proof -
  show key: "public_key runner_key = Inr runner_key" by (simp add: runner_key_def public_key_text)
  have "runner_key \<noteq> []" "\<not> isspace_char (hd runner_key)"
    by (simp_all add: runner_key_def key_text_def ed25519_name_def isspace_char_def)
  moreover have "isspace_char (CHR 0x0A)" by (simp add: isspace_char_def)
  moreover have "strip (s @ [c]) = strip s" if "s \<noteq> []" "\<not> isspace_char (hd s)" "isspace_char c" for s c
    using that by (cases s) (simp_all add: strip_def)
  ultimately have "strip (runner_key @ [CHR 0x0A]) = strip runner_key" by blast
  then show "public_key (runner_key @ [CHR 0x0A]) = Inr runner_key" using key by (simp add: public_key_def)
qed

lemma fingerprint_single:
  assumes "fingerprint (JStr s) = Inr own" "public_key s = Inr k"
  shows "split_ws own = [own]"
proof -
  from fingerprint_Inr [OF assms(2)] assms(1) obtain raw where own: "own = ''SHA256:'' @ rstrip_char (CHR ''='') (b64encode (sha256 raw))"
    by auto
  have "set (rstrip_char (CHR ''='') t) \<subseteq> set t" for t
    using set_dropWhileD [of _ _ "rev t"] by (auto simp: rstrip_char_def)
  then have "nonspace own"
    using b64encode_nonspace by (auto simp: own nonspace_def list_all_iff isspace_char_def)
  then show ?thesis by (rule split_ws_single)
qed


end
