(* ===== verification/ProvisionChecks.thy ===== *)
theory ProvisionChecks
  imports Common
begin

text \<open>
  The checks of \<open>operators/provisioning.py\<close> that read and refuse: identity of the managed host,
  pinned inputs, disk and firmware state, the pinned partition layout, the requested settings,
  and the attestation of the installed system.
\<close>

section \<open>Refusals\<close>

definition blocked :: "string \<Rightarrow> exn" where
  "blocked m = OperatorError ''ProvisioningBlocked'' m"

definition network_pending :: exn where
  "network_pending =
     OperatorError ''ManagementNetworkPending''
       ''Waiting for an unambiguous management interface and address''"

definition active_phases :: "json list" where
  "active_phases =
     [JStr ''PreparingBoot'', JStr ''AwaitingLive'', JStr ''Installing'', JStr ''AwaitingInstalled'',
      JStr ''Verifying'']"

definition spec_inputs :: "string list" where
  "spec_inputs =
     [''machineSelector'', ''boot'', ''operatingSystem'', ''sshCertificateAuthorityRef'', ''users'',
      ''groups'', ''packages'', ''sysctls'', ''featureFlags'', ''networking'', ''hostName'',
      ''domainName'']"

definition eligible :: "json \<Rightarrow> exn + bool" where
  "eligible server =
     bind (jchain server [''status'', ''provisioning'', ''activeRunRef'']) (\<lambda>v. Inr (truthy v))"

definition holds :: "exn + json \<Rightarrow> exn + bool" where
  "holds r = bind r (\<lambda>v. Inr (truthy v))"

definition fails :: "exn + json \<Rightarrow> exn + bool" where
  "fails r = bind r (\<lambda>v. Inr (\<not> truthy v))"

definition differs :: "exn + json \<Rightarrow> exn + json \<Rightarrow> exn + bool" where
  "differs a b = bind a (\<lambda>x. bind b (\<lambda>y. Inr (\<not> py_eq x y)))"

definition refuse :: "exn + bool \<Rightarrow> exn \<Rightarrow> exn + unit" where
  "refuse c e = bind c (\<lambda>b. raise_if b e)"

section \<open>Identity\<close>

definition identity_unverified :: "json \<Rightarrow> json \<Rightarrow> exn + bool" where
  "identity_unverified status host =
     orM (fails (jget status ''machineRef'' JNull)) (
     orM (fails (jget host ''keyReady'' JNull)) (
     orM (differs (jget host ''phase'' JNull) (Inr (JStr ''Ready''))) (
     orM (differs (jget host ''installedKeyPairRef'' JNull) (jget host ''keyPairRef'' JNull))
         (bind (jsub host ''publicKey'') (\<lambda>key.
          bind (fingerprint key) (\<lambda>f.
            differs (Inr (JStr f)) (jget host ''installedFingerprint'' JNull)))))))"

definition target_unsupported :: "json \<Rightarrow> exn + bool" where
  "target_unsupported os_spec =
     orM (differs (jget os_spec ''architecture'' JNull) (Inr (JStr ''amd64''))) (
     orM (differs (jget os_spec ''bootMode'' JNull) (Inr (JStr ''uefi'')))
         (bind (jget os_spec ''distribution'' JNull) (\<lambda>d.
          bind (jget os_spec ''version'' JNull) (\<lambda>v.
            Inr (\<not> ((d = JStr ''arch'' \<and> v = JStr ''rolling'') \<or>
                    (d = JStr ''debian'' \<and> v = JStr ''trixie'')))))))"

definition identity :: "json \<Rightarrow> exn + unit" where
  "identity server =
     bind (jsub server ''status'') (\<lambda>status.
     bind (jsub server ''spec'') (\<lambda>spec.
     bind (jget status ''hostSSH'' (JObj [])) (\<lambda>host.
     bind (refuse (identity_unverified status host)
             (blocked ''Managed host identity and binding must be verified before provisioning'')) (\<lambda>_.
     bind (jget spec ''operatingSystem'' (JObj [])) (\<lambda>os_spec.
       refuse (target_unsupported os_spec)
         (blocked ''Supported targets are Arch rolling and Debian trixie on amd64 UEFI''))))))"

section \<open>Pinned inputs\<close>

definition require_unchanged :: "json \<Rightarrow> json \<Rightarrow> string \<Rightarrow> exn + unit" where
  "require_unchanged actual expected description =
     raise_if (\<not> py_eq actual expected) (blocked (description @ '' changed''))"

definition validate_attempt_checkpoint :: "json \<Rightarrow> json \<Rightarrow> exn + unit" where
  "validate_attempt_checkpoint current_server expected_server =
     bind (jpath current_server [''status'', ''provisioning'']) (\<lambda>current_attempt.
     bind (jpath expected_server [''status'', ''provisioning'']) (\<lambda>expected_attempt.
     bind (jsub current_server ''_run'') (\<lambda>current_run.
     bind (jsub expected_server ''_run'') (\<lambda>expected_run.
     bind (jpath current_run [''metadata'', ''uid'']) (\<lambda>a.
     bind (jpath expected_run [''metadata'', ''uid'']) (\<lambda>b.
     bind (require_unchanged a b ''ProvisioningRun identity'') (\<lambda>_.
     bind (jsub current_run ''spec'') (\<lambda>a.
     bind (jsub expected_run ''spec'') (\<lambda>b.
     bind (require_unchanged a b ''ProvisioningRun request'') (\<lambda>_.
     bind (jget current_attempt ''attemptID'' JNull) (\<lambda>a.
     bind (jsub expected_attempt ''attemptID'') (\<lambda>b.
     bind (require_unchanged a b ''Attempt ID'') (\<lambda>_.
     bind (jget current_attempt ''snapshot'' JNull) (\<lambda>a.
     bind (jsub expected_attempt ''snapshot'') (\<lambda>b.
     bind (require_unchanged a b ''Pinned plan'') (\<lambda>_.
     bind (jget current_attempt ''phase'' JNull) (\<lambda>a.
     bind (jget expected_attempt ''phase'' JNull) (\<lambda>b.
       require_unchanged a b ''Checkpoint phase''))))))))))))))))))"

definition check_field :: "json \<Rightarrow> json \<Rightarrow> string \<Rightarrow> exn + unit" where
  "check_field spec pinned field =
     bind (jget spec field JNull) (\<lambda>a.
     bind (jget pinned field JNull) (\<lambda>b.
       require_unchanged a b (''Server spec.'' @ field)))"

text \<open>\<open>(status.get('networking') or {}).get('management', {})\<close>\<close>

definition management_of :: "json \<Rightarrow> exn + json" where
  "management_of status =
     bind (jget status ''networking'' JNull) (\<lambda>n. jget (or_empty n) ''management'' (JObj []))"

definition reported_mac :: "json \<Rightarrow> exn + string" where
  "reported_mac status =
     bind (management_of status) (\<lambda>management.
     bind (jget management ''interface'' (JObj [])) (\<lambda>interface.
     bind (jget interface ''mac'' (JStr [])) (\<lambda>mac.
     bind (str_of AttributeError mac) (\<lambda>m. Inr (lower m)))))"

definition validate_pinned_server :: "json \<Rightarrow> json \<Rightarrow> bool \<Rightarrow> exn + unit" where
  "validate_pinned_server current_server snapshot allow_network_pending =
     bind (jpath snapshot [''inputs'', ''serverSpec'']) (\<lambda>pinned.
     bind (mapM (\<lambda>field. bind (jsub current_server ''spec'') (\<lambda>spec. check_field spec pinned field))
             spec_inputs) (\<lambda>_.
     bind (jsub current_server ''status'') (\<lambda>status.
     bind (jget status ''machineRef'' JNull) (\<lambda>a.
     bind (jsub snapshot ''machineRef'') (\<lambda>b.
     bind (require_unchanged a b ''Machine binding'') (\<lambda>_.
     bind (reported_mac status) (\<lambda>boot_mac.
     bind (if boot_mac = [] then Inr ()
           else bind (jsub snapshot ''bootMAC'') (\<lambda>b.
                  require_unchanged (JStr boot_mac) b ''Boot interface MAC'')) (\<lambda>_.
     bind (jchain status [''hostSSH'', ''keyPairRef'']) (\<lambda>a.
     bind (jsub snapshot ''keyPairRef'') (\<lambda>b.
     bind (require_unchanged a b ''Managed host key reference'') (\<lambda>_.
       raise_if (boot_mac = [] \<and> \<not> allow_network_pending) network_pending)))))))))))"

definition host_address :: "json \<Rightarrow> exn + string" where
  "host_address server =
     bind (jsub server ''status'') (\<lambda>status.
     bind (management_of status) (\<lambda>management.
     bind (jchain management [''address'', ''address'']) (\<lambda>reported.
       if \<not> truthy reported then Inl network_pending else address reported)))"

section \<open>Disk and firmware\<close>

definition validate_disk :: "json \<Rightarrow> bool \<Rightarrow> exn + unit" where
  "validate_disk facts live_required =
     bind (refuse (orM (fails (jsub facts ''uefi''))
                       (bind (jsub facts ''secureBoot'') (\<lambda>v. Inr (v \<noteq> JBool False))))
             (blocked (''Unsigned v1 GRUB/iPXE path requires UEFI with Secure Boot off; '' @
                       ''do not change firmware automatically''))) (\<lambda>_.
     bind (refuse (if live_required
                   then orM (fails (jsub facts ''live''))
                        (orM (holds (jsub facts ''mounted'')) (holds (jsub facts ''rootOnTarget'')))
                   else Inr False)
             (blocked ''Installation requires live execution independent of the unmounted target disk''))
       (\<lambda>_.
       refuse (orM (holds (jget facts ''firmwareBootNext'' JNull))
                   (holds (jget facts ''competingBootServices'' JNull)))
         (blocked ''Clear/reconcile competing firmware BootNext services before provisioning'')))"

section \<open>The pinned partition layout\<close>

record layout =
  parts :: "json list"
  previous_end :: json
  numbers :: "json list"
  mounts :: "json list"

definition no_layout :: layout where
  "no_layout = \<lparr>parts = [], previous_end = JInt 1, numbers = [], mounts = []\<rparr>"

definition geometry_invalid :: "json \<Rightarrow> layout \<Rightarrow> json \<Rightarrow> json \<Rightarrow> json \<Rightarrow> exn + bool" where
  "geometry_invalid facts lay spec start end =
     orM (Inr (\<not> py_eq start (previous_end lay))) (
     orM (bind (num_of end) (\<lambda>e. bind (num_of start) (\<lambda>s. Inr (e \<le> s)))) (
     orM (bind (num_of end) (\<lambda>e.
          bind (jpath facts [''disk'', ''size'']) (\<lambda>v.
          bind (num_of v) (\<lambda>size. Inr (e > of_int \<lfloor>size / 1048576\<rfloor> - 1))))) (
     orM (bind (jsub spec ''number'') (\<lambda>n. in_set n (numbers lay)))
         (bind (jget spec ''mountPoint'' JNull) (\<lambda>m. in_set m (mounts lay))))))"

definition add_partition :: "json \<Rightarrow> layout \<Rightarrow> json \<Rightarrow> exn + layout" where
  "add_partition facts lay entry =
     bind (jsub entry ''spec'') (\<lambda>spec.
     bind (jsub entry ''startMiB'') (\<lambda>start.
     bind (jsub entry ''endMiB'') (\<lambda>end.
     bind (refuse (geometry_invalid facts lay spec start end)
             (blocked ''Invalid pinned partition geometry'')) (\<lambda>_.
     bind (jsub spec ''number'') (\<lambda>number.
     bind (jget spec ''mountPoint'' JNull) (\<lambda>mount.
     bind (jsub spec ''role'') (\<lambda>role.
     bind (jsub spec ''filesystem'') (\<lambda>filesystem.
     bind (jget spec ''mountPoint'' (JStr [])) (\<lambda>mount_text.
       Inr \<lparr>parts = parts lay @ [JObj [(''number'', number), (''role'', role),
                (''filesystem'', filesystem), (''mountPoint'', mount_text), (''startMiB'', start),
                (''endMiB'', end)]],
            previous_end = end,
            numbers = number # numbers lay,
            mounts = (if truthy mount then mount # mounts lay else mounts lay)\<rparr>)))))))))"

definition count_role :: "string \<Rightarrow> json list \<Rightarrow> nat" where
  "count_role r ps = length (filter (\<lambda>p. obj_field ''role'' p = JStr r) ps)"

definition validate_storage :: "json \<Rightarrow> json \<Rightarrow> exn + json" where
  "validate_storage run_status facts =
     bind (jget run_status ''storagePlan'' (JObj [])) (\<lambda>storage_plan.
     bind (jget storage_plan ''partitions'' (JArr [])) (\<lambda>v.
     bind (jiter v) (\<lambda>entries.
     bind (foldM (add_partition facts) no_layout entries) (\<lambda>lay.
       if count_role ''root'' (parts lay) \<noteq> 1 \<or> count_role ''efi'' (parts lay) \<noteq> 1
       then Inl (blocked ''A pinned root and EFI partition are required'')
       else Inr (JObj [(''partitions'', JArr (parts lay))])))))"

section \<open>Requested settings\<close>

abbreviation (input) upper_range :: "char \<times> char" where
  "upper_range \<equiv> (CHR ''A'', CHR ''Z'')"

abbreviation (input) lower_range :: "char \<times> char" where
  "lower_range \<equiv> (CHR ''a'', CHR ''z'')"

abbreviation (input) digit_range :: "char \<times> char" where
  "digit_range \<equiv> (CHR ''0'', CHR ''9'')"

definition one :: "char \<Rightarrow> char \<times> char" where
  "one c = (c, c)"

definition rx_timezone :: rx where
  "rx_timezone =
     (let part = rplus (RCls [upper_range, lower_range, digit_range, one (CHR ''_''), one (CHR ''+''),
                              one (CHR ''-'')])
      in RSeq part (RStar (RSeq (rchr (CHR ''/'')) part)))"

definition rx_kernel_argument :: rx where
  "rx_kernel_argument =
     rplus (RCls ([upper_range, lower_range, digit_range] @ map one ''_.,=:/+-''))"

definition rx_host :: rx where
  "rx_host =
     RSeq (RCls [upper_range, lower_range, digit_range])
          (RStar (RCls [upper_range, lower_range, digit_range, one (CHR ''.''), one (CHR ''-'')]))"

definition rx_package :: rx where
  "rx_package = rplus (RCls ([upper_range, lower_range, digit_range] @ map one ''_.+-''))"

definition rx_group :: rx where
  "rx_group =
     RSeq (RCls [lower_range, one (CHR ''_'')])
          (rupto 31 (RCls [lower_range, digit_range, one (CHR ''_''), one (CHR ''-'')]))"

definition rx_sysctl :: rx where
  "rx_sysctl = rplus (RCls ([upper_range, lower_range, digit_range] @ map one ''_.''))"

definition rx_shell :: rx where
  "rx_shell =
     RSeq (rchr (CHR ''/''))
          (rplus (RCls ([upper_range, lower_range, digit_range] @ map one ''_/-'')))"

text \<open>\<open>not re.fullmatch(pattern, value)\<close>\<close>

definition mismatch :: "rx \<Rightarrow> json \<Rightarrow> exn + bool" where
  "mismatch r v = bind (str_of TypeError v) (\<lambda>s. Inr (\<not> fullmatch r s))"

definition any_mismatch :: "rx \<Rightarrow> json \<Rightarrow> exn + bool" where
  "any_mismatch r v = bind (jiter v) (anyM (mismatch r))"

definition source_or_locale_unsupported :: "json \<Rightarrow> exn + bool" where
  "source_or_locale_unsupported os_spec =
     orM (holds (jget os_spec ''installationSource'' JNull))
         (differs (jget os_spec ''locale'' (JStr ''en_US.UTF-8'')) (Inr (JStr ''en_US.UTF-8'')))"

definition host_field_invalid :: "json \<Rightarrow> string \<Rightarrow> exn + bool" where
  "host_field_invalid desired field =
     bind (py_in (JStr field) desired) (\<lambda>present.
       if present then bind (jsub desired field) (mismatch rx_host) else Inr False)"

definition sysctl_invalid :: "string \<times> json \<Rightarrow> exn + bool" where
  "sysctl_invalid entry =
     (case entry of (key, value) \<Rightarrow>
       orM (mismatch rx_sysctl (JStr key))
         (orM (py_in (JStr [CHR 0x0A]) value) (py_in (JStr [CHR 0x0D]) value)))"

definition feature_unsupported :: "string \<times> json \<Rightarrow> exn + bool" where
  "feature_unsupported entry =
     (case entry of (feature, settings) \<Rightarrow>
        if feature = ''daemon'' then fails (jget settings ''enabled'' JNull)
        else holds (jget settings ''enabled'' JNull))"

definition validate_server_settings :: "json \<Rightarrow> exn + unit" where
  "validate_server_settings desired =
     bind (jsub desired ''operatingSystem'') (\<lambda>os_spec.
     bind (refuse (source_or_locale_unsupported os_spec)
             (blocked ''Custom installation sources/locales are not supported by the current recipes''))
       (\<lambda>_.
     bind (refuse (bind (jget os_spec ''timezone'' (JStr ''UTC'')) (mismatch rx_timezone))
             (blocked ''Invalid timezone'')) (\<lambda>_.
     bind (refuse (bind (jget os_spec ''kernelArguments'' (JArr [])) (any_mismatch rx_kernel_argument))
             (blocked ''Invalid kernel arguments'')) (\<lambda>_.
     bind (refuse (anyM (host_field_invalid desired) [''hostName'', ''domainName''])
             (blocked ''Invalid installed hostname/domain'')) (\<lambda>_.
     bind (refuse (bind (jget desired ''packages'' (JArr [])) (any_mismatch rx_package))
             (blocked ''Invalid package name'')) (\<lambda>_.
     bind (refuse (bind (jget desired ''groups'' (JArr [])) (any_mismatch rx_group))
             (blocked ''Invalid group name'')) (\<lambda>_.
     bind (refuse (bind (bind (jget desired ''sysctls'' (JObj [])) jitems) (anyM sysctl_invalid))
             (blocked ''Invalid sysctl configuration'')) (\<lambda>_.
     bind (bind (jget desired ''featureFlags'' (JObj [])) jitems) (\<lambda>features.
     bind (mapM (\<lambda>f. refuse (feature_unsupported f)
             (blocked ''Requested feature requires an installation recipe not yet supported here''))
           features) (\<lambda>_.
       Inr ()))))))))))"

section \<open>The installed system\<close>

text \<open>\<open>actual == planned * 1048576\<close>: a text or an array would be repeated.\<close>

definition scaled_eq :: "json \<Rightarrow> json \<Rightarrow> exn + bool" where
  "scaled_eq actual v =
     (case as_number v of
        Some q \<Rightarrow> Inr (as_number actual = Some (q * 1048576))
      | None \<Rightarrow>
          (case v of
             JStr s \<Rightarrow> Inr (actual = JStr (concat (replicate 1048576 s)))
           | JArr xs \<Rightarrow> Inr (py_eq actual (JArr (concat (replicate 1048576 xs))))
           | _ \<Rightarrow> Inl TypeError))"

definition size_matches :: "json \<Rightarrow> json \<Rightarrow> json \<Rightarrow> exn + bool" where
  "size_matches actual start end =
     bind (num_of end) (\<lambda>e. bind (num_of start) (\<lambda>s.
       Inr (as_number actual = Some ((e - s) * 1048576))))"

text \<open>The text of a number in a message; the text of a fraction is left open.\<close>

fun number_text :: "json \<Rightarrow> string" where
  "number_text (JInt i) = (if i < 0 then CHR ''-'' # dec_text (nat (- i)) else dec_text (nat i))"
| "number_text (JStr s) = s"
| "number_text (JBool b) = (if b then ''True'' else ''False'')"
| "number_text JNull = ''None''"
| "number_text _ = ''?''"

definition observed_partitions :: "json \<Rightarrow> exn + keyed" where
  "observed_partitions listed =
     bind (jiter listed) (\<lambda>ps.
       foldM (\<lambda>d p. bind (jsub p ''number'') (\<lambda>n.
         if hashable n then Inr (kput n p d) else Inl TypeError)) [] ps)"

definition geometry_matches :: "json \<Rightarrow> json \<Rightarrow> exn + bool" where
  "geometry_matches actual planned =
     andM (bind (jget actual ''startBytes'' JNull) (\<lambda>a.
           bind (jsub planned ''startMiB'') (scaled_eq a)))
          (bind (jget actual ''size'' JNull) (\<lambda>a.
           bind (jsub planned ''endMiB'') (\<lambda>e.
           bind (jsub planned ''startMiB'') (\<lambda>s. size_matches a s e))))"

definition filesystem_matches :: "json \<Rightarrow> json \<Rightarrow> exn + bool" where
  "filesystem_matches actual planned =
     andM (bind (jget actual ''filesystem'' JNull) (\<lambda>a.
           bind (jsub planned ''filesystem'') (\<lambda>f. Inr (py_eq a f))))
          (andM (holds (jget actual ''uuid'' JNull)) (holds (jget actual ''partUUID'' JNull)))"

definition is_mounted :: "json \<Rightarrow> json \<Rightarrow> exn + bool" where
  "is_mounted actual planned =
     bind (jsub planned ''role'') (\<lambda>role.
       if role = JStr ''swap'' then holds (jget actual ''activeSwap'' (JBool False))
       else bind (jsub planned ''mountPoint'') (\<lambda>m.
            bind (jget actual ''mountPoints'' (JArr [])) (py_in m)))"

definition check_partition :: "keyed \<Rightarrow> json \<Rightarrow> exn + unit" where
  "check_partition observed planned =
     bind (jsub planned ''number'') (\<lambda>number.
     bind (kget observed number (JObj [])) (\<lambda>actual.
     bind (geometry_matches actual planned) (\<lambda>g.
     bind (filesystem_matches actual planned) (\<lambda>f.
     bind (is_mounted actual planned) (\<lambda>m.
       raise_if (\<not> g \<or> \<not> f \<or> \<not> m)
         (blocked (''Installed partition '' @ number_text number @ '' differs from the plan'')))))))"

definition verify_installed_storage :: "json \<Rightarrow> json \<Rightarrow> exn + unit" where
  "verify_installed_storage storage facts =
     bind (jget facts ''partitions'' (JArr [])) (\<lambda>listed.
     bind (observed_partitions listed) (\<lambda>observed.
     bind (jget storage ''partitions'' (JArr [])) (\<lambda>planned.
     bind (jlen planned) (\<lambda>n.
     bind (if length observed \<noteq> n then Inr True
           else bind (jlen listed) (\<lambda>k. Inr (length observed \<noteq> k))) (\<lambda>bad.
     if bad then Inl (blocked ''Installed partition set differs from the plan'') else
     bind (jiter planned) (\<lambda>ps.
     bind (mapM (check_partition observed) ps) (\<lambda>_. Inr ())))))))"

text \<open>What the marker of the installed system must say for this attempt.\<close>

definition attempt_marker :: "json \<Rightarrow> exn + jobject" where
  "attempt_marker server =
     bind (jpath server [''status'', ''provisioning'']) (\<lambda>attempt.
     bind (jpath server [''metadata'', ''uid'']) (\<lambda>server_uid.
     bind (jsub attempt ''attemptID'') (\<lambda>attempt_id.
     bind (jpath server [''_run'', ''metadata'', ''uid'']) (\<lambda>run_uid.
     bind (jpath attempt [''snapshot'', ''planDigest'']) (\<lambda>digest.
       Inr [(''serverUID'', server_uid), (''attemptID'', attempt_id), (''runUID'', run_uid),
            (''planDigest'', digest)])))))"

definition marker_differs :: "json \<Rightarrow> jobject \<Rightarrow> exn + bool" where
  "marker_differs marker expected =
     anyM (\<lambda>(k, v). bind (jget marker k JNull) (\<lambda>w. Inr (\<not> py_eq w v))) expected"

definition os_text :: "json \<Rightarrow> string \<Rightarrow> exn + string" where
  "os_text facts key =
     bind (jsub facts ''os'') (\<lambda>os.
     bind (jget os key (JStr [])) (\<lambda>v.
     bind (str_of AttributeError v) (\<lambda>s.
       Inr (rstrip_char (CHR 0x22) (dropWhile (\<lambda>c. c = CHR 0x22) s)))))"

definition not_fresh :: "json \<Rightarrow> json \<Rightarrow> exn + bool" where
  "not_fresh attempt facts =
     orM (holds (jsub facts ''live'')) (
     orM (differs (jsub facts ''rootType'') (Inr (JStr ''ext4''))) (
     orM (bind (jsub facts ''bootID'') (\<lambda>b.
          bind (jget attempt ''liveBootID'' JNull) (\<lambda>l. Inr (py_eq b l))))
         (differs (jsub facts ''disk'') (jpath attempt [''snapshot'', ''diskIdentity'']))))"

definition os_differs :: "json \<Rightarrow> json \<Rightarrow> exn + bool" where
  "os_differs target facts =
     orM (bind (os_text facts ''ID'') (\<lambda>s. differs (Inr (JStr s)) (jsub target ''distribution'')))
         (bind (jsub target ''distribution'') (\<lambda>d.
            if d = JStr ''debian''
            then bind (os_text facts ''VERSION_CODENAME'') (\<lambda>s.
                   differs (Inr (JStr s)) (jsub target ''version''))
            else Inr False))"

definition pending_entry :: "json \<Rightarrow> exn + bool" where
  "pending_entry facts = bind (jsub facts ''grubEnvironment'') (py_in (JStr ''next_entry=''))"

definition verify_installed :: "json \<Rightarrow> json \<Rightarrow> exn + unit" where
  "verify_installed server facts =
     bind (jpath server [''status'', ''provisioning'']) (\<lambda>attempt.
     bind (jget facts ''marker'' JNull) (\<lambda>m.
     bind (refuse (not_fresh attempt facts) (blocked ''Not a fresh installed boot'')) (\<lambda>_.
     bind (attempt_marker server) (\<lambda>expected.
     bind (refuse (orM (marker_differs (or_empty m) expected) (
                   orM (fails (jsub facts ''rootUUID'')) (
                   orM (differs (jget (or_empty m) ''rootUUID'' JNull) (jsub facts ''rootUUID''))
                       (fails (jget facts ''rootOnTarget'' JNull)))))
             (blocked ''Installed marker/root/disk does not match this attempt'')) (\<lambda>_.
     bind (jpath attempt [''snapshot'', ''inputs'', ''serverSpec'', ''operatingSystem'']) (\<lambda>target.
     bind (refuse (os_differs target facts) (blocked ''Installed OS differs from requested target''))
       (\<lambda>_.
     bind (refuse (orM (fails (jsub facts ''grubReady'')) (pending_entry facts))
             (blocked ''Installed GRUB contract is not restored'')) (\<lambda>_.
     bind (jpath attempt [''snapshot'', ''inputs'', ''storage'']) (\<lambda>storage.
       verify_installed_storage storage facts)))))))))"

end
