(* ===== verification/ServerOperation.thy ===== *)
theory ServerOperation
  imports Common
begin

text \<open>
  Exclusive ownership of a target (\<open>operators/server_operation.py\<close>): acquiring an Operation,
  reporting progress under it, and completing it. The snapshot the caller passes to
  \<open>reservation\<close> is the cell: it is updated in place once the claim is confirmed.
\<close>

section \<open>Operations\<close>

definition operation_reference :: "json \<Rightarrow> exn + json" where
  "operation_reference operation =
     bind (jpath operation [''metadata'', ''name'']) (\<lambda>name.
     bind (jpath operation [''metadata'', ''uid'']) (\<lambda>uid.
       Inr (JObj [(''name'', name), (''uid'', uid)])))"

definition owned_operation :: "json \<Rightarrow> json \<Rightarrow> exn + unit" where
  "owned_operation latest operation =
     bind (jpath latest [''metadata'', ''uid'']) (\<lambda>a.
     bind (jpath operation [''metadata'', ''uid'']) (\<lambda>b.
     bind (if \<not> py_eq a b then Inr True
           else bind (jsub latest ''spec'') (\<lambda>c. bind (jsub operation ''spec'') (\<lambda>d.
                  Inr (\<not> py_eq c d)))) (\<lambda>changed.
     bind (raise_if changed (RuntimeError ''Operation ownership changed; refusing completion'')) (\<lambda>_.
     bind (jsub latest ''status'') (\<lambda>status.
     bind (jget status ''phase'' JNull) (\<lambda>phase.
       raise_if (phase \<notin> {JStr ''Running'', JStr ''Uncertain''})
         (RuntimeError ''Operation already completed; refusing to overwrite its outcome'')))))))"

definition fresh_operation :: "json \<Rightarrow> jobject io" where
  "fresh_operation operation =
     andthen (lift (jpath operation [''metadata'', ''name''])) (\<lambda>name.
     andthen (api_get ''operations'' name) (\<lambda>latest.
     andthen (lift (owned_operation (JObj latest) operation)) (\<lambda>_. ret latest)))"

definition write_outcome :: "string \<Rightarrow> string \<Rightarrow> jobject \<Rightarrow> unit io" where
  "write_outcome phase message latest =
     andthen (patch_status (JObj latest) [(''phase'', JStr phase), (''message'', JStr message)])
       (\<lambda>_. ret ())"

definition complete_operation :: "json \<Rightarrow> string \<Rightarrow> string \<Rightarrow> unit io" where
  "complete_operation operation phase message =
     optimistic (RuntimeError ''Operation completion conflicted; inspect retained ownership'')
       (fresh_operation operation)
       (write_outcome phase message)"

definition target_reference :: "json \<Rightarrow> exn + json" where
  "target_reference target =
     bind (jsub target ''kind'') (\<lambda>kind.
     bind (jpath target [''metadata'', ''name'']) (\<lambda>name.
     bind (jpath target [''metadata'', ''uid'']) (\<lambda>uid.
       Inr (JObj [(''kind'', kind), (''name'', name), (''uid'', uid)]))))"

definition claims :: "json \<Rightarrow> jobject \<Rightarrow> json \<Rightarrow> exn + bool" where
  "claims operation reference target =
     bind (jpath operation [''metadata'', ''uid'']) (\<lambda>uid.
     if \<not> py_eq uid (dget reference ''uid'') then Inr False else
     bind (jsub operation ''status'') (\<lambda>status.
     bind (jget status ''phase'' JNull) (\<lambda>phase.
     if phase \<noteq> JStr ''Running'' then Inr False else
     bind (jsub operation ''spec'') (\<lambda>spec.
     bind (jget spec ''targetRef'' JNull) (\<lambda>ref.
     bind (target_reference target) (\<lambda>expected.
       Inr (py_eq ref expected)))))))"

definition verify_operation :: "json \<Rightarrow> json io" where
  "verify_operation target =
     andthen (lift (jsub target ''status'')) (\<lambda>status.
     andthen (lift (jget status ''operationRef'' JNull)) (\<lambda>v.
     andthen (lift (json_object v ''active Operation'')) (\<lambda>reference.
     andthen (lift (json_string (dget reference ''name'') ''Operation name'')) (\<lambda>name.
     andthen (api_get ''operations'' (JStr name)) (\<lambda>operation.
     andthen (lift (claims (JObj operation) reference target)) (\<lambda>ok.
       if \<not> ok then raise (OperatorError ''OwnershipChanged'' ''The active Operation changed'')
       else ret (JObj operation)))))))"

definition operation_progress :: "json \<Rightarrow> string \<Rightarrow> unit io" where
  "operation_progress target step =
     andthen (verify_operation target) (\<lambda>operation.
     andthen (patch_status operation [(''currentStep'', JStr step)]) (\<lambda>_. ret ()))"

section \<open>Reservation\<close>

definition busy :: "json \<Rightarrow> exn + bool" where
  "busy snapshot =
     bind (jsub snapshot ''status'') (\<lambda>status.
     bind (jget status ''provisioning'' (JObj [])) (\<lambda>v.
     bind (json_object v ''provisioning'') (\<lambda>provisioning.
     bind (jget status ''operationRef'' JNull) (\<lambda>ref.
       Inr (truthy ref \<or> truthy (dget provisioning ''maintenance'') \<or>
            truthy (dget provisioning ''activeRunRef''))))))"

definition operation_spec ::
  "json \<Rightarrow> string \<Rightarrow> string \<Rightarrow> jobject option \<Rightarrow> exn + jobject" where
  "operation_spec snapshot action operator requested_by =
     bind (target_reference snapshot) (\<lambda>ref.
       Inr ([(''targetRef'', ref), (''action'', JStr action), (''operator'', JStr operator)] @
            (case requested_by of None \<Rightarrow> [] | Some r \<Rightarrow> [(''requestedBy'', JObj r)])))"

definition create_operation :: "jobject \<Rightarrow> json io" where
  "create_operation spec =
     catch
       (andthen (ask_text Uuid) (\<lambda>uuid.
        andthen (create_resource ''operations'' ''Operation'' (''operation-'' @ uuid) spec)
          (\<lambda>operation. ret (JObj operation))))
       (\<lambda>e. if e = HTTPError 409
            then raise (OperatorError ''OperationBusy'' ''Target changed or is already owned'')
            else raise e)"

text \<open>The claim is confirmed by the target's own reference to the new Operation.\<close>

definition confirm_claim :: "json \<Rightarrow> json \<Rightarrow> string \<Rightarrow> unit io" where
  "confirm_claim snapshot operation collection =
     andthen (lift (jpath snapshot [''metadata'', ''name''])) (\<lambda>name.
     andthen (api_get collection name) (\<lambda>claimed.
     andthen (lift (bind (jpath (JObj claimed) [''metadata'', ''uid'']) (\<lambda>a.
                    bind (jpath snapshot [''metadata'', ''uid'']) (\<lambda>b.
                    if \<not> py_eq a b then Inr True else
                    bind (jpath (JObj claimed) [''status'']) (\<lambda>status.
                    bind (jget status ''operationRef'' JNull) (\<lambda>ref.
                    bind (operation_reference operation) (\<lambda>expected.
                      Inr (\<not> py_eq ref expected)))))))) (\<lambda>changed.
     if changed then raise (OperatorError ''OwnershipChanged'' ''Target changed before execution'')
     else andthen get_cell (\<lambda>s. set_cell (dmerge s claimed)))))"

text \<open>What an exception inside the reservation reports: only a classified refusal is a failure.\<close>

definition abort_report :: "exn \<Rightarrow> string \<times> string" where
  "abort_report e =
     (case e of
        OperatorError reason message \<Rightarrow>
          if reason = ''RemoteWorkUncertain''
          then (''Uncertain'', ''Inspect remote work before resolution'')
          else (''Failed'', reason)
      | _ \<Rightarrow> (''Uncertain'', ''Execution interrupted; inspect remote work''))"

definition abort_operation :: "json \<Rightarrow> exn \<Rightarrow> 'a io" where
  "abort_operation operation e =
     (if e = Unfinished then raise e
      else andthen (complete_operation operation (fst (abort_report e)) (snd (abort_report e)))
             (\<lambda>_. raise e))"

definition reservation ::
  "string \<Rightarrow> string \<Rightarrow> jobject option \<Rightarrow> string \<Rightarrow> (json \<Rightarrow> 'a io) \<Rightarrow> 'a io" where
  "reservation action operator requested_by collection body =
     andthen get_cell (\<lambda>s.
     andthen (lift (busy (JObj s))) (\<lambda>b.
     if b then raise (OperatorError ''OperationBusy'' ''Another operation owns the target'') else
     andthen (lift (operation_spec (JObj s) action operator requested_by)) (\<lambda>spec.
     andthen (create_operation spec) (\<lambda>operation.
     andthen
       (catch (andthen (confirm_claim (JObj s) operation collection) (\<lambda>_. body operation))
              (abort_operation operation)) (\<lambda>x.
     andthen (complete_operation operation ''Succeeded'' ''Operation execution completed'') (\<lambda>_.
       ret x))))))"

section \<open>The completion loop\<close>

interpretation completion: optimistic_update patches "fresh_operation operation" "write_outcome phase message"
  for operation phase message
proof
  show "only False (\<lambda>e. \<not> patches e) (fresh_operation operation)"
    unfolding fresh_operation_def by (intro only_intros) simp
  show "at_most 1 patches (write_outcome phase message x)" for x
    unfolding write_outcome_def by (intro at_most_then_pure at_most_patch_status only_ret)
qed

lemma at_most_complete_operation: "at_most 5 patches (complete_operation operation phase message)"
  unfolding complete_operation_def by (rule completion.at_most_five)

section \<open>Returning under a claim\<close>

lemma only_any_claiming:
  "only cw (\<lambda>e. True) (create_operation spec)" "only True (\<lambda>e. True) (confirm_claim s operation collection)"
  "only cw (\<lambda>e. True) (complete_operation operation outcome message)"
  unfolding create_operation_def confirm_claim_def complete_operation_def fresh_operation_def write_outcome_def
  by (intro only_intros TrueI)+

lemma abort_raises: "abort_operation operation e w \<noteq> (Inr x, w')"
  by (auto simp: abort_operation_def andthen_def split: sum.splits prod.splits if_splits)

text \<open>A body that returned ran after the confirmation of its claim, and its Operation was completed.\<close>

lemma reservation_returned:
  assumes "reservation action operator requested_by collection body w = (Inr x, w')"
    and body: "\<And>operation. only True (\<lambda>e. True) (body operation)"
  obtains s operation w1 w2 w3 where "later w w1" "confirm_claim (JObj s) operation collection w1 = (Inr (), w2)"
    "body operation w2 = (Inr x, w3)"
    "complete_operation operation ''Succeeded'' ''Operation execution completed'' w3 = (Inr (), w')" "later w3 w'"
proof -
  let ?before = "andthen get_cell (\<lambda>s. andthen (lift (busy (JObj s))) (\<lambda>b.
     if b then raise (OperatorError ''OperationBusy'' ''Another operation owns the target'') else
     andthen (lift (operation_spec (JObj s) action operator requested_by)) (\<lambda>spec.
     andthen (create_operation spec) (\<lambda>operation. ret (s, operation)))))"
  from assms(1) obtain s operation w1 where before: "?before w = (Inr (s, operation), w1)"
    and rest: "andthen (catch (andthen (confirm_claim (JObj s) operation collection) (\<lambda>_. body operation))
              (abort_operation operation)) (\<lambda>x.
     andthen (complete_operation operation ''Succeeded'' ''Operation execution completed'') (\<lambda>_. ret x)) w1 = (Inr x, w')"
    unfolding reservation_def by (auto simp: andthen_def split: sum.splits prod.splits if_splits)
  have "only True (\<lambda>e. True) ?before" by (intro only_intros only_any_claiming)
  from only_later [OF this before] have "later w w1" .
  moreover from rest obtain w2 w3 where "confirm_claim (JObj s) operation collection w1 = (Inr (), w2)"
    "body operation w2 = (Inr x, w3)"
    "complete_operation operation ''Succeeded'' ''Operation execution completed'' w3 = (Inr (), w')"
    using abort_raises by (fastforce simp: catch_def andthen_def split: sum.splits prod.splits)
  ultimately show thesis using that only_later [OF only_any_claiming(3) [of True]] by blast
qed

section \<open>Work under a claim\<close>

text \<open>
  The contract a reservation gives its client: \<open>work\<close> are the requests of the body, which the
  bookkeeping of the claim never makes itself. Then such a request is made only by the body, after
  the claim was confirmed, and as often as the body makes it.
\<close>

locale claimed_work =
  fixes work :: "event \<Rightarrow> bool"
  assumes outside: "\<not> work (ApiGet c n)" "\<not> work (ApiPatch c n u rv status)" "\<not> work (ApiCreate c k n spec)" "\<not> work Uuid"
begin

lemma only_bookkeeping [only_intros]:
  "only cw (\<lambda>e. \<not> work e) (create_operation spec)" "only True (\<lambda>e. \<not> work e) (confirm_claim s operation collection)"
  "only cw (\<lambda>e. \<not> work e) (complete_operation operation outcome message)"
  "only cw (\<lambda>e. \<not> work e) (operation_progress target step)" "only cw (\<lambda>e. \<not> work e) (abort_operation operation e)"
proof -
  show *: "only cw (\<lambda>e. \<not> work e) (complete_operation operation outcome message)" for outcome message
    unfolding complete_operation_def fresh_operation_def write_outcome_def by (intro only_intros outside)
  show "only cw (\<lambda>e. \<not> work e) (create_operation spec)" "only True (\<lambda>e. \<not> work e) (confirm_claim s operation collection)"
    "only cw (\<lambda>e. \<not> work e) (operation_progress target step)" "only cw (\<lambda>e. \<not> work e) (abort_operation operation e)"
    unfolding create_operation_def confirm_claim_def operation_progress_def verify_operation_def abort_operation_def
    by (intro only_intros outside *)+
qed

lemma reservation_at_most:
  assumes "\<And>operation. at_most n work (body operation)"
  shows "at_most n work (reservation action operator requested_by collection body)"
proof -
  have inner: "at_most n work (catch (andthen (confirm_claim s operation collection) (\<lambda>_. body operation)) (abort_operation operation))"
    for s operation
    by (intro at_most_catch at_most_after assms only_bookkeeping at_most_none [OF only_bookkeeping(5)])
  have tail: "at_most n work (andthen (catch (andthen (confirm_claim s operation collection) (\<lambda>_. body operation)) (abort_operation operation))
      (\<lambda>x. andthen (complete_operation operation ''Succeeded'' ''Operation execution completed'') (\<lambda>_. ret x)))" for s operation
    by (rule at_most_then_pure [OF inner]) (intro only_intros)
  have refused: "at_most n work (raise e)" for e :: exn
    by (intro at_most_mono [OF at_most_none]) (intro only_intros, simp)
  show ?thesis
    unfolding reservation_def
    by (rule tail refused at_most_if | (rule at_most_after, (intro only_intros; fail)))+
qed

lemma only_any_bookkeeping:
  "only cw (\<lambda>e. True) (create_operation spec)" "only True (\<lambda>e. True) (confirm_claim s operation collection)"
  "only cw (\<lambda>e. True) (complete_operation operation outcome message)"
  "only cw (\<lambda>e. True) (operation_progress target step)" "only cw (\<lambda>e. True) (abort_operation operation e)"
  by (rule only_bookkeeping [THEN only_mono]; simp)+

lemma reservation_made:
  assumes "reservation action operator requested_by collection body w = (r, w')" "made work w w'"
    and body: "\<And>operation. only True (\<lambda>e. True) (body operation)"
  obtains operation w1 w2 r2 w3 where "confirm_claim (JObj (cell w)) operation collection w1 = (Inr (), w2)"
    "body operation w2 = (r2, w3)" "made work w2 w3" "later w w1" "later w3 w'"
proof -
  let ?claimed = "\<lambda>s operation. andthen (confirm_claim (JObj s) operation collection) (\<lambda>_. body operation)"
  let ?rest = "\<lambda>s operation. andthen (catch (?claimed s operation) (abort_operation operation))
      (\<lambda>x. andthen (complete_operation operation ''Succeeded'' ''Operation execution completed'') (\<lambda>_. ret x))"
  have any: "only True (\<lambda>e. True) (?rest s operation)" for s operation
    by (intro only_intros body only_any_bookkeeping)
  obtain b where "busy (JObj (cell w)) = Inr b" and
    "(if b then raise (OperatorError ''OperationBusy'' ''Another operation owns the target'') else
     andthen (lift (operation_spec (JObj (cell w)) action operator requested_by)) (\<lambda>spec.
     andthen (create_operation spec) (\<lambda>operation. ?rest (cell w) operation))) w = (r, w')"
    using assms(1,2) by (auto simp: reservation_def andthen_def made_def added_def split: sum.splits)
  then obtain spec where "operation_spec (JObj (cell w)) action operator requested_by = Inr spec" and
    create: "andthen (create_operation spec) (\<lambda>operation. ?rest (cell w) operation) w = (r, w')"
    using assms(2) by (auto simp: andthen_def made_def added_def split: sum.splits if_splits)
  obtain operation w1 where op: "create_operation spec w = (Inr operation, w1)" "?rest (cell w) operation w1 = (r, w')" "made work w1 w'"
    by (rule made_andthen [OF create only_bookkeeping(1) assms(2) any])
  obtain r4 w4 where c: "made work w1 w4" "catch (?claimed (cell w) operation) (abort_operation operation) w1 = (r4, w4)" "later w4 w'"
    by (rule made_first [OF op(2,3)]) (intro only_intros body only_any_bookkeeping)+
  obtain r3 w3 where d: "?claimed (cell w) operation w1 = (r3, w3)" "made work w1 w3" "later w3 w4"
    by (rule made_caught [OF c(2,1)]) (intro only_intros body only_any_bookkeeping)+
  obtain u w2 where e: "confirm_claim (JObj (cell w)) operation collection w1 = (Inr u, w2)" "body operation w2 = (r3, w3)" "made work w2 w3"
    by (rule made_andthen [OF d(1) only_bookkeeping(2) d(2) body])
  have "later w w1" by (rule only_later [OF only_bookkeeping(1) op(1)])
  with that [of operation w1 w2 r3 w3] e d(3) c(3) show thesis by (auto intro: later_trans)
qed

end

end
