(* ===== verification/HostKeys.thy ===== *)
theory HostKeys
  imports ServerOperation JsonText
begin

text \<open>
  One pass of managed SSH host identity (\<open>operators/ssh_host_keys.py\<close>): rereading the Server,
  merging observations, pinning first contact, reading the private key under a short-lived token,
  running the reviewed plays, and the owned reconciliation.
\<close>

section \<open>Rereading the Server\<close>

definition same_field :: "json \<Rightarrow> json \<Rightarrow> string \<Rightarrow> string \<Rightarrow> exn + unit" where
  "same_field actual expected field message =
     bind (jget actual field JNull) (\<lambda>a.
     bind (jget expected field JNull) (\<lambda>b.
       raise_if (\<not> py_eq a b) (RuntimeError message)))"

definition same_item :: "json \<Rightarrow> json \<Rightarrow> string \<Rightarrow> exn + unit" where
  "same_item actual expected field =
     bind (jsub actual field) (\<lambda>a.
     bind (jsub expected field) (\<lambda>b.
       raise_if (\<not> py_eq a b) (RuntimeError (''Server '' @ field @ '' changed; retry next pass''))))"

definition status_of :: "json \<Rightarrow> exn + json" where
  "status_of server = jget server ''status'' (JObj [])"

definition host_fields :: "string list" where
  "host_fields =
     [''keyPairRef'', ''publicKey'', ''fingerprint'', ''keyReady'', ''bootstrapPublicKey'',
      ''installedKeyPairRef'', ''installedFingerprint'']"

definition still_bound :: "json \<Rightarrow> json \<Rightarrow> exn + unit" where
  "still_bound server snapshot =
     bind (jsub server ''metadata'') (\<lambda>metadata.
     bind (jsub snapshot ''metadata'') (\<lambda>expected_metadata.
     bind (status_of server) (\<lambda>status.
     bind (status_of snapshot) (\<lambda>expected_status.
     bind (jget metadata ''deletionTimestamp'' JNull) (\<lambda>deleted.
     bind (raise_if (truthy deleted) (RuntimeError ''Server is terminating; retry next pass'')) (\<lambda>_.
     bind (jchain status [''provisioning'', ''maintenance'']) (\<lambda>maintenance.
     bind (raise_if (truthy maintenance)
             (RuntimeError ''Provisioning owns the Server; retry next pass'')) (\<lambda>_.
     bind (mapM (same_item metadata expected_metadata) [''uid'', ''generation'']) (\<lambda>_.
     bind (mapM (\<lambda>f. same_field status expected_status f
                     (''Server '' @ f @ '' changed; retry next pass''))
             [''operationRef'', ''machineRef'', ''desiredSSHTrustBundleDigest'']) (\<lambda>_.
     bind (jchain status [''networking'', ''management'']) (\<lambda>a.
     bind (jchain expected_status [''networking'', ''management'']) (\<lambda>b.
     bind (raise_if (\<not> py_eq a b)
             (RuntimeError ''Management binding changed; retry next pass'')) (\<lambda>_.
     bind (jget status ''hostSSH'' (JObj [])) (\<lambda>observed_host.
     bind (jget expected_status ''hostSSH'' (JObj [])) (\<lambda>expected_host.
     bind (mapM (\<lambda>f. same_field observed_host expected_host f
                     (''Host SSH '' @ f @ '' changed; retry next pass'')) host_fields) (\<lambda>_.
       Inr ()))))))))))))))))"

definition current_server :: "json \<Rightarrow> jobject io" where
  "current_server snapshot =
     andthen (lift (jpath snapshot [''metadata'', ''name''])) (\<lambda>name.
     andthen (api_get ''servers'' name) (\<lambda>server.
     andthen (lift (still_bound (JObj server) snapshot)) (\<lambda>_. ret server)))"

definition pinned_server :: "json \<Rightarrow> json \<Rightarrow> jobject io" where
  "pinned_server snapshot expected_pin =
     andthen (current_server snapshot) (\<lambda>latest.
     andthen (lift (if expected_pin = JNull then Inr False
                    else bind (status_of (JObj latest)) (\<lambda>status.
                         bind (jchain status [''hostSSH'', ''bootstrapPublicKey'']) (\<lambda>pin.
                           Inr (\<not> py_eq pin expected_pin))))) (\<lambda>changed.
       if changed
       then raise (RuntimeError ''Bootstrap enrollment changed; refusing stale transition'')
       else ret latest))"

definition write_observation :: "jobject \<Rightarrow> jobject \<Rightarrow> jobject \<Rightarrow> jobject io" where
  "write_observation observed additional_status latest =
     patch_status (JObj latest) (dmerge [(''hostSSH'', JObj observed)] additional_status)"

definition observation :: "json \<Rightarrow> jobject \<Rightarrow> json \<Rightarrow> jobject \<Rightarrow> jobject io" where
  "observation snapshot observed expected_pin additional_status =
     optimistic (RuntimeError ''Concurrent Server status updates; retry next pass'')
       (pinned_server snapshot expected_pin)
       (write_observation observed additional_status)"

section \<open>First contact\<close>

definition pinned_entry :: "json \<Rightarrow> string \<Rightarrow> exn + string list" where
  "pinned_entry server line =
     (if line = [] \<or> startswith line ''#'' then Inr []
      else
        let fields = split_ws line in
        bind (if length fields \<noteq> 3 then Inr True
              else bind (host_alias server) (\<lambda>a. Inr (fields ! 0 \<noteq> a))) (\<lambda>bad.
        if bad then Inl (RuntimeError ''Unexpected bootstrap known_hosts entry'')
        else bind (public_key (join '' '' (tl fields))) (\<lambda>k. Inr [k])))"

definition pinned_entries :: "json \<Rightarrow> string \<Rightarrow> exn + string list" where
  "pinned_entries server text =
     bind (mapM (pinned_entry server) (splitlines text)) (\<lambda>ks. Inr (concat ks))"

definition pin_first_contact :: "json \<Rightarrow> string \<Rightarrow> string \<Rightarrow> jobject io" where
  "pin_first_contact server host directory =
     (let known = directory @ ''/first-contact-known-hosts'' in
     andthen (act (WriteFile known [])) (\<lambda>_.
     andthen (ssh_probe server host known ''accept-new'') (\<lambda>_.
     andthen (ask_text (ReadFile known)) (\<lambda>text.
     andthen (lift (pinned_entries server text)) (\<lambda>entries.
     if length entries \<noteq> 1
     then raise (RuntimeError ''Expected exactly one first-contact host key'') else
     andthen (current_server server) (\<lambda>latest.
     andthen (lift (bind (status_of (JObj latest)) (\<lambda>status. jget status ''hostSSH'' (JObj [])))) (\<lambda>trust.
     andthen (lift (orM (bind (jget trust ''bootstrapPublicKey'' JNull) (\<lambda>v. Inr (truthy v)))
                        (bind (jget trust ''installedKeyPairRef'' JNull) (\<lambda>v. Inr (truthy v)))))
       (\<lambda>enrolled.
     if enrolled
     then raise (RuntimeError ''Another build enrolled this Server; retry using its persisted identity'')
     else
       patch_status (JObj latest)
         [(''hostSSH'', JObj [(''bootstrapPublicKey'', JStr (hd entries)),
             (''phase'', JStr ''BootstrapPinned''), (''reason'', JStr ''FirstContactRecorded''),
             (''message'', JStr ''First-contact host key recorded using TOFU'')])]))))))))"

section \<open>The private key\<close>

definition key_ownership :: "json \<Rightarrow> json \<Rightarrow> json \<Rightarrow> exn + bool" where
  "key_ownership key reference uid =
     bind (jpath key [''metadata'', ''uid'']) (\<lambda>a.
     bind (jsub reference ''uid'') (\<lambda>b.
     if \<not> py_eq a b then Inr True else
     bind (jpath key [''metadata'']) (\<lambda>metadata.
     bind (jget metadata ''deletionTimestamp'' JNull) (\<lambda>deleted.
     if truthy deleted then Inr True else
     bind (jchain metadata [''annotations'', ''homelab.io/server-uid'']) (\<lambda>owner.
     if \<not> py_eq owner uid then Inr True else
     bind (jpath key [''spec'', ''path'']) (\<lambda>path.
     bind (str_of TypeError uid) (\<lambda>u.
       Inr (path \<noteq> JStr (''ssh/hosts/'' @ u)))))))))"

definition key_current :: "json \<Rightarrow> json \<Rightarrow> exn + bool" where
  "key_current key host =
     bind (jget key ''status'' (JObj [])) (\<lambda>status.
     bind (jget status ''phase'' JNull) (\<lambda>phase.
     if phase \<noteq> JStr ''Ready'' then Inr False else
     bind (jpath key [''status'']) (\<lambda>status.
     bind (jget status ''observedGeneration'' JNull) (\<lambda>observed.
     bind (jpath key [''metadata'', ''generation'']) (\<lambda>generation.
     if \<not> py_eq observed generation then Inr False else
     bind (bind (jsub status ''publicKey'') key_of) (\<lambda>a.
     bind (bind (jsub host ''publicKey'') key_of) (\<lambda>b. Inr (a = b))))))))"

definition stored_key :: "jobject \<Rightarrow> json \<Rightarrow> json \<Rightarrow> exn + string" where
  "stored_key response reference host =
     bind (json_object (dget response ''data'') ''OpenBao version'') (\<lambda>version.
     bind (json_object (dget version ''data'') ''OpenBao key data'') (\<lambda>data.
     bind (jsub reference ''uid'') (\<lambda>uid.
     bind (if \<not> py_eq (dget data ''sshKeyPairUID'') uid then Inr True
           else bind (bind (json_string (dget data ''publicKey'') ''OpenBao publicKey'') public_key) (\<lambda>a.
                bind (bind (jsub host ''publicKey'') key_of) (\<lambda>b. Inr (a \<noteq> b)))) (\<lambda>wrong.
     if wrong
     then Inl (RuntimeError ''OpenBao host identity does not match the owned SSHKeyPair'')
     else json_string (dget data ''privateKey'') ''OpenBao privateKey''))))"

definition vault_base :: "string io" where
  "vault_base = andthen (getenv ''BAO_ADDR'') (\<lambda>a. ret (rstrip_char (CHR ''/'') a))"

definition vault_login :: "string \<Rightarrow> string io" where
  "vault_login base =
     andthen (getenv ''HOST_KEY_BAO_ROLE_ID'') (\<lambda>role.
     andthen (getenv ''HOST_KEY_BAO_SECRET_ID'') (\<lambda>secret.
     andthen (request (VaultRequest ''POST'' (base @ ''/v1/auth/approle/login'') []
               [(''role_id'', JStr role), (''secret_id'', JStr secret)])) (\<lambda>login.
     andthen (lift (json_object (dget login ''auth'') ''OpenBao auth'')) (\<lambda>auth.
       lift (json_string (dget auth ''client_token'') ''OpenBao client_token'')))))"

definition revoke_token :: "string \<Rightarrow> string \<Rightarrow> unit io" where
  "revoke_token base token =
     andthen (request (VaultRequest ''POST'' (base @ ''/v1/auth/token/revoke-self'') token []))
       (\<lambda>_. ret ())"

definition read_key :: "string \<Rightarrow> string \<Rightarrow> string \<Rightarrow> json \<Rightarrow> json \<Rightarrow> string io" where
  "read_key base token uid reference host =
     andthen (request (VaultRequest ''GET'' (base @ ''/v1/kv2/data/secrets/ssh/hosts/'' @ uid) token []))
       (\<lambda>response. lift (stored_key response reference host))"

definition host_private_key :: "json \<Rightarrow> string io" where
  "host_private_key server =
     andthen (lift (jpath server [''status'', ''hostSSH''])) (\<lambda>host.
     andthen (lift (jsub host ''keyPairRef'')) (\<lambda>reference.
     andthen (lift (jsub reference ''name'')) (\<lambda>name.
     andthen (api_get ''ssh-key-pairs'' name) (\<lambda>key.
     andthen (lift (jpath server [''metadata'', ''uid''])) (\<lambda>uid.
     andthen (lift (key_ownership (JObj key) reference uid)) (\<lambda>foreign.
     if foreign then raise (RuntimeError ''Host key ownership does not match the Server'') else
     andthen (lift (key_current (JObj key) host)) (\<lambda>ready.
     if \<not> ready then raise (RuntimeError ''Owned host key is not current and Ready'') else
     andthen (lift (jpath (JObj key) [''spec'', ''secretStoreRef'', ''name''])) (\<lambda>store.
     andthen (getenv_default ''HOST_KEY_SECRET_STORE'' ''openbao'') (\<lambda>expected_store.
     if store \<noteq> JStr expected_store
     then raise (RuntimeError ''Host key belongs to a different SecretStore'') else
     andthen vault_base (\<lambda>base.
     andthen (vault_login base) (\<lambda>token.
     andthen (lift (str_of TypeError uid)) (\<lambda>u.
       and_finally (read_key base token u reference host) (revoke_token base token)))))))))))))"

section \<open>Plays\<close>

definition play_inventory :: "json \<Rightarrow> string \<Rightarrow> string \<Rightarrow> json io" where
  "play_inventory server host known =
     andthen (lift (bind (jpath server [''metadata'', ''name'']) (str_of TypeError))) (\<lambda>name.
     andthen (lift (ip_address host)) (\<lambda>a.
     andthen (lift (host_alias server)) (\<lambda>server_alias.
     andthen (ssh_args server known ''yes'') (\<lambda>args.
       ret (JObj [(''all'', JObj [(''hosts'', JObj [(name, JObj
              [(''ansible_host'', JStr a), (''ansible_user'', JStr ''ansible''),
               (''ansible_become'', JBool True), (''host_key_alias'', JStr server_alias),
               (''ansible_ssh_args'', JStr (shell_join args)), (''ansible_ssh_common_args'', JStr []),
               (''ansible_ssh_extra_args'', JStr [])])])])])))))"

definition between :: "string \<Rightarrow> string \<Rightarrow> (string \<times> string) option" where
  "between stops s =
     (let body = takeWhile (\<lambda>c. c \<notin> set stops) s; rest = drop (length body) s
      in if body = [] then None else Some (body, rest))"

text \<open>The label of a task heading at the start of a text, with what follows the bracket.\<close>

definition task_heading :: "string \<Rightarrow> (string \<times> string) option" where
  "task_heading s =
     (if \<not> startswith s ''TASK ['' then None
      else case between [CHR '']'', CHR 0x0D, CHR 0x0A] (drop 6 s) of
             None \<Rightarrow> None
           | Some (label, rest) \<Rightarrow>
               if rest \<noteq> [] \<and> hd rest = CHR '']'' then Some (label, tl rest) else None)"

text \<open>\<open>re.findall(r'TASK \[([^\]\r\n]+)\]', output)\<close>\<close>

function task_labels :: "string \<Rightarrow> string list" where
  "task_labels s =
     (case s of
        [] \<Rightarrow> []
      | c # cs \<Rightarrow>
          (case task_heading s of
             None \<Rightarrow> task_labels cs
           | Some (label, rest) \<Rightarrow>
               if length rest < length s then label # task_labels rest else []))"
  by pat_completeness auto
termination by (relation "measure length") auto

declare task_labels.simps [simp del]

definition run_play :: "json \<Rightarrow> string \<Rightarrow> string \<Rightarrow> string \<Rightarrow> string \<Rightarrow> jobject \<Rightarrow> unit io" where
  "run_play server host directory known play variables =
     andthen (play_inventory server host known) (\<lambda>inventory.
     andthen (act (WriteJson (directory @ ''/inventory.json'') inventory)) (\<lambda>_.
     andthen (act (WriteJson (directory @ ''/variables.json'') (JObj variables))) (\<lambda>_.
     andthen (lift (bind (jpath server [''metadata'', ''uid'']) (str_of TypeError))) (\<lambda>uid.
     andthen (getenv_default ''ANSIBLE_PLAYS_PATH'' ''/homelab/plays'') (\<lambda>plays.
     andthen (ask_proc (Ansible
               [''ansible-playbook'', ''-i'', directory @ ''/inventory.json'', plays @ ''/'' @ play,
                ''-e'', ''@'' @ directory @ ''/variables.json'']
               (''/tmp/ssh-host-operator-diagnostics/'' @ uid @ ''-'' @ play @ ''.log'') 300))
       (\<lambda>(code, out, err).
     if code = 0 then ret ()
     else if code = 4 \<or> code = 6
     then raise (OperatorError ''RemoteWorkUncertain'' ''SSH transport failed; inspect remote work'')
     else
       let tasks = task_labels out;
           last_task = (if tasks = [] then ''initialization'' else last tasks)
       in raise (OperatorError ''SSHReconciliationFailed''
            (''Ansible reconciliation failed at '' @ last_task @
             '' (secret-bearing output kept in private diagnostics)''))))))))"

section \<open>The owned reconciliation\<close>

definition busy_phases :: "json list" where
  "busy_phases =
     map JStr [''PreparingBoot'', ''AwaitingLive'', ''Installing'', ''AwaitingInstalled'', ''Verifying'']"

text \<open>Why a pass does nothing: \<open>Inr True\<close> when there is nothing to do yet.\<close>

definition nothing_to_do :: "json \<Rightarrow> exn + bool" where
  "nothing_to_do server =
     bind (status_of server) (\<lambda>status.
     bind (jget status ''provisioning'' (JObj [])) (\<lambda>provisioning.
     bind (jget provisioning ''maintenance'' JNull) (\<lambda>maintenance.
     bind (jget provisioning ''phase'' JNull) (\<lambda>phase.
     if truthy maintenance \<or> phase \<in> set busy_phases then Inr True else
     bind (jget status ''hostSSH'' (JObj [])) (\<lambda>trust.
     bind (jget trust ''keyReady'' JNull) (\<lambda>ready.
     bind (jget trust ''keyPairRef'' JNull) (\<lambda>ref.
     if \<not> truthy ready \<or> \<not> truthy ref then Inr True else
     bind (jget status ''desiredSSHTrustBundleDigest'' JNull) (\<lambda>bundle_digest.
     if \<not> truthy bundle_digest then Inr True else
     bind (jchain status [''sshTrust'', ''publicBundle'']) (\<lambda>bundle.
       Inr (\<not> truthy bundle))))))))))"

definition replacement_unapproved :: "json \<Rightarrow> exn + bool" where
  "replacement_unapproved trust =
     bind (jget trust ''installedKeyPairRef'' JNull) (\<lambda>installed.
     if \<not> truthy installed then Inr False else
     bind (jsub trust ''keyPairRef'') (\<lambda>ref.
     if \<not> py_eq installed ref then Inr True else
     bind (jget trust ''installedFingerprint'' JNull) (\<lambda>a.
     bind (jsub trust ''fingerprint'') (\<lambda>b. Inr (\<not> py_eq a b)))))"

definition unenrolled :: "json \<Rightarrow> exn + bool" where
  "unenrolled trust =
     bind (jget trust ''bootstrapPublicKey'' JNull) (\<lambda>pin.
     if truthy pin then Inr False else
     bind (jget trust ''installedKeyPairRef'' JNull) (\<lambda>ref. Inr (\<not> truthy ref)))"

definition host_trust :: "json \<Rightarrow> exn + json" where
  "host_trust server =
     bind (status_of server) (\<lambda>status. jget status ''hostSSH'' (JObj []))"

text \<open>The accepted keys: the desired one, and the pin only before the first installation.\<close>

definition accepted_keys :: "json \<Rightarrow> exn + string list" where
  "accepted_keys trust =
     bind (bind (jsub trust ''publicKey'') key_of) (\<lambda>desired.
     bind (jget trust ''installedKeyPairRef'' JNull) (\<lambda>installed.
     bind (jget trust ''bootstrapPublicKey'' JNull) (\<lambda>pin.
     if \<not> truthy installed \<and> truthy pin
     then bind (key_of pin) (\<lambda>k. Inr (if k = desired then [desired] else [desired, k]))
     else Inr [desired])))"

definition known_line :: "json \<Rightarrow> string \<Rightarrow> exn + string" where
  "known_line server key = bind (host_alias server) (\<lambda>a. Inr (a @ '' '' @ key @ [CHR 0x0A]))"

definition known_lines :: "json \<Rightarrow> string list \<Rightarrow> exn + string" where
  "known_lines server keys = bind (mapM (known_line server) keys) (\<lambda>ls. Inr (concat ls))"

definition deliver_key :: "json \<Rightarrow> json \<Rightarrow> string \<Rightarrow> string \<Rightarrow> string \<Rightarrow> unit io" where
  "deliver_key server trust host directory known =
     andthen (host_private_key server) (\<lambda>private.
     andthen (act (WriteFile (directory @ ''/host_key'') private)) (\<lambda>_.
     andthen (ask_proc (Process [''ssh-keygen'', ''-y'', ''-f'', directory @ ''/host_key''] [] 15))
       (\<lambda>(code, derived, err).
     if code \<noteq> 0 then raise CalledProcessError else
     andthen (lift (public_key derived)) (\<lambda>derived_key.
     andthen (lift (bind (jsub trust ''publicKey'') key_of)) (\<lambda>desired.
     if derived_key \<noteq> desired
     then raise (RuntimeError ''Host private key does not match desired public identity'') else
     andthen (current_server server) (\<lambda>_.
     andthen (operation_progress server ''Reconcile managed SSH host identity'') (\<lambda>_.
     andthen (run_play server host directory known ''ssh_host_keys.yml''
               [(''managed_host_private_key_file'', JStr (directory @ ''/host_key'')),
                (''managed_host_public_key'', JStr desired)]) (\<lambda>_.
     andthen (lift (known_line server desired)) (\<lambda>line.
     andthen (act (WriteFile known line)) (\<lambda>_.
       ssh_probe server host known ''yes''))))))))))"

definition deliver_trust :: "json \<Rightarrow> json \<Rightarrow> json \<Rightarrow> string \<Rightarrow> string \<Rightarrow> string \<Rightarrow> unit io" where
  "deliver_trust server trust pin host directory known =
     andthen (operation_progress server ''Reconcile SSH user certificate trust'') (\<lambda>_.
     andthen (lift (jpath server [''status'', ''sshTrust'', ''publicBundle''])) (\<lambda>bundle.
     andthen (lift (jpath server [''status'', ''desiredSSHTrustBundleDigest''])) (\<lambda>bundle_digest.
     andthen (run_play server host directory known ''ssh_trust.yml''
               [(''ssh_ca_bundle'', bundle), (''ssh_ca_bundle_digest'', bundle_digest)]) (\<lambda>_.
     andthen (ssh_probe server host known ''yes'') (\<lambda>_.
     andthen (lift (jsub trust ''keyPairRef'')) (\<lambda>ref.
     andthen (lift (jsub trust ''fingerprint'')) (\<lambda>f.
     andthen (lift (jpath server [''metadata'', ''generation''])) (\<lambda>generation.
     andthen (observation server
               [(''bootstrapPublicKey'', JNull), (''installedKeyPairRef'', ref),
                (''installedFingerprint'', f), (''observedGeneration'', generation),
                (''phase'', JStr ''Ready''), (''reason'', JStr ''ManagedHostKeyVerified''),
                (''message'', JStr ''Fresh SSH connection verified managed host identity'')]
               pin [(''installedSSHTrustBundleDigest'', bundle_digest)]) (\<lambda>_.
       ret ())))))))))"

definition reconcile_owned :: "string \<Rightarrow> string \<Rightarrow> unit io" where
  "reconcile_owned host directory =
     andthen get_cell (\<lambda>s.
     andthen (lift (nothing_to_do (JObj s))) (\<lambda>idle.
     if idle then ret () else
     andthen (lift (host_trust (JObj s))) (\<lambda>trust.
     andthen (lift (bind (jsub trust ''publicKey'') fingerprint)) (\<lambda>f.
     andthen (lift (jget trust ''fingerprint'' JNull)) (\<lambda>expected.
     if expected \<noteq> JStr f
     then raise (RuntimeError ''Desired public host identity is inconsistent'') else
     andthen (lift (replacement_unapproved trust)) (\<lambda>unapproved.
     if unapproved then raise (RuntimeError ''Unapproved managed host identity replacement'') else
     andthen (lift (unenrolled trust)) (\<lambda>first.
     andthen (if first
              then andthen (pin_first_contact (JObj s) host directory) (\<lambda>pinned.
                   andthen (set_cell (dmerge s pinned)) (\<lambda>_.
                     lift (jpath (JObj (dmerge s pinned)) [''status'', ''hostSSH''])))
              else ret trust) (\<lambda>trust.
     andthen get_cell (\<lambda>s.
     andthen (lift (jget trust ''bootstrapPublicKey'' JNull)) (\<lambda>pin.
     andthen (lift (bind (accepted_keys trust) (known_lines (JObj s)))) (\<lambda>lines.
     let known = directory @ ''/known_hosts'' in
     andthen (act (WriteFile known lines)) (\<lambda>_.
     andthen (ssh_probe (JObj s) host known ''yes'') (\<lambda>_.
     andthen (current_server (JObj s)) (\<lambda>server.
     andthen (deliver_key (JObj server) trust host directory known) (\<lambda>_.
       deliver_trust (JObj server) trust pin host directory known)))))))))))))))"

definition reconcile_host_keys :: "string \<Rightarrow> string \<Rightarrow> unit io" where
  "reconcile_host_keys host directory =
     catch (reservation ''reconcile-ssh'' ''ssh-host-keys'' None ''servers''
              (\<lambda>_. reconcile_owned host directory))
           (\<lambda>e. case e of
              OperatorError reason _ \<Rightarrow> if reason = ''OperationBusy'' then ret () else raise e
            | _ \<Rightarrow> raise e)"

section \<open>One pass\<close>

definition server_only_selector :: json where
  "server_only_selector =
     JArr [JObj [(''apiVersion'', JStr ''homelab.io/v1alpha1''), (''kind'', JStr ''Server'')]]"

text \<open>What a failed target is reported as: only classified refusals keep their text.\<close>

definition failure_report :: "exn \<Rightarrow> string \<times> string" where
  "failure_report e =
     (case e of
        OperatorError reason message \<Rightarrow> (reason, message)
      | _ \<Rightarrow> (''ReconciliationFailed'',
              ''Operator could not verify convergence; '' @
              ''inspect connectivity, binding, credentials and host identity''))"

definition report_failure :: "exn \<Rightarrow> unit io" where
  "report_failure e =
     andthen get_cell (\<lambda>s.
       catch_all
         (andthen (observation (JObj s)
                     [(''phase'', JStr ''Failed''), (''reason'', JStr (fst (failure_report e))),
                      (''message'', JStr (snd (failure_report e)))] JNull []) (\<lambda>_. ret ()))
         (ret ()))"

definition serve_host :: "json \<Rightarrow> unit io" where
  "serve_host variables =
     andthen get_cell (\<lambda>s.
     andthen (lift (bind (jpath (JObj s) [''metadata'']) (\<lambda>m. jget m ''deletionTimestamp'' JNull)))
       (\<lambda>deleted.
     if truthy deleted then ret () else
     andthen (lift (bind (jsub variables ''ansible_host'') address)) (\<lambda>host.
     andthen (lift (management_address s)) (\<lambda>actual.
     if actual \<noteq> Some host
     then raise (RuntimeError ''Capture-group management address is stale'') else
     andthen (ask_text (TempDir ''ssh-host-operator-'')) (\<lambda>tmp.
       reconcile_host_keys host tmp)))))"

text \<open>The result says whether the target failed.\<close>

definition host_pass :: "string \<times> json \<Rightarrow> bool io" where
  "host_pass entry =
     catch
       (andthen (api_get ''servers'' (JStr (fst entry))) (\<lambda>server.
        andthen (set_cell server) (\<lambda>_.
        catch (andthen (serve_host (snd entry)) (\<lambda>_. ret False))
          (\<lambda>e. if is_exception e then andthen (report_failure e) (\<lambda>_. ret True) else raise e))))
       (\<lambda>e. if is_exception e then ret True else raise e)"

definition host_keys_main :: "int io" where
  "host_keys_main =
     andthen api_init (\<lambda>_.
     andthen (getenv ''INVENTORY_CAPTURE_GROUP'') (\<lambda>group_name.
     andthen (capture_inventory group_name) (\<lambda>(group, inventory).
     andthen (lift (bind (jpath (JObj group) [''spec'', ''selector'']) (\<lambda>s.
                    jget s ''matchKinds'' (JArr [])))) (\<lambda>kinds.
     if \<not> py_eq kinds server_only_selector
     then raise (RuntimeError ''Host-key operator requires a Server-only capture group'') else
     andthen (lift (bind (status_of (JObj group)) (\<lambda>status.
                    bind (jget status ''omittedResources'' (JArr [])) (\<lambda>v.
                    bind (jiter v) (mapM (\<lambda>o'. bind (jsub o' ''name'') (\<lambda>n.
                      bind (jsub o' ''reason'') (\<lambda>r.
                      bind (str_of TypeError n) (\<lambda>_. bind (str_of TypeError r) (\<lambda>_. Inr ()))))))))))
       (\<lambda>_.
     andthen (lift (inventory_hosts (JObj inventory))) (\<lambda>hosts.
     andthen (collect host_pass hosts) (\<lambda>outcomes.
       ret (if list_ex id outcomes then 1 else 0))))))))"

section \<open>The observation loop\<close>

lemma only_pinned_server [only_intros]:
  "(\<And>c n. A (ApiGet c n)) \<Longrightarrow> only cw A (pinned_server snapshot pin)"
  unfolding pinned_server_def current_server_def by (intro only_intros)

interpretation observed: optimistic_update patches "pinned_server snapshot pin"
    "write_observation observed additional_status"
  for snapshot pin observed additional_status
proof
  show "only False (\<lambda>e. \<not> patches e) (pinned_server snapshot pin)"
    by (intro only_intros) simp
  show "at_most 1 patches (write_observation observed additional_status x)" for x
    unfolding write_observation_def by (rule at_most_patch_status)
qed

lemma at_most_observation: "at_most 5 patches (observation snapshot observed pin additional_status)"
  unfolding observation_def by (rule observed.at_most_five)

end
