(* ===== verification/Provisioning.thy ===== *)
theory Provisioning
  imports ProvisionChecks HostKeys
begin

text \<open>
  The provisioning operator (\<open>operators/provisioning.py\<close>): binding a run to its Server, checkpoints
  by compare-and-set, the stages and their order, and the handling of failures. The local Server
  view that the source passes around and mutates is the cell; functions that only read a view
  take it as an argument.
\<close>

section \<open>Binding and releasing a run\<close>

definition binding_changed :: "json \<Rightarrow> json \<Rightarrow> json \<Rightarrow> json \<Rightarrow> exn + bool" where
  "binding_changed run ref expected server =
     orM (differs (jpath run [''metadata'', ''uid'']) (jsub ref ''uid'')) (
     orM (bind (jsub run ''metadata'') (\<lambda>m. holds (jget m ''deletionTimestamp'' JNull))) (
     orM (differs (jpath run [''spec'', ''serverRef'']) (Inr expected))
         (bind (jpath run [''spec'', ''machineRef'']) (\<lambda>a.
          bind (jsub server ''status'') (\<lambda>status.
            differs (Inr a) (jget status ''machineRef'' JNull))))))"

text \<open>The local view: the Server with its run, and the run's status in place of the reservation.\<close>

definition with_run :: "json \<Rightarrow> jobject \<Rightarrow> exn + jobject" where
  "with_run server run =
     bind (jsub server ''status'') (\<lambda>status.
     bind (dsub run ''status'') (\<lambda>run_status.
     bind (jput status ''provisioning'' run_status) (\<lambda>status'.
       (case server of
          JObj s \<Rightarrow> Inr (dput ''status'' status' (dput ''_run'' (JObj run) s))
        | _ \<Rightarrow> Inl TypeError))))"

definition bind_run :: "json \<Rightarrow> jobject io" where
  "bind_run server =
     andthen (lift (jpath server [''status'', ''provisioning'', ''activeRunRef''])) (\<lambda>ref.
     andthen (lift (jsub ref ''name'')) (\<lambda>name.
     andthen (api_get ''provisioning-runs'' name) (\<lambda>run.
     andthen (lift (operation_reference server)) (\<lambda>expected.
     andthen (lift (refuse (binding_changed (JObj run) ref expected server)
                     (blocked ''Run or machine binding changed''))) (\<lambda>_.
       lift (with_run server run))))))"

definition run_retained :: "json \<Rightarrow> json \<Rightarrow> exn + bool" where
  "run_retained run server =
     orM (differs (jpath run [''metadata'', ''uid'']) (jpath server [''_run'', ''metadata'', ''uid''])) (
     orM (bind (jsub run ''status'') (\<lambda>s. holds (jget s ''maintenance'' JNull))) (
     orM (bind (jsub run ''status'') (\<lambda>s. holds (jget s ''netbootArmed'' JNull)))
         (bind (jpath run [''status'', ''phase'']) (\<lambda>phase.
            Inr (phase \<notin> {JStr ''Succeeded'', JStr ''Blocked''})))))"

definition reserved_server :: "json \<Rightarrow> json \<Rightarrow> jobject io" where
  "reserved_server server ref =
     andthen (lift (jpath server [''metadata'', ''name''])) (\<lambda>name.
     andthen (api_get ''servers'' name) (\<lambda>latest.
     andthen (lift (refuse
         (orM (differs (jpath (JObj latest) [''metadata'', ''uid'']) (jpath server [''metadata'', ''uid'']))
              (bind (dsub latest ''status'') (\<lambda>status.
               differs (jchain status [''provisioning'', ''activeRunRef'']) (Inr ref))))
         (blocked ''Run lost its Server reservation''))) (\<lambda>_.
       ret latest)))"

definition release_fields :: "json \<Rightarrow> json \<Rightarrow> jobject" where
  "release_fields phase ref =
     [(''activeRunRef'', JNull), (''maintenance'', JBool False)] @
     (if phase = JStr ''Succeeded''
      then [(''provisioned'', JBool True), (''lastSuccessfulRunRef'', ref)] else [])"

definition write_release :: "json \<Rightarrow> json \<Rightarrow> jobject \<Rightarrow> unit io" where
  "write_release phase ref latest =
     andthen (patch_status (JObj latest) [(''provisioning'', JObj (release_fields phase ref))])
       (\<lambda>_. ret ())"

definition release_run :: "json \<Rightarrow> unit io" where
  "release_run server =
     andthen (lift (jpath server [''_run'', ''metadata'', ''name''])) (\<lambda>name.
     andthen (api_get ''provisioning-runs'' name) (\<lambda>run.
     andthen (lift (run_retained (JObj run) server)) (\<lambda>retained.
     if retained then ret () else
     andthen (lift (operation_reference (JObj run))) (\<lambda>ref.
     andthen (lift (jpath (JObj run) [''status'', ''phase''])) (\<lambda>phase.
       optimistic (blocked ''Concurrent reservation release'')
         (reserved_server server ref)
         (write_release phase ref))))))"

section \<open>Revalidation and checkpoints\<close>

definition current :: "json \<Rightarrow> bool \<Rightarrow> bool \<Rightarrow> jobject io" where
  "current snapshot allow_paused allow_network_pending =
     andthen (lift (jpath snapshot [''metadata'', ''name''])) (\<lambda>name.
     andthen (api_get ''servers'' name) (\<lambda>server.
     andthen (bind_run (JObj server)) (\<lambda>view.
     andthen (lift (bind (jpath (JObj view) [''metadata'', ''uid'']) (\<lambda>a.
                    bind (jpath snapshot [''metadata'', ''uid'']) (\<lambda>b.
                      require_unchanged a b ''Server identity'')))) (\<lambda>_.
     andthen (lift (refuse (bind (dsub view ''metadata'') (\<lambda>m. holds (jget m ''deletionTimestamp'' JNull)))
                     (blocked ''Server is terminating''))) (\<lambda>_.
     andthen (lift (validate_attempt_checkpoint (JObj view) snapshot)) (\<lambda>_.
     andthen (lift (jpath snapshot [''status'', ''provisioning'', ''snapshot''])) (\<lambda>pinned.
     andthen (lift (validate_pinned_server (JObj view) pinned allow_network_pending)) (\<lambda>_.
     andthen (lift (jpath (JObj view) [''spec'', ''provisioning'', ''enabled''])) (\<lambda>enabled.
     andthen (lift (bind (dsub view ''spec'') (\<lambda>spec. jchain spec [''reconciliation'', ''paused'']))) (\<lambda>paused.
     if \<not> allow_paused \<and> (\<not> truthy enabled \<or> truthy paused)
     then raise (blocked ''Provisioning was disabled or paused'')
     else ret view))))))))))"

definition store_checkpoint :: "jobject \<Rightarrow> jobject \<Rightarrow> jobject io" where
  "store_checkpoint latest result =
     andthen (lift (with_run (JObj latest) result)) (\<lambda>view.
     andthen (set_cell view) (\<lambda>_. ret view))"

definition write_checkpoint :: "string \<Rightarrow> jobject \<Rightarrow> jobject \<Rightarrow> jobject io" where
  "write_checkpoint phase extra latest =
     andthen (lift (dsub latest ''_run'')) (\<lambda>run.
     andthen (patch_status run
               (dmerge [(''phase'', JStr phase), (''currentStage'', JStr phase)] extra)) (\<lambda>result.
       store_checkpoint latest result))"

definition checkpoint :: "string \<Rightarrow> jobject \<Rightarrow> jobject io" where
  "checkpoint phase extra =
     andthen get_cell (\<lambda>server.
       optimistic (blocked ''Concurrent provisioning status update'')
         (current (JObj server) True True)
         (write_checkpoint phase extra))"

section \<open>The host\<close>

definition known_file :: "json \<Rightarrow> string \<Rightarrow> json \<Rightarrow> string io" where
  "known_file server directory key =
     andthen (lift (bind (host_alias server) (\<lambda>a.
                    bind (if truthy key then Inr key
                          else jpath server [''status'', ''hostSSH'', ''publicKey'']) (\<lambda>k.
                    bind (key_of k) (\<lambda>key. Inr (a @ '' '' @ key @ [CHR 0x0A])))))) (\<lambda>line.
     andthen (act (WriteFile (directory @ ''/known_hosts'') line)) (\<lambda>_.
       ret (directory @ ''/known_hosts'')))"

text \<open>
  A command whose output is read as JSON answers with the decoded value when it succeeds and its
  output is JSON, with a process result otherwise.
\<close>

definition ask_facts :: "event \<Rightarrow> json io" where
  "ask_facts ev =
     andthen (ask ev) (\<lambda>r. case r of
        RJson v \<Rightarrow> ret v
      | RProc code out err \<Rightarrow>
          if code \<noteq> 0 then raise (blocked ''Read-only SSH provisioning probe failed'')
          else raise (LibError ''json.loads'')
      | _ \<Rightarrow> raise OSError)"

definition probe_script :: string where
  "probe_script = ''roles/provision/files/probe.py''"

definition inspect :: "json \<Rightarrow> string \<Rightarrow> json io" where
  "inspect server known =
     andthen (ask_text (ReadFile probe_script)) (\<lambda>script.
     andthen (ssh_args server known ''yes'') (\<lambda>args.
     andthen (lift (host_address server)) (\<lambda>host.
     andthen (lift (jpath server [''status'', ''provisioning'', ''selectedDisk''])) (\<lambda>disk.
     andthen get_float_text (\<lambda>ft.
       ask_facts (Process (''ssh'' # args @ [''ansible@'' @ host,
           ''sudo -n python3 - '' @ shell_quote (dumps ft default_style disk)]) script 90))))))"

section \<open>The plan\<close>

definition user_invalid :: "json \<Rightarrow> exn + bool" where
  "user_invalid user =
     orM (bind (jsub user ''name'') (mismatch rx_group))
         (bind (jsub user ''name'') (\<lambda>n. Inr (n \<in> {JStr ''root'', JStr ''ansible'', JStr ''homelabd''})))"

definition user_options_invalid :: "json \<Rightarrow> exn + bool" where
  "user_options_invalid user =
     orM (bind (jget user ''groups'' (JArr [])) (any_mismatch rx_group))
         (bind (jget user ''shell'' (JStr ''/bin/bash'')) (mismatch rx_shell))"

definition user_key :: "json \<Rightarrow> string io" where
  "user_key ref =
     andthen (lift (jsub ref ''name'')) (\<lambda>name.
     andthen (api_get ''ssh-key-pairs'' name) (\<lambda>key.
     andthen (lift (refuse
         (orM (bind (jget (JObj key) ''status'' (JObj [])) (\<lambda>s.
               differs (jget s ''phase'' JNull) (Inr (JStr ''Ready''))))
              (bind (dsub key ''status'') (\<lambda>s.
               differs (jget s ''observedGeneration'' JNull) (jpath (JObj key) [''metadata'', ''generation'']))))
         (blocked ''User public key is not Ready''))) (\<lambda>_.
       lift (bind (jpath (JObj key) [''status'', ''publicKey'']) key_of))))"

definition resolve_user :: "json \<Rightarrow> json io" where
  "resolve_user user =
     andthen (lift (refuse (user_invalid user) (blocked ''Invalid/reserved ordinary user''))) (\<lambda>_.
     andthen (lift (refuse (user_options_invalid user) (blocked ''Invalid user groups/shell''))) (\<lambda>_.
     andthen (lift (bind (jget user ''ssh'' (JObj [])) (\<lambda>s.
                    bind (jget s ''authorizedKeyRefs'' (JArr [])) jiter))) (\<lambda>refs.
     andthen (collect user_key refs) (\<lambda>keys.
       lift (jput user ''publicKeys'' (JArr (map JStr keys)))))))"

definition resolve_users :: "json \<Rightarrow> json io" where
  "resolve_users desired =
     andthen (lift (jget desired ''users'' (JArr []))) (\<lambda>users.
     andthen (lift (jiter users)) (\<lambda>us.
     andthen (collect resolve_user us) (\<lambda>resolved.
       ret (case users of JArr _ \<Rightarrow> JArr resolved | v \<Rightarrow> v))))"

text \<open>A dependency that is being deleted, not Ready, or not reconciled at its generation.\<close>

definition not_current :: "json \<Rightarrow> exn + bool" where
  "not_current dependency =
     orM (bind (jsub dependency ''metadata'') (\<lambda>m. holds (jget m ''deletionTimestamp'' JNull))) (
     orM (bind (status_of dependency) (\<lambda>s. differs (jget s ''phase'' JNull) (Inr (JStr ''Ready''))))
         (bind (status_of dependency) (\<lambda>s.
          differs (jget s ''observedGeneration'' JNull) (jpath dependency [''metadata'', ''generation'']))))"

definition trust_disagrees :: "json \<Rightarrow> json \<Rightarrow> json \<Rightarrow> exn + bool" where
  "trust_disagrees status medium authority =
     bind (status_of medium) (\<lambda>image_status.
     bind (status_of authority) (\<lambda>authority_status.
     orM (differs (jchain status [''sshTrust'', ''authorityRef'']) (jget image_status ''authorityRef'' JNull)) (
     orM (differs (jchain image_status [''authorityRef'', ''uid'']) (jpath authority [''metadata'', ''uid''])) (
     orM (differs (jget authority_status ''trustBundleDigest'' JNull)
                  (jchain image_status [''completedBuild'', ''trustBundleDigest'']))
         (differs (jget status ''desiredSSHTrustBundleDigest'' JNull)
                  (jget authority_status ''trustBundleDigest'' JNull))))))"

definition machine_stale :: "json \<Rightarrow> json \<Rightarrow> json \<Rightarrow> exn + bool" where
  "machine_stale machine status server =
     orM (differs (jpath machine [''metadata'', ''uid'']) (jpath status [''machineRef'', ''uid'']))
         (bind (status_of machine) (\<lambda>s. differs (jget s ''serverRef'' JNull) (operation_reference server)))"

definition boot_argument_invalid :: "json \<Rightarrow> bool" where
  "boot_argument_invalid arg =
     (case arg of JStr s \<Rightarrow> list_ex isspace_char s \<or> CHR ''$'' \<in> set s | _ \<Rightarrow> True)"

definition boot_recipe_invalid :: "json \<Rightarrow> exn + bool" where
  "boot_recipe_invalid arguments =
     (if \<not> truthy arguments then Inr True
      else bind (jiter arguments) (\<lambda>args. Inr (list_ex boot_argument_invalid args)))"

definition live_tools_missing :: "json \<Rightarrow> json \<Rightarrow> exn + bool" where
  "live_tools_missing desired medium =
     bind (jpath desired [''operatingSystem'', ''distribution'']) (\<lambda>d.
       if d = JStr ''arch''
       then bind (jpath medium [''spec'', ''distribution'']) (\<lambda>i. Inr (i \<noteq> JStr ''arch''))
       else Inr False)"

definition pinned_spec :: "json \<Rightarrow> exn + jobject" where
  "pinned_spec desired =
     bind (mapM (\<lambda>field. bind (py_in (JStr field) desired) (\<lambda>present.
             if present then bind (jsub desired field) (\<lambda>v. Inr [(field, v)]) else Inr []))
           spec_inputs) (\<lambda>fs. Inr (concat fs))"

text \<open>The fields of the plan that come before the resolved users, in their order.\<close>

definition plan_bindings :: "json \<Rightarrow> json \<Rightarrow> json \<Rightarrow> json \<Rightarrow> string \<Rightarrow> exn + jobject" where
  "plan_bindings server facts medium authority revision =
     bind (jsub server ''status'') (\<lambda>status.
     bind (status_of medium) (\<lambda>image_status.
     bind (status_of authority) (\<lambda>authority_status.
     bind (jpath server [''metadata'', ''uid'']) (\<lambda>server_uid.
     bind (jsub status ''machineRef'') (\<lambda>machine_ref.
     bind (jpath status [''hostSSH'', ''keyPairRef'']) (\<lambda>key_ref.
     bind (jsub status ''bootISORef'') (\<lambda>iso_ref.
     bind (jsub image_status ''authorityRef'') (\<lambda>authority_ref.
     bind (jsub authority_status ''trustBundleDigest'') (\<lambda>bundle.
     bind (jpath image_status [''completedBuild'', ''id'']) (\<lambda>build.
     bind (jpath medium [''spec'', ''distribution'']) (\<lambda>distribution.
     bind (jget image_status ''bootArguments'' JNull) (\<lambda>arguments.
     bind (jsub image_status ''artifacts'') (\<lambda>artifacts.
     bind (jsub facts ''targetDisk'') (\<lambda>target_disk.
     bind (jsub facts ''disk'') (\<lambda>disk.
     bind (bind (jpath status [''networking'', ''management'', ''interface'', ''mac'']) (str_of AttributeError))
       (\<lambda>mac.
       Inr [(''serverUID'', server_uid), (''machineRef'', machine_ref), (''keyPairRef'', key_ref),
            (''isoRef'', iso_ref), (''authorityRef'', authority_ref), (''trustBundleDigest'', bundle),
            (''isoBuildID'', build), (''distribution'', distribution), (''bootArguments'', arguments),
            (''artifacts'', artifacts), (''targetDisk'', target_disk), (''diskIdentity'', disk),
            (''bootMAC'', JStr (lower mac)), (''codeRevision'', JStr revision)]))))))))))))))))"

definition current_image :: "json \<Rightarrow> json \<Rightarrow> json \<Rightarrow> jobject io" where
  "current_image server desired status =
     andthen (lift (jpath desired [''boot'', ''isoRef'', ''name''])) (\<lambda>name.
     andthen (api_get ''isos'' name) (\<lambda>medium.
     andthen (lift (refuse
         (orM (not_current (JObj medium))
              (differs (jget status ''bootISORef'' JNull) (operation_reference (JObj medium))))
         (blocked ''Selected ISO identity is not current and Ready''))) (\<lambda>_.
       ret medium)))"

definition current_authority :: "json \<Rightarrow> jobject io" where
  "current_authority desired =
     andthen (lift (jpath desired [''sshCertificateAuthorityRef'', ''name''])) (\<lambda>name.
     andthen (api_get ''ssh-certificate-authorities'' name) (\<lambda>authority.
     andthen (lift (refuse (not_current (JObj authority)) (blocked ''Selected CA is not current and Ready'')))
       (\<lambda>_. ret authority)))"

definition bound_machine :: "json \<Rightarrow> json \<Rightarrow> unit io" where
  "bound_machine server status =
     andthen (lift (jpath status [''machineRef'', ''name''])) (\<lambda>name.
     andthen (api_get ''machines'' name) (\<lambda>machine.
       lift (refuse (machine_stale (JObj machine) status server) (blocked ''Machine binding is stale''))))"

definition plan :: "json \<Rightarrow> json \<Rightarrow> json \<Rightarrow> string \<Rightarrow> jobject io" where
  "plan server variables facts revision =
     andthen (lift (identity server)) (\<lambda>_.
     andthen (lift (refuse (differs (jsub facts ''disk'')
                       (jpath server [''status'', ''provisioning'', ''selectedDisk'']))
                     (blocked ''Selected disk identity changed since request''))) (\<lambda>_.
     andthen (lift (jsub server ''spec'')) (\<lambda>desired.
     andthen (lift (jsub server ''status'')) (\<lambda>status.
     andthen (current_image server desired status) (\<lambda>medium.
     andthen (current_authority desired) (\<lambda>authority.
     andthen (lift (refuse (trust_disagrees status (JObj medium) (JObj authority))
                     (blocked ''Live-image and Server CA trust must agree''))) (\<lambda>_.
     andthen (bound_machine server status) (\<lambda>_.
     andthen (lift (bind (status_of (JObj medium)) (\<lambda>s. jget s ''bootArguments'' JNull))) (\<lambda>arguments.
     andthen (lift (refuse (boot_recipe_invalid arguments)
                     (blocked ''Selected ISO has no valid shared boot recipe''))) (\<lambda>_.
     andthen (lift (refuse (live_tools_missing desired (JObj medium))
                     (blocked ''Arch targets currently require the Arch live installation tools''))) (\<lambda>_.
     andthen (lift (jpath server [''_run'', ''status''])) (\<lambda>run_status.
     andthen (lift (validate_storage run_status facts)) (\<lambda>storage.
     andthen (lift (validate_server_settings desired)) (\<lambda>_.
     andthen (lift (plan_bindings server facts (JObj medium) (JObj authority) revision)) (\<lambda>bindings.
     andthen (lift (pinned_spec desired)) (\<lambda>spec.
     andthen (lift (jsub run_status ''storagePlan'')) (\<lambda>storage_plan.
     andthen (resolve_users desired) (\<lambda>users.
     andthen (lift (jget variables ''provision_disable_eee'' (JBool False))) (\<lambda>eee.
     andthen get_float_text (\<lambda>ft.
     let result = bindings @
           [(''inputs'', JObj [(''serverSpec'', JObj spec), (''storage'', storage),
               (''storagePlan'', storage_plan), (''users'', users),
               (''disableEEE'', JBool (truthy eee))])]
     in ret (result @ [(''planDigest'', JStr (digest ft (JObj result)))])))))))))))))))))))))"

definition verify_dependency :: "json \<Rightarrow> string \<times> string \<Rightarrow> unit io" where
  "verify_dependency snapshot entry =
     (case entry of (collection, field) \<Rightarrow>
     andthen (lift (jpath snapshot [field, ''name''])) (\<lambda>name.
     andthen (api_get collection name) (\<lambda>dependency.
       lift (refuse
         (orM (bind (dsub dependency ''metadata'') (\<lambda>m. holds (jget m ''deletionTimestamp'' JNull)))
              (differs (jpath (JObj dependency) [''metadata'', ''uid'']) (jpath snapshot [field, ''uid''])))
         (blocked ''Pinned dependency was deleted/replaced'')))))"

definition verify_dependencies :: "json \<Rightarrow> unit io" where
  "verify_dependencies server =
     andthen (lift (jpath server [''status'', ''provisioning'', ''snapshot''])) (\<lambda>snapshot.
     andthen (each (verify_dependency snapshot)
               [(''machines'', ''machineRef''), (''isos'', ''isoRef''), (''ssh-key-pairs'', ''keyPairRef''),
                (''ssh-certificate-authorities'', ''authorityRef'')]) (\<lambda>_.
       lift (refuse (bind (jsub server ''status'') (\<lambda>status.
               differs (jget status ''desiredSSHTrustBundleDigest'' JNull)
                       (jsub snapshot ''trustBundleDigest'')))
         (blocked ''CA trust changed during this attempt; do not install a mixed plan''))))"

section \<open>Waiting for other builds\<close>

definition command_busy :: "jobject \<Rightarrow> exn + bool" where
  "command_busy item =
     bind (status_of (JObj item)) (\<lambda>s.
     bind (jget s ''phase'' JNull) (\<lambda>phase.
       Inr (phase \<in> {JStr ''Dispatching'', JStr ''Running''})))"

text \<open>
  The polling loop, in rounds: each round that goes on sleeps five seconds, so a deadline 300
  seconds away is reached within 62 rounds of a clock that keeps up with the sleeps.
\<close>

fun drain_rounds :: "nat \<Rightarrow> rat \<Rightarrow> unit io" where
  "drain_rounds 0 deadline = raise Unfinished"
| "drain_rounds (Suc n) deadline =
     andthen (api_list ''commands'') (\<lambda>items.
     andthen (lift (mapM command_busy items)) (\<lambda>busy_flags.
     if \<not> list_ex id busy_flags then ret () else
     andthen (ask_num Monotonic) (\<lambda>t.
     if t \<ge> deadline then raise (blocked ''In-flight administrative builds did not drain'') else
     andthen (act (Sleep 5)) (\<lambda>_. drain_rounds n deadline))))"

definition drain_commands :: "unit io" where
  "drain_commands = andthen (ask_num Monotonic) (\<lambda>t. drain_rounds 62 (t + 300))"

section \<open>Artifacts\<close>

definition artifact_url :: "json \<Rightarrow> exn + string" where
  "artifact_url artifact = bind (jsub artifact ''url'') (str_of AttributeError)"

definition check_artifact :: "json \<Rightarrow> unit io" where
  "check_artifact artifact =
     andthen (lift (artifact_url artifact)) (\<lambda>url.
     if \<not> startswith url ''https://'' then raise (blocked ''Live artifacts require HTTPS'') else
     andthen (ask_proc (Http ''HEAD'' url)) (\<lambda>(status, body, _).
       refuse_if (status \<noteq> 200) (blocked ''Pinned artifact is not reachable'')))"

definition unselected :: "string \<Rightarrow> json \<Rightarrow> exn + bool" where
  "unselected script artifact =
     bind (jsub artifact ''type'') (\<lambda>t.
       if t \<in> {JStr ''kernel'', JStr ''initrd''}
       then bind (bind (jsub artifact ''url'') (str_of TypeError)) (\<lambda>url. Inr (\<not> contains script url))
       else Inr False)"

definition artifact_preflight :: "json \<Rightarrow> unit io" where
  "artifact_preflight server =
     andthen (lift (jpath server [''status'', ''provisioning'', ''snapshot''])) (\<lambda>snapshot.
     andthen (lift (bind (jsub snapshot ''artifacts'') jiter)) (\<lambda>artifacts.
     andthen (each check_artifact artifacts) (\<lambda>_.
     andthen (lift (bind (jpath server [''status'', ''networking'', ''management'', ''interface'', ''mac''])
                    (str_of AttributeError))) (\<lambda>mac.
     andthen (getenv ''STIGMERGY_API_URL'') (\<lambda>base.
     andthen (ask_proc (Http ''GET'' (rstrip_char (CHR ''/'') base @ ''/ipxe/'' @ lower mac)))
       (\<lambda>(status, body, _).
     let script = take 65536 body in
       lift (refuse (orM (Inr (contains script ''exit 1'')) (anyM (unselected script) artifacts))
         (blocked ''Boot endpoint did not select the pinned live image''))))))))"

section \<open>Stages\<close>

text \<open>The blocks of a playbook's output after each task heading, with the heading's label.\<close>

function task_blocks :: "string \<Rightarrow> (string \<times> string) list \<times> string" where
  "task_blocks s =
     (case s of
        [] \<Rightarrow> ([], [])
      | c # cs \<Rightarrow>
          (case task_heading s of
             None \<Rightarrow> (case task_blocks cs of (bs, before) \<Rightarrow> (bs, c # before))
           | Some (label, rest) \<Rightarrow>
               let after = dropWhile (\<lambda>x. x \<noteq> CHR 0x0A \<and> x \<noteq> CHR 0x0D) rest in
               if length after < length s
               then (case task_blocks after of (bs, block) \<Rightarrow> ((label, block) # bs, []))
               else ([], [])))"
  by pat_completeness auto
termination by (relation "measure length") auto

declare task_blocks.simps [simp del]

definition fatal_line :: "string \<Rightarrow> bool" where
  "fatal_line l =
     (startswith l ''fatal: '' \<and>
      (contains (drop 7 l) ''FAILED!'' \<or> contains (drop 7 l) ''UNREACHABLE!''))"

definition failed_ansible_task :: "string \<Rightarrow> string" where
  "failed_ansible_task output =
     (let failures = filter (\<lambda>(label, block). list_ex fatal_line (split_on (CHR 0x0A) block))
                       (fst (task_blocks output))
      in if failures = [] then ''initialization (see playbook output)'' else fst (last failures))"

definition stage_inventory :: "json \<Rightarrow> string \<Rightarrow> json io" where
  "stage_inventory server known =
     andthen (lift (bind (jpath server [''metadata'', ''name'']) (str_of TypeError))) (\<lambda>name.
     andthen (lift (host_address server)) (\<lambda>host.
     andthen (ssh_args server known ''yes'') (\<lambda>args.
       ret (JObj [(''all'', JObj [(''hosts'', JObj [(name, JObj
              [(''ansible_host'', JStr host), (''ansible_user'', JStr ''ansible''),
               (''ansible_become'', JBool True), (''ansible_ssh_args'', JStr (shell_join args)),
               (''ansible_ssh_common_args'', JStr []), (''ansible_ssh_extra_args'', JStr [])])])])]))))"

definition boot_argument :: "json \<Rightarrow> json \<Rightarrow> exn + json" where
  "boot_argument mac arg =
     bind (str_of AttributeError arg) (\<lambda>a.
     bind (str_of AttributeError mac) (\<lambda>m.
       Inr (JStr (replace_text ''@BOOT_MAC@'' (replace_char (CHR '':'') ''-'' m) a))))"

definition stage_variables :: "json \<Rightarrow> string \<Rightarrow> exn + jobject" where
  "stage_variables server stage =
     bind (jpath server [''status'', ''provisioning'']) (\<lambda>attempt.
     bind (jsub attempt ''snapshot'') (\<lambda>snapshot.
     bind (jsub attempt ''attemptID'') (\<lambda>attempt_id.
     bind (jpath server [''metadata'', ''uid'']) (\<lambda>server_uid.
     bind (jsub snapshot ''targetDisk'') (\<lambda>target_disk.
     bind (jpath server [''_run'', ''metadata'', ''uid'']) (\<lambda>run_uid.
     bind (jsub snapshot ''planDigest'') (\<lambda>plan_digest.
     bind (jpath snapshot [''inputs'', ''serverSpec'', ''operatingSystem'']) (\<lambda>os_spec.
     bind (jpath snapshot [''inputs'', ''serverSpec'']) (\<lambda>spec.
     bind (jpath snapshot [''inputs'', ''storage'']) (\<lambda>storage.
     bind (jpath snapshot [''inputs'', ''users'']) (\<lambda>users.
     bind (jpath snapshot [''inputs'', ''disableEEE'']) (\<lambda>eee.
     bind (jsub snapshot ''bootMAC'') (\<lambda>mac.
     bind (jsub snapshot ''diskIdentity'') (\<lambda>disk.
     bind (jsub snapshot ''isoBuildID'') (\<lambda>build.
     bind (jget attempt ''liveBootID'' (JStr [])) (\<lambda>live_boot.
     bind (jpath server [''status'', ''sshTrust'', ''publicBundle'']) (\<lambda>bundle.
     bind (jsub snapshot ''trustBundleDigest'') (\<lambda>bundle_digest.
     bind (jsub snapshot ''artifacts'') (\<lambda>artifacts.
     bind (bind (jget snapshot ''bootArguments'' (JArr [])) jiter) (\<lambda>args.
     bind (mapM (boot_argument mac) args) (\<lambda>arguments.
     bind (jsub attempt ''sourceBootID'') (\<lambda>source_boot.
       Inr [(''provision_stage'', JStr stage), (''provision_attempt_id'', attempt_id),
            (''provision_server_uid'', server_uid), (''provision_target_disk'', target_disk),
            (''provision_run_uid'', run_uid), (''provision_plan_digest'', plan_digest),
            (''provision_operating_system'', os_spec), (''provision_server_spec'', spec),
            (''storage'', storage), (''provision_users'', users), (''provision_disable_eee'', eee),
            (''provision_boot_mac'', mac), (''provision_disk_identity'', disk),
            (''provision_live_build_id'', build), (''provision_live_boot_id'', live_boot),
            (''provision_destructive_authorized'', JBool (stage = ''install'')),
            (''ssh_ca_bundle'', bundle), (''ssh_ca_bundle_digest'', bundle_digest),
            (''provision_live_artifacts'', artifacts),
            (''provision_live_boot_arguments'', JArr arguments),
            (''provision_source_boot_id'', source_boot)]))))))))))))))))))))))"

definition run_stage :: "json \<Rightarrow> string \<Rightarrow> string \<Rightarrow> string \<Rightarrow> unit io" where
  "run_stage server directory known stage =
     andthen (stage_inventory server known) (\<lambda>inventory.
     andthen (lift (stage_variables server stage)) (\<lambda>variables.
     andthen (act (WriteJson (directory @ ''/inventory.json'') inventory)) (\<lambda>_.
     andthen (act (WriteJson (directory @ ''/variables.json'') (JObj variables))) (\<lambda>_.
     andthen (getenv_default ''ANSIBLE_PLAYS_PATH'' ''/homelab/plays'') (\<lambda>plays.
     andthen (lift (str_of TypeError (dget variables ''provision_attempt_id''))) (\<lambda>attempt_id.
     andthen (ask_proc (Ansible
               [''ansible-playbook'', ''-i'', directory @ ''/inventory.json'',
                plays @ ''/provision_stage.yml'', ''-e'', ''@'' @ directory @ ''/variables.json'']
               (''/tmp/provision-operator-diagnostics/'' @ attempt_id @ ''-'' @ stage @ ''.log'')
               (if stage \<in> {''install'', ''repair''} then 7200 else 600))) (\<lambda>(code, out, err).
     if code = 0 then ret ()
     else raise (blocked (''Ansible stage failed at '' @ failed_ansible_task out @
            ''; see playbook output (credential tasks remain redacted)'')))))))))"

definition parent_of :: "string \<Rightarrow> string" where
  "parent_of path = (case rpartition (CHR ''/'') path of None \<Rightarrow> ''.'' | Some (d, _) \<Rightarrow> d)"

definition reboot :: "json \<Rightarrow> string \<Rightarrow> unit io" where
  "reboot server known = run_stage server (parent_of known) known ''reboot''"

section \<open>Waiting for a session\<close>

definition attempt_of :: "json \<Rightarrow> exn + json" where
  "attempt_of server = jpath server [''status'', ''provisioning'']"

text \<open>\<open>try: host_address except OperatorError\<close>: whether the host has an address yet.\<close>

definition address_known :: "json \<Rightarrow> bool io" where
  "address_known server =
     catch (andthen (lift (host_address server)) (\<lambda>_. ret True))
       (\<lambda>e. case e of
          OperatorError reason _ \<Rightarrow>
            if reason \<noteq> ''ManagementNetworkPending'' then raise e else ret False
        | _ \<Rightarrow> raise e)"

definition live_mismatch :: "json \<Rightarrow> json \<Rightarrow> exn + bool" where
  "live_mismatch attempt facts =
     orM (fails (jsub facts ''live'')) (
     orM (differs (jsub facts ''liveBuildID'') (jpath attempt [''snapshot'', ''isoBuildID'']))
         (bind (jsub facts ''bootID'') (\<lambda>b.
          bind (jget attempt ''sourceBootID'' JNull) (\<lambda>s. Inr (py_eq b s)))))"

definition contact_pin :: "json \<Rightarrow> string \<Rightarrow> exn + string" where
  "contact_pin server text =
     (let lines = splitlines text in
      bind (if length lines \<noteq> 1 then Inr True
            else case split_ws (hd lines) of
                   [] \<Rightarrow> Inl IndexError
                 | w # _ \<Rightarrow> bind (host_alias server) (\<lambda>a. Inr (w \<noteq> a))) (\<lambda>bad.
      if bad then Inl (blocked ''Invalid attempt-scoped TOFU pin'')
      else public_key (join '' '' (tl (split_ws (hd lines))))))"

text \<open>The scoped first contact with the live session, before any private key is read.\<close>

definition first_contact :: "json \<Rightarrow> json \<Rightarrow> string \<Rightarrow> json io" where
  "first_contact server attempt known =
     andthen (lift (host_address server)) (\<lambda>host.
     andthen (ssh_probe server host known ''accept-new'') (\<lambda>_.
     andthen (ask_text (ReadFile known)) (\<lambda>text.
     andthen (lift (contact_pin server text)) (\<lambda>pin.
     andthen (inspect server known) (\<lambda>facts.
     andthen (lift (refuse (live_mismatch attempt facts)
                     (blocked ''Fresh contact is not the intended live session''))) (\<lambda>_.
     andthen (checkpoint ''AwaitingLive'' [(''bootstrapPublicKey'', JStr pin)]) (\<lambda>_.
       ret facts)))))))"

definition attempt_first_contact :: "json \<Rightarrow> json \<Rightarrow> string \<Rightarrow> (json \<times> string) option io" where
  "attempt_first_contact server attempt directory =
     (let known = directory @ ''/live-first-contact'' in
     andthen (act (WriteFile known [])) (\<lambda>_.
       catch_all (andthen (first_contact server attempt known) (\<lambda>facts. ret (Some (facts, known))))
                 (ret None)))"

text \<open>The facts of the session that answers, with the trust file used; none when nothing answers.\<close>

definition session_facts :: "json \<Rightarrow> json \<Rightarrow> string \<Rightarrow> bool \<Rightarrow> (json \<times> string) option io" where
  "session_facts server attempt directory live =
     andthen (lift (if live then jget attempt ''bootstrapPublicKey'' JNull else Inr JNull)) (\<lambda>pin.
     andthen (known_file server directory pin) (\<lambda>known.
     andthen (catch_all (andthen (inspect server known) (\<lambda>facts. ret (Some facts))) (ret None)) (\<lambda>r.
       (case r of
          Some facts \<Rightarrow> ret (Some (facts, known))
        | None \<Rightarrow>
            if live \<and> \<not> truthy pin then attempt_first_contact server attempt directory
            else ret None))))"

definition fresh_session :: "json \<Rightarrow> json \<Rightarrow> bool \<Rightarrow> exn + bool" where
  "fresh_session attempt facts live =
     bind (jget attempt (if live then ''sourceBootID'' else ''liveBootID'') JNull) (\<lambda>source.
     andM (bind (jsub facts ''live'') (\<lambda>l. Inr (py_eq l (JBool live))))
          (differs (jsub facts ''bootID'') (Inr source)))"

definition wrong_image :: "json \<Rightarrow> json \<Rightarrow> bool \<Rightarrow> exn + bool" where
  "wrong_image attempt facts live =
     (if live
      then differs (jsub facts ''liveBuildID'') (jpath attempt [''snapshot'', ''isoBuildID''])
      else Inr False)"

text \<open>
  One round of the wait: the result when the intended session answered. Rounds that go on sleep
  five seconds.
\<close>

definition session_round :: "string \<Rightarrow> bool \<Rightarrow> (json \<times> string) option io" where
  "session_round directory live =
     andthen get_cell (\<lambda>s.
     andthen (current (JObj s) (\<not> live) True) (\<lambda>fresh.
     andthen (set_cell (dmerge s fresh)) (\<lambda>_.
     let server = JObj (dmerge s fresh) in
     andthen (address_known server) (\<lambda>known_address.
     if \<not> known_address then andthen (act (Sleep 5)) (\<lambda>_. ret None) else
     andthen (lift (attempt_of server)) (\<lambda>attempt.
     andthen (session_facts server attempt directory live) (\<lambda>r.
     (case r of
        None \<Rightarrow> andthen (act (Sleep 5)) (\<lambda>_. ret None)
      | Some (facts, known) \<Rightarrow>
          andthen (lift (fresh_session attempt facts live)) (\<lambda>ok.
          if \<not> ok then andthen (act (Sleep 5)) (\<lambda>_. ret None) else
          andthen (lift (refuse (wrong_image attempt facts live)
                          (blocked ''Booted the wrong immutable live image''))) (\<lambda>_.
            ret (Some (facts, known)))))))))))"

fun session_rounds :: "nat \<Rightarrow> rat \<Rightarrow> string \<Rightarrow> bool \<Rightarrow> (json \<times> string) io" where
  "session_rounds 0 deadline directory live = raise Unfinished"
| "session_rounds (Suc n) deadline directory live =
     andthen (ask_num Monotonic) (\<lambda>t.
     if t \<ge> deadline
     then raise (blocked ''Timed out waiting for the intended changed boot session'') else
     andthen (session_round directory live) (\<lambda>r.
     (case r of Some x \<Rightarrow> ret x | None \<Rightarrow> session_rounds n deadline directory live)))"

definition await_session :: "string \<Rightarrow> bool \<Rightarrow> (json \<times> string) io" where
  "await_session directory live =
     andthen (ask_num Monotonic) (\<lambda>t. session_rounds 122 (t + 600) directory live)"

section \<open>The live session\<close>

definition derived_key :: "string \<Rightarrow> string io" where
  "derived_key directory =
     andthen (ask_proc (Process [''ssh-keygen'', ''-y'', ''-f'', directory @ ''/host_key''] [] 15))
       (\<lambda>(code, out, err). if code \<noteq> 0 then raise CalledProcessError else ret out)"

definition accept_managed :: "json \<Rightarrow> string \<Rightarrow> string \<Rightarrow> unit io" where
  "accept_managed server key known =
     andthen (lift (known_line server key)) (\<lambda>managed_entry.
     andthen (ask_text (ReadFile known)) (\<lambda>text.
       do_if (managed_entry \<notin> set (lines_kept text))
         (andthen (ask_text (ReadFile known)) (\<lambda>text. act (WriteFile known (text @ managed_entry))))))"

definition enroll_live :: "json \<Rightarrow> string \<Rightarrow> string \<Rightarrow> string io" where
  "enroll_live facts known directory =
     andthen get_cell (\<lambda>s.
     let server = JObj s in
     andthen (lift (jpath server [''status'', ''provisioning'', ''snapshot''])) (\<lambda>snapshot.
     andthen (lift (validate_disk facts True)) (\<lambda>_.
     andthen (lift (refuse (differs (jsub facts ''disk'') (jsub snapshot ''diskIdentity''))
                     (blocked ''Live disk identity differs from the approved plan''))) (\<lambda>_.
     andthen (current server False False) (\<lambda>_.
     andthen (host_private_key server) (\<lambda>private.
     andthen (act (WriteFile (directory @ ''/host_key'') private)) (\<lambda>_.
     andthen (derived_key directory) (\<lambda>derived.
     andthen (lift (public_key derived)) (\<lambda>key.
     andthen (lift (bind (jpath server [''status'', ''hostSSH'', ''publicKey'']) key_of)) (\<lambda>managed.
     andthen (refuse_if (key \<noteq> managed) (blocked ''Managed host private/public identity mismatch'')) (\<lambda>_.
     andthen (current server False False) (\<lambda>_.
     andthen (accept_managed server key known) (\<lambda>_.
     andthen (lift (host_address server)) (\<lambda>host.
     andthen (run_play server host directory known ''ssh_host_keys.yml''
               [(''managed_host_private_key_file'', JStr (directory @ ''/host_key'')),
                (''managed_host_public_key'', JStr key)]) (\<lambda>_.
     andthen (known_file server directory JNull) (\<lambda>known.
     andthen (ssh_probe server host known ''yes'') (\<lambda>_.
     andthen (lift (jsub facts ''bootID'')) (\<lambda>boot_id.
     andthen (checkpoint ''AwaitingLive'' [(''liveBootID'', boot_id), (''bootstrapPublicKey'', JNull),
               (''netbootArmed'', JBool False)]) (\<lambda>_.
       ret known)))))))))))))))))))"

section \<open>Claiming the run\<close>

definition provisioning_off :: "json \<Rightarrow> exn + bool" where
  "provisioning_off server =
     bind (jsub server ''spec'') (\<lambda>spec.
     orM (fails (jchain spec [''provisioning'', ''enabled'']))
         (holds (jchain spec [''reconciliation'', ''paused''])))"

definition other_maintenance :: "json \<Rightarrow> jobject \<Rightarrow> unit io" where
  "other_maintenance server other =
     andthen (lift (orM (bind (jpath (JObj other) [''metadata'', ''uid'']) (\<lambda>a.
                         bind (jpath server [''metadata'', ''uid'']) (\<lambda>b. Inr (py_eq a b))))
                        (bind (eligible (JObj other)) (\<lambda>e. Inr (\<not> e))))) (\<lambda>skip.
     if skip then ret () else
     andthen (bind_run (JObj other)) (\<lambda>view.
     andthen (lift (attempt_of (JObj view))) (\<lambda>run.
       lift (refuse (andM (differs (jget run ''phase'' JNull) (Inr (JStr ''Pending'')))
                          (holds (jget run ''maintenance'' JNull)))
         (blocked ''Another run retains lifecycle maintenance; inspect it first'')))))"

definition claim_fields :: "json \<Rightarrow> jobject \<Rightarrow> string \<Rightarrow> string \<Rightarrow> json \<Rightarrow> json \<Rightarrow> jobject" where
  "claim_fields run_uid snapshot started build generation boot_id =
     [(''phase'', JStr ''PreparingBoot''), (''currentStage'', JStr ''PreparingBoot''),
      (''maintenance'', JBool True), (''attemptID'', run_uid), (''snapshot'', JObj snapshot),
      (''startedAt'', JStr started), (''completedAt'', JNull), (''backendRunID'', JStr build),
      (''observedServerGeneration'', generation), (''sourceBootID'', boot_id), (''liveBootID'', JNull),
      (''bootstrapPublicKey'', JNull), (''netbootArmed'', JBool False), (''bootTarget'', JStr ''live''),
      (''message'', JStr ''Attempt claimed'')]"

definition claim_run :: "json \<Rightarrow> jobject \<Rightarrow> json \<Rightarrow> unit io" where
  "claim_run server snapshot facts =
     andthen (lift (jsub server ''_run'')) (\<lambda>run.
     andthen (lift (jpath run [''metadata'', ''uid''])) (\<lambda>run_uid.
     andthen (ask_text Now) (\<lambda>started.
     andthen (getenv_default ''BUILD_ID'' ''manual'') (\<lambda>build.
     andthen (lift (jpath server [''metadata'', ''generation''])) (\<lambda>generation.
     andthen (lift (jsub facts ''bootID'')) (\<lambda>boot_id.
     andthen (patch_status run (claim_fields run_uid snapshot started build generation boot_id)) (\<lambda>result.
     andthen get_cell (\<lambda>s.
     andthen (lift (with_run (JObj s) result)) (\<lambda>view.
       set_cell view)))))))))"

definition prepare_attempt :: "json \<Rightarrow> string \<Rightarrow> string \<Rightarrow> bool \<Rightarrow> bool io" where
  "prepare_attempt variables directory revision preflight =
     andthen get_cell (\<lambda>s.
     let server = JObj s in
     andthen (lift (provisioning_off server)) (\<lambda>off.
     if off then ret False else
     andthen (lift (identity server)) (\<lambda>_.
     andthen (known_file server directory JNull) (\<lambda>known.
     andthen (inspect server known) (\<lambda>facts.
     andthen (lift (validate_disk facts False)) (\<lambda>_.
     andthen (lift (refuse (andM (holds (jsub facts ''live'')) (holds (jsub facts ''rootOnTarget'')))
                     (blocked ''Live root depends on the approved disk''))) (\<lambda>_.
     andthen (lift (refuse (andM (fails (jsub facts ''live'')) (fails (jsub facts ''grubReady'')))
                     (blocked ''Installed host has no validated GRUB/iPXE path; manual setup required'')))
       (\<lambda>_.
     andthen (plan server variables facts revision) (\<lambda>snapshot.
     if preflight then ret False else
     andthen (api_list ''servers'') (\<lambda>servers.
     andthen (each (other_maintenance server) servers) (\<lambda>_.
     andthen (claim_run server snapshot facts) (\<lambda>_.
       ret True))))))))))))"

section \<open>The stages of a run\<close>

definition source_changed :: "json \<Rightarrow> json \<Rightarrow> exn + bool" where
  "source_changed attempt facts =
     orM (differs (jsub facts ''disk'') (jpath attempt [''snapshot'', ''diskIdentity'']))
         (differs (jsub facts ''bootID'') (jsub attempt ''sourceBootID''))"

definition get_server :: "json io" where
  "get_server = andthen get_cell (\<lambda>s. ret (JObj s))"

definition revalidate :: "bool \<Rightarrow> unit io" where
  "revalidate allow_paused =
     andthen get_server (\<lambda>server. andthen (current server allow_paused False) (\<lambda>_. ret ()))"

definition stage :: "string \<Rightarrow> string \<Rightarrow> string \<Rightarrow> unit io" where
  "stage directory known name = andthen get_server (\<lambda>server. run_stage server directory known name)"

definition prepare_boot :: "string \<Rightarrow> string \<Rightarrow> unit io" where
  "prepare_boot directory known =
     andthen get_server (\<lambda>server.
     andthen (lift (attempt_of server)) (\<lambda>attempt.
     andthen (inspect server known) (\<lambda>facts.
     andthen (lift (refuse (source_changed attempt facts)
                     (blocked ''Unexpected session/disk before boot preparation''))) (\<lambda>_.
     andthen (artifact_preflight server) (\<lambda>_.
     andthen (lift (holds (jsub facts ''live''))) (\<lambda>live.
     if live then
       andthen (stage directory known ''prime'') (\<lambda>_.
       andthen (checkpoint ''PreparingBoot'' [(''netbootArmed'', JBool True)]) (\<lambda>_.
       andthen (stage directory known ''refresh-prepare'') (\<lambda>_.
       andthen (revalidate False) (\<lambda>_.
       andthen (checkpoint ''AwaitingLive'' [(''liveBootID'', JNull), (''netbootArmed'', JBool True)]) (\<lambda>_.
       andthen (revalidate False) (\<lambda>_.
         stage directory known ''refresh-boot''))))))
     else
       andthen (lift (refuse (pending_entry facts) (blocked ''Unaccounted pending GRUB entry''))) (\<lambda>_.
       andthen (stage directory known ''prime'') (\<lambda>_.
       andthen (checkpoint ''AwaitingLive'' [(''netbootArmed'', JBool True)]) (\<lambda>_.
       andthen (revalidate False) (\<lambda>_.
       andthen (stage directory known ''arm'') (\<lambda>_.
       andthen (revalidate False) (\<lambda>_.
       andthen get_server (\<lambda>server. reboot server known)))))))))))))"

definition session_changed :: "json \<Rightarrow> json \<Rightarrow> exn + bool" where
  "session_changed attempt facts =
     orM (bind (jsub facts ''bootID'') (\<lambda>b. bind (jsub attempt ''sourceBootID'') (\<lambda>s. Inr (py_eq b s)))) (
     orM (differs (jsub facts ''bootID'') (jsub attempt ''liveBootID'')) (
     orM (fails (jsub facts ''live''))
         (differs (jsub facts ''liveBuildID'') (jpath attempt [''snapshot'', ''isoBuildID'']))))"

definition live_session :: "string \<Rightarrow> string \<Rightarrow> (json \<times> string) io" where
  "live_session directory known =
     andthen get_server (\<lambda>server.
     andthen (lift (attempt_of server)) (\<lambda>attempt.
     andthen (lift (holds (jget attempt ''liveBootID'' JNull))) (\<lambda>recorded.
     if recorded then
       andthen (inspect server known) (\<lambda>facts.
       andthen (lift (refuse (session_changed attempt facts) (blocked ''Recorded live session changed''))) (\<lambda>_.
         ret (facts, known)))
     else await_session directory True)))"

definition install_message :: string where
  "install_message = ''Destructive stage entered; interrupted runs require manual inspection''"

definition install_live :: "string \<Rightarrow> string \<Rightarrow> string io" where
  "install_live directory known =
     andthen (live_session directory known) (\<lambda>(facts, known).
     andthen (enroll_live facts known directory) (\<lambda>known.
     andthen get_server (\<lambda>server.
     andthen (verify_dependencies server) (\<lambda>_.
     andthen (revalidate False) (\<lambda>_.
     andthen (checkpoint ''Installing'' [(''message'', JStr install_message)]) (\<lambda>_.
     andthen (stage directory known ''install'') (\<lambda>_.
     andthen (checkpoint ''AwaitingInstalled''
               [(''bootTarget'', JStr ''installed''), (''netbootArmed'', JBool False)]) (\<lambda>_.
       ret known))))))))"

definition staged_unverified :: "json \<Rightarrow> json \<Rightarrow> jobject \<Rightarrow> exn + bool" where
  "staged_unverified attempt facts expected =
     orM (differs (jsub facts ''bootID'') (jget attempt ''liveBootID'' JNull)) (
     orM (fails (jsub facts ''stagedBootReady''))
         (bind (jget facts ''stagedMarker'' JNull) (\<lambda>m. marker_differs (or_empty m) expected)))"

definition finish_boot :: "string \<Rightarrow> string \<Rightarrow> string io" where
  "finish_boot directory known =
     andthen get_server (\<lambda>server.
     andthen (lift (attempt_of server)) (\<lambda>attempt.
     andthen (catch_all (inspect server known) (ret JNull)) (\<lambda>before.
     andthen (lift (if truthy before then holds (jsub before ''live'') else Inr False)) (\<lambda>still_live.
     andthen (do_if still_live
        (andthen (lift (attempt_marker server)) (\<lambda>expected.
         andthen (lift (refuse (staged_unverified attempt before expected)
                         (blocked ''Cannot verify a completed staged installation for final boot''))) (\<lambda>_.
         andthen (revalidate True) (\<lambda>_.
           reboot server known))))) (\<lambda>_.
     andthen (await_session directory False) (\<lambda>(facts, known).
     andthen get_server (\<lambda>server.
     andthen (lift (verify_installed server facts)) (\<lambda>_.
     andthen (checkpoint ''Verifying'' []) (\<lambda>_.
       ret known)))))))))"

definition ssh_service :: "json \<Rightarrow> exn + string" where
  "ssh_service facts =
     bind (jpath facts [''os'', ''ID'']) (\<lambda>v.
     bind (str_of AttributeError v) (\<lambda>s.
       Inr (if rstrip_char (CHR 0x22) (dropWhile (\<lambda>c. c = CHR 0x22) s) = ''debian'' then ''ssh'' else ''sshd'')))"

definition services_healthy :: "json \<Rightarrow> json \<Rightarrow> string \<Rightarrow> unit io" where
  "services_healthy server facts known =
     andthen (ssh_args server known ''yes'') (\<lambda>args.
     andthen (lift (host_address server)) (\<lambda>host.
     andthen (lift (ssh_service facts)) (\<lambda>ssh.
     andthen (ask_proc (Process (''ssh'' # args @ [''ansible@'' @ host,
               ''sudo -n systemctl is-active homelabd ansible-account.timer lldpd NetworkManager '' @ ssh])
               [] 45)) (\<lambda>(code, out, err).
       refuse_if (code \<noteq> 0) (blocked ''Installed management services are not healthy'')))))"

definition verify_completion :: "string \<Rightarrow> string \<Rightarrow> unit io" where
  "verify_completion directory known =
     andthen get_server (\<lambda>server.
     andthen (inspect server known) (\<lambda>facts.
     andthen (lift (verify_installed server facts)) (\<lambda>_.
     andthen (revalidate False) (\<lambda>_.
     andthen (stage directory known ''post'') (\<lambda>_.
     andthen (services_healthy server facts known) (\<lambda>_.
     andthen (inspect server known) (\<lambda>again.
     andthen (lift (verify_installed server again)) (\<lambda>_.
     andthen (ask_text Now) (\<lambda>completed.
     andthen (checkpoint ''Succeeded'' [(''maintenance'', JBool False), (''completedAt'', JStr completed),
               (''message'', JStr ''Fresh installed boot, marker and management services verified'')]) (\<lambda>_.
     andthen get_server release_run))))))))))"

section \<open>One pass over a run\<close>

definition phase_of_cell :: "json io" where
  "phase_of_cell =
     andthen get_server (\<lambda>server. lift (jpath server [''status'', ''provisioning'', ''phase'']))"

definition run_phases :: "string \<Rightarrow> string \<Rightarrow> unit io" where
  "run_phases directory known =
     andthen phase_of_cell (\<lambda>phase.
     andthen (do_if (phase = JStr ''PreparingBoot'') (prepare_boot directory known)) (\<lambda>_.
     andthen phase_of_cell (\<lambda>phase.
     andthen (if phase = JStr ''AwaitingLive'' then install_live directory known else ret known) (\<lambda>known.
     andthen phase_of_cell (\<lambda>phase.
     andthen (if phase = JStr ''AwaitingInstalled'' then finish_boot directory known else ret known) (\<lambda>known.
     andthen phase_of_cell (\<lambda>phase.
       do_if (phase = JStr ''Verifying'') (verify_completion directory known))))))))"

definition advance :: "string \<Rightarrow> string \<Rightarrow> unit io" where
  "advance directory revision =
     andthen get_cell (\<lambda>s.
     let server = JObj s in
     andthen (lift (jpath server [''status'', ''provisioning'', ''snapshot'', ''codeRevision''])) (\<lambda>pinned.
     if pinned \<noteq> JStr revision
     then raise (blocked ''Resume requires the pinned operator-code revision'') else
     andthen (lift (jpath server [''status'', ''provisioning'', ''phase''])) (\<lambda>phase.
     andthen (current server (phase = JStr ''AwaitingInstalled'')
               (phase \<in> {JStr ''AwaitingLive'', JStr ''AwaitingInstalled''})) (\<lambda>fresh.
     andthen (set_cell (dmerge s fresh)) (\<lambda>_.
     andthen get_server (\<lambda>server.
     andthen (verify_dependencies server) (\<lambda>_.
     andthen drain_commands (\<lambda>_.
     andthen (known_file server directory JNull) (\<lambda>known.
       run_phases directory known)))))))))"

definition interrupted_message :: string where
  "interrupted_message =
     ''Interrupted Installing: inspect the disk/checkpoint manually; never automatically rewipe''"

definition reconcile :: "json \<Rightarrow> string \<Rightarrow> string \<Rightarrow> bool \<Rightarrow> unit io" where
  "reconcile variables directory revision preflight =
     andthen get_server (\<lambda>server.
     andthen (lift (bind (status_of server) (\<lambda>s. jget s ''provisioning'' (JObj [])))) (\<lambda>attempt.
     andthen (lift (jget attempt ''phase'' JNull)) (\<lambda>phase.
     if phase \<in> {JStr ''Succeeded'', JStr ''Blocked''} then
       andthen (lift (refuse (andM (Inr (phase = JStr ''Blocked'')) (holds (jget attempt ''maintenance'' JNull)))
                  (blocked ''Blocked run retains maintenance; inspect its failed build before recovery'')))
         (\<lambda>_. do_if (\<not> preflight) (release_run server))
     else
     andthen (lift (if preflight then in_set phase active_phases else Inr False)) (\<lambda>resumed.
     if resumed then ret ()
     else if phase = JStr ''Installing'' then
       andthen (checkpoint ''Blocked'' [(''message'', JStr interrupted_message), (''maintenance'', JBool True)])
         (\<lambda>_. ret ())
     else
       andthen (lift (jget attempt ''attemptID'' JNull)) (\<lambda>attempt_id.
       andthen (lift (if truthy attempt_id then in_set phase active_phases else Inr False)) (\<lambda>claimed.
       andthen (if claimed then ret True
                else prepare_attempt variables directory revision preflight) (\<lambda>go_on.
         do_if go_on (advance directory revision))))))))"

section \<open>Failure\<close>

definition pending_message :: string where
  "pending_message =
     ''Preflight pending: inspect dependencies, disk identity and management connectivity''"

definition pending_cleanup :: "json \<Rightarrow> unit io" where
  "pending_cleanup server =
     andthen (lift (jsub server ''_run'')) (\<lambda>run.
     andthen (patch_status run [(''message'', JStr pending_message)]) (\<lambda>result.
     andthen get_cell (\<lambda>s. set_cell (dput ''_run'' (JObj result) s))))"

text \<open>Whether ownership must be kept after trying to undo the armed boot: true unless it was undone.\<close>

definition disarm :: "json \<Rightarrow> json \<Rightarrow> string \<Rightarrow> bool \<Rightarrow> bool io" where
  "disarm server attempt directory keep =
     catch_all
       (andthen (current server True False) (\<lambda>latest.
        andthen (known_file (JObj latest) directory JNull) (\<lambda>known.
        andthen (inspect (JObj latest) known) (\<lambda>facts.
        andthen (lift (differs (jsub facts ''bootID'') (jget attempt ''sourceBootID'' JNull))) (\<lambda>other.
        if other then ret True else
        andthen (lift (holds (jsub facts ''live''))) (\<lambda>live.
        if live then
          andthen (run_stage (JObj latest) directory known ''refresh-clear'') (\<lambda>_. ret keep)
        else
          andthen (run_stage (JObj latest) directory known ''clear'') (\<lambda>_.
          andthen (inspect (JObj latest) known) (\<lambda>facts.
          andthen (lift (pending_entry facts)) (\<lambda>pending.
            ret (pending \<or> keep))))))))))
       (ret True)"

definition blocked_message :: string where
  "blocked_message =
     ''Attempt blocked; inspect boot selection/disk before explicitly requesting another attempt''"

definition handle_failure :: "string \<Rightarrow> string option \<Rightarrow> string option \<Rightarrow> unit io" where
  "handle_failure directory failure_message failure_reason =
     andthen get_server (\<lambda>server.
     andthen (lift (bind (status_of server) (\<lambda>s. jget s ''provisioning'' (JObj [])))) (\<lambda>attempt.
     andthen (lift (jget attempt ''phase'' JNull)) (\<lambda>phase.
     if phase = JStr ''Pending'' then pending_cleanup server
     else
     andthen (lift (in_set phase active_phases)) (\<lambda>active.
     if \<not> active then ret () else
     andthen (lift (str_of TypeError phase)) (\<lambda>p.
     if failure_reason = Some ''ManagementNetworkPending'' then
       andthen (checkpoint p [(''message'', case failure_message of None \<Rightarrow> JNull | Some m \<Rightarrow> JStr m)])
         (\<lambda>_. ret ())
     else if p \<in> {''AwaitingInstalled'', ''Verifying''} then
       andthen (checkpoint p
         [(''message'', JStr ''Verification pending; later passes may verify, never rewipe'')])
         (\<lambda>_. ret ())
     else
       andthen (lift (holds (jget attempt ''netbootArmed'' JNull))) (\<lambda>armed.
       andthen (if armed then disarm server attempt directory (p = ''Installing'')
                else ret (p = ''Installing'')) (\<lambda>keep.
       andthen (checkpoint ''Blocked''
         [(''maintenance'', JBool keep), (''netbootArmed'', JBool (keep \<and> armed)),
          (''message'', JStr (case failure_message of
             None \<Rightarrow> blocked_message | Some m \<Rightarrow> if m = [] then blocked_message else m))]) (\<lambda>_.
       andthen get_server release_run))))))))"

section \<open>The poll\<close>

definition omitted_active :: "json \<Rightarrow> bool io" where
  "omitted_active v =
     andthen (lift (json_object v ''omitted inventory resource'')) (\<lambda>entry.
     if dget entry ''kind'' \<noteq> JStr ''Server'' then ret False else
     andthen (lift (json_string (dget entry ''name'') ''omitted Server name'')) (\<lambda>name.
     andthen (api_get ''servers'' (JStr name)) (\<lambda>server.
       lift (eligible (JObj server)))))"

definition omitted_active_runs :: "json \<Rightarrow> bool io" where
  "omitted_active_runs captured =
     andthen (lift (jsub captured ''status'')) (\<lambda>status.
     andthen (lift (jget status ''omittedResources'' (JArr []))) (\<lambda>omitted.
     (case omitted of
        JArr vs \<Rightarrow> andthen (collect omitted_active vs) (\<lambda>waiting. ret (list_ex id waiting))
      | _ \<Rightarrow> ret False)))"

definition failure_text :: "exn \<Rightarrow> string" where
  "failure_text e =
     (case e of
        OperatorError reason message \<Rightarrow> message
      | _ \<Rightarrow> ''Provisioning preflight/attempt blocked; inspect dependencies and checkpoints'')"

definition failure_class :: "exn \<Rightarrow> string option" where
  "failure_class e = (case e of OperatorError reason message \<Rightarrow> Some reason | _ \<Rightarrow> None)"

text \<open>The pass over one reserved Server: \<open>None\<close> when it went through, else whether to stop.\<close>

definition serve_run :: "json \<Rightarrow> string \<Rightarrow> string \<Rightarrow> bool \<Rightarrow> unit io" where
  "serve_run variables directory revision preflight =
     andthen get_server (\<lambda>server.
     andthen (lift (host_address server)) (\<lambda>host.
     andthen (lift (bind (jsub variables ''ansible_host'') address)) (\<lambda>captured.
     if host \<noteq> captured then raise (blocked ''Capture-group management address is stale'')
     else reconcile variables directory revision preflight)))"

definition failed_run :: "string \<Rightarrow> bool \<Rightarrow> exn \<Rightarrow> bool io" where
  "failed_run directory preflight e =
     andthen (do_if (\<not> preflight)
       (handle_failure directory (Some (failure_text e)) (failure_class e))) (\<lambda>_.
     andthen get_server (\<lambda>server.
       lift (orM (bind (jchain server [''status'', ''provisioning'', ''phase'']) (\<lambda>p. in_set p active_phases))
                 (holds (jchain server [''status'', ''provisioning'', ''maintenance''])))))"

definition server_pass :: "json \<Rightarrow> string \<Rightarrow> bool \<Rightarrow> bool option io" where
  "server_pass variables revision preflight =
     andthen (ask_text (TempDir ''provision-operator-'')) (\<lambda>directory.
       catch (andthen (serve_run variables directory revision preflight) (\<lambda>_. ret None))
         (\<lambda>e. if is_exception e
              then andthen (failed_run directory preflight e) (\<lambda>stop. ret (Some stop))
              else raise e))"

text \<open>The exit status: at most one attempt advances outside preflight.\<close>

fun poll :: "bool \<Rightarrow> string \<Rightarrow> bool \<Rightarrow> jobject \<Rightarrow> int io" where
  "poll failed revision preflight [] = ret (if failed then 1 else 0)"
| "poll failed revision preflight ((name, variables) # hosts) =
     andthen (api_get ''servers'' (JStr name)) (\<lambda>server.
     andthen (lift (eligible (JObj server))) (\<lambda>reserved.
     if \<not> reserved then poll failed revision preflight hosts else
     andthen (bind_run (JObj server)) (\<lambda>view.
     andthen (set_cell view) (\<lambda>_.
     andthen (server_pass variables revision preflight) (\<lambda>outcome.
     (case outcome of
        Some stop \<Rightarrow> if stop then ret 1 else poll True revision preflight hosts
      | None \<Rightarrow> if preflight then poll failed revision preflight hosts
                else ret (if failed then 1 else 0)))))))"

text \<open>The inventory Ansible resolves, for the captured hosts only.\<close>

definition resolved_inventory_hosts :: "json \<Rightarrow> jobject io" where
  "resolved_inventory_hosts inventory =
     andthen (ask_text (TempDir ''operator-inventory-'')) (\<lambda>directory.
     andthen (act (WriteJson (directory @ ''/inventory.json'') inventory)) (\<lambda>_.
     andthen (ask_json (Process [''ansible-inventory'', ''-i'', directory @ ''/inventory.json'', ''--list''] [] 30))
       (\<lambda>output.
     andthen (lift (jpath output [''_meta'', ''hostvars''])) (\<lambda>resolved.
     andthen (lift (inventory_hosts inventory)) (\<lambda>names.
       lift (mapM (\<lambda>(name, _). bind (jsub resolved name) (\<lambda>v. Inr (name, v))) names))))))"

definition main :: "bool \<Rightarrow> string \<Rightarrow> int io" where
  "main preflight checkout =
     andthen api_init (\<lambda>_.
     andthen (getenv ''INVENTORY_CAPTURE_GROUP'') (\<lambda>group_name.
     andthen (capture_inventory group_name) (\<lambda>(group, inventory).
     andthen (lift (bind (jpath (JObj group) [''spec'', ''selector'']) (\<lambda>s. jget s ''matchKinds'' JNull))) (\<lambda>kinds.
     if \<not> py_eq kinds server_only_selector
     then raise (blocked ''Provisioning requires a Server-only capture group'') else
     andthen (omitted_active_runs (JObj group)) (\<lambda>waiting.
     if waiting then ret 1 else
     andthen (ask_text (Process [''git'', ''-c'', ''safe.directory='' @ checkout, ''-C'', checkout,
               ''rev-parse'', ''HEAD''] [] 0)) (\<lambda>revision.
     andthen (resolved_inventory_hosts (JObj inventory)) (\<lambda>hosts.
       poll False (strip revision) preflight hosts)))))))"

end
