(* ===== verification/RunnerTrust.thy ===== *)
theory RunnerTrust
  imports Common JsonText
begin

text \<open>
  Host trust for ordinary commands (\<open>operators/runner_trust.py\<close>): only Servers whose managed SSH
  identity was verified get a line in the trust file, and every occurrence of a host in the
  inventory gets the alias that binds its connections to the Server UID. \<open>prepare\<close> changes the
  inventory in place; here it returns the text and the changed inventory.
\<close>

section \<open>One Server\<close>

definition reserved_phases :: "json set" where
  "reserved_phases = {JStr ''PreparingBoot'', JStr ''AwaitingLive'', JStr ''Installing'',
     JStr ''AwaitingInstalled'', JStr ''Verifying''}"

definition reserved :: "json \<Rightarrow> exn + bool" where
  "reserved server =
     bind (jget server ''status'' (JObj [])) (\<lambda>status.
     bind (jget status ''provisioning'' (JObj [])) (\<lambda>provisioning.
     bind (jget provisioning ''maintenance'' JNull) (\<lambda>maintenance.
     if truthy maintenance then Inr True
     else bind (jget provisioning ''phase'' JNull) (\<lambda>phase. Inr (phase \<in> reserved_phases)))))"

definition unverified :: "json \<Rightarrow> exn + bool" where
  "unverified host =
     bind (jget host ''keyPairRef'' JNull) (\<lambda>desired.
     bind (jget host ''keyReady'' JNull) (\<lambda>ready.
     bind (jget host ''phase'' JNull) (\<lambda>phase.
     bind (jget host ''installedKeyPairRef'' JNull) (\<lambda>installed.
       Inr (\<not> truthy ready \<or> phase \<noteq> JStr ''Ready'' \<or> \<not> truthy desired \<or> \<not> py_eq installed desired)))))"

definition mismatched :: "json \<Rightarrow> string \<Rightarrow> exn + bool" where
  "mismatched host key =
     bind (fingerprint (JStr key)) (\<lambda>own.
     bind (jget host ''fingerprint'' JNull) (\<lambda>reported.
     bind (jget host ''installedFingerprint'' JNull) (\<lambda>installed.
       Inr (reported \<noteq> JStr own \<or> \<not> py_eq installed reported))))"

text \<open>The verified key of a Server; its line in the trust file.\<close>

definition verified_key :: "string \<Rightarrow> json \<Rightarrow> exn + string" where
  "verified_key name server =
     bind (jsub server ''metadata'') (\<lambda>metadata.
     bind (jget metadata ''deletionTimestamp'' JNull) (\<lambda>deleted.
     bind (raise_if (truthy deleted) (RuntimeError ''Server is terminating'')) (\<lambda>_.
     bind (reserved server) (\<lambda>held.
     bind (raise_if held (RuntimeError (''Server '' @ name @ '' is reserved by provisioning''))) (\<lambda>_.
     bind (jget server ''status'' (JObj [])) (\<lambda>status.
     bind (jget status ''hostSSH'' (JObj [])) (\<lambda>host.
     bind (unverified host) (\<lambda>refused.
     bind (raise_if refused (RuntimeError (''Server '' @ name @ '' has not verified its managed SSH identity''))) (\<lambda>_.
     bind (jsub host ''publicKey'') (\<lambda>v.
     bind (key_of v) (\<lambda>key.
     bind (mismatched host key) (\<lambda>wrong.
     bind (raise_if wrong (RuntimeError ''Server host-key fingerprint mismatch'')) (\<lambda>_.
       Inr key)))))))))))))"

definition trust_line :: "string \<Rightarrow> json \<Rightarrow> exn + string" where
  "trust_line name server =
     bind (verified_key name server) (\<lambda>key.
     bind (host_alias server) (\<lambda>a. Inr (a @ '' '' @ key @ [CHR 0x0A])))"

section \<open>The inventory\<close>

definition alias_args :: "string \<Rightarrow> string" where
  "alias_args a = ''-o HostKeyAlias='' @ shell_quote a"

text \<open>One group: the variables of the host get the alias where the group lists it.\<close>

definition bind_alias :: "string \<Rightarrow> string \<Rightarrow> string \<times> json \<Rightarrow> exn + (string \<times> json)" where
  "bind_alias name a entry =
     (case entry of (g, members) \<Rightarrow>
     bind (jget members ''hosts'' (JObj [])) (\<lambda>hosts.
     bind (py_in (JStr name) hosts) (\<lambda>listed.
     if \<not> listed then Inr (g, members)
     else
       bind (jsub members ''hosts'') (\<lambda>hosts.
       bind (jsub hosts name) (\<lambda>variables.
       bind (jput variables ''ansible_ssh_common_args'' (JStr (alias_args a))) (\<lambda>variables.
       bind (jput hosts name variables) (\<lambda>hosts.
       bind (jput members ''hosts'' hosts) (\<lambda>members. Inr (g, members)))))))))"

text \<open>
  The client is an argument of \<open>prepare\<close>: the API, or one Server that was already read. All it is
  used for is to read a Server by its name.
\<close>

type_synonym server_reader = "string \<Rightarrow> jobject io"

definition read_server :: server_reader where
  "read_server name = api_get ''servers'' (JStr name)"

definition trust_host :: "server_reader \<Rightarrow> string \<times> jobject \<Rightarrow> string \<Rightarrow> (string \<times> jobject) io" where
  "trust_host get st name =
     (case st of (entries, inventory) \<Rightarrow>
     andthen (get name) (\<lambda>server.
     andthen (lift (trust_line name (JObj server))) (\<lambda>line.
     andthen (lift (host_alias (JObj server))) (\<lambda>a.
     andthen (lift (mapM (bind_alias name a) inventory)) (\<lambda>inventory.
       ret (entries @ line, inventory))))))"

fun trust_hosts :: "server_reader \<Rightarrow> string \<times> jobject \<Rightarrow> string list \<Rightarrow> (string \<times> jobject) io" where
  "trust_hosts get st [] = ret st"
| "trust_hosts get st (name # names) = andthen (trust_host get st name) (\<lambda>st. trust_hosts get st names)"

definition prepare :: "server_reader \<Rightarrow> jobject \<Rightarrow> (string \<times> jobject) io" where
  "prepare get inventory =
     andthen (lift (inventory_hosts (JObj inventory))) (\<lambda>hosts.
       trust_hosts get ([], inventory) (map fst hosts))"

definition trust_main :: "unit io" where
  "trust_main =
     andthen api_init (\<lambda>_.
     andthen (getenv ''INVENTORY_CAPTURE_GROUP'') (\<lambda>group_name.
     andthen (capture_inventory group_name) (\<lambda>(group, inventory).
     andthen (prepare read_server inventory) (\<lambda>(trust, inventory).
     andthen (getenv ''ANSIBLE_KNOWN_HOSTS_FILE'') (\<lambda>known.
     andthen (act (WriteFile known trust)) (\<lambda>_.
     andthen (getenv ''ANSIBLE_INVENTORY'') (\<lambda>path.
       act (WriteJson path (JObj inventory)))))))))"

text \<open>The script: a refusal is an exit code, its text goes to the console.\<close>

definition trust_script :: "int io" where
  "trust_script = catch_all (andthen trust_main (\<lambda>_. ret 0)) (ret 1)"

section \<open>What a trusted host is\<close>

text \<open>
  A Server may be used by ordinary commands with the key: it is not being deleted or provisioned, and
  its managed key is ready, the one installed, and the one both fingerprints name.
\<close>

definition trusted :: "json \<Rightarrow> string \<Rightarrow> bool" where
  "trusted server key \<longleftrightarrow>
     (let status = obj_field ''status'' server; provisioning = obj_field ''provisioning'' status;
          host = obj_field ''hostSSH'' status in
      \<not> truthy (obj_field ''deletionTimestamp'' (obj_field ''metadata'' server)) \<and>
      \<not> truthy (obj_field ''maintenance'' provisioning) \<and> obj_field ''phase'' provisioning \<notin> reserved_phases \<and>
      truthy (obj_field ''keyReady'' host) \<and> obj_field ''phase'' host = JStr ''Ready'' \<and>
      truthy (obj_field ''keyPairRef'' host) \<and>
      py_eq (obj_field ''installedKeyPairRef'' host) (obj_field ''keyPairRef'' host) \<and>
      key_of (obj_field ''publicKey'' host) = Inr key \<and>
      (\<exists>own. fingerprint (JStr key) = Inr own \<and> obj_field ''fingerprint'' host = JStr own \<and>
         py_eq (obj_field ''installedFingerprint'' host) (JStr own)))"

lemma verified_key_trusted:
  assumes "verified_key name server = Inr key"
  shows "trusted server key"
proof -
  from assms obtain metadata deleted held status host refused v wrong where
    c: "jsub server ''metadata'' = Inr metadata" "jget metadata ''deletionTimestamp'' JNull = Inr deleted" "\<not> truthy deleted"
      "reserved server = Inr held" "\<not> held" "jget server ''status'' (JObj []) = Inr status"
      "jget status ''hostSSH'' (JObj []) = Inr host" "unverified host = Inr refused" "\<not> refused"
      "jsub host ''publicKey'' = Inr v" "key_of v = Inr key" "mismatched host key = Inr wrong" "\<not> wrong"
    unfolding verified_key_def by (elim bindE) (auto simp: raise_if_eq_Inr)
  note host = read_dict [OF c(7)] read_dict [OF c(6)]
  from c(4,5) obtain provisioning maintenance phase where
    p: "jget status ''provisioning'' (JObj []) = Inr provisioning" "jget provisioning ''maintenance'' JNull = Inr maintenance"
      "\<not> truthy maintenance" "jget provisioning ''phase'' JNull = Inr phase" "phase \<notin> reserved_phases"
    unfolding reserved_def c(6) by (auto simp: bind_eq_Inr split: if_splits)
  note p = p(1,3,5) read_field(2) [OF p(2)] read_field(2) [OF p(4)]
  have u: "truthy (obj_field ''keyReady'' host)" "obj_field ''phase'' host = JStr ''Ready''"
    "truthy (obj_field ''keyPairRef'' host)" "py_eq (obj_field ''installedKeyPairRef'' host) (obj_field ''keyPairRef'' host)"
    using c(8,9) unfolding unverified_def by (auto simp: exn_simps dgetd_def dget_def split: option.splits)
  from c(12,13) obtain own where o: "fingerprint (JStr key) = Inr own" "obj_field ''fingerprint'' host = JStr own"
    "py_eq (obj_field ''installedFingerprint'' host) (JStr own)"
    unfolding mismatched_def by (auto simp: exn_simps dgetd_def dget_def split: option.splits)
  show ?thesis
    using p u o c(1-3,11) read_field(1) [OF c(10)] read_field(1) [OF c(1)] read_field(2) [OF c(2)]
    by (simp add: trusted_def Let_def flip: host read_dict [OF p(1)])
qed

section \<open>What the preparation returns\<close>

text \<open>The SSH arguments of a host in a group.\<close>

definition args_of :: "json \<Rightarrow> string \<Rightarrow> json" where
  "args_of members name =
     obj_field ''ansible_ssh_common_args'' (obj_field name (obj_field ''hosts'' members))"

lemma bind_alias_Inr:
  assumes "bind_alias name a (g, members) = Inr entry"
  obtains members' where "entry = (g, members')" "\<And>n. lists_host members' n = lists_host members n"
    "lists_host members name \<Longrightarrow> args_of members' name = JStr (alias_args a)"
    "\<And>n. n \<noteq> name \<Longrightarrow> args_of members' n = args_of members n"
proof -
  from assms obtain hosts listed where h: "jget members ''hosts'' (JObj []) = Inr hosts" "py_in (JStr name) hosts = Inr listed"
    and e: "(if \<not> listed then Inr (g, members)
     else
       bind (jsub members ''hosts'') (\<lambda>hosts.
       bind (jsub hosts name) (\<lambda>variables.
       bind (jput variables ''ansible_ssh_common_args'' (JStr (alias_args a))) (\<lambda>variables.
       bind (jput hosts name variables) (\<lambda>hosts.
       bind (jput members ''hosts'' hosts) (\<lambda>members. Inr (g, members))))))) = Inr entry"
    unfolding bind_alias_def by (simp only: prod.case) (elim bindE)
  show thesis
  proof (cases listed)
    case False
    with h have "\<not> lists_host members name"
      by (cases hosts) (auto simp: lists_host_def dgetd_def)
    with False e show thesis by (intro that [of members]) auto
  next
    case True
    with e obtain o1 d v where m: "members = JObj o1" "map_of o1 ''hosts'' = Some (JObj d)" "map_of d name = Some (JObj v)"
      and e': "entry = (g, JObj (dput ''hosts'' (JObj (dput name (JObj (dput ''ansible_ssh_common_args''
        (JStr (alias_args a)) v)) d)) o1))"
      by (auto simp: exn_simps elim!: jput.elims)
    show thesis
      by (rule that [OF e']) (auto simp: m lists_host_def args_of_def dget_def dhas_def)
  qed
qed

text \<open>
  The history vouches for a host: a Server of that name was read, it is trusted with the key, and
  \<open>a\<close> is its alias.
\<close>

definition vouched :: "history \<Rightarrow> string \<Rightarrow> string \<Rightarrow> string \<Rightarrow> bool" where
  "vouched h name key a \<longleftrightarrow>
     (\<exists>d server. (ApiGet ''servers'' name, RJson (JObj d)) \<in> set h \<and> resource d = Inr server \<and>
        trusted (JObj server) key \<and> host_alias (JObj server) = Inr a)"

lemma vouched_mono: "vouched h name key a \<Longrightarrow> set h \<subseteq> set h' \<Longrightarrow> vouched h' name key a"
  by (auto simp: vouched_def)

text \<open>A group keeps its hosts; those named are bound to the alias of a Server vouched for.\<close>

definition bound :: "history \<Rightarrow> string set \<Rightarrow> string \<times> json \<Rightarrow> string \<times> json \<Rightarrow> bool" where
  "bound h names e e' \<longleftrightarrow> fst e' = fst e \<and>
     (\<forall>n. lists_host (snd e') n = lists_host (snd e) n \<and>
        (n \<notin> names \<longrightarrow> args_of (snd e') n = args_of (snd e) n) \<and>
        (n \<in> names \<longrightarrow> lists_host (snd e) n \<longrightarrow>
           (\<exists>key a. vouched h n key a \<and> args_of (snd e') n = JStr (alias_args a))))"

lemma trust_host_Inr:
  assumes "trust_host read_server (entries, inventory) name w = (Inr st, w')"
  obtains e key a inventory' where "history w' = history w @ [e]" "st = (entries @ a @ '' '' @ key @ [CHR 0x0A], inventory')"
    "vouched [e] name key a" "list_all2 (bound [e] {name}) inventory inventory'"
proof -
  from assms obtain server w1 line a inventory' where get: "api_get ''servers'' (JStr name) w = (Inr server, w1)"
    and line: "trust_line name (JObj server) = Inr line" and a: "host_alias (JObj server) = Inr a"
    and inv: "mapM (bind_alias name a) inventory = Inr inventory'" and st: "st = (entries @ line, inventory')" "w' = w1"
    by (auto simp: trust_host_def read_server_def andthen_def split: prod.splits sum.splits)
  from get obtain d where d: "w1 = w\<lparr>history := history w @ [(ApiGet ''servers'' name, RJson (JObj d))]\<rparr>"
    "resource d = Inr server" by (rule api_get_Inr)
  from line a obtain key where key: "verified_key name (JObj server) = Inr key" "line = a @ '' '' @ key @ [CHR 0x0A]"
    by (auto simp: trust_line_def bind_eq_Inr)
  let ?h = "[(ApiGet ''servers'' name, RJson (JObj d))]"
  have v: "vouched ?h name key a" using d(2) a verified_key_trusted [OF key(1)] by (auto simp: vouched_def)
  have "bound ?h {name} e e'" if "bind_alias name a e = Inr e'" for e e'
    using that v by (cases e) (erule bind_alias_Inr [of name a "fst e" "snd e", simplified], auto simp: bound_def)
  then have "list_all2 (bound ?h {name}) inventory inventory'"
    using inv by (auto simp: mapM_Inr_iff elim: list_all2_mono)
  with that [of _ a key inventory'] d(1) key(2) st v show thesis by simp
qed

lemma bound_trans:
  assumes "bound h1 {n} e e1" "bound h2 ns e1 e2"
  shows "bound (h1 @ h2) (insert n ns) e e2"
  using assms unfolding bound_def
  by (auto intro: vouched_mono [where h = h1] vouched_mono [where h = h2]) (metis vouched_mono set_append sup.cobounded1 sup.cobounded2)+

lemma trust_hosts_Inr:
  assumes "trust_hosts read_server (entries, inventory) names w = (Inr (text, inventory'), w')"
  shows "\<exists>h lines. history w' = history w @ h \<and> text = entries @ concat lines \<and>
    list_all2 (\<lambda>name line. \<exists>key a. vouched h name key a \<and> line = a @ '' '' @ key @ [CHR 0x0A]) names lines \<and>
    list_all2 (bound h (set names)) inventory inventory'"
  using assms
proof (induction names arbitrary: entries inventory w)
  case Nil
  then show ?case by (auto simp: bound_def intro!: list_all2_refl)
next
  case (Cons name names)
  then obtain st w1 where one: "trust_host read_server (entries, inventory) name w = (Inr st, w1)"
    and rest: "trust_hosts read_server st names w1 = (Inr (text, inventory'), w')"
    by (auto simp: andthen_def split: prod.splits sum.splits)
  from one obtain e key a inventory1 where s: "history w1 = history w @ [e]"
    "st = (entries @ a @ '' '' @ key @ [CHR 0x0A], inventory1)" "vouched [e] name key a"
    "list_all2 (bound [e] {name}) inventory inventory1" by (rule trust_host_Inr)
  from Cons.IH [OF rest [unfolded s(2)]] obtain h lines where t: "history w' = history w1 @ h"
    "text = (entries @ a @ '' '' @ key @ [CHR 0x0A]) @ concat lines"
    "list_all2 (\<lambda>name line. \<exists>key a. vouched h name key a \<and> line = a @ '' '' @ key @ [CHR 0x0A]) names lines"
    "list_all2 (bound h (set names)) inventory1 inventory'" by blast
  have "list_all2 (bound ([e] @ h) (insert name (set names))) inventory inventory'"
    by (rule list_all2_trans [OF bound_trans s(4) t(4)])
  moreover have "list_all2 (\<lambda>name line. \<exists>key a. vouched ([e] @ h) name key a \<and>
      line = a @ '' '' @ key @ [CHR 0x0A]) names lines"
    by (rule list_all2_mono [OF t(3)]) (elim exE conjE, intro exI conjI, erule vouched_mono, auto)
  moreover have "vouched ([e] @ h) name key a" by (rule vouched_mono [OF s(3)]) simp
  ultimately show ?case using s(1) t(1,2)
    by (intro exI [of _ "[e] @ h"] exI [of _ "(a @ '' '' @ key @ [CHR 0x0A]) # lines"]) auto
qed

text \<open>
  C26: ordinary commands never trust on first use: when the preparation returns, the trust file
  holds exactly one line per host of the inventory, and that line and the alias every group gives the
  host come from a Server read in this pass that is verified, not being deleted and not reserved.
\<close>

theorem prepare_trusts:
  assumes "prepare read_server inventory w = (Inr (text, inventory'), w')"
  shows "\<exists>hosts lines. inventory_hosts (JObj inventory) = Inr hosts \<and> text = concat lines \<and>
    list_all2 (\<lambda>(name, _) line. \<exists>key a. vouched (added w w') name key a \<and>
       line = a @ '' '' @ key @ [CHR 0x0A]) hosts lines \<and>
    map fst inventory' = map fst inventory \<and>
    (\<forall>(g, members)\<in>set inventory'. \<forall>name. lists_host members name \<longrightarrow>
       (\<exists>key a. vouched (added w w') name key a \<and> args_of members name = JStr (alias_args a)))"
proof -
  from assms obtain hosts where h: "inventory_hosts (JObj inventory) = Inr hosts"
    and t: "trust_hosts read_server ([], inventory) (map fst hosts) w = (Inr (text, inventory'), w')"
    by (cases "inventory_hosts (JObj inventory)") (auto simp: prepare_def)
  from trust_hosts_Inr [OF t] obtain k lines where k: "history w' = history w @ k" "text = concat lines"
    "list_all2 (\<lambda>name line. \<exists>key a. vouched k name key a \<and> line = a @ '' '' @ key @ [CHR 0x0A]) (map fst hosts) lines"
    "list_all2 (bound k (set (map fst hosts))) inventory inventory'" by auto
  have "added w w' = k" by (rule added_append [OF k(1)])
  moreover have "map fst inventory' = map fst inventory"
    using k(4) by (induction rule: list_all2_induct) (auto simp: bound_def)
  moreover have "\<exists>key a. vouched k name key a \<and> args_of members name = JStr (alias_args a)"
    if i: "(g, members) \<in> set inventory'" and l: "lists_host members name" for g members name
  proof -
    from k(4) i obtain e where e: "e \<in> set inventory" "bound k (set (map fst hosts)) e (g, members)"
      by (metis list_all2_conv_all_nth in_set_conv_nth)
    with l have "lists_host (snd e) name" by (auto simp: bound_def)
    with inventory_hosts_lists [OF h, of "fst e" "snd e"] e(1) have "name \<in> set (map fst hosts)" by simp
    with e(2) \<open>lists_host (snd e) name\<close> show ?thesis by (auto simp: bound_def)
  qed
  ultimately show ?thesis using h k(2,3)
    by (intro exI [of _ hosts] exI [of _ lines]) (auto simp: list_all2_map1 case_prod_unfold)
qed


section \<open>A concrete host\<close>

definition trust_key :: string where
  "trust_key = key_text (replicate 32 (CHR ''k''))"

definition trust_server :: "string \<Rightarrow> jobject" where
  "trust_server own =
     [(''kind'', JStr ''Server''),
      (''metadata'', JObj [(''name'', JStr ''srv''), (''uid'', JStr ''u-1''), (''resourceVersion'', JStr ''7'')]),
      (''spec'', JObj []),
      (''status'', JObj [(''hostSSH'', JObj [(''keyReady'', JBool True), (''phase'', JStr ''Ready''),
         (''keyPairRef'', JStr ''k''), (''installedKeyPairRef'', JStr ''k''), (''publicKey'', JStr trust_key),
         (''fingerprint'', JStr own), (''installedFingerprint'', JStr own)])])]"

definition trust_inventory :: jobject where
  "trust_inventory = [(''all'', JObj [(''hosts'', JObj [(''srv'', JObj [])])])]"

definition trust_world :: "string \<Rightarrow> world" where
  "trust_world own =
     \<lparr>answers = (\<lambda>h ev. RJson (JObj (trust_server own))), history = [], float_text = (\<lambda>q. []), cell = []\<rparr>"

lemma trust_key_valid: "public_key trust_key = Inr trust_key"
  by (simp add: trust_key_def public_key_text)

lemma trust_server_alias: "host_alias (JObj (trust_server own)) = Inr ''server-u-1''"
proof -
  have "fullmatch rx_uid ''u-1''" by code_simp
  then show ?thesis by (simp add: host_alias_def trust_server_def lookup_simps)
qed

lemma trust_server_line:
  assumes "fingerprint (JStr trust_key) = Inr own"
  shows "trust_line ''srv'' (JObj (trust_server own)) = Inr (''server-u-1 '' @ trust_key @ [CHR 0x0A])"
  unfolding trust_line_def trust_server_alias
  by (simp add: trust_server_def verified_key_def reserved_def reserved_phases_def unverified_def mismatched_def
      key_of_def assms trust_key_valid lookup_simps)

lemma prepare_trusts_witness:
  "\<exists>own text inventory w'. prepare read_server trust_inventory (trust_world own) = (Inr (text, inventory), w') \<and>
    (\<exists>key a. vouched (added (trust_world own) w') ''srv'' key a)"
proof -
  obtain own where own: "fingerprint (JStr trust_key) = Inr own"
    using fingerprint_Inr [OF trust_key_valid] by blast
  have hosts: "inventory_hosts (JObj trust_inventory) = Inr [(''srv'', JObj [])]" by code_simp
  have "resource (trust_server own) = Inr (trust_server own)"
    by (simp add: trust_server_def resource_def resource_metadata_def opt_field_def lookup_simps)
  then have "api_get ''servers'' (JStr ''srv'') (trust_world own) = (Inr (trust_server own), (trust_world own)
      \<lparr>history := [(ApiGet ''servers'' ''srv'', RJson (JObj (trust_server own)))]\<rparr>)"
    by (simp add: api_get_def request_def ask_json_def ask_def trust_world_def andthen_def Let_def)
  then obtain trust inventory w' where p: "prepare read_server trust_inventory (trust_world own) = (Inr (trust, inventory), w')"
    unfolding prepare_def hosts
    by (simp add: trust_host_def read_server_def andthen_def trust_server_line [OF own] trust_server_alias
        bind_alias_def trust_inventory_def lookup_simps dhas_def)
  from prepare_trusts [OF p] have "\<exists>key a. vouched (added (trust_world own) w') ''srv'' key a"
    unfolding hosts by (auto simp: list_all2_Cons1)
  with p show ?thesis by blast
qed

end
