(* ===== verification/SystemOperations.thy ===== *)
theory SystemOperations
  imports Provisioning RunnerTrust
begin

text \<open>
  System operations on one Server (\<open>operators/system_operations.py\<close>): the target is resolved and checked
  three times against the API, its inventory gets the verified transport, and the play runs once,
  under a claim. The arguments of the command line arrive parsed; the refusals of the parser are exit
  code 2, those of the script 1.
\<close>

section \<open>The target\<close>

definition identity_changed :: "jobject \<Rightarrow> json \<Rightarrow> string \<Rightarrow> string \<Rightarrow> exn + bool" where
  "identity_changed server status uid machine_uid =
     bind (jpath (JObj server) [''metadata'', ''uid'']) (\<lambda>u.
     if u \<noteq> JStr uid then Inr True else
     bind (bind (dsub server ''metadata'') (\<lambda>m. jget m ''deletionTimestamp'' JNull)) (\<lambda>deleted.
     if truthy deleted then Inr True else
     bind (bind (jget status ''machineRef'' (JObj [])) (\<lambda>m. jget m ''uid'' JNull)) (\<lambda>machine.
       Inr (machine \<noteq> JStr machine_uid))))"

definition provisioning_owns :: "json \<Rightarrow> exn + bool" where
  "provisioning_owns provisioning =
     bind (jget provisioning ''maintenance'' JNull) (\<lambda>maintenance.
     if truthy maintenance then Inr True else
     bind (jget provisioning ''activeRunRef'' JNull) (\<lambda>run. Inr (run \<noteq> JNull)))"

definition management_path :: "string list" where
  "management_path = [''status'', ''networking'', ''management'']"

definition target_address :: "jobject \<Rightarrow> exn + string" where
  "target_address server = bind (jpath (JObj server) (management_path @ [''address'', ''address''])) address"

definition check_target :: "jobject \<Rightarrow> string \<Rightarrow> string \<Rightarrow> exn + unit" where
  "check_target server uid machine_uid =
     bind (Inr (dgetd server ''status'' (JObj []))) (\<lambda>status.
     bind (jget status ''provisioning'' (JObj [])) (\<lambda>provisioning.
     bind (identity_changed server status uid machine_uid) (\<lambda>changed.
     bind (raise_if changed (RuntimeError ''Server or Machine identity changed; create a newly reviewed Command'')) (\<lambda>_.
     bind (provisioning_owns provisioning) (\<lambda>owned.
     bind (raise_if owned (RuntimeError ''Provisioning owns the Server; system operation refused'')) (\<lambda>_.
     bind (jget status ''operationRef'' JNull) (\<lambda>operation.
     bind (raise_if (truthy operation) (RuntimeError ''Another operation owns the Server'')) (\<lambda>_.
     bind (jchain (JObj server) [''spec'', ''reconciliation'', ''paused'']) (\<lambda>paused.
     bind (raise_if (truthy paused) (RuntimeError ''Server reconciliation is paused'')) (\<lambda>_.
     bind (target_address server) (\<lambda>_. Inr ())))))))))))"

definition selected_server :: "string \<Rightarrow> string \<Rightarrow> string \<Rightarrow> jobject io" where
  "selected_server name uid machine_uid =
     andthen (api_get ''servers'' (JStr name)) (\<lambda>server.
     andthen (lift (check_target server uid machine_uid)) (\<lambda>_. ret server))"

section \<open>Its inventory\<close>

definition host_inventory :: "string \<Rightarrow> jobject \<Rightarrow> jobject" where
  "host_inventory name variables = [(''all'', JObj [(''hosts'', JObj [(name, JObj variables)])])]"

text \<open>\<open>dict(hosts[name])\<close>: variables that are not a mapping raise.\<close>

definition host_variables :: "jobject \<Rightarrow> string \<Rightarrow> exn + jobject" where
  "host_variables hosts name =
     bind (dsub hosts name) (\<lambda>v. case v of JObj d \<Rightarrow> Inr d | _ \<Rightarrow> Inl TypeError)"

definition connection_changed :: "jobject \<Rightarrow> jobject \<Rightarrow> exn + bool" where
  "connection_changed latest server =
     bind (dsub latest ''status'') (\<lambda>a. bind (dsub server ''status'') (\<lambda>b.
     bind (jget a ''hostSSH'' JNull) (\<lambda>x. bind (jget b ''hostSSH'' JNull) (\<lambda>y.
     if \<not> py_eq x y then Inr True else
     bind (jget a ''machineRef'' JNull) (\<lambda>x. bind (jget b ''machineRef'' JNull) (\<lambda>y.
     if \<not> py_eq x y then Inr True else
     bind (jpath (JObj latest) management_path) (\<lambda>x. bind (jpath (JObj server) management_path) (\<lambda>y.
       Inr (\<not> py_eq x y)))))))))"

definition operation_variables ::
  "string \<Rightarrow> string list \<Rightarrow> string \<Rightarrow> string \<Rightarrow> string \<Rightarrow> jobject" where
  "operation_variables host args name uid machine_uid =
     [(''ansible_host'', JStr host), (''ansible_user'', JStr ''ansible''), (''ansible_connection'', JStr ''ssh''),
      (''ansible_become'', JBool True), (''ansible_ssh_args'', JStr (shell_join args)),
      (''ansible_ssh_common_args'', JStr []), (''ansible_ssh_extra_args'', JStr []),
      (''system_operation_server_name'', JStr name), (''system_operation_server_uid'', JStr uid),
      (''system_operation_machine_uid'', JStr machine_uid)]"

definition inventory_variables :: "jobject \<Rightarrow> string \<Rightarrow> exn + jobject" where
  "inventory_variables inventory name =
     bind (jpath (JObj inventory) [''all'', ''hosts'', name]) (\<lambda>v.
       case v of JObj d \<Rightarrow> Inr d | _ \<Rightarrow> Inl AttributeError)"

definition prepare_target :: "string \<Rightarrow> string \<Rightarrow> string \<Rightarrow> string \<Rightarrow> string \<Rightarrow> jobject io" where
  "prepare_target group_name name uid machine_uid directory =
     andthen (capture_inventory group_name) (\<lambda>(group, captured).
     andthen (resolved_inventory_hosts (JObj captured)) (\<lambda>hosts.
     andthen (refuse_if (\<not> dhas hosts name)
       (RuntimeError ''Selected Server is not in the current executor capture group'')) (\<lambda>_.
     andthen (selected_server name uid machine_uid) (\<lambda>server.
     andthen (lift (host_variables hosts name)) (\<lambda>variables.
     andthen (prepare read_server (host_inventory name variables)) (\<lambda>(trust, inventory).
     andthen (act (WriteFile (directory @ ''/known_hosts'') trust)) (\<lambda>_.
     andthen (selected_server name uid machine_uid) (\<lambda>latest.
     andthen (lift (connection_changed latest server)) (\<lambda>changed.
     andthen (refuse_if changed
       (RuntimeError ''Target management identity changed during operation preparation'')) (\<lambda>_.
     andthen (lift (inventory_variables inventory name)) (\<lambda>variables.
     andthen (lift (target_address latest)) (\<lambda>host.
     andthen (ssh_args (JObj latest) (directory @ ''/known_hosts'') ''yes'') (\<lambda>args.
       ret (host_inventory name (dmerge variables (operation_variables host args name uid machine_uid))))))))))))))))"

section \<open>The operation\<close>

record arguments =
  operation_name :: string
  server_name :: string
  server_uid :: string
  machine_id :: string
  binary_url :: "string option"
  binary_sha256 :: "string option"

definition lower_hex :: "string \<Rightarrow> bool" where
  "lower_hex s = list_all (\<lambda>c. c \<in> set ''0123456789abcdef'') s"

definition arguments_refused :: "arguments \<Rightarrow> bool" where
  "arguments_refused a =
     (operation_name a = ''install-homelabd'' \<and>
        ((case binary_url a of None \<Rightarrow> True | Some url \<Rightarrow> \<not> startswith url ''https://'') \<or>
         (case binary_sha256 a of None \<Rightarrow> True | Some s \<Rightarrow> length s \<noteq> 64 \<or> \<not> lower_hex s)))"

definition play_name :: "arguments \<Rightarrow> string" where
  "play_name a = (if operation_name a = ''reboot'' then ''reboot'' else ''install_homelabd'')"

definition optional_text :: "string option \<Rightarrow> json" where
  "optional_text v = (case v of None \<Rightarrow> JNull | Some s \<Rightarrow> JStr s)"

definition address_moved :: "jobject \<Rightarrow> string \<Rightarrow> jobject \<Rightarrow> exn + bool" where
  "address_moved inventory name snapshot =
     bind (jpath (JObj inventory) [''all'', ''hosts'', name, ''ansible_host'']) (\<lambda>a.
     bind (target_address snapshot) (\<lambda>b. Inr (a \<noteq> JStr b)))"

definition play_command :: "string \<Rightarrow> string \<Rightarrow> string \<Rightarrow> string list" where
  "play_command source directory play =
     [''ansible-playbook'', ''-i'', directory @ ''/inventory.json'', source @ ''/plays/'' @ play @ ''.yml'',
      ''-e'', ''@'' @ directory @ ''/variables.json'']"

text \<open>What is done under the claim; the snapshot is the cell.\<close>

definition play_claimed :: "string \<Rightarrow> arguments \<Rightarrow> string \<Rightarrow> jobject \<Rightarrow> unit io" where
  "play_claimed source a directory inventory =
     andthen get_cell (\<lambda>snapshot.
     andthen (lift (address_moved inventory (server_name a) snapshot)) (\<lambda>moved.
     andthen (refuse_if moved (OperatorError ''InputsChanged'' ''Management address changed during acquisition'')) (\<lambda>_.
     andthen api_init (\<lambda>_.
     andthen (operation_progress (JObj snapshot) (''Execute '' @ play_name a)) (\<lambda>_.
     andthen (ask_proc (Ansible (play_command source directory (play_name a))
                (directory @ ''/'' @ play_name a @ ''.log'') 660)) (\<lambda>(code, out, err).
       refuse_if (code \<noteq> 0)
         (OperatorError (if code \<in> {4, 6} then ''RemoteWorkUncertain'' else ''SystemOperationFailed'')
            ''System operation failed; inspect Command logs'')))))))"

text \<open>The private files of the play: the inventory of the target and its variables.\<close>

definition operation_files :: "arguments \<Rightarrow> (string \<times> jobject) io" where
  "operation_files a =
     andthen (ask_text (TempDir ''system-operation-'')) (\<lambda>directory.
     andthen api_init (\<lambda>_.
     andthen (getenv ''INVENTORY_CAPTURE_GROUP'') (\<lambda>group_name.
     andthen (prepare_target group_name (server_name a) (server_uid a) (machine_id a) directory) (\<lambda>inventory.
     andthen (act (WriteJson (directory @ ''/inventory.json'') (JObj inventory))) (\<lambda>_.
     andthen (act (WriteJson (directory @ ''/variables.json'') (JObj
        [(''homelabd_binary_url'', optional_text (binary_url a)),
         (''homelabd_binary_sha256'', optional_text (binary_sha256 a))]))) (\<lambda>_.
       ret (directory, inventory)))))))"

definition operation_snapshot :: "arguments \<Rightarrow> jobject \<Rightarrow> jobject io" where
  "operation_snapshot a inventory =
     andthen api_init (\<lambda>_.
     andthen (selected_server (server_name a) (server_uid a) (machine_id a)) (\<lambda>snapshot.
     andthen (lift (address_moved inventory (server_name a) snapshot)) (\<lambda>moved.
     andthen (refuse_if moved (RuntimeError ''Management address changed before the operation claim'')) (\<lambda>_.
       ret snapshot))))"

definition operation_main :: "string \<Rightarrow> arguments \<Rightarrow> int io" where
  "operation_main source a =
     (if arguments_refused a then ret 2 else
     andthen (operation_files a) (\<lambda>(directory, inventory).
     andthen (operation_snapshot a inventory) (\<lambda>snapshot.
     andthen api_init (\<lambda>_.
     andthen (set_cell snapshot) (\<lambda>_.
     andthen (reservation (operation_name a) ''system-operations'' None ''servers''
        (\<lambda>_. play_claimed source a directory inventory)) (\<lambda>_.
       ret 0))))))"

definition operation_script :: "string \<Rightarrow> arguments \<Rightarrow> int io" where
  "operation_script source a =
     catch (operation_main source a)
       (\<lambda>e. case e of
          RuntimeError m \<Rightarrow> ret 1
        | KeyError k \<Rightarrow> ret 1
        | OperatorError r m \<Rightarrow> ret 1
        | _ \<Rightarrow> raise e)"

end
