(* ===== verification/DependencyOrder.thy ===== *)
theory DependencyOrder
  imports Models "HOL-Library.AList" "HOL-Library.List_Lexorder" "HOL-Library.Char_ord"
begin

text \<open>
  The order in which Configurations are executed (\<open>dependencies\<close> and \<open>dependency_order\<close> of
  \<open>operators/configurations.py\<close>): a depth first walk that visits dependencies before dependents and
  refuses cycles. The set \<open>visiting\<close> of the code always holds the names of the calls under way: a
  call adds its own name and removes it before it returns, so it is an argument here.
\<close>

section \<open>The code\<close>

definition config_name :: "jobject \<Rightarrow> exn + string" where
  "config_name c = bind (jpath (JObj c) [''metadata'', ''name'']) (str_of TypeError)"

definition dependencies :: "jobject \<Rightarrow> exn + jobject list" where
  "dependencies c =
     bind (jsub (JObj c) ''spec'') (\<lambda>spec.
     bind (jget spec ''dependsOn'' (JArr [])) (\<lambda>values.
       (case values of
          JArr vs \<Rightarrow> mapM (\<lambda>v. json_object v ''dependency'') vs
        | _ \<Rightarrow> Inl (ValueError ''dependsOn must be an array''))))"

definition dependency_cycle :: "string \<Rightarrow> exn" where
  "dependency_cycle name = OperatorError ''DependencyCycle'' (''Configuration dependency cycle at '' @ name)"

type_synonym config_index = "(string \<times> jobject) list"

text \<open>The sets the walk keeps: the names visited, in order, and the Configurations ordered.\<close>

record walk =
  visited :: "string list"
  ordered :: "jobject list"

function visit :: "config_index \<Rightarrow> string list \<Rightarrow> string \<Rightarrow> walk \<Rightarrow> exn + walk"
  and visit_all :: "config_index \<Rightarrow> string list \<Rightarrow> jobject list \<Rightarrow> walk \<Rightarrow> exn + walk" where
  "visit indexed visiting name st =
     (if name \<in> set visiting then Inl (dependency_cycle name)
      else if name \<in> set (visited st) then Inr st
      else
        (case map_of indexed name of
           None \<Rightarrow> Inl (KeyError name)
         | Some c \<Rightarrow>
             bind (dependencies c) (\<lambda>refs.
             bind (visit_all indexed (name # visiting) refs st) (\<lambda>st.
               Inr \<lparr>visited = visited st @ [name], ordered = ordered st @ [c]\<rparr>))))"
| "visit_all indexed visiting [] st = Inr st"
| "visit_all indexed visiting (ref # refs) st =
     bind (json_string (dget ref ''name'') ''dependency name'') (\<lambda>dependency_name.
     bind (if map_of indexed dependency_name \<noteq> None then visit indexed visiting dependency_name st
           else Inr st) (\<lambda>st.
       visit_all indexed visiting refs st))"
  by pat_completeness auto
termination
proof (relation "measures
    [\<lambda>s. case s of Inl (i, vs, n, st) \<Rightarrow> card (fst ` set i - set vs)
       | Inr (i, vs, rs, st) \<Rightarrow> card (fst ` set i - set vs),
     \<lambda>s. case s of Inl (i, vs, n, st) \<Rightarrow> 0 | Inr (i, vs, rs, st) \<Rightarrow> length rs]", goal_cases)
  case (2 indexed visiting name st c refs)
  then have "name \<in> fst ` set indexed - set visiting" by (auto dest: map_of_SomeD intro: rev_image_eqI)
  then have "card (fst ` set indexed - set visiting - {name}) < card (fst ` set indexed - set visiting)"
    by (intro card_Diff1_less) simp_all
  moreover have "fst ` set indexed - set visiting - {name} = fst ` set indexed - insert name (set visiting)"
    by blast
  ultimately show ?case by simp
qed simp_all

declare visit.simps [simp del]

definition index_by_name :: "jobject list \<Rightarrow> exn + config_index" where
  "index_by_name cs =
     foldM (\<lambda>indexed c. bind (config_name c) (\<lambda>name. Inr (AList.update name c indexed))) [] cs"

definition dependency_order :: "jobject list \<Rightarrow> exn + jobject list" where
  "dependency_order cs =
     bind (index_by_name cs) (\<lambda>indexed.
     bind (foldM (\<lambda>st name. visit indexed [] name st) \<lparr>visited = [], ordered = []\<rparr> (sort (map fst indexed)))
       (\<lambda>st. Inr (ordered st)))"

section \<open>The graph of dependencies\<close>

text \<open>\<open>m\<close> is a dependency of \<open>n\<close> inside the index; others are left to the plan of \<open>n\<close>.\<close>

definition edges :: "config_index \<Rightarrow> (string \<times> string) set" where
  "edges indexed = {(n, m). \<exists>c refs ref. map_of indexed n = Some c \<and> dependencies c = Inr refs \<and>
     ref \<in> set refs \<and> dget ref ''name'' = JStr m \<and> map_of indexed m \<noteq> None}"

text \<open>Every dependency stands before what depends on it.\<close>

definition topological :: "(string \<times> string) set \<Rightarrow> string list \<Rightarrow> bool" where
  "topological E ns \<longleftrightarrow> distinct ns \<and> (\<forall>xs n ys. ns = xs @ n # ys \<longrightarrow> E `` {n} \<subseteq> set xs)"

lemma topological_snoc:
  "topological E (ns @ [n]) \<longleftrightarrow> topological E ns \<and> n \<notin> set ns \<and> E `` {n} \<subseteq> set ns"
proof -
  have "(\<forall>xs m ys. ns @ [n] = xs @ m # ys \<longrightarrow> E `` {m} \<subseteq> set xs) \<longleftrightarrow>
      (\<forall>xs m ys. ns = xs @ m # ys \<longrightarrow> E `` {m} \<subseteq> set xs) \<and> E `` {n} \<subseteq> set ns"
    (is "?l \<longleftrightarrow> ?r")
  proof
    assume l: ?l
    show ?r
    proof (intro conjI allI impI)
      fix xs m ys
      assume "ns = xs @ m # ys"
      then show "E `` {m} \<subseteq> set xs" using l [rule_format, of xs m "ys @ [n]"] by simp
    next
      show "E `` {n} \<subseteq> set ns" using l [rule_format, of ns n "[]"] by simp
    qed
  next
    assume r: ?r
    show ?l
    proof (intro allI impI)
      fix xs m ys
      assume s: "ns @ [n] = xs @ m # ys"
      show "E `` {m} \<subseteq> set xs"
      proof (cases ys rule: rev_cases)
        case (snoc zs z)
        with s have "ns = xs @ m # zs" by simp
        with r show ?thesis by blast
      qed (use s r in simp)
    qed
  qed
  then show ?thesis by (auto simp: topological_def)
qed

lemma topological_acyclic:
  assumes "topological E ns" "E \<subseteq> set ns \<times> set ns"
  shows "acyclic E"
proof -
  have "(m, n) \<in> inv_image less_than (\<lambda>n. length (takeWhile ((\<noteq>) n) ns))" if e: "(n, m) \<in> E" for n m
  proof -
    from e assms(2) have "n \<in> set ns" by auto
    then obtain xs ys where ns: "ns = xs @ n # ys" "n \<notin> set xs" by (meson split_list_first)
    with e assms(1) have "m \<in> set xs" by (auto simp: topological_def)
    then obtain us vs where xs: "xs = us @ m # vs" "m \<notin> set us" by (meson split_list_first)
    have "takeWhile ((\<noteq>) n) ns = xs" "takeWhile ((\<noteq>) m) ns = us"
      using ns xs by (auto simp: takeWhile_append)
    then show ?thesis by (simp add: xs(1))
  qed
  then have "E\<inverse> \<subseteq> inv_image less_than (\<lambda>n. length (takeWhile ((\<noteq>) n) ns))" by auto
  then have "wf (E\<inverse>)" by (rule wf_subset [rotated]) simp
  from wf_acyclic [OF this] show ?thesis by (simp add: acyclic_converse)
qed

section \<open>What a walk that returns has done\<close>

definition walk_ok :: "config_index \<Rightarrow> string list \<Rightarrow> walk \<Rightarrow> bool" where
  "walk_ok indexed visiting st \<longleftrightarrow>
     topological (edges indexed) (visited st) \<and> set (visited st) \<subseteq> dom (map_of indexed) \<and>
     set (visited st) \<inter> set visiting = {} \<and> ordered st = map (the \<circ> map_of indexed) (visited st)"

lemma walk_ok_enter:
  "walk_ok indexed visiting st \<Longrightarrow> name \<notin> set (visited st) \<Longrightarrow> walk_ok indexed (name # visiting) st"
  by (auto simp: walk_ok_def)

lemma walk_ok_leave:
  assumes "walk_ok indexed (name # visiting) st" "map_of indexed name = Some c"
    "edges indexed `` {name} \<subseteq> set (visited st)" "name \<notin> set visiting"
  shows "walk_ok indexed visiting \<lparr>visited = visited st @ [name], ordered = ordered st @ [c]\<rparr>"
  using assms by (auto simp: walk_ok_def topological_snoc)

lemma walk_result:
  "visit indexed visiting name st = Inr st' \<Longrightarrow> walk_ok indexed visiting st \<Longrightarrow>
     walk_ok indexed visiting st' \<and> set (visited st) \<subseteq> set (visited st') \<and> name \<in> set (visited st')"
  "visit_all indexed visiting refs st = Inr st' \<Longrightarrow> walk_ok indexed visiting st \<Longrightarrow>
     walk_ok indexed visiting st' \<and> set (visited st) \<subseteq> set (visited st') \<and>
     (\<forall>ref\<in>set refs. \<forall>m. dget ref ''name'' = JStr m \<longrightarrow> map_of indexed m \<noteq> None \<longrightarrow> m \<in> set (visited st'))"
proof (induction indexed visiting name st and indexed visiting refs st arbitrary: st' and st'
    rule: visit_visit_all.induct)
  case (1 indexed visiting name st)
  show ?case
  proof (cases "name \<in> set (visited st)")
    case True
    with 1 show ?thesis by (auto simp: visit.simps split: if_splits)
  next
    case False
    with 1(2) obtain c refs st1 where v: "name \<notin> set visiting" "map_of indexed name = Some c"
      "dependencies c = Inr refs" "visit_all indexed (name # visiting) refs st = Inr st1"
      "st' = \<lparr>visited = visited st1 @ [name], ordered = ordered st1 @ [c]\<rparr>"
      by (auto simp: visit.simps bind_eq_Inr split: if_splits option.splits)
    from 1(1) [OF v(1) False v(2,3,4) walk_ok_enter [OF 1(3) False]]
    have r: "walk_ok indexed (name # visiting) st1" "set (visited st) \<subseteq> set (visited st1)"
      "edges indexed `` {name} \<subseteq> set (visited st1)"
      using v(2,3) by (auto simp: edges_def)
    with walk_ok_leave [OF r(1) v(2) r(3) v(1)] v(5) show ?thesis by auto
  qed
next
  case (3 indexed visiting ref refs st)
  then show ?case
    by (fastforce simp: exn_simps split: if_splits)
qed simp_all

section \<open>Why a walk is refused\<close>

text \<open>Every indexed Configuration has a list of dependencies with names.\<close>

definition well_formed :: "config_index \<Rightarrow> bool" where
  "well_formed indexed \<longleftrightarrow>
     (\<forall>n c. map_of indexed n = Some c \<longrightarrow>
        (\<exists>refs. dependencies c = Inr refs \<and> (\<forall>ref\<in>set refs. \<exists>m. dget ref ''name'' = JStr m)))"

text \<open>The names under way, the last first, follow the dependencies.\<close>

abbreviation trail :: "config_index \<Rightarrow> string list \<Rightarrow> bool" where
  "trail indexed \<equiv> successively (\<lambda>a b. (b, a) \<in> edges indexed)"

lemma trail_reaches: "trail indexed (n # vs) \<Longrightarrow> x \<in> set vs \<Longrightarrow> (x, n) \<in> (edges indexed)\<^sup>+"
proof (induction vs arbitrary: n)
  case (Cons v vs)
  then have e: "(v, n) \<in> edges indexed" "trail indexed (v # vs)" by simp_all
  show ?case
  proof (cases "x = v")
    case False
    with Cons.prems Cons.IH [OF e(2)] have "(x, v) \<in> (edges indexed)\<^sup>+" by simp
    from trancl_into_trancl [OF this e(1)] show ?thesis .
  qed (use e in blast)
qed simp

lemma walk_refusal:
  "visit indexed visiting name st = Inl e \<Longrightarrow> well_formed indexed \<Longrightarrow> map_of indexed name \<noteq> None \<Longrightarrow>
     trail indexed (name # visiting) \<Longrightarrow> \<exists>n. e = dependency_cycle n \<and> (n, n) \<in> (edges indexed)\<^sup>+"
  "visit_all indexed visiting refs st = Inl e \<Longrightarrow> well_formed indexed \<Longrightarrow> visiting \<noteq> [] \<Longrightarrow>
     trail indexed visiting \<Longrightarrow>
     \<forall>ref\<in>set refs. \<exists>m. dget ref ''name'' = JStr m \<and>
       (map_of indexed m \<noteq> None \<longrightarrow> (hd visiting, m) \<in> edges indexed) \<Longrightarrow>
     \<exists>n. e = dependency_cycle n \<and> (n, n) \<in> (edges indexed)\<^sup>+"
proof (induction indexed visiting name st and indexed visiting refs st arbitrary: e and e
    rule: visit_visit_all.induct)
  case (1 indexed visiting name st)
  show ?case
  proof (cases "name \<in> set visiting")
    case True
    with 1(2) trail_reaches [OF 1(5)] show ?thesis by (auto simp: visit.simps)
  next
    case False
    from 1(3,4) obtain c refs where c: "map_of indexed name = Some c" "dependencies c = Inr refs"
      "\<forall>ref\<in>set refs. \<exists>m. dget ref ''name'' = JStr m" unfolding well_formed_def by blast
    with 1(2) False have s: "name \<notin> set (visited st)" "visit_all indexed (name # visiting) refs st = Inl e"
      by (auto simp: visit.simps bind_eq_Inl split: if_splits)
    have "\<forall>ref\<in>set refs. \<exists>m. dget ref ''name'' = JStr m \<and>
       (map_of indexed m \<noteq> None \<longrightarrow> (hd (name # visiting), m) \<in> edges indexed)"
      using c by (fastforce simp: edges_def)
    from 1(1) [OF False s(1) c(1,2) s(2) 1(3) _ 1(5) this] show ?thesis by simp
  qed
next
  case (3 indexed visiting ref refs st)
  from 3(7) obtain m where m: "dget ref ''name'' = JStr m"
    "map_of indexed m \<noteq> None \<longrightarrow> (hd visiting, m) \<in> edges indexed" by auto
  have t: "map_of indexed m \<noteq> None \<longrightarrow> trail indexed (m # visiting)"
    using 3(5,6) m(2) by (cases visiting) auto
  show ?case
  proof (cases "map_of indexed m \<noteq> None \<and> visit indexed visiting m st = Inl e")
    case True
    with 3(1) [of m e] m(1) t 3(4) show ?thesis by auto
  next
    case False
    with 3(3) m(1) obtain st1 where "(if map_of indexed m \<noteq> None then visit indexed visiting m st else Inr st) = Inr st1"
      "visit_all indexed visiting refs st1 = Inl e"
      by (auto simp: bind_eq_Inl split: if_splits)
    with 3(2) [of m st1 e] m(1) 3(4-7) show ?thesis by (auto simp: json_string_def)
  qed
qed simp_all

section \<open>The order\<close>

lemma walk_all:
  assumes "foldM (\<lambda>st name. visit indexed [] name st) st names = Inr st'" "walk_ok indexed [] st"
  shows "walk_ok indexed [] st' \<and> set names \<subseteq> set (visited st')"
  using assms
proof (induction names arbitrary: st)
  case (Cons n ns)
  then obtain st1 where v: "visit indexed [] n st = Inr st1"
    "foldM (\<lambda>st name. visit indexed [] name st) st1 ns = Inr st'" by (auto simp: bind_eq_Inr)
  have grows: "set (visited st1) \<subseteq> set (visited st')"
    if "walk_ok indexed [] st1" "foldM (\<lambda>st name. visit indexed [] name st) st1 ns = Inr st'" for st1 ns
    using that
  proof (induction ns arbitrary: st1)
    case (Cons n ns)
    then show ?case using walk_result(1) by (fastforce simp: bind_eq_Inr)
  qed simp
  from walk_result(1) [OF v(1) Cons.prems(2)] Cons.IH [OF v(2)] grows [OF _ v(2)] show ?case by auto
qed simp

lemma walk_all_refusal:
  assumes "foldM (\<lambda>st name. visit indexed [] name st) st names = Inl e" "well_formed indexed"
    "set names \<subseteq> dom (map_of indexed)"
  shows "\<exists>n. e = dependency_cycle n \<and> (n, n) \<in> (edges indexed)\<^sup>+"
  using assms(1,3)
proof (induction names arbitrary: st)
  case (Cons n ns)
  show ?case
  proof (cases "visit indexed [] n st")
    case (Inl e')
    with Cons.prems walk_refusal(1) [OF Inl assms(2)] show ?thesis by auto
  qed (use Cons in auto)
qed simp

lemma edges_domain: "edges indexed \<subseteq> dom (map_of indexed) \<times> dom (map_of indexed)"
  by (auto simp: edges_def)

lemma dependency_order_Inr:
  assumes "dependency_order cs = Inr result"
  obtains indexed names where "index_by_name cs = Inr indexed"
    "result = map (the \<circ> map_of indexed) names" "set names = dom (map_of indexed)"
    "topological (edges indexed) names"
proof -
  from assms obtain indexed st where i: "index_by_name cs = Inr indexed"
    and f: "foldM (\<lambda>st name. visit indexed [] name st) \<lparr>visited = [], ordered = []\<rparr> (sort (map fst indexed)) = Inr st"
    and r: "result = ordered st" by (auto simp: dependency_order_def bind_eq_Inr)
  have "walk_ok indexed [] \<lparr>visited = [], ordered = []\<rparr>" by (simp add: walk_ok_def topological_def)
  from walk_all [OF f this] have "walk_ok indexed [] st" "dom (map_of indexed) \<subseteq> set (visited st)"
    by (auto simp: dom_map_of_conv_image_fst)
  with i r that show thesis by (auto simp: walk_ok_def)
qed

text \<open>
  C24: an order that is returned holds each Configuration of the index exactly once, and each one
  after all the Configurations it depends on.
\<close>

theorem dependency_order_topological:
  assumes "dependency_order cs = Inr result"
  shows "\<exists>indexed names. index_by_name cs = Inr indexed \<and> result = map (the \<circ> map_of indexed) names \<and>
    set names = dom (map_of indexed) \<and> distinct names \<and>
    (\<forall>xs n ys. names = xs @ n # ys \<longrightarrow> edges indexed `` {n} \<subseteq> set xs)"
  by (rule dependency_order_Inr [OF assms]) (auto simp: topological_def)

text \<open>
  C25: the walk decides whether the dependencies are acyclic: for an index of well-formed
  Configurations it returns an order when there is no cycle, and otherwise refuses with
  \<open>DependencyCycle\<close> at a Configuration that depends on itself, directly or through others.
\<close>

theorem dependency_order_decides:
  assumes "index_by_name cs = Inr indexed" "well_formed indexed"
  shows "((\<exists>result. dependency_order cs = Inr result) \<longleftrightarrow> acyclic (edges indexed)) \<and>
    (\<forall>e. dependency_order cs = Inl e \<longrightarrow> (\<exists>n. e = dependency_cycle n \<and> (n, n) \<in> (edges indexed)\<^sup>+))"
proof -
  have refused: "\<exists>n. e = dependency_cycle n \<and> (n, n) \<in> (edges indexed)\<^sup>+" if "dependency_order cs = Inl e" for e
  proof -
    from that assms(1) have "foldM (\<lambda>st name. visit indexed [] name st) \<lparr>visited = [], ordered = []\<rparr>
        (sort (map fst indexed)) = Inl e" by (auto simp: dependency_order_def bind_eq_Inl)
    from walk_all_refusal [OF this assms(2)] show ?thesis by (simp add: dom_map_of_conv_image_fst)
  qed
  moreover have "acyclic (edges indexed)" if "dependency_order cs = Inr result" for result
    using that
  proof (rule dependency_order_Inr)
    fix indexed' names
    assume "index_by_name cs = Inr indexed'" "set names = dom (map_of indexed')"
      "topological (edges indexed') names"
    with assms(1) topological_acyclic [of "edges indexed" names] edges_domain show ?thesis by auto
  qed
  moreover have "\<not> acyclic (edges indexed)" if "dependency_order cs = Inl e" for e
    using refused [OF that] by (auto simp: acyclic_def)
  ultimately show ?thesis by (cases "dependency_order cs") auto
qed

definition lab_configuration :: "string \<Rightarrow> string list \<Rightarrow> jobject" where
  "lab_configuration name needs =
     [(''metadata'', JObj [(''name'', JStr name)]),
      (''spec'', JObj [(''dependsOn'', JArr (map (\<lambda>n. JObj [(''name'', JStr n)]) needs))])]"

definition lab_configurations :: "jobject list" where
  "lab_configurations = [lab_configuration ''apps'' [''cluster'', ''dns''], lab_configuration ''cluster'' [''base''],
     lab_configuration ''base'' [], lab_configuration ''dns'' [''base'', ''external'']]"

lemma dependency_order_topological_witness:
  "\<exists>result. dependency_order lab_configurations = Inr result \<and>
    map config_name result = map Inr [''base'', ''cluster'', ''dns'', ''apps'']"
proof -
  have o: "dependency_order lab_configurations = Inr (map (\<lambda>(n, needs). lab_configuration n needs)
    [(''base'', []), (''cluster'', [''base'']), (''dns'', [''base'', ''external'']), (''apps'', [''cluster'', ''dns''])])"
    by code_simp
  from dependency_order_topological [OF this] o show ?thesis
    by (auto simp: config_name_def lab_configuration_def lookup_simps)
qed

definition lab_cyclic :: "jobject list" where
  "lab_cyclic = [lab_configuration ''a'' [''b''], lab_configuration ''b'' [''a'']]"

lemma dependency_order_decides_witness:
  "\<exists>e. dependency_order lab_cyclic = Inl e \<and>
    (\<exists>n. e = dependency_cycle n \<and> (n, n) \<in> (edges [(''a'', lab_configuration ''a'' [''b'']),
       (''b'', lab_configuration ''b'' [''a''])])\<^sup>+)"
proof -
  have i: "index_by_name lab_cyclic = Inr [(''a'', lab_configuration ''a'' [''b'']),
      (''b'', lab_configuration ''b'' [''a''])]" by code_simp
  have "well_formed [(''a'', lab_configuration ''a'' [''b'']), (''b'', lab_configuration ''b'' [''a''])]"
    by (auto simp: well_formed_def lab_configuration_def dependencies_def lookup_simps split: if_splits)
  moreover have "dependency_order lab_cyclic = Inl (dependency_cycle ''a'')" by code_simp
  ultimately show ?thesis using dependency_order_decides [OF i] by blast
qed

end
