(* ===== verification/RunnerKubernetes.thy ===== *)
theory RunnerKubernetes
  imports RunnerTrust
begin

text \<open>
  The Kubernetes context of a runner (\<open>operators/runner_kubernetes.py\<close>): which control plane is
  asked, over which verified SSH identity, which kubeconfig is accepted, when it is thrown away
  because an identity changed meanwhile, and how the client binary is installed. The script that runs
  on the control plane is modelled too, in the environment of that host.
\<close>

section \<open>The control plane\<close>

definition cluster_label :: string where
  "cluster_label = ''homelab.io/kube-cluster''"

definition is_candidate :: "json \<Rightarrow> jobject \<Rightarrow> exn + bool" where
  "is_candidate server cluster =
     bind (jsub server ''metadata'') (\<lambda>metadata.
     bind (jget metadata ''labels'' (JObj [])) (\<lambda>labels.
     bind (jget labels cluster_label JNull) (\<lambda>a.
     bind (jpath (JObj cluster) [''metadata'', ''name'']) (\<lambda>name.
     if \<not> py_eq a name then Inr False
     else bind (jget labels ''homelab.io/kube-role'' JNull) (\<lambda>role.
       Inr (role = JStr ''control-plane''))))))"

fun candidates :: "string list \<Rightarrow> jobject \<Rightarrow> jobject list io" where
  "candidates [] cluster = ret []"
| "candidates (name # names) cluster =
     andthen (api_get ''servers'' (JStr name)) (\<lambda>server.
     andthen (lift (is_candidate (JObj server) cluster)) (\<lambda>chosen.
     andthen (candidates names cluster) (\<lambda>rest.
       ret (if chosen then server # rest else rest))))"

definition bound_elsewhere :: "json \<Rightarrow> jobject \<Rightarrow> exn + bool" where
  "bound_elsewhere server cluster =
     bind (jsub server ''metadata'') (\<lambda>metadata.
     bind (jget metadata ''annotations'' (JObj [])) (\<lambda>annotations.
     bind (jget annotations ''homelab.io/kube-cluster-uid'' JNull) (\<lambda>uid.
     bind (jpath (JObj cluster) [''metadata'', ''uid'']) (\<lambda>own.
       Inr (uid \<noteq> JNull \<and> \<not> py_eq uid own)))))"

definition control_plane :: "jobject \<Rightarrow> jobject \<Rightarrow> jobject io" where
  "control_plane inventory cluster =
     andthen (lift (inventory_hosts (JObj inventory))) (\<lambda>hosts.
     andthen (candidates (map fst hosts) cluster) (\<lambda>found.
     if length found \<noteq> 1
     then raise (ValueError ''The capture group must contain exactly one cluster control plane'')
     else
       andthen (lift (bound_elsewhere (JObj (hd found)) cluster)) (\<lambda>elsewhere.
       if elsewhere then raise (ValueError ''Control plane belongs to a replaced cluster'')
       else ret (hd found))))"

definition stable_settings :: "json \<Rightarrow> exn + jobject" where
  "stable_settings spec =
     bind (json_object spec ''KubeCluster spec'') (\<lambda>settings.
     bind (json_object (dget settings ''network'') ''KubeCluster network'') (\<lambda>network.
       Inr (dput ''network'' (JObj (filter (\<lambda>(k, v). k \<noteq> ''version'') network)) settings)))"

section \<open>The script on the control plane\<close>

definition remote_script :: string where
  "remote_script = join [CHR 0x0A]
    [[],
     ''import json, os, stat, subprocess, sys'',
     ''expected = json.load(sys.stdin)'',
     ''def protected(path):'',
     ''    info = os.lstat(path)'',
     ''    if not stat.S_ISREG(info.st_mode) or info.st_uid != 0 or stat.S_IMODE(info.st_mode) != 0o600:'',
     ''        raise ValueError('Unprotected cluster file')'',
     ''protected('/var/lib/homelab/kube-cluster.json')'',
     ''protected('/etc/kubernetes/admin.conf')'',
     ''with open('/var/lib/homelab/kube-cluster.json', encoding='utf-8') as stream:'',
     ''    marker = json.load(stream)'',
     ''identity = marker['identity']'',
     ''assert marker['phase'] == 'Ready'' @ [CHR 0x27],
     ''assert identity['clusterUID'] == expected['clusterUID']'',
     ''assert identity['serverUID'] == expected['serverUID']'',
     ''assert identity['role'] == 'control-plane'' @ [CHR 0x27],
     ''# The Flannel release is reconciled separately and is not part of node identity.'',
     ''installed = dict(identity['settings'], network={key: value for key, value in identity['settings']['network'].items() if key != 'version'})'',
     ''assert all(installed.get(field) == value for field, value in expected['settings'].items())'',
     ''command = ['/usr/local/bin/kubectl', '--kubeconfig=/etc/kubernetes/admin.conf', '--request-timeout=15s']'',
     ''namespace = json.loads(subprocess.check_output(command + ['get', 'namespace', 'kube-system', '-o', 'json']))'',
     ''assert namespace['metadata']['uid'] == marker['clusterNamespaceUID']'',
     ''ownership = json.loads(subprocess.check_output(command + ['-n', 'kube-system', 'get', 'configmap', 'homelab-identity', '-o', 'json']))'',
     ''assert ownership['data']['clusterUID'] == expected['clusterUID']'',
     ''print(subprocess.check_output(command + ['config', 'view', '--raw', '--minify', '-o', 'json']).decode())'',
     []]"

text \<open>A protected file: a regular file of root that nobody else can read.\<close>

definition protected :: "string \<Rightarrow> unit io" where
  "protected path =
     andthen (ask_json (FileTest ''lstat'' path)) (\<lambda>info.
     andthen (lift (bind (jsub info ''regular'') (\<lambda>regular.
                    bind (jsub info ''st_uid'') (\<lambda>uid.
                    bind (jsub info ''mode'') (\<lambda>mode.
                      Inr (\<not> truthy regular \<or> \<not> py_eq uid (JInt 0) \<or> \<not> py_eq mode (JInt 384))))))) (\<lambda>bad.
       refuse_if bad (ValueError ''Unprotected cluster file'')))"

definition assert_that :: "exn + bool \<Rightarrow> unit io" where
  "assert_that c = andthen (lift c) (\<lambda>b. refuse_if (\<not> b) (RuntimeError ''AssertionError''))"

definition equal_at :: "json \<Rightarrow> string list \<Rightarrow> json \<Rightarrow> string list \<Rightarrow> exn + bool" where
  "equal_at v ks w ls = bind (jpath v ks) (\<lambda>a. bind (jpath w ls) (\<lambda>b. Inr (py_eq a b)))"

definition settings_installed :: "json \<Rightarrow> json \<Rightarrow> exn + bool" where
  "settings_installed identity expected =
     bind (jpath identity [''settings'']) (\<lambda>s.
     bind (bind (jpath s [''network'']) jitems) (\<lambda>network.
     bind (jitems s) (\<lambda>settings.
     bind (bind (jsub expected ''settings'') jitems) (\<lambda>wanted.
       let installed = dput ''network'' (JObj (filter (\<lambda>(k, v). k \<noteq> ''version'') network)) settings in
       Inr (list_all (\<lambda>(k, v). py_eq (dget installed k) v) wanted)))))"

definition kubectl_command :: "string list" where
  "kubectl_command =
     [''/usr/local/bin/kubectl'', ''--kubeconfig=/etc/kubernetes/admin.conf'', ''--request-timeout=15s'']"

definition remote_read :: "json \<Rightarrow> json io" where
  "remote_read expected =
     andthen (protected ''/var/lib/homelab/kube-cluster.json'') (\<lambda>_.
     andthen (protected ''/etc/kubernetes/admin.conf'') (\<lambda>_.
     andthen (ask_json (ReadFile ''/var/lib/homelab/kube-cluster.json'')) (\<lambda>marker.
     andthen (lift (jsub marker ''identity'')) (\<lambda>identity.
     andthen (assert_that (bind (jsub marker ''phase'') (\<lambda>p. Inr (p = JStr ''Ready'')))) (\<lambda>_.
     andthen (assert_that (equal_at identity [''clusterUID''] expected [''clusterUID''])) (\<lambda>_.
     andthen (assert_that (equal_at identity [''serverUID''] expected [''serverUID''])) (\<lambda>_.
     andthen (assert_that (bind (jsub identity ''role'') (\<lambda>r. Inr (r = JStr ''control-plane'')))) (\<lambda>_.
     andthen (assert_that (settings_installed identity expected)) (\<lambda>_.
     andthen (ask_json (Process (kubectl_command @ [''get'', ''namespace'', ''kube-system'', ''-o'', ''json'']) [] 0)) (\<lambda>namespace.
     andthen (assert_that (equal_at namespace [''metadata'', ''uid''] marker [''clusterNamespaceUID''])) (\<lambda>_.
     andthen (ask_json (Process (kubectl_command @ [''-n'', ''kube-system'', ''get'', ''configmap'', ''homelab-identity'', ''-o'', ''json'']) [] 0)) (\<lambda>ownership.
     andthen (assert_that (equal_at ownership [''data'', ''clusterUID''] expected [''clusterUID''])) (\<lambda>_.
       ask_json (Process (kubectl_command @ [''config'', ''view'', ''--raw'', ''--minify'', ''-o'', ''json'']) [] 0))))))))))))))"

section \<open>Fetching the context\<close>

text \<open>The JSON a command printed, when it succeeded.\<close>

definition printed_json :: "string \<Rightarrow> reply \<Rightarrow> json io" where
  "printed_json message r =
     (case r of
        RJson v \<Rightarrow> ret v
      | RProc code out err \<Rightarrow> if code \<noteq> 0 then raise (ValueError message) else raise (LibError ''json.loads'')
      | _ \<Rightarrow> raise OSError)"

definition context_request :: "jobject \<Rightarrow> jobject \<Rightarrow> exn + json" where
  "context_request server cluster =
     bind (jpath (JObj cluster) [''metadata'', ''uid'']) (\<lambda>cluster_uid.
     bind (jpath (JObj server) [''metadata'', ''uid'']) (\<lambda>server_uid.
     bind (dsub cluster ''spec'') (\<lambda>spec.
     bind (stable_settings spec) (\<lambda>settings.
       Inr (JObj [(''clusterUID'', cluster_uid), (''serverUID'', server_uid), (''settings'', JObj settings)])))))"

definition fetch_context :: "jobject \<Rightarrow> jobject \<Rightarrow> jobject io" where
  "fetch_context server cluster =
     andthen (ask_text (TempDir ''runner-kubernetes-'')) (\<lambda>temporary.
     let known_hosts = temporary @ ''/known_hosts'' in
     andthen (lift (bind (jpath (JObj server) [''metadata'', ''name'']) (str_of TypeError))) (\<lambda>name.
     andthen (prepare (\<lambda>_. ret server)
       [(''all'', JObj [(''hosts'', JObj [(name, JObj [])])])]) (\<lambda>(trust, inventory).
     andthen (act (WriteFile known_hosts trust)) (\<lambda>_.
     andthen (lift (management_address server)) (\<lambda>host.
     (case host of
        None \<Rightarrow> raise (ValueError ''Control plane has no management address'')
      | Some host \<Rightarrow>
     andthen (ssh_args (JObj server) known_hosts ''yes'') (\<lambda>args.
     andthen (lift (ip_address host)) (\<lambda>a.
     andthen (lift (context_request server cluster)) (\<lambda>wanted.
     andthen get_float_text (\<lambda>float_text.
     andthen (ask (Process ([''ssh'', ''-T''] @ args @ [''ansible@'' @ a,
         ''sudo -n python3 -c '' @ shell_quote remote_script]) (dumps float_text default_style wanted) 90)) (\<lambda>r.
     andthen (printed_json ''Verified control-plane credential retrieval failed'' r) (\<lambda>decoded.
       lift (json_object decoded ''kubeconfig'')))))))))))))"

section \<open>Which kubeconfig is accepted\<close>

text \<open>The only entry of a list.\<close>

definition only_entry :: "jobject \<Rightarrow> string \<Rightarrow> exn + json" where
  "only_entry config key =
     (case dget config key of
        JArr [v] \<Rightarrow> Inr v
      | _ \<Rightarrow> Inl (ValueError ''Expected one self-contained Kubernetes context''))"

definition certificate_material :: "json \<Rightarrow> exn + unit" where
  "certificate_material v =
     bind (json_string v ''embedded certificate material'') (\<lambda>s.
       raise_if (s = []) (ValueError ''Empty certificate material''))"

definition validate_context :: "jobject \<Rightarrow> jobject \<Rightarrow> exn + jobject" where
  "validate_context config cluster =
     bind (raise_if (dget config ''apiVersion'' \<noteq> JStr ''v1'' \<or> dget config ''kind'' \<noteq> JStr ''Config'')
       (ValueError ''Invalid kubeconfig envelope'')) (\<lambda>_.
     bind (only_entry config ''clusters'') (\<lambda>c.
     bind (only_entry config ''users'') (\<lambda>u.
     bind (only_entry config ''contexts'') (\<lambda>x.
     bind (json_object c ''cluster entry'') (\<lambda>cluster_entry.
     bind (json_object u ''user entry'') (\<lambda>user_entry.
     bind (json_object x ''context entry'') (\<lambda>context_entry.
     bind (json_object (dget cluster_entry ''cluster'') ''cluster connection'') (\<lambda>connection.
     bind (json_object (dget user_entry ''user'') ''client credentials'') (\<lambda>credentials.
     bind (json_object (dget context_entry ''context'') ''context binding'') (\<lambda>ctx.
     bind (bind (dsub cluster ''spec'') (\<lambda>spec. jget spec ''controlPlaneEndpoint'' JNull)) (\<lambda>v.
     bind (json_string v ''control-plane endpoint'') (\<lambda>endpoint.
     bind (raise_if (dget connection ''server'' \<noteq> JStr (''https://'' @ endpoint))
       (ValueError ''Kubeconfig endpoint does not match the cluster'')) (\<lambda>_.
     bind (raise_if (set (map fst connection) \<noteq> {''server'', ''certificate-authority-data''})
       (ValueError ''Kubeconfig must use embedded CA trust without overrides'')) (\<lambda>_.
     bind (raise_if (set (map fst credentials) \<noteq> {''client-certificate-data'', ''client-key-data''})
       (ValueError ''Kubeconfig must use embedded client credentials without plugins'')) (\<lambda>_.
     bind (mapM certificate_material (map snd credentials @ [dget connection ''certificate-authority-data''])) (\<lambda>_.
     bind (raise_if (\<not> py_eq (dget ctx ''cluster'') (dget cluster_entry ''name'') \<or>
                     \<not> py_eq (dget ctx ''user'') (dget user_entry ''name'') \<or>
                     \<not> py_eq (dget config ''current-context'') (dget context_entry ''name''))
       (ValueError ''Kubeconfig context binding is inconsistent'')) (\<lambda>_.
     bind (jpath (JObj cluster) [''metadata'', ''name'']) (\<lambda>name.
       Inr (dput ''current-context'' name
             (dput ''contexts'' (JArr [JObj (dput ''name'' name context_entry)]) config))))))))))))))))))))"

section \<open>Changes during the retrieval\<close>

text \<open>\<open>a[k1]...[kn] != b[k1]...[kn]\<close> and \<open>a[k].get(l) != b[k].get(l)\<close>\<close>

definition differs_at :: "jobject \<Rightarrow> jobject \<Rightarrow> string list \<Rightarrow> exn + bool" where
  "differs_at a b ks = bind (jpath (JObj a) ks) (\<lambda>v. bind (jpath (JObj b) ks) (\<lambda>w. Inr (\<not> py_eq v w)))"

definition differs_in :: "jobject \<Rightarrow> jobject \<Rightarrow> string \<Rightarrow> string \<Rightarrow> exn + bool" where
  "differs_in a b k l =
     bind (bind (dsub a k) (\<lambda>v. jget v l JNull)) (\<lambda>v.
     bind (bind (dsub b k) (\<lambda>w. jget w l JNull)) (\<lambda>w. Inr (\<not> py_eq v w)))"

definition terminating :: "jobject \<Rightarrow> exn + bool" where
  "terminating r =
     bind (bind (dsub r ''metadata'') (\<lambda>m. jget m ''deletionTimestamp'' JNull)) (\<lambda>d. Inr (truthy d))"

definition cluster_changed :: "jobject \<Rightarrow> jobject \<Rightarrow> exn + bool" where
  "cluster_changed now cluster =
     orM (differs_at now cluster [''metadata'', ''uid'']) (
     orM (terminating now) (differs_at now cluster [''spec'']))"

definition server_changed :: "jobject \<Rightarrow> jobject \<Rightarrow> exn + bool" where
  "server_changed now server =
     orM (differs_at now server [''metadata'', ''uid'']) (
     orM (differs_in now server ''metadata'' ''labels'') (
     orM (terminating now) (
     orM (differs_in now server ''status'' ''hostSSH'')
         (bind (management_address now) (\<lambda>a. bind (management_address server) (\<lambda>b. Inr (a \<noteq> b)))))))"

definition verified_context :: "jobject \<Rightarrow> jobject \<Rightarrow> jobject io" where
  "verified_context inventory cluster =
     andthen (lift (terminating cluster)) (\<lambda>gone.
     if gone then raise (ValueError ''Cluster is terminating'') else
     andthen (control_plane inventory cluster) (\<lambda>server.
     andthen (fetch_context server cluster) (\<lambda>fetched.
     andthen (lift (validate_context fetched cluster)) (\<lambda>config.
     andthen (lift (jpath (JObj cluster) [''metadata'', ''name''])) (\<lambda>name.
     andthen (api_get ''kube-clusters'' name) (\<lambda>now.
     andthen (lift (cluster_changed now cluster)) (\<lambda>changed.
     if changed then raise (ValueError ''Cluster changed during credential retrieval'') else
     andthen (lift (jpath (JObj server) [''metadata'', ''name''])) (\<lambda>server_name.
     andthen (api_get ''servers'' server_name) (\<lambda>now_server.
     andthen (lift (server_changed now_server server)) (\<lambda>changed.
       if changed then raise (ValueError ''Control-plane identity changed during credential retrieval'')
       else ret config))))))))))"

section \<open>The client binary\<close>

abbreviation (input) one_or_more_digits :: rx where
  "one_or_more_digits \<equiv> rplus (RCls [(CHR ''0'', CHR ''9'')])"

definition rx_version :: rx where
  "rx_version = RSeq (ropt (rchr (CHR ''v''))) (RSeq one_or_more_digits (RSeq (rchr (CHR ''.''))
     (RSeq one_or_more_digits (RSeq (rchr (CHR ''.'')) one_or_more_digits))))"

definition rx_checksum :: rx where
  "rx_checksum = rtimes 64 (RCls [(CHR ''a'', CHR ''f''), (CHR ''0'', CHR ''9'')])"

definition client_architecture :: "string \<Rightarrow> exn + string" where
  "client_architecture machine =
     (if machine = ''x86_64'' then Inr ''amd64''
      else if machine = ''aarch64'' then Inr ''arm64''
      else Inl (ValueError ''Unsupported kubectl client architecture''))"

definition kubectl_url :: "string \<Rightarrow> string \<Rightarrow> string" where
  "kubectl_url version architecture =
     ''https://dl.k8s.io/release/v'' @ removeprefix version ''v'' @ ''/bin/linux/'' @ architecture @ ''/kubectl''"

text \<open>The largest download that is accepted: 128 MiB.\<close>

definition download_limit :: int where
  "download_limit = 128 * 1024 * 1024"

text \<open>The new binary is complete and executable before it takes the place of the old one.\<close>

definition replace_binary :: "string \<Rightarrow> string \<Rightarrow> unit io" where
  "replace_binary directory binary =
     andthen (act (FileChange [''mkdir'', directory])) (\<lambda>_.
     andthen (ask_text (FileChange [''mkstemp'', directory])) (\<lambda>pending.
       and_finally
         (andthen (act (WriteFile pending binary)) (\<lambda>_.
          andthen (act (FileChange [''chmod'', pending, ''0700''])) (\<lambda>_.
            act (FileChange [''replace'', pending, directory @ ''/kubectl'']))))
         (act (FileChange [''unlink'', pending]))))"

text \<open>The binary in place is kept when it has the published checksum.\<close>

definition up_to_date :: "string \<Rightarrow> string \<Rightarrow> bool io" where
  "up_to_date destination expected =
     andthen (file_test ''is_file'' destination) (\<lambda>there.
     if \<not> there then ret False
     else andthen (ask_text (ReadFile destination)) (\<lambda>binary. ret (hexdigest (sha256 binary) = expected)))"

definition install_kubectl :: "string \<Rightarrow> string \<Rightarrow> unit io" where
  "install_kubectl version directory =
     (if \<not> fullmatch rx_version version
      then raise (ValueError ''Cluster Kubernetes version must be an exact release'') else
     andthen (ask_text Machine) (\<lambda>machine.
     andthen (lift (client_architecture machine)) (\<lambda>architecture.
     let url = kubectl_url version architecture in
     andthen (ask_text (Http ''GET'' (url @ ''.sha256''))) (\<lambda>published.
     let expected = strip (take 1024 published) in
     if \<not> fullmatch rx_checksum expected then raise (ValueError ''Invalid kubectl checksum'') else
     andthen (up_to_date (directory @ ''/kubectl'') expected) (\<lambda>kept.
     if kept then ret () else
     andthen (ask_text (Http ''GET'' url)) (\<lambda>binary.
     if int (length binary) > download_limit \<or> hexdigest (sha256 binary) \<noteq> expected
     then raise (ValueError ''kubectl checksum mismatch'')
     else replace_binary directory binary))))))"

section \<open>The context of an interactive runner\<close>

definition rx_cluster_name :: rx where
  "rx_cluster_name = RSeq (RCls [(CHR ''a'', CHR ''z''), (CHR ''0'', CHR ''9'')])
     (RStar (RCls [(CHR ''a'', CHR ''z''), (CHR ''0'', CHR ''9''), (CHR ''.'', CHR ''.''), (CHR ''-'', CHR ''-'')]))"

fun any_test :: "string \<Rightarrow> string list \<Rightarrow> bool io" where
  "any_test test [] = ret False"
| "any_test test (p # ps) = andthen (file_test test p) (\<lambda>b. if b then ret True else any_test test ps)"

text \<open>Our own old credentials are removed before anything is resolved.\<close>

definition forget_context :: "string \<Rightarrow> string \<Rightarrow> unit io" where
  "forget_context config_path ownership =
     andthen (file_test ''is_file'' ownership) (\<lambda>ours.
       do_if ours
         (andthen (act (FileChange [''unlink'', config_path])) (\<lambda>_. act (FileChange [''unlink'', ownership]))))"

definition group_changed :: "jobject \<Rightarrow> jobject \<Rightarrow> exn + bool" where
  "group_changed now before =
     orM (differs_at now before [''metadata'', ''uid'']) (
     orM (differs_in now before ''metadata'' ''generation'') (differs_in now before ''metadata'' ''labels''))"

definition setup_context :: "string \<Rightarrow> string \<Rightarrow> bool io" where
  "setup_context group_name home =
     (let directory = home @ ''/.kube''; config_path = directory @ ''/config'';
          ownership = directory @ ''/homelab-context.json'' in
     andthen (any_test ''is_symlink'' [directory, ownership, config_path]) (\<lambda>linked.
     if linked then raise (ValueError ''Refusing symlinked Kubernetes context files'') else
     andthen (forget_context config_path ownership) (\<lambda>_.
     andthen (capture_inventory group_name) (\<lambda>(before, inventory).
     andthen (lift (bind (dsub before ''metadata'') (\<lambda>m.
                    bind (jget m ''labels'' (JObj [])) (\<lambda>labels. jget labels cluster_label JNull)))) (\<lambda>label.
     if label = JNull then ret False else
     andthen (file_test ''exists'' config_path) (\<lambda>foreign.
     if foreign then raise (ValueError ''Refusing to overwrite an unmanaged kubeconfig'') else
     andthen (lift (str_of TypeError label)) (\<lambda>name.
     if \<not> fullmatch rx_cluster_name name then raise (ValueError ''Invalid cluster label'') else
     andthen (api_get ''kube-clusters'' (JStr name)) (\<lambda>cluster.
     andthen (lift (terminating cluster)) (\<lambda>gone.
     if gone then raise (ValueError ''Cluster is terminating'') else
     andthen (verified_context inventory cluster) (\<lambda>config.
     andthen (capture_inventory group_name) (\<lambda>(now, _).
     andthen (lift (group_changed now before)) (\<lambda>changed.
     if changed then raise (ValueError ''Inventory context changed during credential retrieval'') else
     andthen (lift (bind (bind (dsub cluster ''spec'') (\<lambda>spec. jget spec ''kubernetesVersion'' JNull))
                         (\<lambda>v. json_string v ''Kubernetes version''))) (\<lambda>version.
     andthen (install_kubectl version (home @ ''/.local/bin'')) (\<lambda>_.
     andthen (act (FileChange [''mkdir'', directory])) (\<lambda>_.
     andthen (act (FileChange [''chmod'', directory, ''0700''])) (\<lambda>_.
     andthen (lift (jpath (JObj cluster) [''metadata'', ''uid''])) (\<lambda>uid.
     andthen (act (WriteJson ownership (JObj [(''clusterUID'', uid)]))) (\<lambda>_.
     andthen (act (WriteJson config_path (JObj config))) (\<lambda>_.
       ret True)))))))))))))))))))"

definition runner_main :: "string \<Rightarrow> int io" where
  "runner_main home =
     andthen (getenv_option ''CONTAINER_MODE'') (\<lambda>mode.
     if mode \<noteq> Some ''normal'' then ret 0
     else
       catch_all
         (andthen api_init (\<lambda>_.
          andthen (getenv ''INVENTORY_CAPTURE_GROUP'') (\<lambda>group_name.
          andthen (setup_context group_name home) (\<lambda>_. ret 0))))
         (ret 1))"

end
