(* ===== verification/Configurations.thy ===== *)
theory Configurations
  imports DependencyOrder RunnerKubernetes ServerOperation Provisioning
begin

text \<open>
  The Configuration operator (\<open>operators/configurations.py\<close>): resolving a Configuration to its
  current inputs, claiming the Servers it is run on, running the command between two guards,
  publishing what it observed, and the pass over all Configurations of a capture group. The
  \<open>Plan\<close> of the code is the record \<open>resolution\<close>; the Servers in it are changed in place while they are
  claimed, which is passed on here. \<open>source\<close> is the checkout the operator runs from.
\<close>

section \<open>Fields and references\<close>

definition as_dict :: "json \<Rightarrow> exn + jobject" where
  "as_dict v = (case v of JObj d \<Rightarrow> Inr d | _ \<Rightarrow> Inl TypeError)"

text \<open>\<open>r['spec']\<close> and \<open>r['status']\<close> of a resource, and its optional metadata.\<close>

definition part :: "jobject \<Rightarrow> string \<Rightarrow> exn + jobject" where
  "part r k = bind (dsub r k) as_dict"

definition meta :: "jobject \<Rightarrow> string \<Rightarrow> exn + json" where
  "meta r k = bind (part r ''metadata'') (\<lambda>m. dsub m k)"

definition meta_get :: "jobject \<Rightarrow> string \<Rightarrow> json \<Rightarrow> exn + json" where
  "meta_get r k dflt = bind (part r ''metadata'') (\<lambda>m. Inr (dgetd m k dflt))"

definition need_mapping :: "jobject \<Rightarrow> string \<Rightarrow> exn + jobject" where
  "need_mapping parent k = json_object (dget parent k) k"

definition reference :: "jobject \<Rightarrow> string \<Rightarrow> exn + jobject" where
  "reference parent k =
     bind (need_mapping parent k) (\<lambda>value.
     bind (json_string (dget value ''name'') (k @ ''.name'')) (\<lambda>_. Inr value))"

definition pinned_reference :: "jobject \<Rightarrow> string \<Rightarrow> exn + jobject" where
  "pinned_reference parent k =
     bind (reference parent k) (\<lambda>value.
     bind (json_string (dget value ''uid'') (k @ ''.uid'')) (\<lambda>_. Inr value))"

text \<open>The resource was replaced, or is being deleted.\<close>

definition reference_changed :: "jobject \<Rightarrow> jobject \<Rightarrow> exn + bool" where
  "reference_changed value ref =
     orM (if dget ref ''uid'' = JNull then Inr False
          else bind (meta value ''uid'') (\<lambda>uid. Inr (\<not> py_eq uid (dget ref ''uid''))))
         (bind (meta_get value ''deletionTimestamp'' JNull) (\<lambda>d. Inr (truthy d)))"

definition fetch_reference :: "string \<Rightarrow> jobject \<Rightarrow> jobject io" where
  "fetch_reference collection ref =
     andthen
       (catch
         (andthen (lift (json_string (dget ref ''name'') ''reference name'')) (\<lambda>name.
            api_get collection (JStr name)))
         (\<lambda>e. if e = HTTPError 404
              then raise (OperatorError ''ReferenceMissing'' ''Referenced resource is not available'')
              else raise e)) (\<lambda>value.
     andthen (lift (reference_changed value ref)) (\<lambda>changed.
       if changed
       then raise (OperatorError ''ReferenceChanged'' ''Referenced resource was replaced or deleted'')
       else ret value))"

section \<open>The command\<close>

definition bad_argument :: "json \<Rightarrow> bool" where
  "bad_argument v =
     (case v of JStr s \<Rightarrow> s = [] \<or> CHR 0x00 \<in> set s \<or> length s > 8192 | _ \<Rightarrow> True)"

definition string_of :: "json \<Rightarrow> string" where
  "string_of v = (case v of JStr s \<Rightarrow> s | _ \<Rightarrow> [])"

definition command_argv :: "jobject \<Rightarrow> exn + string list" where
  "command_argv configuration =
     bind (part configuration ''spec'') (\<lambda>spec.
     bind (need_mapping spec ''command'') (\<lambda>command.
       (case dget command ''argv'' of
          JArr arguments \<Rightarrow>
            if arguments = [] \<or> length arguments > 256
            then Inl (OperatorError ''InvalidCommand'' ''command.argv requires 1 to 256 arguments'')
            else if list_ex bad_argument arguments
            then Inl (OperatorError ''InvalidCommand'' ''Command arguments must be nonempty strings without NUL'')
            else Inr (map string_of arguments)
        | _ \<Rightarrow> Inl (OperatorError ''InvalidCommand'' ''command.argv requires 1 to 256 arguments''))))"

section \<open>Servers\<close>

definition paused :: "jobject \<Rightarrow> exn + bool" where
  "paused server =
     bind (part server ''spec'') (\<lambda>spec.
       if \<not> truthy (dgetd spec ''reconciliation'' (JObj [])) then Inr False
       else bind (need_mapping spec ''reconciliation'') (\<lambda>r. Inr (truthy (dget r ''paused''))))"

definition not_installed :: "jobject \<Rightarrow> jobject \<Rightarrow> exn + bool" where
  "not_installed server provisioning =
     orM (Inr (\<not> truthy (dget provisioning ''provisioned'') \<or> truthy (dget provisioning ''activeRunRef'') \<or>
               truthy (dget provisioning ''maintenance'')))
         (bind (meta_get server ''deletionTimestamp'' JNull) (\<lambda>d. Inr (truthy d)))"

text \<open>The mapping \<open>r[k]['serverRef']\<close> does not name the Server.\<close>

definition other_server :: "jobject \<Rightarrow> string \<Rightarrow> jobject \<Rightarrow> exn + bool" where
  "other_server r k server =
     bind (part r k) (\<lambda>d. bind (need_mapping d ''serverRef'') (\<lambda>ref.
     bind (meta server ''uid'') (\<lambda>uid. Inr (\<not> py_eq (dget ref ''uid'') uid))))"

definition run_unsuccessful :: "jobject \<Rightarrow> jobject \<Rightarrow> exn + bool" where
  "run_unsuccessful run server =
     orM (bind (part run ''status'') (\<lambda>s. Inr (dget s ''phase'' \<noteq> JStr ''Succeeded'')))
         (other_server run ''spec'' server)"

definition target_pending :: "string \<Rightarrow> exn" where
  "target_pending message = OperatorError ''TargetPending'' message"

definition installed_server :: "jobject \<Rightarrow> unit io" where
  "installed_server server =
     andthen (lift (part server ''status'')) (\<lambda>state.
     andthen (lift (need_mapping state ''provisioning'')) (\<lambda>provisioning.
     andthen (lift (refuse (paused server) (target_pending ''Server reconciliation is paused''))) (\<lambda>_.
     andthen (lift (refuse (not_installed server provisioning)
       (target_pending ''Server needs a verified installed OS without provisioning ownership''))) (\<lambda>_.
     andthen (lift (pinned_reference provisioning ''lastSuccessfulRunRef'')) (\<lambda>run_ref.
     andthen (fetch_reference ''provisioning-runs'' run_ref) (\<lambda>run.
     andthen (lift (refuse (run_unsuccessful run server)
       (target_pending ''Successful installation does not match Server identity''))) (\<lambda>_.
     andthen (lift (pinned_reference state ''machineRef'')) (\<lambda>machine_ref.
     andthen (fetch_reference ''machines'' machine_ref) (\<lambda>machine.
     andthen (lift (refuse (other_server machine ''status'' server)
       (target_pending ''Machine binding is not reciprocal''))) (\<lambda>_.
     andthen (lift (management_address server)) (\<lambda>_. ret ())))))))))))"

text \<open>What of a Server a Configuration depends on.\<close>

definition member_inputs :: "jobject \<Rightarrow> exn + json" where
  "member_inputs server =
     bind (meta server ''uid'') (\<lambda>uid.
     bind (meta_get server ''generation'' (JInt 0)) (\<lambda>generation.
     bind (part server ''status'') (\<lambda>status.
     bind (need_mapping status ''provisioning'') (\<lambda>provisioning.
     bind (bind (meta_get server ''labels'' (JObj [])) as_dict) (\<lambda>labels.
     bind (bind (meta_get server ''annotations'' (JObj [])) as_dict) (\<lambda>annotations.
     bind (need_mapping status ''hostSSH'') (\<lambda>host.
     bind (need_mapping status ''networking'') (\<lambda>networking.
       Inr (JObj
         [(''uid'', uid), (''generation'', generation), (''machineRef'', dget status ''machineRef''),
          (''installationRef'', dget provisioning ''lastSuccessfulRunRef''), (''labels'', JObj labels),
          (''annotations'', JObj annotations), (''keyPairRef'', dget host ''keyPairRef''),
          (''management'', dget networking ''management'')])))))))))"

section \<open>Targets\<close>

definition target_collection :: "string \<Rightarrow> exn + string" where
  "target_collection kind =
     (if kind = ''Server'' then Inr ''servers''
      else if kind = ''KubeCluster'' then Inr ''kube-clusters''
      else Inl (KeyError kind))"

definition inventory_pending :: "string \<Rightarrow> exn" where
  "inventory_pending message = OperatorError ''InventoryPending'' message"

definition only_servers :: json where
  "only_servers = JArr [JObj [(''apiVersion'', JStr ''homelab.io/v1alpha1''), (''kind'', JStr ''Server'')]]"

definition other_kinds :: "jobject \<Rightarrow> exn + bool" where
  "other_kinds capture =
     bind (part capture ''spec'') (\<lambda>spec. bind (need_mapping spec ''selector'') (\<lambda>selector.
       Inr (\<not> py_eq (dget selector ''matchKinds'') only_servers)))"

definition capture_changed :: "jobject \<Rightarrow> jobject \<Rightarrow> exn + bool" where
  "capture_changed captured capture =
     orM (bind (meta captured ''uid'') (\<lambda>a. bind (meta capture ''uid'') (\<lambda>b. Inr (\<not> py_eq a b))))
         (bind (meta_get captured ''generation'' JNull) (\<lambda>a.
          bind (meta_get capture ''generation'' JNull) (\<lambda>b. Inr (\<not> py_eq a b))))"

text \<open>Each host's variables, under the name of its Server, once the Server is known to be installed.\<close>

fun installed_hosts :: "jobject \<Rightarrow> jobject list \<Rightarrow> jobject \<Rightarrow> jobject io" where
  "installed_hosts raw [] hosts = ret hosts"
| "installed_hosts raw (server # servers) hosts =
     andthen (installed_server server) (\<lambda>_.
     andthen (lift (bind (meta server ''name'') (str_of TypeError))) (\<lambda>name.
     andthen (lift (bind (dsub raw name) as_dict)) (\<lambda>variables.
       installed_hosts raw servers (dput name (JObj variables) hosts))))"

definition resolve_targets :: "jobject \<Rightarrow> (jobject \<times> jobject list \<times> jobject \<times> jobject \<times> jobject) io" where
  "resolve_targets configuration =
     andthen (lift (part configuration ''spec'')) (\<lambda>spec.
     andthen (lift (reference spec ''targetRef'')) (\<lambda>ref.
     andthen (lift (json_string (dget ref ''kind'') ''target kind'')) (\<lambda>kind.
     andthen (lift (target_collection kind)) (\<lambda>collection.
     andthen (fetch_reference collection ref) (\<lambda>target.
     andthen (lift (reference spec ''inventoryCaptureGroupRef'')) (\<lambda>group_ref.
     andthen (fetch_reference ''inventory-capture-groups'' group_ref) (\<lambda>capture.
     andthen (lift (refuse (bind (part capture ''status'') (\<lambda>s. Inr (truthy (dget s ''omittedResources''))))
       (inventory_pending ''Configuration requires a complete capture; selected resources were omitted''))) (\<lambda>_.
     andthen (lift (refuse (other_kinds capture)
       (inventory_pending ''Configuration requires a Server-only capture group''))) (\<lambda>_.
     andthen (lift (bind (meta capture ''name'') (str_of TypeError))) (\<lambda>group_name.
     andthen (capture_inventory group_name) (\<lambda>(captured, inventory).
     andthen (lift (refuse (capture_changed captured capture)
       (inventory_pending ''Capture group changed during resolution''))) (\<lambda>_.
     andthen (resolved_inventory_hosts (JObj inventory)) (\<lambda>raw_hosts.
     if raw_hosts = [] then raise (inventory_pending ''Capture group has no managed hosts'') else
     andthen (collect (\<lambda>name. fetch_reference ''servers'' [(''name'', JStr name)]) (sort (map fst raw_hosts))) (\<lambda>servers.
     andthen (installed_hosts raw_hosts servers []) (\<lambda>hosts.
       ret (target, servers, capture, hosts, inventory))))))))))))))))"

section \<open>The source\<close>

definition git_command :: "string \<Rightarrow> string list" where
  "git_command source = [''git'', ''-c'', ''safe.directory='' @ source, ''-C'', source]"

definition rx_commit :: rx where
  "rx_commit = rtimes 40 (RCls [(CHR ''0'', CHR ''9''), (CHR ''a'', CHR ''f'')])"

definition source_candidates :: "jobject \<Rightarrow> jobject \<Rightarrow> exn + string list" where
  "source_candidates repository source_spec =
     (let revision = dget source_spec ''revision'' in
      if revision \<noteq> JNull then
        bind (json_string revision ''source revision'') (\<lambda>commit.
        if \<not> fullmatch rx_commit commit
        then Inl (OperatorError ''SourceMismatch'' ''Revision must be a full immutable commit'')
        else Inr [commit])
      else
        bind (part repository ''spec'') (\<lambda>spec.
        bind (json_string (dgetd spec ''ref'' (JStr ''main'')) ''repository ref'') (\<lambda>ref.
          Inr [''refs/remotes/origin/'' @ ref, ''refs/heads/'' @ ref, ''refs/tags/'' @ ref])))"

fun first_commit :: "string \<Rightarrow> string list \<Rightarrow> string io" where
  "first_commit source [] =
     raise (OperatorError ''SourceUnavailable'' ''Requested commit/ref is missing from pipeline Git input'')"
| "first_commit source (candidate # others) =
     andthen (ask_proc (Process (git_command source @
         [''rev-parse'', ''--verify'', ''--end-of-options'', candidate @ ''^{commit}'']) [] 0)) (\<lambda>(code, out, err).
       if code = 0 then ret (strip out) else first_commit source others)"

definition source_commit :: "string \<Rightarrow> jobject \<Rightarrow> jobject \<Rightarrow> string io" where
  "source_commit source repository source_spec =
     andthen (ask_text (Process (git_command source @ [''remote'', ''get-url'', ''origin'']) [] 0)) (\<lambda>origin.
     andthen (lift (part repository ''spec'')) (\<lambda>spec.
     if dget spec ''url'' \<noteq> JStr (strip origin)
     then raise (OperatorError ''SourceMismatch'' ''Source repository differs from pipeline code input'')
     else andthen (lift (source_candidates repository source_spec)) (first_commit source)))"

section \<open>Resolution\<close>

record resolution =
  configuration_of :: jobject
  target_of :: jobject
  servers_of :: "jobject list"
  hosts_of :: jobject
  input_revision :: string
  source_revision :: string
  references_of :: "json list"
  inventory_of :: jobject
  cluster_of :: "jobject option"

definition observed_reference :: "jobject \<Rightarrow> exn + json" where
  "observed_reference value =
     bind (dsub value ''kind'') (\<lambda>kind.
     bind (meta value ''name'') (\<lambda>name.
     bind (meta value ''uid'') (\<lambda>uid.
     bind (meta_get value ''generation'' (JInt 0)) (\<lambda>generation.
       Inr (JObj [(''kind'', kind), (''name'', name), (''uid'', uid), (''generation'', generation)])))))"

text \<open>The refusals of a prerequisite that make the dependent wait; the others are its own.\<close>

definition pending_reasons :: "string set" where
  "pending_reasons =
     {''Suspended'', ''TargetPending'', ''InventoryPending'', ''DependencyPending'', ''ReferenceMissing''}"

definition await_prerequisite :: "exn \<Rightarrow> 'a io" where
  "await_prerequisite e =
     (case e of
        OperatorError reason message \<Rightarrow>
          if reason \<in> pending_reasons
          then raise (OperatorError ''DependencyPending'' ''Prerequisite is unavailable or suspended'')
          else raise e
      | _ \<Rightarrow> raise e)"

text \<open>The prerequisite was not verified against the inputs it resolves to now.\<close>

definition prerequisite_stale :: "jobject \<Rightarrow> resolution \<Rightarrow> exn + bool" where
  "prerequisite_stale dependency resolved =
     bind (part dependency ''status'') (\<lambda>status.
     if dget status ''phase'' \<noteq> JStr ''Ready'' then Inr True else
     bind (meta_get dependency ''generation'' JNull) (\<lambda>generation.
     if \<not> py_eq (dget status ''observedGeneration'') generation then Inr True
     else Inr (dget status ''inputRevision'' \<noteq> JStr (input_revision resolved))))"

type_synonym planner = "jobject \<Rightarrow> string list \<Rightarrow> resolution io"

fun prerequisites :: "planner \<Rightarrow> string list \<Rightarrow> jobject list \<Rightarrow> jobject \<Rightarrow> jobject io" where
  "prerequisites planner stack [] revisions = ret revisions"
| "prerequisites planner stack (ref # refs) revisions =
     andthen (fetch_reference ''configurations'' ref) (\<lambda>dependency.
     andthen (catch (planner dependency stack) await_prerequisite) (\<lambda>resolved.
     andthen (lift (refuse (prerequisite_stale dependency resolved)
       (OperatorError ''DependencyPending'' ''Prerequisite is not verified against current inputs''))) (\<lambda>_.
     andthen (lift (bind (meta dependency ''uid'') (str_of TypeError))) (\<lambda>uid.
       prerequisites planner stack refs (dput uid (JStr (input_revision resolved)) revisions)))))"

definition prerequisite_inputs :: "planner \<Rightarrow> jobject \<Rightarrow> string list \<Rightarrow> jobject io" where
  "prerequisite_inputs planner configuration stack =
     andthen (lift (dependencies configuration)) (\<lambda>refs.
     if refs = [] then ret [] else
     andthen (lift (config_name configuration)) (\<lambda>name. prerequisites planner (stack @ [name]) refs []))"

section \<open>The plan\<close>

definition context_cluster :: "jobject \<Rightarrow> jobject option io" where
  "context_cluster configuration =
     andthen (lift (part configuration ''spec'')) (\<lambda>spec.
     andthen (lift (json_object (dgetd spec ''context'' (JObj [])) ''execution context'')) (\<lambda>ctx.
     if \<not> dhas ctx ''kubeClusterRef'' then ret None
     else
       andthen (lift (reference ctx ''kubeClusterRef'')) (\<lambda>ref.
       andthen (fetch_reference ''kube-clusters'' ref) (\<lambda>cluster. ret (Some cluster)))))"

text \<open>The inputs whose digest is the revision of a Configuration.\<close>

definition plan_inputs ::
  "jobject \<Rightarrow> jobject \<Rightarrow> jobject \<Rightarrow> jobject \<Rightarrow> string \<Rightarrow> jobject \<Rightarrow> jobject \<Rightarrow> json list \<Rightarrow> json list \<Rightarrow> jobject \<Rightarrow>
   jobject option \<Rightarrow> exn + jobject" where
  "plan_inputs configuration target capture repository commit inventory revisions members references hosts cluster =
     bind (dsub configuration ''spec'') (\<lambda>spec.
     bind (meta target ''uid'') (\<lambda>target_uid.
     bind (meta_get target ''generation'' (JInt 0)) (\<lambda>target_generation.
     bind (dsub target ''spec'') (\<lambda>target_spec.
     bind (meta capture ''uid'') (\<lambda>group_uid.
     bind (meta_get capture ''generation'' (JInt 0)) (\<lambda>group_generation.
     bind (dsub repository ''spec'') (\<lambda>repository_spec.
     bind (case cluster of
             None \<Rightarrow> Inr []
           | Some c \<Rightarrow>
               bind (meta c ''uid'') (\<lambda>uid. bind (dsub c ''spec'') (\<lambda>s.
                 Inr [(''kubernetesContext'', JObj [(''uid'', uid), (''spec'', s)])]))) (\<lambda>ctx.
       Inr ([(''spec'', spec), (''targetUID'', target_uid), (''targetGeneration'', target_generation),
             (''targetSpec'', target_spec), (''groupUID'', group_uid), (''groupGeneration'', group_generation),
             (''repositorySpec'', repository_spec), (''sourceRevision'', JStr commit),
             (''inventory'', JObj inventory), (''dependencies'', JObj revisions), (''members'', JArr members),
             (''resolvedReferences'', JArr references), (''hosts'', JObj hosts)] @ ctx)))))))))"

text \<open>
  What is resolved, with the inputs whose digest is its revision; the prerequisites are planned by
  \<open>planner\<close>.
\<close>

definition plan_facts ::
  "string \<Rightarrow> planner \<Rightarrow> jobject \<Rightarrow> string list \<Rightarrow> (resolution \<times> jobject) io" where
  "plan_facts source planner configuration stack =
     andthen (lift (config_name configuration)) (\<lambda>name.
     if name \<in> set stack then raise (OperatorError ''DependencyCycle'' ''Configuration dependency cycle'') else
     andthen (lift (part configuration ''spec'')) (\<lambda>spec.
     andthen (lift (refuse
        (orM (Inr (truthy (dget spec ''suspended'')))
             (bind (meta_get configuration ''deletionTimestamp'' JNull) (\<lambda>d. Inr (truthy d))))
        (OperatorError ''Suspended'' ''Configuration is suspended or terminating''))) (\<lambda>_.
     andthen (resolve_targets configuration) (\<lambda>(target, servers, capture, hosts, inventory).
     andthen (lift (command_argv configuration)) (\<lambda>_.
     andthen (lift (bind (need_mapping spec ''source'') (\<lambda>s. reference s ''repositoryRef''))) (\<lambda>repository_ref.
     andthen (fetch_reference ''git-repositories'' repository_ref) (\<lambda>repository.
     andthen (lift (need_mapping spec ''source'')) (\<lambda>source_spec.
     andthen (source_commit source repository source_spec) (\<lambda>commit.
     andthen (lift (mapM observed_reference ([target, capture, repository] @ servers))) (\<lambda>references.
     andthen (context_cluster configuration) (\<lambda>cluster.
     andthen (lift (case cluster of None \<Rightarrow> Inr [] | Some c \<Rightarrow> bind (observed_reference c) (\<lambda>r. Inr [r]))) (\<lambda>cluster_reference.
     andthen (lift (dependencies configuration)) (\<lambda>refs.
     andthen (collect (\<lambda>ref. andthen (fetch_reference ''configurations'' ref) (\<lambda>c. lift (observed_reference c))) refs)
       (\<lambda>dependency_references.
     andthen (prerequisite_inputs planner configuration stack) (\<lambda>revisions.
     andthen (lift (mapM member_inputs servers)) (\<lambda>members.
     let references = references @ cluster_reference @ dependency_references in
     andthen (lift (plan_inputs configuration target capture repository commit inventory revisions members
         references hosts cluster)) (\<lambda>inputs.
       ret (\<lparr>configuration_of = configuration, target_of = target, servers_of = servers, hosts_of = hosts,
             input_revision = [], source_revision = commit, references_of = references,
             inventory_of = inventory, cluster_of = cluster\<rparr>, inputs))))))))))))))))))"

definition plan_body :: "string \<Rightarrow> planner \<Rightarrow> planner" where
  "plan_body source planner configuration stack =
     andthen (plan_facts source planner configuration stack) (\<lambda>(r, inputs).
     andthen get_float_text (\<lambda>float_text.
       ret (r\<lparr>input_revision := digest float_text (JObj inputs)\<rparr>)))"

text \<open>
  The recursion of the code through the prerequisites, to a bounded depth: the interpreter ends a
  deeper one with an exception.
\<close>

definition recursion_error :: exn where
  "recursion_error = RuntimeError ''maximum recursion depth exceeded''"

fun plan_to :: "string \<Rightarrow> nat \<Rightarrow> planner" where
  "plan_to source 0 = (\<lambda>configuration stack. raise recursion_error)"
| "plan_to source (Suc n) = plan_body source (plan_to source n)"

text \<open>The interpreter's limit is 1000 nested calls; a level of the recursion takes two.\<close>

definition recursion_depth :: nat where
  "recursion_depth = 500"

definition plan_configuration :: "string \<Rightarrow> jobject \<Rightarrow> resolution io" where
  "plan_configuration source configuration = plan_to source recursion_depth configuration []"

section \<open>Reports\<close>

definition inputs_changed :: "string \<Rightarrow> exn" where
  "inputs_changed message = OperatorError ''InputsChanged'' message"

text \<open>Another lifetime or generation than the one read, or one that is being deleted.\<close>

definition superseded :: "jobject \<Rightarrow> jobject \<Rightarrow> exn + bool" where
  "superseded latest known =
     orM (capture_changed latest known)
         (bind (meta_get latest ''deletionTimestamp'' JNull) (\<lambda>d. Inr (truthy d)))"

definition report_status ::
  "string \<Rightarrow> string \<Rightarrow> json \<Rightarrow> string \<Rightarrow> resolution option \<Rightarrow> jobject" where
  "report_status phase reason generation revision resolved =
     [(''phase'', JStr phase), (''reason'', JStr reason), (''observedGeneration'', generation),
      (''conditions'', JArr [JObj [(''type'', JStr ''Ready''),
         (''status'', JStr (if phase = ''Ready'' then ''True'' else ''False'')), (''reason'', JStr reason),
         (''observedGeneration'', generation)]])] @
     (if revision = [] then [] else [(''inputRevision'', JStr revision)]) @
     (case resolved of
        None \<Rightarrow> []
      | Some r \<Rightarrow> [(''sourceRevision'', JStr (source_revision r)), (''resolvedReferences'', JArr (references_of r))])"

definition report_when_ready :: "string \<Rightarrow> jobject \<Rightarrow> jobject io" where
  "report_when_ready phase outputs =
     (if phase \<noteq> ''Ready'' then ret []
      else andthen (ask_text Now) (\<lambda>now. ret [(''lastVerifiedAt'', JStr now), (''outputs'', JObj outputs)]))"

definition report ::
  "jobject \<Rightarrow> string \<Rightarrow> string \<Rightarrow> string \<Rightarrow> resolution option \<Rightarrow> jobject \<Rightarrow> unit io" where
  "report configuration phase reason revision resolved outputs =
     andthen (lift (meta configuration ''name'')) (\<lambda>name.
     andthen (api_get ''configurations'' name) (\<lambda>latest.
     andthen (lift (refuse (superseded latest configuration)
       (inputs_changed ''Configuration changed before reporting''))) (\<lambda>_.
     andthen (lift (meta_get configuration ''generation'' (JInt 0))) (\<lambda>generation.
     andthen (report_when_ready phase outputs) (\<lambda>ready.
     andthen (getenv_option ''BUILD_URL'') (\<lambda>build_url.
     andthen (patch_status (JObj latest)
       (report_status phase reason generation revision resolved @ ready @
        (case build_url of None \<Rightarrow> [] | Some u \<Rightarrow> if u = [] then [] else [(''buildURL'', JStr u)]))) (\<lambda>_. ret ())))))))"

section \<open>Preparing an execution\<close>

definition checkout :: "string \<Rightarrow> jobject \<Rightarrow> string \<Rightarrow> string \<Rightarrow> string io" where
  "checkout source configuration destination expected =
     andthen (lift (bind (part configuration ''spec'') (\<lambda>spec. need_mapping spec ''source''))) (\<lambda>source_spec.
     andthen (lift (reference source_spec ''repositoryRef'')) (\<lambda>ref.
     andthen (fetch_reference ''git-repositories'' ref) (\<lambda>repository.
     andthen (source_commit source repository source_spec) (\<lambda>revision.
     if revision \<noteq> expected then raise (inputs_changed ''Configuration source changed before checkout'') else
     andthen (ask_text (Process (git_command source @ [''archive'', ''--format=tar'', revision]) [] 0)) (\<lambda>archive.
     andthen (act (FileChange [''mkdir'', destination])) (\<lambda>_.
     andthen (act (FileChange [''extract'', destination, archive])) (\<lambda>_. ret destination)))))))"

text \<open>Every group that lists hosts lists them with the given variables.\<close>

definition place_group :: "jobject \<Rightarrow> string \<times> json \<Rightarrow> exn + (string \<times> json)" where
  "place_group hosts entry =
     (case entry of (g, v) \<Rightarrow>
     bind (json_object v ''inventory group'') (\<lambda>members.
     if \<not> dhas members ''hosts'' then Inr (g, v)
     else
       bind (need_mapping members ''hosts'') (\<lambda>listed.
       bind (mapM (\<lambda>(name, _). bind (dsub hosts name) (\<lambda>variables. Inr (name, variables))) listed) (\<lambda>placed.
         Inr (g, JObj (dput ''hosts'' (JObj placed) members))))))"

definition place_hosts :: "jobject \<Rightarrow> jobject \<Rightarrow> exn + jobject" where
  "place_hosts hosts inventory = mapM (place_group hosts) inventory"

text \<open>The group of all hosts, with the defaults that keep the runner itself local and unprivileged.\<close>

definition with_defaults :: "jobject \<Rightarrow> jobject \<Rightarrow> exn + jobject" where
  "with_defaults hosts inventory =
     bind (json_object (dgetd inventory ''all'' (JObj [])) ''all inventory group'') (\<lambda>every.
     bind (json_object (dgetd every ''vars'' (JObj [])) ''all group variables'') (\<lambda>variables.
       Inr (dput ''all''
         (JObj (dput ''vars'' (JObj (dmerge variables
             [(''ansible_connection'', JStr ''local''), (''ansible_become'', JBool False)]))
           (dput ''hosts'' (JObj hosts) every))) inventory)))"

definition address_value :: "string option \<Rightarrow> json" where
  "address_value a = (case a of None \<Rightarrow> JNull | Some s \<Rightarrow> JStr s)"

text \<open>The transport of a managed host.\<close>

definition transport :: "string \<Rightarrow> jobject \<Rightarrow> jobject io" where
  "transport known server =
     andthen (lift (management_address server)) (\<lambda>host.
     andthen (ssh_args (JObj server) known ''yes'') (\<lambda>args.
     andthen (lift (meta server ''uid'')) (\<lambda>uid.
     andthen (lift (bind (part server ''status'') (\<lambda>s. bind (need_mapping s ''provisioning'') (\<lambda>p.
                    bind (pinned_reference p ''lastSuccessfulRunRef'') (\<lambda>r. dsub r ''uid''))))) (\<lambda>run_uid.
       ret [(''ansible_host'', address_value host), (''ansible_user'', JStr ''ansible''),
            (''ansible_connection'', JStr ''ssh''), (''ansible_become'', JBool True),
            (''ansible_ssh_args'', JStr (shell_join args)), (''ansible_ssh_common_args'', JStr []),
            (''ansible_ssh_extra_args'', JStr []), (''configuration_server_uid'', uid),
            (''configuration_run_uid'', run_uid)]))))"

fun protect_hosts :: "string \<Rightarrow> jobject list \<Rightarrow> jobject \<Rightarrow> jobject io" where
  "protect_hosts known [] hosts = ret hosts"
| "protect_hosts known (server # servers) hosts =
     andthen (lift (bind (meta server ''name'') (str_of TypeError))) (\<lambda>name.
     andthen (lift (bind (dsub hosts name) as_dict)) (\<lambda>variables.
     andthen (transport known server) (\<lambda>extra.
       protect_hosts known servers (dput name (JObj (dmerge variables extra)) hosts))))"

definition node_values :: "jobject \<Rightarrow> exn + json" where
  "node_values server =
     bind (meta server ''name'') (\<lambda>name.
     bind (meta server ''uid'') (\<lambda>uid.
     bind (bind (meta_get server ''labels'' (JObj [])) as_dict) (\<lambda>labels.
     bind (bind (meta_get server ''annotations'' (JObj [])) as_dict) (\<lambda>annotations.
       Inr (JObj [(''name'', name), (''uid'', uid), (''labels'', JObj labels), (''annotations'', JObj annotations)])))))"

definition execution_values :: "resolution \<Rightarrow> string \<Rightarrow> exn + jobject" where
  "execution_values r directory =
     (let c = configuration_of r in
     bind (part c ''spec'') (\<lambda>spec.
     bind (meta c ''name'') (\<lambda>name.
     bind (meta c ''uid'') (\<lambda>uid.
     bind (meta_get c ''generation'' (JInt 0)) (\<lambda>generation.
     bind (part c ''status'') (\<lambda>status.
     bind (dsub (target_of r) ''kind'') (\<lambda>kind.
     bind (dsub (target_of r) ''metadata'') (\<lambda>metadata.
     bind (dsub (target_of r) ''spec'') (\<lambda>target_spec.
     bind (mapM node_values (servers_of r)) (\<lambda>nodes.
       Inr [(''configuration_values'', dgetd spec ''values'' (JObj [])),
            (''configuration_workspace'', JStr directory),
            (''configuration_source_revision'', JStr (source_revision r)),
            (''configuration_ref'', JObj [(''name'', name), (''uid'', uid)]),
            (''configuration_generation'', generation),
            (''configuration_input_revision'', JStr (input_revision r)),
            (''configuration_observed'', dgetd status ''outputs'' (JObj [])),
            (''configuration_target'', JObj [(''kind'', kind), (''metadata'', metadata), (''spec'', target_spec)]),
            (''configuration_nodes'', JArr nodes)]))))))))))"

text \<open>The variables of the hosts as the group of all hosts holds them.\<close>

definition all_hosts :: "jobject \<Rightarrow> exn + jobject" where
  "all_hosts inventory = bind (jpath (JObj inventory) [''all'', ''hosts'']) as_dict"

definition prepare_execution :: "resolution \<Rightarrow> string \<Rightarrow> unit io" where
  "prepare_execution r directory =
     (let known = directory @ ''/known_hosts'' in
     andthen (lift (bind (place_hosts (hosts_of r) (inventory_of r)) (with_defaults (hosts_of r)))) (\<lambda>inventory.
     andthen (prepare read_server inventory) (\<lambda>(trust, inventory).
     andthen (act (WriteFile known trust)) (\<lambda>_.
     andthen (lift (all_hosts inventory)) (\<lambda>hosts.
     andthen (protect_hosts known (servers_of r) hosts) (\<lambda>hosts.
     andthen (lift (place_hosts hosts inventory)) (\<lambda>inventory.
     andthen (act (WriteJson (directory @ ''/inventory.json'') (JObj inventory))) (\<lambda>_.
     andthen (lift (execution_values r directory)) (\<lambda>values.
       act (WriteJson (directory @ ''/values.json'') (JObj values)))))))))))"

section \<open>Claims\<close>

definition claim_changed :: "jobject \<Rightarrow> jobject \<Rightarrow> exn + bool" where
  "claim_changed latest server =
     bind (meta latest ''uid'') (\<lambda>a.
     bind (meta server ''uid'') (\<lambda>b.
     if \<not> py_eq a b then Inr True else
     bind (part server ''status'') (\<lambda>known.
     if \<not> truthy (dget known ''operationRef'') then Inr True else
     bind (part latest ''status'') (\<lambda>now.
       Inr (\<not> py_eq (dget now ''operationRef'') (dget known ''operationRef''))))))"

definition verify_claim :: "jobject \<Rightarrow> unit io" where
  "verify_claim server =
     andthen (lift (meta server ''name'')) (\<lambda>name.
     andthen (api_get ''servers'' name) (\<lambda>latest.
     andthen (lift (refuse (claim_changed latest server)
       (OperatorError ''OwnershipChanged'' ''Server operation ownership changed''))) (\<lambda>_.
     andthen (verify_operation (JObj latest)) (\<lambda>_. ret ()))))"

definition verify_claims :: "jobject list \<Rightarrow> unit io" where
  "verify_claims servers = each verify_claim servers"

definition refresh_changed :: "jobject \<Rightarrow> jobject \<Rightarrow> exn + bool" where
  "refresh_changed latest server =
     bind (meta_get latest ''deletionTimestamp'' JNull) (\<lambda>d.
     if truthy d then Inr True else
     bind (member_inputs latest) (\<lambda>a.
     bind (member_inputs server) (\<lambda>b.
     if \<not> py_eq a b then Inr True else
     bind (part latest ''status'') (\<lambda>now.
     bind (part server ''status'') (\<lambda>known.
       Inr (\<not> py_eq (dget now ''hostSSH'') (dget known ''hostSSH'')))))))"

text \<open>The Server about to be claimed is the cell; it is updated in place.\<close>

definition refresh_claim_target :: "unit io" where
  "refresh_claim_target =
     andthen get_cell (\<lambda>server.
     andthen (lift (meta server ''name'')) (\<lambda>name.
     andthen (api_get ''servers'' name) (\<lambda>latest.
     andthen (lift (refuse (refresh_changed latest server)
       (inputs_changed ''Server inputs changed before operation acquisition''))) (\<lambda>_.
       set_cell (dmerge server latest)))))"

section \<open>Running the command\<close>

definition remote_work_uncertain :: "string \<Rightarrow> exn" where
  "remote_work_uncertain message = OperatorError ''RemoteWorkUncertain'' message"

definition command_failed :: "string \<Rightarrow> exn" where
  "command_failed message = OperatorError ''CommandFailed'' message"

definition require_completed_command :: "int \<Rightarrow> exn + unit" where
  "require_completed_command returncode =
     (if returncode \<in> {4, 6} \<or> returncode < 0
      then Inl (remote_work_uncertain
        ''SSH became unreachable or command was interrupted; inspect remote work before releasing claims'')
      else if returncode \<noteq> 0
      then Inl (command_failed ''Configuration command or installed-host verification failed'')
      else Inr ())"

definition kubernetes_environment :: "resolution \<Rightarrow> string \<Rightarrow> (string \<times> string) list io" where
  "kubernetes_environment r directory =
     (case cluster_of r of
        None \<Rightarrow> ret []
      | Some cluster \<Rightarrow>
          let path = directory @ ''/kubeconfig''; binaries = directory @ ''/bin'' in
          catch_all
            (andthen (verified_context (inventory_of r) cluster) (\<lambda>ctx.
             andthen (act (WriteJson path (JObj ctx))) (\<lambda>_.
             andthen (lift (bind (part cluster ''spec'') (\<lambda>s.
               json_string (dget s ''kubernetesVersion'') ''Kubernetes version''))) (\<lambda>version.
             andthen (install_kubectl version binaries) (\<lambda>_.
             andthen (getenv_default ''PATH'' []) (\<lambda>search.
               ret [(''KUBECONFIG'', path), (''PATH'', binaries @ '':'' @ search)]))))))
            (raise (OperatorError ''ContextUnavailable'' ''Verified Kubernetes context could not be prepared'')))"

definition command_paths :: "string \<Rightarrow> string \<Rightarrow> (string \<times> string) list" where
  "command_paths checkout_directory directory =
     [(''ANSIBLE_ROLES_PATH'', checkout_directory @ ''/roles''),
      (''ANSIBLE_PLAYS_PATH'', checkout_directory @ ''/plays''),
      (''ANSIBLE_FILTER_PLUGINS'', checkout_directory @ ''/filter_plugins''),
      (''ANSIBLE_INVENTORY'', directory @ ''/inventory.json''),
      (''ANSIBLE_DISPLAY_SKIPPED_HOSTS'', ''false''),
      (''ANSIBLE_CALLBACK_RESULT_FORMAT'', ''yaml''),
      (''ANSIBLE_INJECT_FACT_VARS'', ''false''),
      (''ANSIBLE_SSH_USETTY'', ''false''),
      (''CONFIGURATION_CONTEXT_FILE'', directory @ ''/values.json''),
      (''CONFIGURATION_WORKSPACE'', directory)]"

definition set_environment :: "(string \<times> string option) list \<Rightarrow> unit io" where
  "set_environment vs = each (\<lambda>(name, v). act (Setenv name v)) vs"

definition update_environment :: "(string \<times> string) list \<Rightarrow> unit io" where
  "update_environment vs = set_environment (map (\<lambda>(name, v). (name, Some v)) vs)"

definition restored_names :: "string list" where
  "restored_names = map fst (command_paths [] []) @ [''KUBECONFIG'', ''K8S_AUTH_KUBECONFIG'', ''PATH'']"

definition run_command :: "string list \<Rightarrow> string \<Rightarrow> nat \<Rightarrow> string \<Rightarrow> int io" where
  "run_command argv diagnostic limit cwd =
     andthen (act (WriteFile diagnostic [])) (\<lambda>_.
     andthen (ask_proc (Command argv cwd diagnostic limit)) (\<lambda>(code, out, err). ret code))"

text \<open>The command itself: prepared, and only then checked against the inputs again.\<close>

definition execute_command :: "string \<Rightarrow> resolution \<Rightarrow> string \<Rightarrow> string \<Rightarrow> int io" where
  "execute_command source r checkout_directory directory =
     andthen (kubernetes_environment r directory) (\<lambda>environment.
     andthen (update_environment environment) (\<lambda>_.
     andthen (verify_claims (servers_of r)) (\<lambda>_.
     andthen (plan_configuration source (configuration_of r)) (\<lambda>now.
     if input_revision now \<noteq> input_revision r
     then raise (inputs_changed ''Configuration changed during context preparation'') else
     andthen (lift (command_argv (configuration_of r))) (\<lambda>argv.
       run_command argv (directory @ ''/command.log'') 3600 checkout_directory)))))"

definition guard_command :: "string \<Rightarrow> string \<Rightarrow> string list" where
  "guard_command source directory =
     [''ansible-playbook'', source @ ''/plays/configuration_guard.yml'', ''-e'', ''@'' @ directory @ ''/values.json'']"

definition run_guard :: "string \<Rightarrow> string \<Rightarrow> int io" where
  "run_guard source directory =
     andthen (ask_proc (Ansible (guard_command source directory) (directory @ ''/guard.log'') 3600))
       (\<lambda>(code, out, err). ret code)"

text \<open>One stage: the claims are verified and announced, the work is done, its outcome is judged.\<close>

definition command_stage :: "jobject list \<Rightarrow> string \<Rightarrow> int io \<Rightarrow> unit io" where
  "command_stage servers name work =
     andthen (verify_claims servers) (\<lambda>_.
     andthen (each (\<lambda>server. operation_progress (JObj server) name) servers) (\<lambda>_.
     andthen work (\<lambda>code. lift (require_completed_command code))))"

definition command_stages :: "string \<Rightarrow> resolution \<Rightarrow> string \<Rightarrow> string \<Rightarrow> unit io" where
  "command_stages source r checkout_directory directory =
     andthen (command_stage (servers_of r) ''Verify installed hosts'' (run_guard source directory)) (\<lambda>_.
     andthen (command_stage (servers_of r) ''Execute command''
       (execute_command source r checkout_directory directory)) (\<lambda>_.
       command_stage (servers_of r) ''Verify installed hosts after command'' (run_guard source directory)))"

text \<open>
  An \<open>OSError\<close>: \<open>urllib.error.HTTPError\<close> is one too, so what the API client raises inside the block
  is caught with the failures to start the command.
\<close>

definition is_os_error :: "exn \<Rightarrow> bool" where
  "is_os_error e = (case e of OSError \<Rightarrow> True | HTTPError code \<Rightarrow> True | _ \<Rightarrow> False)"

definition classify_failure :: "exn \<Rightarrow> 'a io" where
  "classify_failure e =
     (if e = TimeoutExpired
      then raise (remote_work_uncertain ''Timed out; inspect remote work before releasing host claims'')
      else if is_os_error e then raise (command_failed ''Configuration command could not be executed'')
      else raise e)"

definition previous_environment :: "(string \<times> string option) list io" where
  "previous_environment = collect (\<lambda>name. andthen (getenv_option name) (\<lambda>v. ret (name, v))) restored_names"

definition run_commands :: "string \<Rightarrow> resolution \<Rightarrow> string \<Rightarrow> string \<Rightarrow> unit io" where
  "run_commands source r checkout_directory directory =
     andthen previous_environment (\<lambda>previous.
     andthen (update_environment (command_paths checkout_directory directory)) (\<lambda>_.
     andthen (set_environment [(''KUBECONFIG'', None), (''K8S_AUTH_KUBECONFIG'', None)]) (\<lambda>_.
       and_finally
         (catch (command_stages source r checkout_directory directory) classify_failure)
         (set_environment previous))))"

section \<open>Publishing\<close>

definition invalid_result :: "string \<Rightarrow> exn" where
  "invalid_result message = OperatorError ''InvalidResult'' message"

text \<open>The largest result that is read, in bytes.\<close>

definition result_limit :: int where
  "result_limit = 65536"

definition suspect_file :: "string \<Rightarrow> bool io" where
  "suspect_file path =
     andthen (file_test ''is_symlink'' path) (\<lambda>linked. if linked then ret True else
     andthen (file_test ''is_file'' path) (\<lambda>regular. if \<not> regular then ret True else
     andthen (ask_num (FileSize path)) (\<lambda>size. ret (size > of_int result_limit))))"

definition missing_file :: "string \<Rightarrow> bool io" where
  "missing_file path =
     andthen (file_test ''exists'' path) (\<lambda>there. if there then ret False else
     andthen (file_test ''is_symlink'' path) (\<lambda>linked. ret (\<not> linked)))"

definition not_public_json :: "exn \<Rightarrow> 'a io" where
  "not_public_json e =
     (case e of
        ValueError m \<Rightarrow> raise (invalid_result ''Command result must be a public JSON object'')
      | LibError m \<Rightarrow> raise (invalid_result ''Command result must be a public JSON object'')
      | _ \<Rightarrow> raise e)"

definition read_public_result :: "string \<Rightarrow> jobject option io" where
  "read_public_result path =
     andthen (missing_file path) (\<lambda>missing.
     if missing then ret None else
     andthen (suspect_file path) (\<lambda>suspect.
     if suspect then raise (invalid_result ''Command result must be a small regular JSON file'') else
     andthen
       (catch (andthen (ask_json (ReadFile path)) (\<lambda>v. lift (json_object v ''public playbook result'')))
              not_public_json)
       (\<lambda>d. ret (Some d))))"

definition fresh_target :: "jobject \<Rightarrow> string \<Rightarrow> jobject io" where
  "fresh_target target collection =
     andthen (lift (meta target ''name'')) (\<lambda>name.
     andthen (api_get collection name) (\<lambda>latest.
     andthen (lift (refuse (superseded latest target)
       (inputs_changed ''Target changed before reporting observations''))) (\<lambda>_. ret latest)))"

definition write_target :: "jobject \<Rightarrow> jobject \<Rightarrow> unit io" where
  "write_target status latest = andthen (patch_status (JObj latest) status) (\<lambda>_. ret ())"

definition publish_target_status :: "resolution \<Rightarrow> jobject \<Rightarrow> unit io" where
  "publish_target_status r status =
     andthen (lift (bind (bind (dsub (target_of r) ''kind'') (str_of TypeError)) target_collection)) (\<lambda>collection.
       optimistic (inputs_changed ''Target status conflicted; observations were not published'')
         (fresh_target (target_of r) collection)
         (write_target status))"

text \<open>The Configuration still resolves to the inputs it is executed with.\<close>

definition require_same_inputs :: "string \<Rightarrow> resolution \<Rightarrow> string \<Rightarrow> unit io" where
  "require_same_inputs source r message =
     andthen (plan_configuration source (configuration_of r)) (\<lambda>now.
       refuse_if (input_revision now \<noteq> input_revision r) (inputs_changed message))"

definition publish_observations :: "string \<Rightarrow> resolution \<Rightarrow> string \<Rightarrow> unit io" where
  "publish_observations source r directory =
     andthen (read_public_result (directory @ ''/target-observation.json'')) (\<lambda>observations.
     (case observations of
        None \<Rightarrow> ret ()
      | Some status \<Rightarrow>
          andthen (verify_claims (servers_of r)) (\<lambda>_.
          andthen (require_same_inputs source r ''Inputs changed before reporting observations'') (\<lambda>_.
            publish_target_status r status))))"

section \<open>Executing a Configuration\<close>

definition configuration_owner :: "jobject \<Rightarrow> exn + jobject" where
  "configuration_owner configuration =
     bind (meta configuration ''name'') (\<lambda>name.
     bind (meta configuration ''uid'') (\<lambda>uid.
       Inr [(''kind'', JStr ''Configuration''), (''name'', name), (''uid'', uid)]))"

text \<open>
  The stack of reservations: each Server is refreshed and claimed before the next one, and the body
  runs inside all of them, with the Servers as they were confirmed.
\<close>

fun claim_servers ::
  "jobject \<Rightarrow> jobject list \<Rightarrow> jobject list \<Rightarrow> (jobject list \<Rightarrow> 'a io) \<Rightarrow> 'a io" where
  "claim_servers configuration [] claimed body = body claimed"
| "claim_servers configuration (server # servers) claimed body =
     andthen (set_cell server) (\<lambda>_.
     andthen refresh_claim_target (\<lambda>_.
     andthen (lift (configuration_owner configuration)) (\<lambda>owner.
       reservation ''configure'' ''configurations'' (Some owner) ''servers'' (\<lambda>operation.
         andthen get_cell (\<lambda>confirmed.
           claim_servers configuration servers (claimed @ [confirmed]) body)))))"

definition after_failure :: "string \<Rightarrow> resolution \<Rightarrow> string \<Rightarrow> exn \<Rightarrow> unit io" where
  "after_failure source r directory e =
     (case e of
        OperatorError reason message \<Rightarrow>
          andthen (do_if (reason = ''CommandFailed'') (publish_observations source r directory)) (\<lambda>_. raise e)
      | _ \<Rightarrow> raise e)"

text \<open>What is done while all the claims are held; it returns the outputs.\<close>

definition execute_claimed :: "string \<Rightarrow> resolution \<Rightarrow> string \<Rightarrow> string \<Rightarrow> jobject list \<Rightarrow> jobject io" where
  "execute_claimed source r0 checkout_directory directory claimed =
     (let r = r0\<lparr>servers_of := claimed\<rparr>; configuration = configuration_of r in
     andthen (require_same_inputs source r ''Configuration inputs changed before execution'') (\<lambda>_.
     andthen (report configuration ''Reconciling'' ''ExecutingCommand'' (input_revision r) (Some r) []) (\<lambda>_.
     andthen (catch (run_commands source r checkout_directory directory) (after_failure source r directory)) (\<lambda>_.
     andthen (verify_claims (servers_of r)) (\<lambda>_.
     andthen (require_same_inputs source r ''Configuration inputs changed during execution'') (\<lambda>_.
     andthen (read_public_result (directory @ ''/result.json'')) (\<lambda>outputs.
     andthen (publish_observations source r directory) (\<lambda>_.
     andthen (read_public_result (directory @ ''/target-status.json'')) (\<lambda>target_status.
     andthen (case target_status of None \<Rightarrow> ret () | Some status \<Rightarrow> publish_target_status r status) (\<lambda>_.
       ret (case outputs of None \<Rightarrow> [] | Some d \<Rightarrow> d)))))))))))"

definition execute :: "string \<Rightarrow> resolution \<Rightarrow> string \<Rightarrow> unit io" where
  "execute source r directory =
     (let configuration = configuration_of r in
     andthen (checkout source configuration (directory @ ''/code'') (source_revision r)) (\<lambda>checkout_directory.
     andthen (prepare_execution r directory) (\<lambda>_.
     andthen (claim_servers configuration (servers_of r) [] (execute_claimed source r checkout_directory directory))
       (\<lambda>outputs.
       report configuration ''Ready'' ''CommandVerified'' (input_revision r) (Some r) outputs))))"

section \<open>The pass\<close>

fun selected :: "jobject list \<Rightarrow> jobject list io" where
  "selected [] = ret []"
| "selected (c # cs) =
     andthen (lift (bind (part c ''spec'') (\<lambda>spec. need_mapping spec ''inventoryCaptureGroupRef''))) (\<lambda>ref.
     andthen (getenv ''INVENTORY_CAPTURE_GROUP'') (\<lambda>group_name.
     andthen (selected cs) (\<lambda>rest.
       ret (if dget ref ''name'' = JStr group_name then c # rest else rest))))"

text \<open>The dependency order, or the order of the names when there is a cycle somewhere.\<close>

definition pass_order :: "jobject list \<Rightarrow> exn + jobject list" where
  "pass_order cs =
     (case dependency_order cs of
        Inr result \<Rightarrow> Inr result
      | Inl (OperatorError reason message) \<Rightarrow>
          bind (mapM (\<lambda>c. bind (config_name c) (\<lambda>name. Inr (name, c))) cs) (\<lambda>named.
            Inr (map snd (sort_key fst named)))
      | Inl e \<Rightarrow> Inl e)"

definition failure_reason :: "exn \<Rightarrow> string" where
  "failure_reason e = (case e of OperatorError reason message \<Rightarrow> reason | _ \<Rightarrow> ''ExecutionFailed'')"

definition waiting_reasons :: "string set" where
  "waiting_reasons =
     {''ReferenceMissing'', ''TargetPending'', ''InventoryPending'', ''DependencyPending'', ''OperationBusy'',
      ''InputsChanged''}"

definition failure_phase :: "string \<Rightarrow> string" where
  "failure_phase reason =
     (if reason = ''Suspended'' then ''Suspended''
      else if reason \<in> waiting_reasons then ''Pending'' else ''Failed'')"

definition reconcile_configuration :: "string \<Rightarrow> jobject \<Rightarrow> unit io" where
  "reconcile_configuration source configuration =
     andthen (plan_configuration source configuration) (\<lambda>r.
     andthen (ask_text (TempDir ''configuration-'')) (\<lambda>temporary. execute source r temporary))"

text \<open>One Configuration; the result says whether it failed.\<close>

definition configuration_pass :: "string \<Rightarrow> jobject \<Rightarrow> bool io" where
  "configuration_pass source configuration =
     catch (andthen (reconcile_configuration source configuration) (\<lambda>_. ret False))
       (\<lambda>e. if is_exception e
            then let reason = failure_reason e; phase = failure_phase reason in
              andthen (catch_all (report configuration phase reason [] None []) (ret ())) (\<lambda>_.
                ret (phase = ''Failed''))
            else raise e)"

fun configuration_passes :: "string \<Rightarrow> jobject list \<Rightarrow> bool \<Rightarrow> bool io" where
  "configuration_passes source [] failed = ret failed"
| "configuration_passes source (c # cs) failed =
     andthen (configuration_pass source c) (\<lambda>f. configuration_passes source cs (failed \<or> f))"

definition configurations_main :: "string \<Rightarrow> int io" where
  "configurations_main source =
     andthen api_init (\<lambda>_.
     andthen (api_list ''configurations'') (\<lambda>items.
     andthen (selected items) (\<lambda>configurations.
     andthen (lift (pass_order configurations)) (\<lambda>sequence.
     andthen (configuration_passes source sequence False) (\<lambda>failed.
       ret (if failed then 1 else 0))))))"

end
