(* ===== verification/ConfigurationEffects.thy ===== *)
theory ConfigurationEffects
  imports Configurations
begin

text \<open>
  What each step of the Configuration operator may ask of its environment. The locale \<open>resolver\<close> is the
  interface between a class of permitted requests and the steps: a class that permits what resolving
  inputs takes permits every step that only resolves, checks or prepares.
\<close>

section \<open>Classes of requests\<close>

text \<open>
  Requests that write no resource, run no play and no configured command, and leave the process
  environment alone.
\<close>

fun resolving :: "event \<Rightarrow> bool" where
  "resolving (ApiPatch c n u rv status) = False"
| "resolving (ApiCreate c k n spec) = False"
| "resolving (VaultRequest m url token body) = False"
| "resolving (Ansible argv diagnostic limit) = False"
| "resolving (Command argv cwd diagnostic limit) = False"
| "resolving (Setenv name value) = False"
| "resolving _ = True"

text \<open>The configured command.\<close>

fun runs :: "event \<Rightarrow> bool" where
  "runs (Command argv cwd diagnostic limit) = True"
| "runs _ = False"

lemma resolving_not_runs: "resolving e \<Longrightarrow> \<not> runs e"
  by (cases e) simp_all

lemma resolving_not_patches: "resolving e \<Longrightarrow> \<not> patches e"
  by (cases e) simp_all

section \<open>The names that are set\<close>

lemma kubernetes_names:
  assumes "kubernetes_environment r directory w = (Inr environment, w')"
  shows "fst ` set environment \<subseteq> set restored_names"
  using assms
  by (auto simp: kubernetes_environment_def restored_names_def command_paths_def catch_all_def catch_def andthen_def Let_def
      split: option.splits prod.splits sum.splits if_splits)

lemma previous_names:
  assumes "previous_environment w = (Inr previous, w')"
  shows "map fst previous = restored_names"
proof -
  have "collect (\<lambda>name. andthen (getenv_option name) (\<lambda>v. ret (name, v))) names w = (Inr previous, w') \<Longrightarrow>
    map fst previous = names" for names w previous
    by (induction names arbitrary: w previous) (auto simp: andthen_def split: prod.splits sum.splits)
  with assms show ?thesis by (simp add: previous_environment_def)
qed

section \<open>Steps that resolve\<close>

locale resolver =
  fixes A :: "event \<Rightarrow> bool"
  assumes resolves: "resolving e \<Longrightarrow> A e"
begin

lemma resolved_request [only_intros]:
  "A (ApiGet c n)" "A (ApiList c)" "A (Http m url)" "A (Process argv input limit)"
  "A (WriteFile path content)" "A (WriteJson path v)" "A (ReadFile path)" "A (Getenv k)" "A Now"
  "A Uuid" "A Machine" "A (TempDir prefix)" "A (FileTest t path)" "A (FileSize path)"
  "A (FileChange change)"
  by (rule resolves; simp)+

lemma only_prepare [only_intros]:
  assumes "\<And>name. only cw A (get name)"
  shows "only cw A (prepare get inventory)"
proof -
  have step: "only cw A (trust_host get st name)" for st name
    unfolding trust_host_def by (intro only_intros assms)
  have "only cw A (trust_hosts get st names)" for st names
    by (induction names arbitrary: st) (auto simp only: trust_hosts.simps intro!: only_intros step)
  then show ?thesis unfolding prepare_def by (intro only_intros)
qed

lemma only_read_server [only_intros]: "only cw A (read_server name)"
  unfolding read_server_def by (intro only_intros)

lemma only_candidates [only_intros]: "only cw A (candidates names cluster)"
proof (induction names)
  case (Cons n ns)
  then show ?case unfolding candidates.simps by (intro only_intros)
qed (simp only: candidates.simps only_ret)

lemma only_control_plane [only_intros]: "only cw A (control_plane inventory cluster)"
  unfolding control_plane_def by (intro only_intros)

lemma only_printed_json [only_intros]: "only cw A (printed_json message r)"
  unfolding printed_json_def by (intro only_intros)

lemma only_fetch_context [only_intros]: "only cw A (fetch_context server cluster)"
  unfolding fetch_context_def by (intro only_intros)

lemma only_verified_context [only_intros]: "only cw A (verified_context inventory cluster)"
  unfolding verified_context_def by (intro only_intros)

lemma only_replace_binary [only_intros]: "only cw A (replace_binary directory binary)"
  unfolding replace_binary_def by (intro only_intros)

lemma only_up_to_date [only_intros]: "only cw A (up_to_date destination expected)"
  unfolding up_to_date_def by (intro only_intros)

lemma only_install_kubectl [only_intros]: "only cw A (install_kubectl version directory)"
  unfolding install_kubectl_def by (intro only_intros)

lemma only_kubernetes_environment [only_intros]: "only cw A (kubernetes_environment r directory)"
  unfolding kubernetes_environment_def by (intro only_intros)

lemma only_fetch_reference [only_intros]: "only cw A (fetch_reference collection ref)"
  unfolding fetch_reference_def by (intro only_intros)

lemma only_installed_server [only_intros]: "only cw A (installed_server server)"
  unfolding installed_server_def by (intro only_intros)

lemma only_installed_hosts [only_intros]: "only cw A (installed_hosts raw servers hosts)"
proof (induction servers arbitrary: hosts)
  case (Cons s ss)
  then show ?case unfolding installed_hosts.simps by (intro only_intros)
qed (simp only: installed_hosts.simps only_ret)

lemma only_resolved_inventory [only_intros]: "only cw A (resolved_inventory_hosts inventory)"
  unfolding resolved_inventory_hosts_def by (intro only_intros)

lemma only_resolve_targets [only_intros]: "only cw A (resolve_targets configuration)"
  unfolding resolve_targets_def by (intro only_intros)

lemma only_first_commit [only_intros]: "only cw A (first_commit source names)"
proof (induction names)
  case (Cons n ns)
  then show ?case unfolding first_commit.simps by (intro only_intros)
qed (simp only: first_commit.simps only_raise)

lemma only_source_commit [only_intros]: "only cw A (source_commit source repository source_spec)"
  unfolding source_commit_def by (intro only_intros)

lemma only_context_cluster [only_intros]: "only cw A (context_cluster configuration)"
  unfolding context_cluster_def by (intro only_intros)

lemma only_await_prerequisite [only_intros]: "only cw A (await_prerequisite e)"
  unfolding await_prerequisite_def by (intro only_intros)

lemma only_prerequisites [only_intros]:
  assumes "\<And>c s. only cw A (planner c s)"
  shows "only cw A (prerequisites planner stack refs revisions)"
proof (induction refs arbitrary: revisions)
  case (Cons ref refs)
  then show ?case unfolding prerequisites.simps by (intro only_intros assms)
qed (simp only: prerequisites.simps only_ret)

lemma only_prerequisite_inputs [only_intros]:
  "(\<And>c s. only cw A (planner c s)) \<Longrightarrow> only cw A (prerequisite_inputs planner configuration stack)"
  unfolding prerequisite_inputs_def by (intro only_intros)

lemma only_plan_facts [only_intros]:
  assumes "\<And>c s. only cw A (planner c s)"
  shows "only cw A (plan_facts source planner configuration stack)"
  unfolding plan_facts_def by (intro only_intros assms)

lemma only_plan_body [only_intros]:
  assumes "\<And>c s. only cw A (planner c s)"
  shows "only cw A (plan_body source planner configuration stack)"
  unfolding plan_body_def by (intro only_intros assms)

lemma only_plan_to [only_intros]: "only cw A (plan_to source n configuration stack)"
proof (induction n arbitrary: configuration stack)
  case (Suc n)
  then show ?case unfolding plan_to.simps by (intro only_plan_body)
qed (simp only: plan_to.simps only_raise)

lemma only_plan_configuration [only_intros]: "only cw A (plan_configuration source configuration)"
  unfolding plan_configuration_def by (intro only_intros)

lemma only_require_same_inputs [only_intros]: "only cw A (require_same_inputs source r message)"
  unfolding require_same_inputs_def by (intro only_intros)

lemma only_checkout [only_intros]: "only cw A (checkout source configuration destination expected)"
  unfolding checkout_def by (intro only_intros)

lemma only_transport [only_intros]: "only cw A (transport known server)"
  unfolding transport_def by (intro only_intros)

lemma only_protect_hosts [only_intros]: "only cw A (protect_hosts known servers hosts)"
proof (induction servers arbitrary: hosts)
  case (Cons s ss)
  then show ?case unfolding protect_hosts.simps by (intro only_intros)
qed (simp only: protect_hosts.simps only_ret)

lemma only_prepare_execution [only_intros]: "only cw A (prepare_execution r directory)"
  unfolding prepare_execution_def by (intro only_intros)

lemma only_verify_operation [only_intros]: "only cw A (verify_operation target)"
  unfolding verify_operation_def by (intro only_intros)

lemma only_verify_claims [only_intros]: "only cw A (verify_claims servers)"
  unfolding verify_claims_def verify_claim_def by (intro only_intros)

lemma only_set_environment:
  assumes "\<And>name value. (name, value) \<in> set vs \<Longrightarrow> A (Setenv name value)"
  shows "only cw A (set_environment vs)"
  unfolding set_environment_def by (rule only_each) (use assms in \<open>auto intro: only_intros\<close>)

lemma only_update_environment:
  assumes "\<And>name value. (name, value) \<in> set vs \<Longrightarrow> A (Setenv name (Some value))"
  shows "only cw A (update_environment vs)"
  unfolding update_environment_def by (rule only_set_environment) (use assms in auto)

lemma only_read_public_result [only_intros]: "only cw A (read_public_result path)"
proof -
  have "only cw A (not_public_json e)" for e :: exn
    unfolding not_public_json_def by (cases e) (simp_all only: exn.case only_raise)
  then show ?thesis
    unfolding read_public_result_def missing_file_def suspect_file_def by (intro only_intros)
qed

lemma only_fresh_target [only_intros]: "only cw A (fresh_target target collection)"
  unfolding fresh_target_def by (intro only_intros)

lemma only_report_when_ready [only_intros]: "only cw A (report_when_ready phase outputs)"
  unfolding report_when_ready_def by (intro only_intros)

lemma only_fresh_operation [only_intros]: "only cw A (fresh_operation operation)"
  unfolding fresh_operation_def by (intro only_intros)

text \<open>Steps that write statuses, when writing them is permitted.\<close>

lemma only_reports:
  assumes "\<And>c n u rv status. A (ApiPatch c n u rv status)"
  shows "only cw A (report configuration phase reason revision resolved outputs)"
    "only cw A (operation_progress target step)" "only cw A (publish_target_status r status)"
    "only cw A (complete_operation operation outcome message)" "only cw A (publish_observations source r directory)"
proof -
  show "only cw A (report configuration phase reason revision resolved outputs)"
    "only cw A (operation_progress target step)" "only cw A (complete_operation operation outcome message)"
    and target: "only cw A (publish_target_status r status)" for status
    unfolding report_def operation_progress_def complete_operation_def write_outcome_def
      publish_target_status_def write_target_def
    by (intro only_intros assms)+
  show "only cw A (publish_observations source r directory)"
    unfolding publish_observations_def by (intro only_intros target)
qed

text \<open>The stages of the command, when running it is permitted too.\<close>

lemma only_command_stage:
  assumes "\<And>c n u rv status. A (ApiPatch c n u rv status)" "only cw A work"
  shows "only cw A (command_stage servers name work)"
  unfolding command_stage_def by (intro only_intros only_reports assms)

lemma only_run_guard:
  "(\<And>argv diagnostic limit. A (Ansible argv diagnostic limit)) \<Longrightarrow> only cw A (run_guard source directory)"
  unfolding run_guard_def by (intro only_intros)

lemma only_execute_command:
  assumes "\<And>argv cwd diagnostic limit. A (Command argv cwd diagnostic limit)"
    "\<And>name value. name \<in> set restored_names \<Longrightarrow> A (Setenv name value)"
  shows "only cw A (execute_command source r checkout_directory directory)"
  unfolding execute_command_def run_command_def
proof (rule only_andthen_returned)
  fix environment w w'
  assume "kubernetes_environment r directory w = (Inr environment, w')"
  then have "name \<in> set restored_names" if "(name, v) \<in> set environment" for name v
    using kubernetes_names that by fastforce
  then show "only cw A (andthen (update_environment environment) (\<lambda>_.
     andthen (verify_claims (servers_of r)) (\<lambda>_.
     andthen (plan_configuration source (configuration_of r)) (\<lambda>now.
     if input_revision now \<noteq> input_revision r
     then raise (inputs_changed ''Configuration changed during context preparation'') else
     andthen (lift (command_argv (configuration_of r))) (\<lambda>argv.
     andthen (act (WriteFile (directory @ ''/command.log'') [])) (\<lambda>_.
     andthen (ask_proc (Command argv checkout_directory (directory @ ''/command.log'') 3600)) (\<lambda>(code, out, err). ret code)))))))"
    by (intro only_intros only_update_environment assms)
qed (intro only_intros)

lemma only_classify_failure: "only cw A (classify_failure e)"
  unfolding classify_failure_def by (intro only_intros)

lemma only_command_stages:
  assumes "\<And>c n u rv status. A (ApiPatch c n u rv status)" "\<And>argv diagnostic limit. A (Ansible argv diagnostic limit)"
    "\<And>argv cwd diagnostic limit. A (Command argv cwd diagnostic limit)"
    "\<And>name value. name \<in> set restored_names \<Longrightarrow> A (Setenv name value)"
  shows "only cw A (command_stages source r checkout_directory directory)"
  unfolding command_stages_def
  by (intro only_intros only_command_stage only_run_guard only_execute_command assms)

lemma only_previous: "only cw A previous_environment"
  unfolding previous_environment_def by (intro only_intros)

lemma only_run_commands:
  assumes "\<And>c n u rv status. A (ApiPatch c n u rv status)" "\<And>argv diagnostic limit. A (Ansible argv diagnostic limit)"
    "\<And>argv cwd diagnostic limit. A (Command argv cwd diagnostic limit)"
    "\<And>name value. name \<in> set restored_names \<Longrightarrow> A (Setenv name value)"
  shows "only cw A (run_commands source r checkout_directory directory)"
  unfolding run_commands_def
proof (rule only_andthen_returned [OF only_previous])
  fix previous w w'
  assume "previous_environment w = (Inr previous, w')"
  then have "name \<in> set restored_names" if "(name, v) \<in> set previous" for name v
    using previous_names that by (metis image_eqI fst_conv set_map)
  moreover have "fst ` set (command_paths checkout_directory directory) \<subseteq> set restored_names"
    "{''KUBECONFIG'', ''K8S_AUTH_KUBECONFIG''} \<subseteq> set restored_names"
    by (simp_all add: restored_names_def command_paths_def)
  ultimately show "only cw A (andthen (update_environment (command_paths checkout_directory directory)) (\<lambda>_.
     andthen (set_environment [(''KUBECONFIG'', None), (''K8S_AUTH_KUBECONFIG'', None)]) (\<lambda>_.
     and_finally (catch (command_stages source r checkout_directory directory) classify_failure)
       (set_environment previous))))"
    by (intro only_intros only_set_environment only_update_environment only_command_stages only_classify_failure assms)
      (auto simp: image_subset_iff)
qed

lemma only_after_failure:
  assumes "\<And>c n u rv status. A (ApiPatch c n u rv status)"
  shows "only cw A (after_failure source r directory e)"
  unfolding after_failure_def by (intro only_intros only_reports assms)

end

text \<open>Every request; every request but the command; every request but status writes.\<close>

interpretation anything: resolver "\<lambda>e. True"
  by unfold_locales simp

interpretation commandless: resolver "\<lambda>e. \<not> runs e"
  by unfold_locales (rule resolving_not_runs)

interpretation patchless: resolver "\<lambda>e. \<not> patches e"
  by unfold_locales (rule resolving_not_patches)

end
