(* ===== verification/SystemProperties.thy ===== *)
theory SystemProperties
  imports SystemOperations ConfigurationEffects
begin

text \<open>
  What a system operation goes through before its play runs, and what is reported of it.
\<close>

section \<open>The target\<close>

text \<open>
  A Server that may be worked on: the reviewed Server on the reviewed Machine, not being deleted,
  provisioned, operated on or paused, with a management address.
\<close>

definition workable :: "jobject \<Rightarrow> string \<Rightarrow> string \<Rightarrow> bool" where
  "workable server uid machine_uid \<longleftrightarrow>
     (let metadata = dget server ''metadata''; status = dget server ''status''; provisioning = obj_field ''provisioning'' status in
      obj_field ''uid'' metadata = JStr uid \<and> \<not> truthy (obj_field ''deletionTimestamp'' metadata) \<and>
      obj_field ''uid'' (obj_field ''machineRef'' status) = JStr machine_uid \<and>
      \<not> truthy (obj_field ''maintenance'' provisioning) \<and> obj_field ''activeRunRef'' provisioning = JNull \<and>
      \<not> truthy (obj_field ''operationRef'' status) \<and>
      \<not> truthy (obj_field ''paused'' (obj_field ''reconciliation'' (dget server ''spec''))) \<and>
      (\<exists>host. target_address server = Inr host))"

lemma identity_changed_Inr:
  assumes "identity_changed server status uid machine_uid = Inr False"
  shows "obj_field ''uid'' (dget server ''metadata'') = JStr uid \<and> \<not> truthy (obj_field ''deletionTimestamp'' (dget server ''metadata'')) \<and>
    obj_field ''uid'' (obj_field ''machineRef'' status) = JStr machine_uid"
  using assms
  by (auto simp: identity_changed_def exn_simps map_of_dget dgetd_def dget_def obj_field_def split: if_splits option.splits)

lemma provisioning_owns_Inr:
  assumes "provisioning_owns provisioning = Inr False"
  shows "\<not> truthy (obj_field ''maintenance'' provisioning) \<and> obj_field ''activeRunRef'' provisioning = JNull"
  using assms
  by (auto simp: provisioning_owns_def exn_simps dgetd_def dget_def obj_field_def split: if_splits option.splits)

lemma check_target_workable:
  assumes "check_target server uid machine_uid = Inr u"
  shows "workable server uid machine_uid"
proof -
  define status where "status = dgetd server ''status'' (JObj [])"
  from assms obtain provisioning operation paused host where c:
      "jget status ''provisioning'' (JObj []) = Inr provisioning"
      "identity_changed server status uid machine_uid = Inr False" "provisioning_owns provisioning = Inr False"
      "jget status ''operationRef'' JNull = Inr operation" "\<not> truthy operation"
      "jchain (JObj server) [''spec'', ''reconciliation'', ''paused''] = Inr paused" "\<not> truthy paused"
      "target_address server = Inr host"
    unfolding check_target_def status_def [symmetric] by (auto simp: exn_simps)
  have "map_of server ''status'' \<noteq> None"
    using c(8) by (auto simp: target_address_def management_path_def exn_simps)
  then have s: "status = dget server ''status''" by (auto simp: status_def dgetd_def dget_def)
  have p: "obj_field k provisioning = obj_field k (obj_field ''provisioning'' status)" for k
    using c(1) by (auto simp: exn_simps dgetd_def dget_def obj_field_def split: option.splits)
  have "obj_field ''operationRef'' status = operation"
    using c(4) by (auto simp: exn_simps dgetd_def dget_def obj_field_def split: option.splits)
  moreover have "obj_field ''paused'' (obj_field ''reconciliation'' (dget server ''spec'')) = paused"
    using c(6) by (auto simp: exn_simps dgetd_def dget_def obj_field_def split: option.splits)
  ultimately show ?thesis
    using identity_changed_Inr [OF c(2)] provisioning_owns_Inr [OF c(3)] c(5,7,8) p
    by (simp add: workable_def Let_def s)
qed

lemma selected_server_Inr:
  assumes "selected_server name uid machine_uid w = (Inr server, w')"
  shows "workable server uid machine_uid"
  using assms check_target_workable by (auto simp: selected_server_def lift_def elim!: andthenE)

section \<open>Requests\<close>

fun plays :: "event \<Rightarrow> bool" where
  "plays (Ansible command f limit) = True"
| "plays _ = False"

interpretation playless: resolver "\<lambda>e. \<not> plays e"
proof
  show "resolving e \<Longrightarrow> \<not> plays e" for e by (cases e) simp_all
qed

interpretation play: claimed_work plays
  by unfold_locales simp_all

lemma only_system [only_intros]:
  "only cw (\<lambda>e. \<not> plays e) (selected_server name uid machine_uid)"
  "only cw (\<lambda>e. \<not> plays e) (prepare_target group_name name uid machine_uid directory)"
proof -
  show s: "only cw (\<lambda>e. \<not> plays e) (selected_server name uid machine_uid)" for name
    unfolding selected_server_def by (intro only_intros; simp)
  show "only cw (\<lambda>e. \<not> plays e) (prepare_target group_name name uid machine_uid directory)"
    unfolding prepare_target_def read_server_def by (intro only_intros s; simp)
qed

lemma only_operation [only_intros]:
  "only cw (\<lambda>e. \<not> plays e) (operation_files a)" "only cw (\<lambda>e. \<not> plays e) (operation_snapshot a inventory)"
  unfolding operation_files_def operation_snapshot_def by (intro only_intros; simp)+

lemma only_any_target [only_intros]:
  "only cw (\<lambda>e. True) (selected_server name uid machine_uid)"
  "only cw (\<lambda>e. True) (prepare_target group_name name uid machine_uid directory)"
  "only cw (\<lambda>e. True) (operation_files a)" "only cw (\<lambda>e. True) (operation_snapshot a inventory)"
  by (rule only_system [THEN only_mono] only_operation [THEN only_mono]; simp)+

lemma only_any_play: "only cw (\<lambda>e. True) (play_claimed source a directory inventory)"
  unfolding play_claimed_def by (intro only_intros play.only_any_bookkeeping TrueI)

lemma once_play_claimed: "at_most 1 plays (play_claimed source a directory inventory)"
proof -
  have "at_most 1 plays (ask_proc ev)" for ev
    unfolding ask_proc_def by (intro at_most_then_pure at_most_ask) (intro only_intros)
  then show ?thesis
    unfolding play_claimed_def
    by (intro at_most_after at_most_then_pure) (assumption | intro only_intros play.only_bookkeeping; simp)+
qed

lemma only_any_system:
  "only True (\<lambda>e. True) (reservation action operator requested_by collection (\<lambda>_. play_claimed source a directory inventory))"
  unfolding reservation_def by (intro only_intros only_any_play play.only_any_bookkeeping)

lemma returned_step:
  assumes "andthen m f w = (Inr y, w')" "only True (\<lambda>e. True) m"
  obtains x w1 where "m w = (Inr x, w1)" "f x w1 = (Inr y, w')" "later w w1"
  using assms(1) only_later [OF assms(2)] by (blast elim: andthenE)

lemma returned_pair:
  assumes "andthen m (\<lambda>(x, y). f x y) w = (Inr z, w')" "only True (\<lambda>e. True) m"
  obtains x y w1 where "m w = (Inr (x, y), w1)" "f x y w1 = (Inr z, w')" "later w w1"
proof -
  obtain p w1 where "m w = (Inr p, w1)" "(case p of (x, y) \<Rightarrow> f x y) w1 = (Inr z, w')" "later w w1"
    by (rule returned_step [OF assms])
  with that show thesis by (cases p) simp
qed

lemma at_most_pair: "(\<And>x y. at_most n K (f x y)) \<Longrightarrow> at_most n K (case p of (x, y) \<Rightarrow> f x y)"
  by (cases p) simp

lemma later_added: "later w w1 \<Longrightarrow> later w1 w2 \<Longrightarrow> added w w2 = added w w1 @ added w1 w2"
  unfolding later_def by (intro added_trans) blast+

lemma once_operation: "at_most 1 plays (operation_main source a)"
proof -
  have none: "at_most 1 plays (ret c)" for c :: int
    by (intro at_most_mono [OF at_most_none]) (intro only_intros, simp)
  have res: "at_most 1 plays (andthen (reservation action operator None ''servers'' (\<lambda>_. play_claimed source a directory inventory)) (\<lambda>_. ret 0))"
    for action operator directory inventory
    by (rule at_most_then_pure [OF play.reservation_at_most [OF once_play_claimed]]) (intro only_intros)
  show ?thesis
    unfolding operation_main_def
    by (rule res none at_most_if at_most_pair | (rule at_most_after, (intro only_intros; simp)))+
qed

lemma playless_step:
  assumes "andthen m f w = (r, w')" "made plays w w'" "only True (\<lambda>e. \<not> plays e) m" "\<And>x. only True (\<lambda>e. True) (f x)"
  obtains x w1 where "m w = (Inr x, w1)" "f x w1 = (r, w')" "made plays w1 w'" "later w w1"
  using made_andthen [OF assms(1,3,2,4)] only_later [OF assms(3)] by metis

lemma playless_pair:
  assumes "andthen m (\<lambda>(x, y). f x y) w = (r, w')" "made plays w w'" "only True (\<lambda>e. \<not> plays e) m"
    "\<And>x y. only True (\<lambda>e. True) (f x y)"
  obtains x y w1 where "m w = (Inr (x, y), w1)" "f x y w1 = (r, w')" "made plays w1 w'" "later w w1"
proof -
  obtain p w1 where "m w = (Inr p, w1)" "(case p of (x, y) \<Rightarrow> f x y) w1 = (r, w')" "made plays w1 w'" "later w w1"
    by (rule playless_step [OF assms(1-3) only_case_prod [OF assms(4)]])
  with that show thesis by (cases p) simp
qed

section \<open>Before the play\<close>

text \<open>The connection of the inventory: the one host, at this address, with the reviewed identities.\<close>

definition connects :: "jobject \<Rightarrow> string \<Rightarrow> string \<Rightarrow> string \<Rightarrow> string \<Rightarrow> bool" where
  "connects inventory name host uid machine_uid \<longleftrightarrow>
     (\<exists>variables. inventory = host_inventory name variables \<and> dget variables ''ansible_host'' = JStr host \<and>
        dget variables ''ansible_connection'' = JStr ''ssh'' \<and> dget variables ''ansible_ssh_common_args'' = JStr [] \<and>
        dget variables ''system_operation_server_uid'' = JStr uid \<and>
        dget variables ''system_operation_machine_uid'' = JStr machine_uid)"

lemma connects_built:
  "connects (host_inventory name (dmerge variables (operation_variables host args name uid machine_uid))) name host uid machine_uid"
  unfolding connects_def
  by (intro exI conjI, rule refl) (simp_all add: dmerge_def operation_variables_def)

lemma prepared_target:
  assumes "prepare_target group_name name uid machine_uid directory w = (Inr inventory, w')"
  obtains latest host where "workable latest uid machine_uid" "target_address latest = Inr host"
    "connects inventory name host uid machine_uid"
proof -
  from assms obtain latest v1 v2 host variables args where
      "selected_server name uid machine_uid v1 = (Inr latest, v2)" "target_address latest = Inr host"
      "inventory = host_inventory name (dmerge variables (operation_variables host args name uid machine_uid))"
    unfolding prepare_target_def by (auto simp: lift_def elim!: andthenE)
  moreover from this(1) have "workable latest uid machine_uid" by (rule selected_server_Inr)
  ultimately show thesis
    using that [of latest host] connects_built by simp
qed

lemma files_prepared:
  assumes "operation_files a w = (Inr (directory, inventory), w')"
  obtains host where "connects inventory (server_name a) host (server_uid a) (machine_id a)"
    "WriteJson (directory @ ''/inventory.json'') (JObj inventory) \<in> fst ` set (added w w')"
proof -
  let ?stored = "WriteJson (directory @ ''/inventory.json'') (JObj inventory)"
  from assms obtain v1 v2 group_name v3 d i v4 u v5 u' v6 where
      "later w v1" "later v1 v2" "later v2 v3" "later v3 v4" "later v4 v5" "later v5 v6"
      "prepare_target group_name (server_name a) (server_uid a) (machine_id a) d v3 = (Inr i, v4)"
      "act (WriteJson (d @ ''/inventory.json'') (JObj i)) v4 = (Inr u, v5)" "ret (d, i) v6 = (Inr (directory, inventory), w')"
    unfolding operation_files_def
    by - ((erule returned_step, (intro only_intros TrueI; fail))+, blast)
  note ls = this [simplified]
  obtain host where "connects inventory (server_name a) host (server_uid a) (machine_id a)"
    using prepared_target [OF ls(7)] ls(9) by metis
  moreover have "?stored \<in> fst ` set (added v4 v5)" using ls(5,8,9) by (auto simp: act_answered added_def)
  moreover have "later w v4" "later v5 w'" using ls by (auto intro: later_trans)
  then have "added w w' = (added w v4 @ added v4 v5) @ added v5 w'"
    using ls(5) by (metis later_added later_trans)
  ultimately show thesis using that by (simp add: image_Un)
qed

lemma snapshot_workable:
  assumes "operation_snapshot a inventory w = (Inr snapshot, w')"
  shows "workable snapshot (server_uid a) (machine_id a)"
  using assms selected_server_Inr by (auto simp: operation_snapshot_def lift_def refuse_if_def elim!: andthenE split: if_splits)

lemma moved_Inr:
  assumes "address_moved inventory name snapshot = Inr False" "connects inventory name host uid machine_uid"
  shows "target_address snapshot = Inr host"
  using assms
  by (auto simp: address_moved_def exn_simps connects_def host_inventory_def map_of_dget)

lemma made_play_claimed:
  assumes "play_claimed source a directory inventory w = (r, w')" "made plays w w'"
  obtains w3 w4 reply where "address_moved inventory (server_name a) (cell w) = Inr False"
    "operation_progress (JObj (cell w)) (''Execute '' @ play_name a) w3 = (Inr (), w4)" "later w w3"
    "history w' = history w4 @ [(Ansible (play_command source directory (play_name a)) (directory @ ''/'' @ play_name a @ ''.log'') 660, reply)]"
proof -
  let ?ev = "Ansible (play_command source directory (play_name a)) (directory @ ''/'' @ play_name a @ ''.log'') 660"
  from assms obtain c v1 moved v2 u v3 u' v4 u'' v5 where steps:
      "get_cell w = (Inr c, v1)" "lift (address_moved inventory (server_name a) c) v1 = (Inr moved, v2)"
      "refuse_if moved (OperatorError ''InputsChanged'' ''Management address changed during acquisition'') v2 = (Inr u, v3)"
      "later v3 v4" "operation_progress (JObj c) (''Execute '' @ play_name a) v4 = (Inr u'', v5)"
    and final: "andthen (ask_proc ?ev) (\<lambda>(code, out, err). refuse_if (code \<noteq> 0)
         (OperatorError (if code \<in> {4, 6} then ''RemoteWorkUncertain'' else ''SystemOperationFailed'')
            ''System operation failed; inspect Command logs'')) v5 = (r, w')"
    unfolding play_claimed_def
    by - ((erule (1) playless_step, (intro only_intros play.only_bookkeeping; simp; fail),
           (intro only_intros play.only_any_bookkeeping TrueI; fail))+, blast)
  have "\<exists>reply. history w' = history v5 @ [(?ev, reply)]"
    using final
    by (auto simp: ask_proc_def ask_def andthen_def Let_def refuse_if_def split: reply.splits sum.splits prod.splits if_splits)
  moreover have "c = cell w" "\<not> moved" "address_moved inventory (server_name a) c = Inr moved" "v3 = w"
    using steps(1-3) by (auto simp: lift_def refuse_if_def split: if_splits)
  ultimately show thesis using that steps(4,5) by auto
qed


section \<open>Success\<close>

lemma play_returned:
  assumes "play_claimed source a directory inventory w = (Inr u, w')"
  obtains w1 out err where "later w w1" "history w' = history w1 @
    [(Ansible (play_command source directory (play_name a)) (directory @ ''/'' @ play_name a @ ''.log'') 660, RProc 0 out err)]"
proof -
  let ?ev = "Ansible (play_command source directory (play_name a)) (directory @ ''/'' @ play_name a @ ''.log'') 660"
  from assms obtain v1 v2 v3 v4 v5 p v6 where
      "later w v1" "later v1 v2" "later v2 v3" "later v3 v4" "later v4 v5"
    and final: "ask_proc ?ev v5 = (Inr p, v6)" "(case p of (code, out, err) \<Rightarrow> refuse_if (code \<noteq> 0)
         (OperatorError (if code \<in> {4, 6} then ''RemoteWorkUncertain'' else ''SystemOperationFailed'')
            ''System operation failed; inspect Command logs'')) v6 = (Inr u, w')"
    unfolding play_claimed_def
    by - ((erule returned_step, (intro only_intros play.only_any_bookkeeping TrueI; fail))+, blast)
  then have "later w v5" by (blast intro: later_trans)
  moreover obtain code out err where p: "p = (code, out, err)" by (cases p)
  with final have "history w' = history v5 @ [(?ev, RProc 0 out err)]"
    by (auto simp: answered_simps refuse_if_def split: if_splits)
  ultimately show thesis by (rule that)
qed

lemma success_steps:
  assumes "operation_main source a w = (Inr 0, w')"
  obtains directory out err operation w1 where "\<not> arguments_refused a"
    "(Ansible (play_command source directory (play_name a)) (directory @ ''/'' @ play_name a @ ''.log'') 660, RProc 0 out err)
       \<in> set (added w w')"
    "complete_operation operation ''Succeeded'' ''Operation execution completed'' w1 = (Inr (), w')"
proof -
  have accepted: "\<not> arguments_refused a" using assms by (auto simp: operation_main_def)
  let ?body = "\<lambda>directory inventory. reservation (operation_name a) ''system-operations'' None ''servers'' (\<lambda>_. play_claimed source a directory inventory)"
  from assms accepted obtain directory inventory v1 v2 v3 v4 u v5 where
      "later w v1" "later v1 v2" "later v2 v3" "later v3 v4"
    and ends: "?body directory inventory v4 = (Inr u, v5)" "ret 0 v5 = (Inr (0 :: int), w')"
    unfolding operation_main_def
    by - (simp only: if_False, erule returned_pair, intro only_intros,
      (erule returned_step, (intro only_intros only_any_system TrueI; fail))+, blast)
  then have "later w v4" by (blast intro: later_trans)
  have res: "?body directory inventory v4 = (Inr (), w')" using ends by simp
  obtain s operation w1 w2 w3 where r: "later v4 w1" "confirm_claim (JObj s) operation ''servers'' w1 = (Inr (), w2)"
    "play_claimed source a directory inventory w2 = (Inr (), w3)"
    "complete_operation operation ''Succeeded'' ''Operation execution completed'' w3 = (Inr (), w')" "later w3 w'"
    by (rule reservation_returned [OF res only_any_play])
  let ?ev = "Ansible (play_command source directory (play_name a)) (directory @ ''/'' @ play_name a @ ''.log'') 660"
  obtain w4 out err where h: "later w2 w4" "history w3 = history w4 @ [(?ev, RProc 0 out err)]"
    by (rule play_returned [OF r(3)])
  have "later w w2" using \<open>later w v4\<close> r(1) only_later [OF play.only_any_bookkeeping(2) r(2)] by (blast intro: later_trans)
  then have "later w w4" using h(1) by (rule later_trans)
  have "(?ev, RProc 0 out err) \<in> set (added w w')"
  proof -
    obtain h' where "history w' = history w3 @ h'" using r(5) by (auto simp: later_def)
    moreover obtain x where "history w4 = history w @ x" using \<open>later w w4\<close> by (auto simp: later_def)
    ultimately have "added w w' = x @ (?ev, RProc 0 out err) # h'" using h(2) by (intro added_append) simp
    then show ?thesis by simp
  qed
  then show thesis using that accepted r(4) by blast
qed

lemma success_made:
  assumes "operation_main source a w = (Inr 0, w')"
  shows "made plays w w'"
  by (rule success_steps [OF assms]) (force simp: made_def)

text \<open>
  C34: the exit code 0 of a system operation means what it says: the arguments were accepted, the play
  of the operation ran and Ansible ended with 0, and the last thing done was to report the
  Operation as succeeded.
\<close>

theorem operation_succeeded:
  assumes "operation_main source a w = (Inr 0, w')"
  shows "\<not> arguments_refused a \<and> counted plays (added w w') = 1 \<and>
    (\<exists>directory out err operation w1.
       (Ansible (play_command source directory (play_name a)) (directory @ ''/'' @ play_name a @ ''.log'') 660, RProc 0 out err)
         \<in> set (added w w') \<and>
       complete_operation operation ''Succeeded'' ''Operation execution completed'' w1 = (Inr (), w'))"
proof -
  obtain directory out err operation w1 where s: "\<not> arguments_refused a"
    "(Ansible (play_command source directory (play_name a)) (directory @ ''/'' @ play_name a @ ''.log'') 660, RProc 0 out err)
       \<in> set (added w w')"
    "complete_operation operation ''Succeeded'' ''Operation execution completed'' w1 = (Inr (), w')"
    by (rule success_steps [OF assms])
  moreover have "counted plays (added w w') = 1"
    using at_mostD(2) [OF once_operation assms] made_counted [OF success_made [OF assms]] by (simp add: counted_def)
  ultimately show ?thesis by blast
qed

end
