(* ===== verification/SystemLab.thy ===== *)
theory SystemLab
  imports SystemProperties
begin

text \<open>
  A site in which a reboot of the Server \<open>srv\<close> succeeds: the Server refers to the Operation once that was
  created. Its key and the fingerprint of it are parameters, so that they never have to be computed.
\<close>

section \<open>The site\<close>

definition creates :: "event \<Rightarrow> bool" where
  "creates e = (case e of ApiCreate c k n spec \<Rightarrow> True | _ \<Rightarrow> False)"

definition held :: "history \<Rightarrow> bool" where
  "held h = list_ex (creates \<circ> fst) h"

definition yard_server :: "string \<Rightarrow> string \<Rightarrow> bool \<Rightarrow> jobject" where
  "yard_server k own b =
     [(''kind'', JStr ''Server''),
      (''metadata'', JObj [(''name'', JStr ''srv''), (''uid'', JStr ''u-1''), (''resourceVersion'', JStr ''7'')]),
      (''spec'', JObj []),
      (''status'', JObj ([(''machineRef'', JObj [(''uid'', JStr ''m-1'')]),
         (''networking'', JObj [(''management'', JObj [(''address'', JObj [(''address'', JStr ''10.0.0.5'')])])]),
         (''hostSSH'', JObj [(''keyReady'', JBool True), (''phase'', JStr ''Ready''),
            (''keyPairRef'', JStr ''k''), (''installedKeyPairRef'', JStr ''k''), (''publicKey'', JStr k),
            (''fingerprint'', JStr own), (''installedFingerprint'', JStr own)])] @
         (if b then [(''operationRef'', JObj [(''name'', JStr ''op''), (''uid'', JStr ''o-1'')])] else [])))]"

definition yard_operation :: jobject where
  "yard_operation =
     [(''kind'', JStr ''Operation''),
      (''metadata'', JObj [(''name'', JStr ''op''), (''uid'', JStr ''o-1''), (''resourceVersion'', JStr ''1'')]),
      (''spec'', JObj [(''targetRef'', JObj [(''kind'', JStr ''Server''), (''name'', JStr ''srv''), (''uid'', JStr ''u-1'')])]),
      (''status'', JObj [(''phase'', JStr ''Running'')])]"

definition yard_group :: jobject where
  "yard_group =
     [(''kind'', JStr ''InventoryCaptureGroup''),
      (''metadata'', JObj [(''name'', JStr ''grp''), (''uid'', JStr ''g-1''), (''resourceVersion'', JStr ''1''), (''generation'', JInt 1)]),
      (''spec'', JObj []),
      (''status'', JObj [(''observedGeneration'', JInt 1), (''inventory'', JObj trust_inventory)])]"

fun yard_answers :: "string \<Rightarrow> string \<Rightarrow> history \<Rightarrow> event \<Rightarrow> reply" where
  "yard_answers k own h (ApiGet c n) =
     RJson (JObj (if c = ''servers'' then yard_server k own (held h) else if c = ''operations'' then yard_operation else yard_group))"
| "yard_answers k own h (ApiPatch c n u rv status) = RJson (JObj yard_operation)"
| "yard_answers k own h (ApiCreate c kind n spec) = RJson (JObj yard_operation)"
| "yard_answers k own h (Process argv input limit) =
     RJson (JObj [(''_meta'', JObj [(''hostvars'', JObj [(''srv'', JObj [])])])])"
| "yard_answers k own h (Ansible argv f limit) = RProc 0 [] []"
| "yard_answers k own h (Getenv name) = RText ''value''"
| "yard_answers k own h (TempDir prefix) = RText ''/t''"
| "yard_answers k own h Uuid = RText ''op''"
| "yard_answers k own h e = RUnit"

definition yard :: "string \<Rightarrow> string \<Rightarrow> history \<Rightarrow> jobject \<Rightarrow> world" where
  "yard k own h c = \<lparr>answers = yard_answers k own, history = h, float_text = (\<lambda>q. []), cell = c\<rparr>"

definition reboot_arguments :: arguments where
  "reboot_arguments = \<lparr>operation_name = ''reboot'', server_name = ''srv'', server_uid = ''u-1'', machine_id = ''m-1'',
     binary_url = None, binary_sha256 = None\<rparr>"

section \<open>What computations return there\<close>

text \<open>While the claim is (not) held, \<open>m\<close> returns \<open>x\<close>.\<close>

definition yields :: "string \<Rightarrow> string \<Rightarrow> bool \<Rightarrow> 'a io \<Rightarrow> 'a \<Rightarrow> bool" where
  "yields k own b m x \<longleftrightarrow> (\<forall>h c. held h = b \<longrightarrow> fst (m (yard k own h c)) = Inr x)"

abbreviation uncreating :: "'a io \<Rightarrow> bool" where
  "uncreating m \<equiv> only True (\<lambda>e. \<not> creates e) m"

lemma yard_later: "later (yard k own h c) w \<Longrightarrow> w = yard k own (history w) (cell w)"
  by (simp add: later_def yard_def)

lemma yields_run:
  assumes "yields k own b m x" "uncreating m" "held h = b"
  obtains h' c' where "m (yard k own h c) = (Inr x, yard k own h' c')" "held h' = b"
proof -
  obtain w where m: "m (yard k own h c) = (Inr x, w)"
    using assms(1,3) by (metis yields_def prod.collapse)
  have "w = yard k own (history w) (cell w)" by (rule yard_later [OF only_later [OF assms(2) m]])
  moreover have "history w = h @ added (yard k own h c) w"
    using only_extends [OF assms(2) m] by (simp add: yard_def)
  moreover have "\<not> list_ex (creates \<circ> fst) (added (yard k own h c) w)"
    using only_made [OF assms(2) m] by (auto simp: list_ex_iff)
  ultimately have "held (history w) = b" using assms(3) by (metis held_def list_ex_append)
  with m \<open>w = _\<close> that show thesis by metis
qed

lemma yields_andthen:
  assumes "yields k own b m x" "uncreating m" "yields k own b (f x) y"
  shows "yields k own b (andthen m f) y"
  unfolding yields_def
proof (intro allI impI)
  fix h c
  assume "held h = b"
  then obtain h' c' where "m (yard k own h c) = (Inr x, yard k own h' c')" "held h' = b"
    by (rule yields_run [OF assms(1,2)])
  with assms(3) show "fst (andthen m f (yard k own h c)) = Inr y" by (simp add: andthen_run yields_def)
qed

lemma yields_lift: "m = Inr x \<Longrightarrow> yields k own b (lift m) x"
  by (simp add: yields_def)

lemma yields_ret: "yields k own b (ret x) x"
  by (simp add: yields_def)

lemma yields_quietly: "yields k own b (refuse_if False e) ()"
  by (simp add: yields_def)

lemma yields_asks:
  "yields k own b (act (WriteFile p s)) ()" "yields k own b (act (WriteJson p v)) ()"
  "yields k own b (ask_text (TempDir p)) ''/t''" "yields k own b (getenv name) ''value''" "yields k own b api_init ()"
  "yields k own b (ask_text Uuid) ''op''"
  "yields k own b (ask_json (Process argv i l)) (JObj [(''_meta'', JObj [(''hostvars'', JObj [(''srv'', JObj [])])])])"
  "yields k own b (ask_proc (Ansible argv f l)) (0, [], [])"
  unfolding yields_def by (intro allI impI; code_simp)+

lemma yard_resources:
  "resource (yard_server k own b) = Inr (yard_server k own b)" "resource yard_operation = Inr yard_operation"
  "resource yard_group = Inr yard_group"
  by (cases b; code_simp) code_simp+

lemma yields_gets:
  "yields k own b (api_get ''servers'' (JStr n)) (yard_server k own b)"
  "yields k own b (api_get ''operations'' (JStr n)) yard_operation"
  "yields k own b (api_get ''inventory-capture-groups'' (JStr n)) yard_group"
  by (simp_all add: yields_def api_get_def request_def ask_json_def ask_def andthen_def Let_def yard_def yard_resources)

lemma uncreating_steps [only_intros]:
  "only cw (\<lambda>e. \<not> creates e) (selected_server name uid machine_uid)"
  unfolding selected_server_def by (intro only_intros; simp add: creates_def)

section \<open>Before the claim\<close>

lemma yields_selected: "yields k own False (selected_server ''srv'' ''u-1'' ''m-1'') (yard_server k own False)"
  unfolding selected_server_def
proof (rule yields_andthen [OF yields_gets(1)])
  have "check_target (yard_server k own False) ''u-1'' ''m-1'' = Inr ()" by code_simp
  then show "yields k own False (andthen (lift (check_target (yard_server k own False) ''u-1'' ''m-1'')) (\<lambda>_. ret (yard_server k own False)))
     (yard_server k own False)"
    by (simp add: yields_def)
qed (intro only_intros; simp add: creates_def)

lemma yields_captured: "yields k own b (capture_inventory ''value'') (yard_group, trust_inventory)"
  unfolding yields_def by (intro allI impI) code_simp

lemma yields_resolved: "yields k own b (resolved_inventory_hosts (JObj trust_inventory)) [(''srv'', JObj [])]"
proof -
  have "inventory_hosts (JObj trust_inventory) = Inr [(''srv'', JObj [])]" by code_simp
  then have "yields k own b (andthen (lift (jpath (JObj [(''_meta'', JObj [(''hostvars'', JObj [(''srv'', JObj [])])])]) [''_meta'', ''hostvars'']))
      (\<lambda>resolved. andthen (lift (inventory_hosts (JObj trust_inventory))) (\<lambda>names.
       lift (mapM (\<lambda>(name, _). bind (jsub resolved name) (\<lambda>v. Inr (name, v))) names)))) [(''srv'', JObj [])]"
    by (simp add: yields_def lookup_simps)
  then show ?thesis
    unfolding resolved_inventory_hosts_def
    by (intro yields_andthen [OF yields_asks(3)] yields_andthen [OF yields_asks(2)] yields_andthen [OF yields_asks(7)])
      (assumption | intro only_intros; simp add: creates_def)+
qed

text \<open>The trust file of the host, for a key that is read as itself.\<close>

definition yard_line :: "string \<Rightarrow> string" where
  "yard_line k = ''server-u-1 '' @ k @ [CHR 0x0A]"

lemma yard_trusted:
  assumes "public_key k = Inr k" "fingerprint (JStr k) = Inr own"
  shows "trust_line ''srv'' (JObj (yard_server k own b)) = Inr (yard_line k)"
    "host_alias (JObj (yard_server k own b)) = Inr ''server-u-1''"
proof -
  have "fullmatch rx_uid ''u-1''" by code_simp
  then show a: "host_alias (JObj (yard_server k own b)) = Inr ''server-u-1''"
    by (simp add: host_alias_def yard_server_def lookup_simps)
  show "trust_line ''srv'' (JObj (yard_server k own b)) = Inr (yard_line k)"
    unfolding trust_line_def a
    by (simp add: yard_server_def verified_key_def reserved_def reserved_phases_def unverified_def mismatched_def
      key_of_def assms lookup_simps yard_line_def)
qed

definition yard_variables :: jobject where
  "yard_variables = [(''ansible_ssh_common_args'', JStr (alias_args ''server-u-1''))]"

lemma yields_prepared:
  assumes "public_key k = Inr k" "fingerprint (JStr k) = Inr own"
  shows "yields k own b (prepare read_server (host_inventory ''srv'' [])) (yard_line k, host_inventory ''srv'' yard_variables)"
proof -
  have hosts: "inventory_hosts (JObj (host_inventory ''srv'' [])) = Inr [(''srv'', JObj [])]"
    and aliased: "mapM (bind_alias ''srv'' ''server-u-1'') (host_inventory ''srv'' []) = Inr (host_inventory ''srv'' yard_variables)"
    by code_simp+
  have "yields k own b (trust_host read_server ([], host_inventory ''srv'' []) ''srv'') (yard_line k, host_inventory ''srv'' yard_variables)"
    unfolding trust_host_def prod.case read_server_def
    by (rule yields_andthen [OF yields_gets(1)], intro only_intros, simp add: creates_def)
      (simp add: yields_def yard_trusted [OF assms] aliased)
  moreover have "uncreating (trust_host read_server ([], host_inventory ''srv'' []) ''srv'')"
    unfolding trust_host_def prod.case read_server_def by (intro only_intros; simp add: creates_def)
  ultimately have "yields k own b (trust_hosts read_server ([], host_inventory ''srv'' []) [''srv''])
      (yard_line k, host_inventory ''srv'' yard_variables)"
    by (simp add: yields_andthen yields_ret)
  then show ?thesis by (simp add: prepare_def hosts)
qed

definition yard_args :: "string list" where
  "yard_args = (case ssh_args (JObj (yard_server [] [] False)) ''/t/known_hosts'' ''yes'' (yard [] [] [] []) of
     (Inr args, w) \<Rightarrow> args | (Inl e, w) \<Rightarrow> [])"

definition yard_inventory :: jobject where
  "yard_inventory = host_inventory ''srv''
     (dmerge yard_variables (operation_variables ''10.0.0.5'' yard_args ''srv'' ''u-1'' ''m-1''))"

lemma yields_args: "yields k own b (ssh_args (JObj (yard_server k own False)) ''/t/known_hosts'' ''yes'') yard_args"
  unfolding yields_def by (intro allI impI) code_simp

lemma uncreating_prepare [only_intros]: "uncreating (prepare read_server inventory)"
proof -
  have step: "uncreating (trust_host read_server st name)" for st name
    unfolding trust_host_def read_server_def by (intro only_intros; simp add: creates_def)
  have "uncreating (trust_hosts read_server st names)" for st names
    by (induction names arbitrary: st) (auto intro!: only_intros step)
  then show ?thesis unfolding prepare_def by (intro only_intros)
qed

lemma uncreating_resolved [only_intros]: "uncreating (resolved_inventory_hosts inventory)"
  unfolding resolved_inventory_hosts_def by (intro only_intros; simp add: creates_def)

lemma uncreating_target [only_intros]: "uncreating (prepare_target group_name name uid machine_uid directory)"
  unfolding prepare_target_def by (intro only_intros; simp add: creates_def)

lemma yields_target:
  assumes "public_key k = Inr k" "fingerprint (JStr k) = Inr own"
  shows "yields k own False (prepare_target ''value'' ''srv'' ''u-1'' ''m-1'' ''/t'') yard_inventory"
proof -
  have lifts: "host_variables [(''srv'', JObj [])] ''srv'' = Inr []" "dhas [(''srv'', JObj [])] ''srv''"
    "connection_changed (yard_server k own False) (yard_server k own False) = Inr False"
    "inventory_variables (host_inventory ''srv'' yard_variables) ''srv'' = Inr yard_variables"
    "target_address (yard_server k own False) = Inr ''10.0.0.5''"
    by code_simp+
  show ?thesis
    unfolding prepare_target_def
    apply (rule yields_andthen [OF yields_captured], intro only_intros, simp add: creates_def, unfold prod.case)
    apply (rule yields_andthen [OF yields_resolved], intro only_intros)
    apply (simp only: lifts not_True_eq_False)
    apply (rule yields_andthen [OF yields_quietly], intro only_intros)
    apply (rule yields_andthen [OF yields_selected], intro only_intros)
    apply (simp only: lifts andthen_simps)
    apply (rule yields_andthen [OF yields_prepared [OF assms]], intro only_intros, unfold prod.case)
    apply (rule yields_andthen [OF yields_asks(1)], intro only_intros, simp add: creates_def)
    apply (rule yields_andthen [OF yields_selected], intro only_intros)
    apply (simp only: lifts andthen_simps)
    apply (rule yields_andthen [OF yields_quietly], intro only_intros)
    apply (simp only: lifts andthen_simps append.simps)
    apply (rule yields_andthen [OF yields_args [simplified]], intro only_intros, simp add: creates_def)
    apply (simp add: yard_inventory_def yields_ret)
    done
qed

section \<open>Under the claim\<close>

lemma yard_merged: "dmerge (yard_server k own False) (yard_server k own True) = yard_server k own True"
  by code_simp

lemma yard_confirmed:
  assumes "held h"
  obtains h' where "confirm_claim (JObj (yard_server k own False)) (JObj yard_operation) ''servers'' (yard k own h (yard_server k own False)) =
    (Inr (), yard k own h' (yard_server k own True))" "held h'"
proof -
  let ?s = "yard_server k own True" and ?t = "yard_server k own False"
  have name: "jpath (JObj ?t) [''metadata'', ''name''] = Inr (JStr ''srv'')"
    and same: "bind (jpath (JObj ?s) [''metadata'', ''uid'']) (\<lambda>a.
                    bind (jpath (JObj ?t) [''metadata'', ''uid'']) (\<lambda>b.
                    if \<not> py_eq a b then Inr True else
                    bind (jpath (JObj ?s) [''status'']) (\<lambda>status.
                    bind (jget status ''operationRef'' JNull) (\<lambda>ref.
                    bind (operation_reference (JObj yard_operation)) (\<lambda>expected.
                      Inr (\<not> py_eq ref expected)))))) = Inr False"
    by code_simp+
  have "uncreating (api_get ''servers'' (JStr ''srv''))" by (intro only_intros; simp add: creates_def)
  then have get: "\<exists>h'. api_get ''servers'' (JStr ''srv'') (yard k own h ?t) = (Inr ?s, yard k own h' ?t) \<and> held h'"
    using assms by (intro exI [of _ "h @ [(ApiGet ''servers'' ''srv'', RJson (JObj ?s))]"])
      (simp add: api_get_def request_def ask_json_def ask_def andthen_def Let_def yard_def yard_resources held_def)
  then obtain h' where "api_get ''servers'' (JStr ''srv'') (yard k own h ?t) = (Inr ?s, yard k own h' ?t)" "held h'" by blast
  with that [of h'] show thesis
    by (simp only: confirm_claim_def name andthen_simps andthen_run same if_False run_simps)
      (simp add: andthen_def get_cell_def set_cell_def yard_def yard_merged)
qed

lemma uncreating_reports [only_intros]:
  "uncreating (operation_progress target step)" "uncreating (complete_operation operation outcome message)"
  unfolding operation_progress_def verify_operation_def complete_operation_def fresh_operation_def write_outcome_def
  by (intro only_intros; simp add: creates_def)+

lemma yields_progress:
  "yields k own True (operation_progress (JObj (yard_server k own True)) step) ()"
  "yields k own True (complete_operation (JObj yard_operation) outcome message) ()"
  unfolding yields_def by (intro allI impI; code_simp)+

lemma uncreating_play: "uncreating (play_claimed source a directory inventory)"
  unfolding play_claimed_def by (intro only_intros; simp add: creates_def)

lemma yard_played:
  assumes "held h"
  obtains h' c where "play_claimed ''/src'' reboot_arguments ''/t'' yard_inventory (yard k own h (yard_server k own True)) =
    (Inr (), yard k own h' c)" "held h'"
proof -
  let ?play = "\<lambda>snapshot. andthen (lift (address_moved yard_inventory (server_name reboot_arguments) snapshot)) (\<lambda>moved.
     andthen (refuse_if moved (OperatorError ''InputsChanged'' ''Management address changed during acquisition'')) (\<lambda>_.
     andthen api_init (\<lambda>_.
     andthen (operation_progress (JObj snapshot) (''Execute '' @ play_name reboot_arguments)) (\<lambda>_.
     andthen (ask_proc (Ansible (play_command ''/src'' ''/t'' (play_name reboot_arguments))
                (''/t'' @ ''/'' @ play_name reboot_arguments @ ''.log'') 660)) (\<lambda>(code, out, err).
       refuse_if (code \<noteq> 0)
         (OperatorError (if code \<in> {4, 6} then ''RemoteWorkUncertain'' else ''SystemOperationFailed'')
            ''System operation failed; inspect Command logs''))))))"
  have moved: "address_moved yard_inventory (server_name reboot_arguments) (yard_server k own True) = Inr False"
    by code_simp
  have yielded: "yields k own True (?play (yard_server k own True)) ()"
    apply (simp only: moved andthen_simps)
    apply (rule yields_andthen [OF yields_quietly], intro only_intros)
    apply (rule yields_andthen [OF yields_asks(5)], intro only_intros, simp add: creates_def)
    apply (rule yields_andthen [OF yields_progress(1)], intro only_intros)
    apply (rule yields_andthen [OF yields_asks(8)], intro only_intros, simp add: creates_def)
    apply (simp add: yields_ret)
    done
  have quiet: "uncreating (?play (yard_server k own True))" by (intro only_intros; simp add: creates_def)
  obtain h' c where
    "?play (yard_server k own True) (yard k own h (yard_server k own True)) = (Inr (), yard k own h' c)" "held h' = True"
    by (rule yields_run [OF yielded quiet]) (use assms in simp)
  moreover have "cell (yard k own h (yard_server k own True)) = yard_server k own True" by (simp add: yard_def)
  ultimately show thesis using that by (simp only: play_claimed_def andthen_def get_cell_def prod.case sum.case)
qed

lemma yard_reserved:
  assumes "\<not> held h"
  obtains h' c where "reservation ''reboot'' ''system-operations'' None ''servers''
      (\<lambda>_. play_claimed ''/src'' reboot_arguments ''/t'' yard_inventory) (yard k own h (yard_server k own False)) =
    (Inr (), yard k own h' c)"
proof -
  let ?t = "yard_server k own False" and ?body = "\<lambda>_. play_claimed ''/src'' reboot_arguments ''/t'' yard_inventory"
  obtain spec where spec: "operation_spec (JObj ?t) ''reboot'' ''system-operations'' None = Inr spec"
    by (simp add: operation_spec_def target_reference_def yard_server_def lookup_simps)
  have busy: "busy (JObj ?t) = Inr False" by code_simp
  obtain h1 where create: "create_operation spec (yard k own h ?t) = (Inr (JObj yard_operation), yard k own h1 ?t)" "held h1"
    by (simp add: create_operation_def create_resource_def request_def ask_json_def ask_text_def ask_def andthen_def catch_def
        Let_def yard_def yard_resources held_def creates_def)
  obtain h2 where confirm: "confirm_claim (JObj ?t) (JObj yard_operation) ''servers'' (yard k own h1 ?t) =
      (Inr (), yard k own h2 (yard_server k own True))" "held h2"
    by (rule yard_confirmed [OF create(2)])
  obtain h3 c3 where play: "?body (JObj yard_operation) (yard k own h2 (yard_server k own True)) = (Inr (), yard k own h3 c3)" "held h3"
    by (rule yard_played [OF confirm(2)])
  obtain h4 c4 where complete: "complete_operation (JObj yard_operation) ''Succeeded'' ''Operation execution completed''
      (yard k own h3 c3) = (Inr (), yard k own h4 c4)"
    using yields_run [OF yields_progress(2) uncreating_reports(2)] play(2) by blast
  have caught: "catch (andthen (confirm_claim (JObj ?t) (JObj yard_operation) ''servers'') (\<lambda>_. ?body (JObj yard_operation)))
      (abort_operation (JObj yard_operation)) (yard k own h1 ?t) = (Inr (), yard k own h3 c3)"
    using play by (simp add: catch_def andthen_run confirm)
  have "cell (yard k own h ?t) = ?t" by (simp add: yard_def)
  with that [of h4 c4] show thesis
    by (simp add: reservation_def andthen_run create(1) caught complete busy spec)
qed

section \<open>The run\<close>

lemma yields_files:
  assumes "public_key k = Inr k" "fingerprint (JStr k) = Inr own"
  shows "yields k own False (operation_files reboot_arguments) (''/t'', yard_inventory)"
proof -
  have "yields k own False (prepare_target ''value'' (server_name reboot_arguments) (server_uid reboot_arguments)
      (machine_id reboot_arguments) ''/t'') yard_inventory"
    using yields_target [OF assms] by (simp add: reboot_arguments_def)
  then show ?thesis
    unfolding operation_files_def
    by (intro yields_andthen [OF yields_asks(3)] yields_andthen [OF yields_asks(5)] yields_andthen [OF yields_asks(4)]
        yields_andthen [OF _ uncreating_target] yields_andthen [OF yields_asks(2)])
      (assumption | rule yields_ret | intro only_intros; simp add: creates_def)+
qed

lemma yields_snapshot: "yields k own False (operation_snapshot reboot_arguments yard_inventory) (yard_server k own False)"
proof -
  have moved: "address_moved yard_inventory (server_name reboot_arguments) (yard_server k own False) = Inr False" by code_simp
  have selected: "yields k own False (selected_server (server_name reboot_arguments) (server_uid reboot_arguments)
      (machine_id reboot_arguments)) (yard_server k own False)"
    using yields_selected by (simp add: reboot_arguments_def)
  show ?thesis
    unfolding operation_snapshot_def
    by (rule yields_andthen [OF yields_asks(5)], intro only_intros, simp add: creates_def,
        rule yields_andthen [OF selected], intro only_intros, simp only: moved andthen_simps,
        rule yields_andthen [OF yields_quietly], intro only_intros, rule yields_ret)
qed

lemma uncreating_operation [only_intros]:
  "uncreating (operation_files a)" "uncreating (operation_snapshot a inventory)"
  unfolding operation_files_def operation_snapshot_def by (intro only_intros; simp add: creates_def)+

lemma yard_run:
  assumes "public_key k = Inr k" "fingerprint (JStr k) = Inr own"
  obtains w' where "operation_main ''/src'' reboot_arguments (yard k own [] []) = (Inr 0, w')"
proof -
  let ?server = "yard_server k own False"
  let ?start = "andthen (operation_files reboot_arguments) (\<lambda>(directory, inventory).
     andthen (operation_snapshot reboot_arguments inventory) (\<lambda>snapshot.
     andthen api_init (\<lambda>_. ret (directory, inventory, snapshot))))"
  let ?rest = "\<lambda>(directory, inventory, snapshot). andthen (set_cell snapshot) (\<lambda>_.
     andthen (reservation ''reboot'' ''system-operations'' None ''servers''
        (\<lambda>_. play_claimed ''/src'' reboot_arguments directory inventory)) (\<lambda>_. ret 0))"
  have start: "operation_main ''/src'' reboot_arguments = andthen ?start ?rest"
    by (simp add: operation_main_def reboot_arguments_def arguments_refused_def andthen_assoc case_prod_unfold)
  have "yields k own False ?start (''/t'', yard_inventory, ?server)"
    by (rule yields_andthen [OF yields_files [OF assms]], intro only_intros)
      (simp, rule yields_andthen [OF yields_snapshot], intro only_intros,
       rule yields_andthen [OF yields_asks(5)], intro only_intros, simp add: creates_def, rule yields_ret)
  moreover have "uncreating ?start"
    by (intro only_intros; simp add: creates_def)
  ultimately obtain h c where run: "?start (yard k own [] []) = (Inr (''/t'', yard_inventory, ?server), yard k own h c)" "held h = False"
    by (rule yields_run [where h = "[]" and c = "[]"]) (simp add: held_def)
  obtain h' c' where res: "reservation ''reboot'' ''system-operations'' None ''servers''
      (\<lambda>_. play_claimed ''/src'' reboot_arguments ''/t'' yard_inventory) (yard k own h ?server) = (Inr (), yard k own h' c')"
    using yard_reserved run(2) by blast
  have "(yard k own h c)\<lparr>cell := ?server\<rparr> = yard k own h ?server" by (simp add: yard_def)
  then have final: "?rest (''/t'', yard_inventory, ?server) (yard k own h c) = (Inr 0, yard k own h' c')"
    by (simp add: andthen_def res)
  have "andthen ?start ?rest (yard k own [] []) = ?rest (''/t'', yard_inventory, ?server) (yard k own h c)"
    by (rule andthen_run(1), rule run(1))
  also note final
  finally have "operation_main ''/src'' reboot_arguments (yard k own [] []) = (Inr 0, yard k own h' c')"
    unfolding start .
  then show thesis by (rule that)
qed

text \<open>A key and its fingerprint.\<close>

lemma yard_key:
  obtains own where "public_key trust_key = Inr trust_key" "fingerprint (JStr trust_key) = Inr own"
  using trust_key_valid fingerprint_Inr [OF trust_key_valid] by blast

theorem operation_succeeded_witness:
  "\<exists>own w' directory out err.
     operation_main ''/src'' reboot_arguments (yard trust_key own [] []) = (Inr 0, w') \<and>
     (Ansible (play_command ''/src'' directory ''reboot'') (directory @ ''/'' @ ''reboot'' @ ''.log'') 660, RProc 0 out err)
       \<in> set (added (yard trust_key own [] []) w')"
proof -
  obtain own w' where run: "operation_main ''/src'' reboot_arguments (yard trust_key own [] []) = (Inr 0, w')"
    using yard_key yard_run by metis
  have name: "play_name reboot_arguments = ''reboot''" by (simp add: play_name_def reboot_arguments_def)
  from operation_succeeded [OF run, unfolded name] run show ?thesis by blast
qed


end
