(* ===== verification/ProvisionEffects.thy ===== *)
theory ProvisionEffects
  imports Provisioning
begin

text \<open>
  What each step of the provisioning operator may ask of its environment. The locale \<open>reader\<close> is
  the interface between a class of permitted requests and the steps: a class that permits
  observation permits every step that only observes, and a step that writes needs what it writes.
  The interpretations at the end give the classes the safety properties use.
\<close>

section \<open>Classes of requests\<close>

text \<open>A request that changes nothing outside the private directory of the pass.\<close>

fun reading :: "event \<Rightarrow> bool" where
  "reading (ApiPatch c n u rv status) = False"
| "reading (ApiCreate c k n spec) = False"
| "reading (VaultRequest m url token body) = False"
| "reading (Ansible argv diagnostic limit) = False"
| "reading (Setenv k v) = False"
| "reading (FileChange c) = False"
| "reading (Command argv cwd diagnostic limit) = False"
| "reading (WriteJson path v) = (\<not> endswith path ''/variables.json'')"
| "reading _ = True"

text \<open>
  The variables file of a stage is what authorizes Ansible to erase the disk: the roles refuse the
  destructive tasks unless \<open>provision_destructive_authorized\<close> is true.
\<close>

fun authorizes :: "event \<Rightarrow> bool" where
  "authorizes (WriteJson path (JObj v)) =
     (endswith path ''/variables.json'' \<and> dget v ''provision_destructive_authorized'' = JBool True)"
| "authorizes _ = False"

text \<open>The phase a status write sets, if it sets one.\<close>

fun written_phase :: "event \<Rightarrow> json option" where
  "written_phase (ApiPatch c n u rv status) = map_of status ''phase''"
| "written_phase _ = None"

lemma variables_path [simp]: "endswith (d @ ''/variables.json'') ''/variables.json''"
  by (auto simp: endswith_iff)

lemma inventory_path [simp]: "\<not> endswith (d @ ''/inventory.json'') ''/variables.json''"
  by (auto simp: endswith_iff)

lemma reading_not_authorizes: "reading e \<Longrightarrow> \<not> authorizes e"
  by (induction e rule: authorizes.induct) simp_all

lemma reading_not_patches: "reading e \<Longrightarrow> \<not> patches e"
  by (cases e) simp_all

lemma unwritten: "\<not> patches e \<Longrightarrow> written_phase e = None"
  by (cases e) simp_all

section \<open>Steps that observe\<close>

locale reader =
  fixes A :: "event \<Rightarrow> bool"
  assumes reads: "reading e \<Longrightarrow> A e"
begin

lemma permitted [only_intros]:
  "A (ApiGet c n)" "A (ApiList c)" "A (Http m url)" "A (Process argv input limit)"
  "A (WriteFile path text)" "A (ReadFile path)" "A (Getenv k)" "A Monotonic" "A (Sleep s)" "A Now"
  "A Uuid" "A (TempDir prefix)" "A (WriteJson (d @ ''/inventory.json'') v)"
  by (rule reads; simp)+

lemma only_bind_run [only_intros]: "only cw A (bind_run server)"
  unfolding bind_run_def by (intro only_intros)

lemma only_current [only_intros]: "only cw A (current snapshot paused pending)"
  unfolding current_def by (intro only_intros)

lemma only_reserved_server [only_intros]: "only cw A (reserved_server server ref)"
  unfolding reserved_server_def by (intro only_intros)

lemma only_known_file [only_intros]: "only cw A (known_file server directory key)"
  unfolding known_file_def by (intro only_intros)

lemma only_inspect [only_intros]: "only cw A (inspect server known)"
  unfolding inspect_def ask_facts_def by (intro only_intros)

lemma only_resolve_users [only_intros]: "only cw A (resolve_users desired)"
  unfolding resolve_users_def resolve_user_def user_key_def by (intro only_intros)

lemma only_plan [only_intros]: "only cw A (plan server variables facts revision)"
  unfolding plan_def current_image_def current_authority_def bound_machine_def
  by (intro only_intros)

lemma only_verify_dependencies [only_intros]: "only cw A (verify_dependencies server)"
  unfolding verify_dependencies_def verify_dependency_def by (intro only_intros)

lemma only_drain_rounds [only_intros]: "only cw A (drain_rounds n deadline)"
proof (induction n)
  case (Suc n)
  then show ?case unfolding drain_rounds.simps by (intro only_intros)
qed (simp only: drain_rounds.simps only_raise)

lemma only_drain_commands [only_intros]: "only cw A drain_commands"
  unfolding drain_commands_def by (intro only_intros)

lemma only_artifact_preflight [only_intros]: "only cw A (artifact_preflight server)"
  unfolding artifact_preflight_def check_artifact_def by (intro only_intros)

lemma only_stage_inventory [only_intros]: "only cw A (stage_inventory server known)"
  unfolding stage_inventory_def by (intro only_intros)

lemma only_play_inventory [only_intros]: "only cw A (play_inventory server host known)"
  unfolding play_inventory_def by (intro only_intros)

lemma only_get_server [only_intros]: "only cw A get_server"
  unfolding get_server_def by (intro only_intros)

lemma only_revalidate [only_intros]: "only cw A (revalidate paused)"
  unfolding revalidate_def by (intro only_intros)

lemma only_phase_of_cell [only_intros]: "only cw A phase_of_cell"
  unfolding phase_of_cell_def by (intro only_intros)

lemma only_address_known [only_intros]: "only cw A (address_known server)"
  unfolding address_known_def by (intro only_intros)

lemma only_accept_managed [only_intros]: "only cw A (accept_managed server key known)"
  unfolding accept_managed_def by (intro only_intros)

lemma only_derived_key [only_intros]: "only cw A (derived_key directory)"
  unfolding derived_key_def by (intro only_intros)

lemma only_other_maintenance [only_intros]: "only cw A (other_maintenance server other)"
  unfolding other_maintenance_def by (intro only_intros)

lemma only_services_healthy [only_intros]: "only cw A (services_healthy server facts known)"
  unfolding services_healthy_def by (intro only_intros)

lemma only_omitted_active_runs [only_intros]: "only cw A (omitted_active_runs captured)"
  unfolding omitted_active_runs_def omitted_active_def by (intro only_intros)

lemma only_resolved_inventory_hosts [only_intros]: "only cw A (resolved_inventory_hosts inventory)"
  unfolding resolved_inventory_hosts_def by (intro only_intros)


text \<open>A step that writes is permitted with what it writes.\<close>

lemma only_checkpoint:
  assumes "\<And>c n u rv. A (ApiPatch c n u rv
      (dmerge [(''phase'', JStr phase), (''currentStage'', JStr phase)] extra))"
  shows "only True A (checkpoint phase extra)"
  unfolding checkpoint_def write_checkpoint_def store_checkpoint_def by (intro only_intros assms)

lemma only_run_stage:
  assumes "\<And>argv diagnostic limit. A (Ansible argv diagnostic limit)"
    and "\<And>v. stage_variables server name = Inr v \<Longrightarrow> A (WriteJson (directory @ ''/variables.json'') (JObj v))"
  shows "only cw A (run_stage server directory known name)"
  unfolding run_stage_def
  by (rule only_andthen [OF only_stage_inventory], rule only_lifted) (intro only_intros assms)

lemma only_release_run:
  assumes "\<And>c n u rv phase ref. A (ApiPatch c n u rv [(''provisioning'', JObj (release_fields phase ref))])"
  shows "only cw A (release_run server)"
  unfolding release_run_def write_release_def by (intro only_intros assms)

end

section \<open>Steps that never authorize erasure\<close>

lemma stage_variables_authorized:
  assumes "stage_variables server name = Inr v"
  shows "dget v ''provision_destructive_authorized'' = JBool (name = ''install'')"
proof -
  have "map_of v ''provision_destructive_authorized'' = Some (JBool (name = ''install''))"
    by (insert assms [unfolded stage_variables_def], elim bindE, drule Inr_inject, hypsubst)
      (simp (no_asm))
  then show ?thesis by (simp add: dget_def)
qed

definition calm :: "event \<Rightarrow> bool" where
  "calm e \<longleftrightarrow> \<not> authorizes e"

lemma calm_simps [simp, only_intros]:
  "calm (ApiPatch c n u rv status)" "calm (ApiCreate c k n spec)" "calm (VaultRequest m url token body)"
  "calm (Ansible argv diagnostic limit)"
  by (simp_all add: calm_def)

interpretation calm: reader calm
  by unfold_locales (simp add: calm_def reading_not_authorizes)

lemma calm_run_stage [only_intros]:
  "name \<noteq> ''install'' \<Longrightarrow> only cw calm (run_stage server directory known name)"
  by (rule calm.only_run_stage) (auto simp: calm_def dest: stage_variables_authorized)

lemma calm_checkpoint [only_intros]: "only True calm (checkpoint phase extra)"
  by (rule calm.only_checkpoint) simp

lemma calm_release_run [only_intros]: "only cw calm (release_run server)"
  by (rule calm.only_release_run) simp

lemma calm_host_private_key [only_intros]: "only cw calm (host_private_key server)"
  unfolding host_private_key_def vault_base_def vault_login_def read_key_def revoke_token_def
  by (intro only_intros)

lemma calm_run_play [only_intros]:
  assumes "dget variables ''provision_destructive_authorized'' \<noteq> JBool True"
  shows "only cw calm (run_play server host directory known play variables)"
  unfolding run_play_def Let_def by (intro only_intros) (auto simp: calm_def assms)

lemma calm_stage [only_intros]: "name \<noteq> ''install'' \<Longrightarrow> only cw calm (stage directory known name)"
  unfolding stage_def by (intro only_intros)

lemma calm_reboot [only_intros]: "only cw calm (reboot server known)"
  unfolding reboot_def by (intro only_intros) simp

lemma calm_first_contact [only_intros]: "only True calm (first_contact server attempt known)"
  unfolding first_contact_def by (intro only_intros)

lemma calm_session_round [only_intros]: "only True calm (session_round directory live)"
  unfolding session_round_def session_facts_def attempt_first_contact_def Let_def
  by (intro only_intros)

lemma calm_session_rounds [only_intros]: "only True calm (session_rounds n deadline directory live)"
proof (induction n)
  case (Suc n)
  then show ?case unfolding session_rounds.simps by (intro only_intros)
qed (simp only: session_rounds.simps only_raise)

lemma calm_await_session [only_intros]: "only True calm (await_session directory live)"
  unfolding await_session_def by (intro only_intros)

lemma calm_enroll_live [only_intros]: "only True calm (enroll_live facts known directory)"
  unfolding enroll_live_def Let_def by (intro only_intros) (simp add: dget_def)

lemma calm_prepare_attempt [only_intros]:
  "only True calm (prepare_attempt variables directory revision preflight)"
  unfolding prepare_attempt_def claim_run_def Let_def by (intro only_intros)

lemma calm_prepare_boot [only_intros]: "only True calm (prepare_boot directory known)"
  unfolding prepare_boot_def by (intro only_intros) simp_all

lemma calm_live_session [only_intros]: "only True calm (live_session directory known)"
  unfolding live_session_def by (intro only_intros)

lemma calm_finish_boot [only_intros]: "only True calm (finish_boot directory known)"
  unfolding finish_boot_def by (intro only_intros)

lemma calm_verify_completion [only_intros]: "only True calm (verify_completion directory known)"
  unfolding verify_completion_def by (intro only_intros) simp

lemma calm_disarm [only_intros]: "only cw calm (disarm server attempt directory keep)"
  unfolding disarm_def by (intro only_intros) simp_all

lemma calm_handle_failure [only_intros]:
  "only True calm (handle_failure directory failure_message failure_reason)"
  unfolding handle_failure_def pending_cleanup_def by (intro only_intros)

lemma calm_failed_run [only_intros]: "only True calm (failed_run directory preflight e)"
  unfolding failed_run_def by (intro only_intros)

section \<open>The checkpoint and release loops\<close>

definition unpatched :: "event \<Rightarrow> bool" where
  "unpatched e \<longleftrightarrow> \<not> patches e"

interpretation unpatched: reader unpatched
  by unfold_locales (simp add: unpatched_def reading_not_patches)

interpretation checkpointing: optimistic_update patches "current snapshot paused pending"
    "write_checkpoint phase extra"
  for snapshot paused pending phase extra
proof
  show "only False (\<lambda>e. \<not> patches e) (current snapshot paused pending)"
    using unpatched.only_current by (simp add: unpatched_def [abs_def])
  show "at_most 1 patches (write_checkpoint phase extra x)" for x
  proof -
    have "at_most (0 + 1) patches (write_checkpoint phase extra x)"
      unfolding write_checkpoint_def store_checkpoint_def
      by (intro at_most_andthen at_most_none [OF only_lift] at_most_then_pure at_most_patch_status only_intros)
    then show ?thesis by simp
  qed
qed

interpretation releasing: optimistic_update patches "reserved_server server ref" "write_release phase ref"
  for server ref phase
proof
  show "only False (\<lambda>e. \<not> patches e) (reserved_server server ref)"
    using unpatched.only_reserved_server by (simp add: unpatched_def [abs_def])
  show "at_most 1 patches (write_release phase ref x)" for x
    unfolding write_release_def by (intro at_most_then_pure at_most_patch_status only_ret)
qed

lemma at_most_checkpoint: "at_most 5 patches (checkpoint phase extra)"
  unfolding checkpoint_def by (intro at_most_after checkpointing.at_most_five only_get_cell)

lemma at_most_release_run: "at_most 5 patches (release_run server)"
  unfolding release_run_def
  by (intro at_most_after at_most_if releasing.at_most_five at_most_mono [OF at_most_none [OF only_ret]])
    ((intro only_intros)?; simp)+

end
