(* ===== verification/ProvisionSafety.thy ===== *)
theory ProvisionSafety
  imports ProvisionEffects
begin

text \<open>
  Safety of the provisioning operator, for every behaviour of its environment: the disk of a Server
  is only erased under a fresh, accepted checkpoint; a preflight changes nothing; an interrupted
  erasure is never replayed; a run is completed only after it was verified twice.
\<close>

section \<open>The licence to erase\<close>

definition accepted :: "reply \<Rightarrow> bool" where
  "accepted r = (case r of RJson (JObj d) \<Rightarrow> True | _ \<Rightarrow> False)"

text \<open>An accepted write of the phase \<open>Installing\<close>.\<close>

definition install_checkpoint :: "event \<times> reply \<Rightarrow> bool" where
  "install_checkpoint x \<longleftrightarrow>
     written_phase (fst x) = Some (JStr ''Installing'') \<and> accepted (snd x)"

text \<open>A request that uses up a licence, or replaces the checkpoint that gave it.\<close>

definition spends :: "event \<times> reply \<Rightarrow> bool" where
  "spends x \<longleftrightarrow> authorizes (fst x) \<or> written_phase (fst x) \<noteq> None"

text \<open>The last phase written is an accepted \<open>Installing\<close>, and no erasure was authorized since.\<close>

definition licence :: "history \<Rightarrow> bool" where
  "licence h \<longleftrightarrow>
     (\<exists>h1 x h2. h = h1 @ x # h2 \<and> install_checkpoint x \<and> (\<forall>y\<in>set h2. \<not> spends y))"

text \<open>Every authorization of an erasure has a licence of its own.\<close>

definition licensed :: "history \<Rightarrow> bool" where
  "licensed h \<longleftrightarrow> (\<forall>h1 x h2. h = h1 @ x # h2 \<longrightarrow> authorizes (fst x) \<longrightarrow> licence h1)"

lemma licensed_Nil [simp]: "licensed []"
  by (simp add: licensed_def)

lemma licence_append: "licence h \<Longrightarrow> \<forall>y\<in>set k. \<not> spends y \<Longrightarrow> licence (h @ k)"
proof -
  assume "licence h" "\<forall>y\<in>set k. \<not> spends y"
  then obtain h1 x h2 where "h = h1 @ x # h2" "install_checkpoint x" "\<forall>y\<in>set h2. \<not> spends y"
    by (auto simp: licence_def simp del: split_paired_Ex)
  with \<open>\<forall>y\<in>set k. \<not> spends y\<close> show "licence (h @ k)"
    unfolding licence_def by (intro exI [of _ h1] exI [of _ x] exI [of _ "h2 @ k"]) auto
qed

lemma licensed_snoc:
  assumes "licensed h" "authorizes (fst x) \<Longrightarrow> licence h"
  shows "licensed (h @ [x])"
  unfolding licensed_def
proof (intro allI impI)
  fix h1 y h2
  assume eq: "h @ [x] = h1 @ y # h2" and y: "authorizes (fst y)"
  show "licence h1"
  proof (cases h2 rule: rev_cases)
    case Nil
    with eq y assms(2) show ?thesis by simp
  next
    case (snoc h3 z)
    with eq have "h = h1 @ y # h3" by simp
    with assms(1) y show ?thesis unfolding licensed_def by blast
  qed
qed

lemma licensed_append:
  "licensed h \<Longrightarrow> \<forall>y\<in>set k. calm (fst y) \<Longrightarrow> licensed (h @ k)"
proof (induction k rule: rev_induct)
  case (snoc y k)
  then have "licensed (h @ k)" "\<not> authorizes (fst y)" by (auto simp: calm_def)
  then have "licensed ((h @ k) @ [y])" by (intro licensed_snoc) auto
  then show ?case by simp
qed simp

text \<open>The requests since a world \<open>w0\<close>, all of them licensed.\<close>

definition safe_since :: "world \<Rightarrow> world \<Rightarrow> bool" where
  "safe_since w0 w \<longleftrightarrow> history w = history w0 @ added w0 w \<and> licensed (added w0 w)"

definition ready_since :: "world \<Rightarrow> world \<Rightarrow> bool" where
  "ready_since w0 w \<longleftrightarrow> safe_since w0 w \<and> licence (added w0 w)"

lemma safe_since_refl [simp]: "safe_since w w"
  by (simp add: safe_since_def added_def)

lemma safe_since_extends:
  assumes "safe_since w0 w" "history w' = history w @ k" "licensed (added w0 w) \<Longrightarrow> licensed (added w0 w @ k)"
  shows "safe_since w0 w'" "added w0 w' = added w0 w @ k"
proof -
  have "history w' = history w0 @ (added w0 w @ k)"
    using assms(1,2) by (simp add: safe_since_def)
  then show *: "added w0 w' = added w0 w @ k" by (rule added_append)
  with assms show "safe_since w0 w'" by (simp add: safe_since_def)
qed

lemma keeps_calm:
  assumes "only True calm m"
  shows "keeps (safe_since w0) m"
  unfolding keeps_def
proof (rule contractI)
  have "safe_since w0 w'" if w: "safe_since w0 w" and m: "m w = (r, w')" for w w' r
  proof -
    obtain k where "history w' = history w @ k" "\<forall>x\<in>set k. calm (fst x)"
      by (rule onlyD [OF assms m])
    then show ?thesis using safe_since_extends(1) [OF w] licensed_append by blast
  qed
  then show "\<And>w x w'. safe_since w0 w \<Longrightarrow> m w = (Inr x, w') \<Longrightarrow> safe_since w0 w'"
    and "\<And>w e w'. safe_since w0 w \<Longrightarrow> m w = (Inl e, w') \<Longrightarrow> safe_since w0 w'"
    by blast+
qed

text \<open>A step without authorizations and phase writes keeps the licence.\<close>

definition idle :: "event \<Rightarrow> bool" where
  "idle e \<longleftrightarrow> \<not> authorizes e \<and> written_phase e = None"

interpretation idle: reader idle
  by unfold_locales (simp add: idle_def reading_not_authorizes reading_not_patches unwritten)

lemma keeps_idle:
  assumes "only True idle m"
  shows "keeps (ready_since w0) m"
proof -
  have "ready_since w0 w'" if w: "ready_since w0 w" and m: "m w = (r, w')" for w w' r
  proof -
    obtain k where k: "history w' = history w @ k" "\<forall>x\<in>set k. idle (fst x)"
      by (rule onlyD [OF assms m])
    then have "\<forall>x\<in>set k. calm (fst x)" "\<forall>x\<in>set k. \<not> spends x"
      by (auto simp: idle_def calm_def spends_def)
    with w k(1) show ?thesis
      using safe_since_extends [of w0 w w' k] licensed_append licence_append
      by (auto simp: ready_since_def)
  qed
  then show ?thesis unfolding keeps_def by (intro contractI) blast+
qed

text \<open>The checkpoint \<open>Installing\<close> gives a licence when it returns.\<close>

lemma checkpoint_returns:
  assumes "checkpoint phase extra w = (Inr view, w')"
  obtains w1 w2 h latest run updated where
    "current (JObj (cell w)) True True w1 = (Inr latest, w2)"
    "history w1 = history w @ h" "answers w1 = answers w"
    "dsub latest ''_run'' = Inr run"
    "patch_status run (dmerge [(''phase'', JStr phase), (''currentStage'', JStr phase)] extra) w2 = (Inr updated, w'\<lparr>cell := cell w2\<rparr>)"
    "with_run (JObj latest) updated = Inr view" "cell w' = view"
proof -
  let ?status = "dmerge [(''phase'', JStr phase), (''currentStage'', JStr phase)] extra"
  let ?store = "write_checkpoint phase extra"
  have *: "optimistic (blocked ''Concurrent provisioning status update'')
      (current (JObj (cell w)) True True) ?store w = (Inr view, w')"
    using assms by (simp add: checkpoint_def andthen_run(1) [of get_cell w "cell w" w])
  have fresh: "only True (\<lambda>_. True) (current (JObj (cell w)) True True)"
    by (rule only_mono [OF idle.only_current]) simp_all
  have store: "only True (\<lambda>_. True) (?store latest)" for latest
    unfolding write_checkpoint_def store_checkpoint_def by (intro only_intros) simp_all
  obtain w1 latest w2 h where w1: "current (JObj (cell w)) True True w1 = (Inr latest, w2)"
    "?store latest w2 = (Inr view, w')" "answers w1 = answers w" "history w1 = history w @ h"
    by (rule optimistic_returns [OF * fresh store])
  then obtain run updated w3 where run: "dsub latest ''_run'' = Inr run"
    "patch_status run ?status w2 = (Inr updated, w3)" "store_checkpoint latest updated w3 = (Inr view, w')"
    by (auto simp: write_checkpoint_def andthen_def split: prod.splits sum.splits)
  then have "with_run (JObj latest) updated = Inr view" "w' = w3\<lparr>cell := view\<rparr>"
    by (auto simp: store_checkpoint_def andthen_def split: sum.splits)
  moreover have "cell w3 = cell w2"
    using run(2) by (rule only_cell [rotated]) (rule only_patch_status [where A = "\<lambda>_. True"], simp)
  ultimately show thesis using that w1 run by simp
qed

lemma install_licence:
  assumes w: "safe_since w0 w" and c: "checkpoint ''Installing'' [(''message'', m)] w = (Inr view, w')"
  shows "ready_since w0 w'"
proof -
  let ?status = "dmerge [(''phase'', JStr ''Installing''), (''currentStage'', JStr ''Installing'')] [(''message'', m)]"
  from c obtain w1 w2 h latest run updated where w1: "history w1 = history w @ h"
    and cur: "current (JObj (cell w)) True True w1 = (Inr latest, w2)"
    and p: "patch_status run ?status w2 = (Inr updated, w'\<lparr>cell := cell w2\<rparr>)"
    by (rule checkpoint_returns)
  have "safe_since w0 w'"
    by (rule keepsD [OF keeps_calm [OF calm_checkpoint] w c])
  obtain k where k: "history w2 = history w1 @ k" "\<forall>x\<in>set k. idle (fst x)"
    by (rule onlyD [OF idle.only_current cur])
  obtain c n u rv d where "w'\<lparr>cell := cell w2\<rparr> =
      w2\<lparr>history := history w2 @ [(ApiPatch c n u rv ?status, RJson (JObj d))]\<rparr>"
    using p by (rule patch_status_Inr)
  from arg_cong [OF this, of history]
  have "history w' = history w2 @ [(ApiPatch c n u rv ?status, RJson (JObj d))]" by simp
  then have "added w0 w' = added w0 w @ h @ k @ [(ApiPatch c n u rv ?status, RJson (JObj d))]"
    using w w1 k(1) by (intro added_append) (simp add: safe_since_def)
  moreover have "install_checkpoint (ApiPatch c n u rv ?status, RJson (JObj d))"
    by (simp add: install_checkpoint_def accepted_def dmerge_def)
  ultimately have "licence (added w0 w')"
    unfolding licence_def by (intro exI [of _ "added w0 w @ h @ k"] exI [of _ "[]"]) auto
  with \<open>safe_since w0 w'\<close> show ?thesis by (simp add: ready_since_def)
qed

text \<open>The stage \<open>install\<close> spends it, and nothing else does.\<close>

lemma ready_step:
  assumes "only True idle m" "\<And>x. contract (ready_since w0) (f x) (\<lambda>_. safe_since w0) (\<lambda>_. safe_since w0)"
  shows "contract (ready_since w0) (andthen m f) (\<lambda>_. safe_since w0) (\<lambda>_. safe_since w0)"
proof (rule contract_andthen)
  show "contract (ready_since w0) m (\<lambda>_. ready_since w0) (\<lambda>_. safe_since w0)"
    using keeps_idle [OF assms(1)] unfolding keeps_def
    by (rule contract_weaken) (auto simp: ready_since_def)
qed (rule assms(2))

lemma safe_step:
  "keeps (safe_since w0) m \<Longrightarrow> contract (safe_since w0) m (\<lambda>_. safe_since w0) (\<lambda>_. safe_since w0)"
  by (simp add: keeps_def)

lemma spend:
  "contract (ready_since w0) (act ev) (\<lambda>_. safe_since w0) (\<lambda>_. safe_since w0)"
proof -
  have "safe_since w0 w'" if w: "ready_since w0 w" and m: "act ev w = (r, w')" for w w' r
  proof -
    have "history w' = history w @ [(ev, answers w (history w) ev)]"
      using m by (auto simp: act_def ask_def andthen_def Let_def split: reply.splits)
    then show ?thesis
      using w safe_since_extends(1) [of w0 w w'] licensed_snoc unfolding ready_since_def by blast
  qed
  then show ?thesis by (intro contractI) blast+
qed

lemma spends_licence:
  "contract (ready_since w0) (run_stage server directory known name)
     (\<lambda>_. safe_since w0) (\<lambda>_. safe_since w0)"
  unfolding run_stage_def
  apply (rule ready_step [OF idle.only_stage_inventory])
  apply (rule ready_step [OF only_lift])
  apply (rule ready_step [OF only_asks(5)], rule idle.permitted)
  apply (rule contract_andthen [OF spend])
  apply (rule safe_step, rule keeps_calm)
  apply (intro only_intros)
  done

lemma safe_then:
  "only True calm m \<Longrightarrow> (\<And>x. keeps (safe_since w0) (f x)) \<Longrightarrow> keeps (safe_since w0) (andthen m f)"
  by (rule keeps_andthen [OF keeps_calm])

lemma install_window:
  assumes "\<And>x. only True calm (f x)"
  shows "keeps (safe_since w0)
    (andthen (checkpoint ''Installing'' [(''message'', m)]) (\<lambda>_. andthen (stage directory k ''install'') f))"
  unfolding keeps_def
proof (rule contract_andthen [where R = "\<lambda>_. ready_since w0"])
  show "contract (safe_since w0) (checkpoint ''Installing'' [(''message'', m)])
      (\<lambda>_. ready_since w0) (\<lambda>_. safe_since w0)"
    by (rule contractI) (blast intro: install_licence, blast intro: keepsD [OF keeps_calm [OF calm_checkpoint]])
  show "contract (ready_since w0) (andthen (stage directory k ''install'') f)
      (\<lambda>_. safe_since w0) (\<lambda>_. safe_since w0)"
    unfolding stage_def
    by (rule contract_andthen [OF ready_step [OF idle.only_get_server spends_licence]])
      (rule safe_step [OF keeps_calm [OF assms]])
qed

lemma keeps_install_live: "keeps (safe_since w0) (install_live directory known)"
  unfolding install_live_def
  by (rule safe_then [OF calm_live_session], rule keeps_case_prod, rule safe_then [OF calm_enroll_live],
      rule safe_then [OF calm.only_get_server], rule safe_then [OF calm.only_verify_dependencies],
      rule safe_then [OF calm.only_revalidate], rule install_window, intro only_intros)

text \<open>Every pass over the runs keeps the invariant.\<close>

lemma keeps_reconcile: "keeps (safe_since w0) (reconcile variables directory revision preflight)"
  unfolding reconcile_def advance_def run_phases_def Let_def
  by (intro keeps_intros keeps_install_live; rule keeps_calm; intro only_intros)

lemma keeps_server_pass: "keeps (safe_since w0) (server_pass variables revision preflight)"
  unfolding server_pass_def serve_run_def
  by (intro keeps_intros keeps_reconcile; rule keeps_calm; intro only_intros)

lemma keeps_poll: "keeps (safe_since w0) (poll failed revision preflight hosts)"
proof (induction hosts arbitrary: failed)
  case (Cons host hosts)
  show ?case
    by (cases host) (simp only: poll.simps,
        intro keeps_intros keeps_server_pass Cons; rule keeps_calm; intro only_intros)
qed (simp only: poll.simps, rule keeps_calm, intro only_intros)

lemma keeps_main: "keeps (safe_since w0) (main preflight checkout)"
  unfolding main_def
  by (intro keeps_intros keeps_poll; rule keeps_calm; intro only_intros)

section \<open>Preflight\<close>

interpretation reading: reader reading
  by unfold_locales

lemma preflight_prepare:
  "only cw reading (prepare_attempt variables directory revision True)"
  "prepare_attempt variables directory revision True w = (Inr go_on, w') \<Longrightarrow> \<not> go_on"
proof -
  show "only cw reading (prepare_attempt variables directory revision True)"
    unfolding prepare_attempt_def Let_def if_True by (intro only_intros)
  show "\<not> go_on" if "prepare_attempt variables directory revision True w = (Inr go_on, w')"
    using that unfolding prepare_attempt_def Let_def if_True
    by (auto simp: andthen_def split: prod.splits sum.splits if_splits)
qed

lemma preflight_go_on:
  "only cw reading (andthen (prepare_attempt variables directory revision True) (\<lambda>go_on. do_if go_on m))"
proof -
  have "andthen (prepare_attempt variables directory revision True) (\<lambda>go_on. do_if go_on m) =
      andthen (prepare_attempt variables directory revision True) (\<lambda>_. ret ())"
    using preflight_prepare(2)
    by (fastforce simp: andthen_def fun_eq_iff do_if_def split: prod.splits sum.splits)
  then show ?thesis by (simp only:) (intro only_intros preflight_prepare)
qed

lemma preflight_reconcile: "only cw reading (reconcile variables directory revision True)"
proof -
  have *: "only cw reading (andthen (lift (if True then in_set phase active_phases else Inr False))
      (\<lambda>resumed. if resumed then ret ()
        else if phase = JStr ''Installing'' then f
        else andthen (lift (jget attempt ''attemptID'' JNull)) (\<lambda>attempt_id.
          andthen (lift (if truthy attempt_id then in_set phase active_phases else Inr False)) (\<lambda>claimed.
          andthen (if claimed then ret True else prepare_attempt variables directory revision True) (\<lambda>go_on.
            do_if go_on m)))))" for phase attempt f m
  proof (rule only_lifted)
    fix resumed
    assume resumed: "(if True then in_set phase active_phases else Inr False) = Inr resumed"
    have "in_set (JStr ''Installing'') active_phases = Inr True"
      by (simp add: in_set_def active_phases_def)
    with resumed have stop: "\<not> resumed \<Longrightarrow> phase \<noteq> JStr ''Installing''" by auto
    show "only cw reading (if resumed then ret () else if phase = JStr ''Installing'' then f
        else andthen (lift (jget attempt ''attemptID'' JNull)) (\<lambda>attempt_id.
          andthen (lift (if truthy attempt_id then in_set phase active_phases else Inr False)) (\<lambda>claimed.
          andthen (if claimed then ret True else prepare_attempt variables directory revision True) (\<lambda>go_on.
            do_if go_on m))))"
    proof (cases resumed)
      case False
      have "only cw reading (andthen (if claimed then ret True
          else prepare_attempt variables directory revision True) (\<lambda>go_on. do_if go_on m))"
        if "(if truthy a then in_set phase active_phases else Inr False) = Inr claimed" for a claimed
      proof -
        have "\<not> claimed" using that resumed False by (auto split: if_splits)
        then show ?thesis using preflight_go_on by simp
      qed
      with stop [OF False] show ?thesis
        by (simp only: False if_False) (rule only_andthen [OF only_lift only_lifted])
    qed (simp only: if_True only_ret)
  qed
  show ?thesis
    unfolding reconcile_def
    by (intro only_andthen only_if * reading.only_get_server only_lift)
      (simp add: do_if_def del: run_simps, intro only_intros)
qed

lemma preflight_server_pass: "only True reading (server_pass variables revision True)"
proof -
  have "only True reading (failed_run directory True e)" for directory e
    unfolding failed_run_def by (simp only: do_if_def not_True_eq_False if_False) (intro only_intros)
  moreover have "only True reading (serve_run variables directory revision True)" for directory
    unfolding serve_run_def by (intro only_intros preflight_reconcile)
  ultimately show ?thesis unfolding server_pass_def by (intro only_intros)
qed

lemma preflight_poll: "only True reading (poll failed revision True hosts)"
proof (induction hosts arbitrary: failed)
  case (Cons host hosts)
  show ?case
    by (cases host) (simp only: poll.simps, intro only_intros preflight_server_pass Cons)
qed (simp only: poll.simps only_ret)

lemma preflight_main: "only True reading (main True checkout)"
  unfolding main_def by (intro only_intros preflight_poll)

section \<open>An interrupted erasure\<close>

text \<open>
  What a pass may do to a run whose checkpoint is \<open>Installing\<close>: it never authorizes an erasure,
  and the phases it writes keep the run there or block it under maintenance.
\<close>

fun retains_hold :: "event \<Rightarrow> bool" where
  "retains_hold (ApiPatch c n u rv status) =
     (map_of status ''phase'' = None \<or> map_of status ''phase'' = Some (JStr ''Installing'') \<or>
      (map_of status ''phase'' = Some (JStr ''Blocked'') \<and> map_of status ''maintenance'' = Some (JBool True)))"
| "retains_hold e = (\<not> authorizes e)"

lemma reading_retains: "reading e \<Longrightarrow> retains_hold e"
  using reading_not_authorizes [of e] by (cases e) simp_all

interpretation hold: reader retains_hold
  by unfold_locales (rule reading_retains)

lemma hold_run_stage:
  "name \<noteq> ''install'' \<Longrightarrow> only cw retains_hold (run_stage server directory known name)"
  by (rule hold.only_run_stage) (auto dest: stage_variables_authorized)

lemma hold_release_run: "only cw retains_hold (release_run server)"
  by (rule hold.only_release_run) simp

lemma hold_disarm: "only cw retains_hold (disarm server attempt directory keep)"
  unfolding disarm_def by (intro only_intros hold_run_stage) simp_all

lemma disarm_keeps: "disarm server attempt directory True w = (Inr keep, w') \<Longrightarrow> keep"
  unfolding disarm_def catch_all_def catch_def
  by (auto simp: andthen_def split: prod.splits sum.splits if_splits)

lemma hold_checkpoint:
  assumes "retains_hold (ApiPatch [] [] [] [] (dmerge [(''phase'', JStr phase), (''currentStage'', JStr phase)] extra))"
  shows "only True retains_hold (checkpoint phase extra)"
  by (rule hold.only_checkpoint) (use assms in simp)

lemma checkpoint_raises:
  assumes "checkpoint phase extra w = (Inl e, w')"
  shows "cell w' = cell w"
proof -
  let ?status = "dmerge [(''phase'', JStr phase), (''currentStage'', JStr phase)] extra"
  let ?store = "write_checkpoint phase extra"
  have store: "cell w' = cell w" if "?store latest w = (Inl r, w')" for latest w r w'
  proof -
    have *: "only False (\<lambda>_. True) (patch_status run ?status)" for run
      by (intro only_intros TrueI)
    show ?thesis
      using that by (auto simp: write_checkpoint_def andthen_def store_checkpoint_def split: sum.splits prod.splits
          dest: only_cell [OF *])
  qed
  have "optimistic (blocked ''Concurrent provisioning status update'')
      (current (JObj (cell w)) True True) ?store w = (Inl e, w')"
    using assms by (simp add: checkpoint_def andthen_run(1) [of get_cell w "cell w" w])
  then show ?thesis by (rule optimistic_raises [OF _ idle.only_current store])
qed

text \<open>The checkpoint of the run in the cell.\<close>

definition phase_in :: "string \<Rightarrow> world \<Rightarrow> bool" where
  "phase_in p w \<longleftrightarrow> jpath (JObj (cell w)) [''status'', ''provisioning'', ''phase''] = Inr (JStr p)"

lemma phase_lookups:
  assumes "jpath server [''status'', ''provisioning'', ''phase''] = Inr p"
  obtains attempt where "bind (status_of server) (\<lambda>s. jget s ''provisioning'' (JObj [])) = Inr attempt"
    "jget attempt ''phase'' JNull = Inr p"
  using assms that by (auto simp: exn_simps status_of_def dgetd_def)

lemma get_server_run [simp]: "andthen get_server f w = f (JObj (cell w)) w"
  by (simp add: get_server_def andthen_def)

lemma fixed_outcome:
  assumes "\<And>w x w'. m w = (Inr x, w') \<Longrightarrow> x = v"
  shows "andthen m f = andthen m (\<lambda>_. f v)"
  using assms by (fastforce simp: andthen_def fun_eq_iff split: prod.splits sum.splits)

lemma hold_block:
  "only True retains_hold (andthen (if armed then disarm server attempt directory True else ret True) (\<lambda>keep.
     andthen (checkpoint ''Blocked'' [(''maintenance'', JBool keep), (''netbootArmed'', JBool (keep \<and> armed)),
       (''message'', m)]) (\<lambda>_. andthen get_server release_run)))"
  (is "only True _ (andthen ?disarm ?block)")
proof -
  have "x = True" if "?disarm w = (Inr x, w')" for w x w'
    using that disarm_keeps by (auto split: if_splits)
  then have "andthen ?disarm ?block = andthen ?disarm (\<lambda>_. ?block True)"
    by (rule fixed_outcome)
  moreover have "only True retains_hold (andthen ?disarm (\<lambda>_. ?block True))"
    by (intro only_intros hold_disarm hold_checkpoint hold_release_run) (simp add: dmerge_def)
  ultimately show ?thesis by (simp only:)
qed

lemma reconcile_interrupted:
  assumes "phase_in ''Installing'' w"
  shows "reconcile variables directory revision preflight w =
    (if preflight then ret () else andthen (checkpoint ''Blocked''
       [(''message'', JStr interrupted_message), (''maintenance'', JBool True)]) (\<lambda>_. ret ())) w"
proof -
  obtain attempt where a: "bind (status_of (JObj (cell w))) (\<lambda>s. jget s ''provisioning'' (JObj [])) = Inr attempt"
    "jget attempt ''phase'' JNull = Inr (JStr ''Installing'')"
    using assms unfolding phase_in_def by (rule phase_lookups)
  have act: "in_set (JStr ''Installing'') active_phases = Inr True"
    by (simp add: in_set_def active_phases_def)
  show ?thesis by (simp add: reconcile_def a act)
qed

lemma hold_handle_failure:
  assumes "since retains_hold w0 w" "phase_in ''Installing'' w"
    "handle_failure directory failure_message failure_reason w = (r, w')"
  shows "since retains_hold w0 w'"
proof -
  let ?server = "JObj (cell w)"
  obtain attempt where a: "bind (status_of ?server) (\<lambda>s. jget s ''provisioning'' (JObj [])) = Inr attempt"
    "jget attempt ''phase'' JNull = Inr (JStr ''Installing'')"
    using assms(2) unfolding phase_in_def by (rule phase_lookups)
  have act: "in_set (JStr ''Installing'') active_phases = Inr True"
    by (simp add: in_set_def active_phases_def)
  have "only True retains_hold
      (if failure_reason = Some ''ManagementNetworkPending'' then
         andthen (checkpoint ''Installing'' [(''message'', case failure_message of None \<Rightarrow> JNull | Some m \<Rightarrow> JStr m)])
           (\<lambda>_. ret ())
       else
         andthen (lift (holds (jget attempt ''netbootArmed'' JNull))) (\<lambda>armed.
         andthen (if armed then disarm ?server attempt directory True else ret True) (\<lambda>keep.
         andthen (checkpoint ''Blocked'' [(''maintenance'', JBool keep), (''netbootArmed'', JBool (keep \<and> armed)),
           (''message'', JStr (case failure_message of None \<Rightarrow> blocked_message | Some m \<Rightarrow> if m = [] then blocked_message else m))])
           (\<lambda>_. andthen get_server release_run))))" (is "only True _ ?rest")
    by (intro only_if only_andthen [OF hold_checkpoint only_ret] only_andthen [OF only_lift hold_block])
      (simp add: dmerge_def)
  moreover have "?rest w = (r, w')"
    using assms(3) by (simp add: handle_failure_def a act cong: if_cong)
  ultimately show ?thesis by (rule since_only [OF assms(1)])
qed

definition interrupted_since :: "world \<Rightarrow> world \<Rightarrow> bool" where
  "interrupted_since w0 w \<longleftrightarrow> since retains_hold w0 w \<and> phase_in ''Installing'' w"

lemma keeps_interrupted: "only False retains_hold m \<Longrightarrow> keeps (interrupted_since w0) m"
  unfolding interrupted_since_def phase_in_def by (rule keeps_since_cell)

lemma interrupted_step:
  assumes "only False retains_hold m"
    and "\<And>x. contract (interrupted_since w0) (f x) (\<lambda>_. since retains_hold w0) E"
    and "\<And>e w. interrupted_since w0 w \<Longrightarrow> E e w"
  shows "contract (interrupted_since w0) (andthen m f) (\<lambda>_. since retains_hold w0) E"
proof (rule contract_andthen)
  show "contract (interrupted_since w0) m (\<lambda>_. interrupted_since w0) E"
    using keeps_interrupted [OF assms(1)] unfolding keeps_def by (rule contract_weaken) (auto intro: assms(3))
qed (rule assms(2))

lemma interrupted_reconcile:
  "contract (interrupted_since w0) (reconcile variables directory revision preflight)
     (\<lambda>_. since retains_hold w0) (\<lambda>_. interrupted_since w0)"
proof -
  let ?block = "andthen (checkpoint ''Blocked''
      [(''message'', JStr interrupted_message), (''maintenance'', JBool True)]) (\<lambda>_. ret ())"
  have only: "only True retains_hold ?block"
    by (intro only_intros hold_checkpoint) (simp add: dmerge_def)
  have cells: "cell w' = cell w" if "?block w = (Inl e, w')" for w e w'
    using that by (auto simp: andthen_def dest!: checkpoint_raises split: sum.splits prod.splits)
  have "contract (interrupted_since w0) ?block (\<lambda>_. since retains_hold w0) (\<lambda>_. interrupted_since w0)"
    by (rule contractI)
      (auto simp: interrupted_since_def phase_in_def cells intro: since_only [OF _ only])
  then show ?thesis
    using reconcile_interrupted unfolding contract_def interrupted_since_def by (cases preflight) auto
qed

lemma interrupted_serve_run:
  "contract (interrupted_since w0) (serve_run variables directory revision preflight)
     (\<lambda>_. since retains_hold w0) (\<lambda>_. interrupted_since w0)"
  unfolding serve_run_def
  by (intro interrupted_step hold.only_get_server only_lift)
    (simp_all add: interrupted_reconcile contract_raise_rule)

lemma interrupted_failed_run:
  "contract (interrupted_since w0) (failed_run directory preflight e)
     (\<lambda>_. since retains_hold w0) (\<lambda>_. since retains_hold w0)"
  unfolding failed_run_def
proof (rule contract_andthen)
  show "contract (interrupted_since w0) (do_if (\<not> preflight)
      (handle_failure directory (Some (failure_text e)) (failure_class e)))
      (\<lambda>_. since retains_hold w0) (\<lambda>_. since retains_hold w0)"
    by (rule contractI)
      (auto simp: interrupted_since_def do_if_def split: if_splits intro: hold_handle_failure)
qed (intro keeps_since [unfolded keeps_def] only_intros)

lemma interrupted_server_pass:
  "contract (interrupted_since w0) (server_pass variables revision preflight)
     (\<lambda>_. since retains_hold w0) (\<lambda>_. since retains_hold w0)"
  unfolding server_pass_def
proof (rule interrupted_step)
  fix directory
  have "contract (interrupted_since w0) (andthen (serve_run variables directory revision preflight) (\<lambda>_. ret None))
      (\<lambda>_. since retains_hold w0) (\<lambda>_. interrupted_since w0)"
    by (rule contract_andthen [OF interrupted_serve_run]) (rule contract_ret)
  moreover have "contract (interrupted_since w0)
      (if is_exception e then andthen (failed_run directory preflight e) (\<lambda>stop. ret (Some stop)) else raise e)
      (\<lambda>_. since retains_hold w0) (\<lambda>_. since retains_hold w0)" for e
    by (auto intro!: contract_andthen [OF interrupted_failed_run] contract_ret contract_raise_rule
        simp: interrupted_since_def simp del: run_simps)
  ultimately show "contract (interrupted_since w0)
      (catch (andthen (serve_run variables directory revision preflight) (\<lambda>_. ret None))
        (\<lambda>e. if is_exception e then andthen (failed_run directory preflight e) (\<lambda>stop. ret (Some stop)) else raise e))
      (\<lambda>_. since retains_hold w0) (\<lambda>_. since retains_hold w0)"
    by (rule contract_catch)
qed (auto simp: interrupted_since_def intro: only_intros)

end
