(* ===== verification/ProvisionTime.thy ===== *)
theory ProvisionTime
  imports ProvisionEffects
begin

text \<open>
  The waiting loops end. The model runs them in rounds, with \<open>Unfinished\<close> for the rounds that are
  not there; under a clock that keeps up with the sleeps the bounds 62 and 122 are never reached,
  so any larger bound gives the same run.
\<close>

section \<open>A clock that keeps up\<close>

text \<open>
  \<open>time.monotonic()\<close> never goes back, and a sleep that returns took at least as long as it was asked
  to (both are documented of Python's \<open>time\<close> module).
\<close>

definition keeps_time :: "(history \<Rightarrow> rat) \<Rightarrow> (history \<Rightarrow> event \<Rightarrow> reply) \<Rightarrow> bool" where
  "keeps_time T a \<longleftrightarrow>
     (\<forall>h. a h Monotonic = RNum (T h)) \<and> (\<forall>h x. T h \<le> T (h @ [x])) \<and>
     (\<forall>h n r. (\<forall>e. r \<noteq> RRaise e) \<longrightarrow> T h + of_nat n \<le> T (h @ [(Sleep n, r)]))"

lemma keeps_time_mono:
  assumes "keeps_time T a"
  shows "T h \<le> T (h @ k)"
proof (induction k rule: rev_induct)
  case (snoc x k)
  have "T (h @ k) \<le> T ((h @ k) @ [x])" using assms unfolding keeps_time_def by blast
  with snoc show ?case by simp
qed simp

text \<open>The time a world shows, and what a step does to it.\<close>

lemma time_passes:
  assumes "keeps_time T (answers w)" "only cw A m" "m w = (r, w')"
  shows "T (history w) \<le> T (history w')" "answers w' = answers w"
  using onlyD [OF assms(2,3)] keeps_time_mono [OF assms(1)] by metis+

lemma ask_monotonic:
  assumes "keeps_time T (answers w)" "ask_num Monotonic w = (r, w')"
  shows "r = Inr (T (history w))" "T (history w) \<le> T (history w')" "answers w' = answers w"
proof -
  have "answers w (history w) Monotonic = RNum (T (history w))"
    using assms(1) by (simp add: keeps_time_def)
  then show "r = Inr (T (history w))"
    using assms(2) by (auto simp: ask_num_def ask_def andthen_def Let_def)
  have "only True (\<lambda>e. True) (ask_num Monotonic)" by (rule only_asks) simp
  from time_passes [OF assms(1) this assms(2)]
  show "T (history w) \<le> T (history w')" "answers w' = answers w" .
qed

lemma sleep_takes:
  assumes "keeps_time T (answers w)" "act (Sleep n) w = (Inr u, w')"
  shows "T (history w) + of_nat n \<le> T (history w')" "answers w' = answers w"
proof -
  from assms(2) obtain r where "history w' = history w @ [(Sleep n, r)]" "\<forall>e. r \<noteq> RRaise e"
    "answers w' = answers w"
    by (auto simp: act_def ask_def andthen_def Let_def split: reply.splits)
  with assms(1) show "T (history w) + of_nat n \<le> T (history w')" "answers w' = answers w"
    by (auto simp: keeps_time_def)
qed

section \<open>Polling\<close>

text \<open>
  The interface of a polling loop: a round that goes on took five seconds, and no round goes on once
  the deadline has passed. Then a bound that covers the time to the deadline is enough.
\<close>

locale polling =
  fixes body :: "rat \<Rightarrow> 'a option io" and rounds :: "nat \<Rightarrow> rat \<Rightarrow> 'a io"
  assumes round: "rounds (Suc n) d = andthen (body d) (\<lambda>r. case r of Some x \<Rightarrow> ret x | None \<Rightarrow> rounds n d)"
    and takes: "keeps_time T (answers w) \<Longrightarrow> body d w = (Inr None, w') \<Longrightarrow>
      T (history w) + 5 \<le> T (history w') \<and> answers w' = answers w"
    and stops: "keeps_time T (answers w) \<Longrightarrow> d \<le> T (history w) \<Longrightarrow> body d w \<noteq> (Inr None, w')"
begin

lemma enough:
  "keeps_time T (answers w) \<Longrightarrow> d \<le> T (history w) + 5 * of_nat n \<Longrightarrow>
   rounds (Suc n + k) d w = rounds (Suc n) d w"
proof (induction n arbitrary: w)
  case 0
  obtain r w' where b: "body d w = (r, w')" by fastforce
  with stops [of T w d w'] 0 have "r \<noteq> Inr None" by auto
  with b show ?case by (auto simp: round andthen_def split: sum.splits option.splits)
next
  case (Suc n)
  obtain r w' where b: "body d w = (r, w')" by fastforce
  show ?case
  proof (cases "r = Inr None")
    case True
    with takes [OF Suc.prems(1)] b have "T (history w) + 5 \<le> T (history w')" "answers w' = answers w"
      by auto
    with Suc.IH [of w'] Suc.prems have "rounds (Suc n + k) d w' = rounds (Suc n) d w'"
      by (simp add: algebra_simps)
    with b True show ?thesis by (simp add: round andthen_def)
  next
    case False
    with b show ?thesis by (auto simp: round andthen_def split: sum.splits option.splits)
  qed
qed

end

section \<open>Administrative builds\<close>

definition drain_body :: "rat \<Rightarrow> unit option io" where
  "drain_body deadline =
     andthen (api_list ''commands'') (\<lambda>items.
     andthen (lift (mapM command_busy items)) (\<lambda>busy_flags.
     if \<not> list_ex id busy_flags then ret (Some ()) else
     andthen (ask_num Monotonic) (\<lambda>t.
     if t \<ge> deadline then raise (blocked ''In-flight administrative builds did not drain'') else
     andthen (act (Sleep 5)) (\<lambda>_. ret None))))"

lemma drain_listing: "only False (\<lambda>e. True) (api_list ''commands'')"
  by (intro only_intros) simp

lemma drain_body_None:
  assumes "keeps_time T (answers w)" "drain_body deadline w = (Inr None, w')"
  obtains w1 w2 where "T (history w) \<le> T (history w1)" "answers w1 = answers w"
    "ask_num Monotonic w1 = (Inr (T (history w1)), w2)" "T (history w1) < deadline"
    "T (history w1) + 5 \<le> T (history w')" "answers w' = answers w"
proof -
  from assms(2) obtain items w1 t w2 u where w1: "api_list ''commands'' w = (Inr items, w1)"
    and w2: "ask_num Monotonic w1 = (Inr t, w2)" "t < deadline" and w3: "act (Sleep 5) w2 = (Inr u, w')"
    by (auto simp: drain_body_def andthen_def not_le split: prod.splits sum.splits if_splits)
  note one = time_passes [OF assms(1) drain_listing w1]
  then have k1: "keeps_time T (answers w1)" using assms(1) by simp
  note two = ask_monotonic [OF k1 w2(1)]
  then have k2: "keeps_time T (answers w2)" using k1 by simp
  note three = sleep_takes [OF k2 w3]
  show thesis using that [of w1 w2] one two three w2 by simp
qed

interpretation drain: polling drain_body drain_rounds
proof
  show "drain_rounds (Suc n) d = andthen (drain_body d) (\<lambda>r. case r of Some x \<Rightarrow> ret x | None \<Rightarrow> drain_rounds n d)" for n d
    unfolding drain_body_def drain_rounds.simps
    by (auto simp: andthen_def fun_eq_iff split: prod.splits sum.splits option.splits)
  show "T (history w) + 5 \<le> T (history w') \<and> answers w' = answers w"
    if "keeps_time T (answers w)" "drain_body d w = (Inr None, w')" for T w d w'
    using drain_body_None [OF that] by (metis add_right_mono order_trans)
  show "drain_body d w \<noteq> (Inr None, w')"
    if "keeps_time T (answers w)" "d \<le> T (history w)" for T w d w'
    using drain_body_None [OF that(1)] that(2) by (metis leD order_trans)
qed

section \<open>Boot sessions\<close>

interpretation timeless: reader "\<lambda>e. True"
  by unfold_locales simp

text \<open>A round of the wait that goes on ends in a sleep of five seconds.\<close>

definition past :: "(history \<Rightarrow> rat) \<Rightarrow> (history \<Rightarrow> event \<Rightarrow> reply) \<Rightarrow> rat \<Rightarrow> world \<Rightarrow> bool" where
  "past T a t w \<longleftrightarrow> answers w = a \<and> t \<le> T (history w)"

lemma keeps_past:
  assumes "keeps_time T a" "only True (\<lambda>e. True) m"
  shows "keeps (past T a t) m"
proof -
  have "past T a t w'" if w: "past T a t w" and m: "m w = (r, w')" for w r w'
  proof -
    have "keeps_time T (answers w)" using assms(1) w by (simp add: past_def)
    from time_passes [OF this assms(2) m] w show ?thesis by (auto simp: past_def)
  qed
  then show ?thesis unfolding keeps_def by (intro contractI) blast+
qed

definition slept_if_none :: "(history \<Rightarrow> rat) \<Rightarrow> (history \<Rightarrow> event \<Rightarrow> reply) \<Rightarrow> rat \<Rightarrow> 'a option \<Rightarrow> world \<Rightarrow> bool" where
  "slept_if_none T a t r w \<longleftrightarrow> (r = None \<longrightarrow> past T a (t + 5) w)"

lemma sleep_then:
  assumes "keeps_time T a"
  shows "contract (past T a t) (andthen (act (Sleep 5)) (\<lambda>_. ret None)) (slept_if_none T a t) (\<lambda>_ _. True)"
proof (rule contractI)
  fix w x w'
  assume w: "past T a t w" and run: "andthen (act (Sleep 5)) (\<lambda>_. ret None) w = (Inr x, w')"
  then obtain u where s: "act (Sleep 5) w = (Inr u, w')"
    by (auto simp: andthen_def split: prod.splits sum.splits)
  have "keeps_time T (answers w)" using assms w by (simp add: past_def)
  from sleep_takes [OF this s] w show "slept_if_none T a t x w'"
    by (auto simp: past_def slept_if_none_def)
qed simp

lemma step_then:
  assumes "keeps_time T a" "only True (\<lambda>e. True) m"
    "\<And>x. contract (past T a t) (f x) Q (\<lambda>_ _. True)"
  shows "contract (past T a t) (andthen m f) Q (\<lambda>_ _. True)"
proof (rule contract_andthen)
  show "contract (past T a t) m (\<lambda>_. past T a t) (\<lambda>_ _. True)"
    using keeps_past [OF assms(1,2)] unfolding keeps_def by (rule contract_weaken) simp_all
qed (rule assms(3))

lemma stop_some: "contract P (ret (Some x)) (slept_if_none T a t) (\<lambda>_ _. True)"
  by (simp add: contract_def slept_if_none_def)

lemma timeless_session_facts [only_intros]: "only True (\<lambda>e. True) (session_facts server attempt directory live)"
proof -
  have "only True (\<lambda>e. True) (checkpoint phase extra)" for phase extra
    by (rule timeless.only_checkpoint) simp
  then show ?thesis
    unfolding session_facts_def attempt_first_contact_def first_contact_def Let_def
    by (intro only_intros) simp_all
qed

lemma session_round_sleeps:
  assumes "keeps_time T a"
  shows "contract (past T a t) (session_round directory live) (slept_if_none T a t) (\<lambda>_ _. True)"
proof -
  note sleep = sleep_then [OF assms] and step = step_then [OF assms]
  have "contract (past T a t) (case r of None \<Rightarrow> andthen (act (Sleep 5)) (\<lambda>_. ret None)
      | Some (facts, known) \<Rightarrow> andthen (lift (fresh_session attempt facts live)) (\<lambda>ok.
          if \<not> ok then andthen (act (Sleep 5)) (\<lambda>_. ret None) else
          andthen (lift (refuse (wrong_image attempt facts live)
            (blocked ''Booted the wrong immutable live image''))) (\<lambda>_. ret (Some (facts, known)))))
      (slept_if_none T a t) (\<lambda>_ _. True)" for attempt and r :: "(json \<times> string) option"
    by (cases r) (auto intro!: step sleep stop_some only_lift simp del: run_simps)
  then show ?thesis
    unfolding session_round_def Let_def
    by (intro step contract_if sleep only_intros timeless.only_current timeless.only_address_known TrueI)
qed

interpretation session: polling
    "\<lambda>d. andthen (ask_num Monotonic) (\<lambda>t.
       if t \<ge> d then raise (blocked ''Timed out waiting for the intended changed boot session'')
       else session_round directory live)"
    "\<lambda>n d. session_rounds n d directory live"
  for directory live
proof
  let ?body = "\<lambda>d. andthen (ask_num Monotonic) (\<lambda>t.
       if t \<ge> d then raise (blocked ''Timed out waiting for the intended changed boot session'')
       else session_round directory live)"
  show "session_rounds (Suc n) d directory live =
      andthen (?body d) (\<lambda>r. case r of Some x \<Rightarrow> ret x | None \<Rightarrow> session_rounds n d directory live)" for n d
    unfolding session_rounds.simps
    by (auto simp: andthen_def fun_eq_iff split: prod.splits sum.splits option.splits)
  have body: "\<exists>w1. ask_num Monotonic w = (Inr (T (history w)), w1) \<and> T (history w) < d \<and>
      T (history w) \<le> T (history w1) \<and> answers w1 = answers w \<and> session_round directory live w1 = (Inr None, w')"
    if "keeps_time T (answers w)" "?body d w = (Inr None, w')" for T w d w'
  proof -
    obtain r w1 where m: "ask_num Monotonic w = (r, w1)" by fastforce
    from ask_monotonic [OF that(1) m] that(2) m show ?thesis
      by (auto simp: andthen_def not_le split: if_splits)
  qed
  show "?body d w \<noteq> (Inr None, w')"
    if "keeps_time T (answers w)" "d \<le> T (history w)" for T w d w'
    using body [OF that(1)] that(2) by fastforce
  show "T (history w) + 5 \<le> T (history w') \<and> answers w' = answers w"
    if "keeps_time T (answers w)" "?body d w = (Inr None, w')" for T w d w'
  proof -
    from body [OF that] obtain w1 where w1: "T (history w) \<le> T (history w1)" "answers w1 = answers w"
      "session_round directory live w1 = (Inr None, w')" by blast
    then have "slept_if_none T (answers w) (T (history w)) (None :: (json \<times> string) option) w'"
      by (intro contract_return [OF session_round_sleeps [OF that(1)]]) (simp_all add: past_def)
    then show ?thesis by (simp add: slept_if_none_def past_def)
  qed
qed

end
