(* ===== verification/ProvisionLab.thy ===== *)
theory ProvisionLab
  imports Provisioning
begin

text \<open>
  A concrete environment in which the properties are applied: one Server \<open>srv\<close> whose run \<open>run\<close> is
  in the phase \<open>Verifying\<close>, an API that accepts every status write, plays that succeed and a host
  that reports the planned system.
\<close>

definition site_disk :: json where
  "site_disk = JObj [(''path'', JStr ''/dev/sda''), (''size'', JInt 21474836480)]"

definition site_parts :: "json list" where
  "site_parts =
    [JObj [(''number'', JInt 1), (''role'', JStr ''efi''), (''filesystem'', JStr ''vfat''),
       (''mountPoint'', JStr ''/boot''), (''startMiB'', JInt 1), (''endMiB'', JInt 513)],
     JObj [(''number'', JInt 2), (''role'', JStr ''root''), (''filesystem'', JStr ''ext4''),
       (''mountPoint'', JStr ''/''), (''startMiB'', JInt 513), (''endMiB'', JInt 20479)]]"

definition site_os :: json where
  "site_os = JObj [(''distribution'', JStr ''debian''), (''version'', JStr ''trixie'')]"

definition site_ref :: "string \<Rightarrow> json" where
  "site_ref n = JObj [(''name'', JStr n), (''uid'', JStr (n @ ''-uid''))]"

definition site_snapshot :: json where
  "site_snapshot = JObj
    [(''machineRef'', site_ref ''m1''), (''keyPairRef'', site_ref ''k1''), (''trustBundleDigest'', JStr ''d''),
     (''isoBuildID'', JStr ''b1''), (''artifacts'', JArr []), (''bootArguments'', JArr []),
     (''targetDisk'', JStr ''/dev/sda''), (''diskIdentity'', site_disk), (''bootMAC'', JStr ''aa:bb''),
     (''codeRevision'', JStr ''rev''),
     (''inputs'', JObj [(''serverSpec'', JObj [(''operatingSystem'', site_os)]),
        (''storage'', JObj [(''partitions'', JArr site_parts)]), (''users'', JArr []), (''disableEEE'', JBool False)]),
     (''planDigest'', JStr ''p'')]"

definition site_attempt :: "string \<Rightarrow> bool \<Rightarrow> jobject" where
  "site_attempt phase m =
    [(''phase'', JStr phase), (''attemptID'', JStr ''run-uid''), (''snapshot'', site_snapshot),
     (''selectedDisk'', site_disk), (''sourceBootID'', JStr ''boot0''), (''liveBootID'', JStr ''boot1''),
     (''maintenance'', JBool m), (''netbootArmed'', JBool False)]"

definition site_meta :: "string \<Rightarrow> (string \<times> json) list" where
  "site_meta n = [(''name'', JStr n), (''uid'', JStr (n @ ''-uid'')), (''resourceVersion'', JStr ''7''), (''generation'', JInt 1)]"

definition site_run :: "string \<Rightarrow> bool \<Rightarrow> jobject" where
  "site_run phase m =
    [(''apiVersion'', JStr ''homelab.io/v1alpha1''), (''kind'', JStr ''ProvisioningRun''), (''metadata'', JObj (site_meta ''run'')),
     (''spec'', JObj [(''serverRef'', site_ref ''srv''), (''machineRef'', site_ref ''m1'')]),
     (''status'', JObj (site_attempt phase m))]"

definition site_server :: jobject where
  "site_server =
    [(''apiVersion'', JStr ''homelab.io/v1alpha1''), (''kind'', JStr ''Server''), (''metadata'', JObj (site_meta ''srv'')),
     (''spec'', JObj [(''operatingSystem'', site_os), (''provisioning'', JObj [(''enabled'', JBool True)])]),
     (''status'', JObj [(''machineRef'', site_ref ''m1''),
        (''provisioning'', JObj [(''activeRunRef'', site_ref ''run'')]),
        (''sshTrust'', JObj [(''publicBundle'', JStr ''ca'')]),
        (''hostSSH'', JObj [(''keyPairRef'', site_ref ''k1'')]),
        (''networking'', JObj [(''management'', JObj [(''interface'', JObj [(''mac'', JStr ''aa:bb'')]),
            (''address'', JObj [(''address'', JStr ''10.0.0.5'')])])])])]"

definition site_facts :: json where
  "site_facts = JObj
    [(''live'', JBool False), (''rootType'', JStr ''ext4''), (''bootID'', JStr ''boot2''), (''disk'', site_disk),
     (''marker'', JObj [(''serverUID'', JStr ''srv-uid''), (''attemptID'', JStr ''run-uid''), (''runUID'', JStr ''run-uid''),
         (''planDigest'', JStr ''p''), (''rootUUID'', JStr ''r'')]),
     (''rootUUID'', JStr ''r''), (''rootOnTarget'', JBool True),
     (''os'', JObj [(''ID'', JStr ''debian''), (''VERSION_CODENAME'', JStr ''trixie'')]),
     (''grubReady'', JBool True), (''grubEnvironment'', JStr ''''),
     (''partitions'', JArr
        [JObj [(''number'', JInt 1), (''startBytes'', JInt 1048576), (''size'', JInt 536870912), (''filesystem'', JStr ''vfat''),
           (''uuid'', JStr ''u1''), (''partUUID'', JStr ''q1''), (''mountPoints'', JArr [JStr ''/boot''])],
         JObj [(''number'', JInt 2), (''startBytes'', JInt 537919488), (''size'', JInt 20935868416), (''filesystem'', JStr ''ext4''),
           (''uuid'', JStr ''u2''), (''partUUID'', JStr ''q2''), (''mountPoints'', JArr [JStr ''/''])]])]"

fun site_answers :: "history \<Rightarrow> event \<Rightarrow> reply" where
  "site_answers h (ApiGet c n) =
     (if c = ''servers'' then RJson (JObj site_server)
      else if c = ''provisioning-runs'' then
        RJson (JObj (if list_ex (\<lambda>x. patches (fst x)) h then site_run ''Succeeded'' False else site_run ''Verifying'' True))
      else RRaise OSError)"
| "site_answers h (ApiPatch c n u rv status) =
     RJson (JObj (if c = ''servers'' then site_server else site_run ''Succeeded'' False))"
| "site_answers h (Process argv input limit) =
     (if contains (last argv) ''systemctl'' then RProc 0 [] [] else RJson site_facts)"
| "site_answers h (Ansible argv f limit) = RProc 0 [] []"
| "site_answers h (Getenv k) = RText ''/keys''"
| "site_answers h (ReadFile path) = RText ''probe''"
| "site_answers h Now = RText ''now''"
| "site_answers h e = RUnit"

definition site_world :: world where
  "site_world = \<lparr>answers = site_answers, history = [], float_text = (\<lambda>q. []),
     cell = (case with_run (JObj site_server) (site_run ''Verifying'' True) of Inr v \<Rightarrow> v | Inl e \<Rightarrow> [])\<rparr>"

end
