(* ===== verification/ProvisionProperties.thy ===== *)
theory ProvisionProperties
  imports ProvisionSafety ProvisionTime ProvisionLab
begin

text \<open>
  The properties of the provisioning operator. The properties of whole passes hold for every
  environment: nothing is assumed about the answers of the API, the hosts or the plays.
\<close>

section \<open>Erasure\<close>

text \<open>
  C1: whatever the environment answers, a pass authorizes the erasure of a disk (it hands the
  install stage variables with \<open>provision_destructive_authorized\<close> true) only while the last phase
  it wrote is \<open>Installing\<close>, that write was accepted, and no other erasure was authorized since:
  every authorization has an accepted checkpoint of its own.
\<close>

theorem erasure_licensed: "licensed (added w (snd (main preflight checkout w)))"
proof -
  obtain r w' where m: "main preflight checkout w = (r, w')" by fastforce
  have "safe_since w w'" by (rule keepsD [OF keeps_main _ m]) simp
  with m show ?thesis by (simp add: safe_since_def)
qed

text \<open>
  C9: a preflight pass changes nothing: it makes no status write, creates nothing, reads no
  secret, runs no play and writes no stage variables, however its environment answers.
\<close>

theorem preflight_observes: "since reading w (snd (main True checkout w))"
proof -
  obtain r w' where "main True checkout w = (r, w')" by fastforce
  with since_only [OF since_refl preflight_main] show ?thesis by simp
qed

text \<open>
  C3: a pass over a run that was interrupted in \<open>Installing\<close> never erases again: it authorizes
  nothing, and every phase it writes is \<open>Installing\<close> or \<open>Blocked\<close> under maintenance, also when it
  fails and its failure is handled.
\<close>

theorem interrupted_never_erased:
  assumes "phase_in ''Installing'' w"
  shows "since retains_hold w (snd (server_pass variables revision preflight w))"
proof -
  obtain r w' where p: "server_pass variables revision preflight w = (r, w')" by fastforce
  have "interrupted_since w w" using assms by (simp add: interrupted_since_def)
  with p interrupted_server_pass [of w variables revision preflight] show ?thesis
    by (cases r) (auto dest: contract_return contract_raise)
qed

definition interrupted_world :: world where
  "interrupted_world = \<lparr>answers = (\<lambda>h e. RUnit), history = [], float_text = (\<lambda>q. []),
     cell = [(''status'', JObj [(''provisioning'', JObj [(''phase'', JStr ''Installing'')])])]\<rparr>"

lemma interrupted_never_erased_witness:
  "since retains_hold interrupted_world (snd (server_pass (JObj []) [] False interrupted_world))"
  by (rule interrupted_never_erased) (simp add: phase_in_def interrupted_world_def dsub_def)

section \<open>Completion\<close>

text \<open>A write that completes the run.\<close>

definition succeeds :: "event \<Rightarrow> bool" where
  "succeeds e \<longleftrightarrow> written_phase e = Some (JStr ''Succeeded'')"

interpretation completion: reader "\<lambda>e. \<not> succeeds e"
  by unfold_locales (simp add: succeeds_def reading_not_patches unwritten)

lemma silent_run_stage: "only cw (\<lambda>e. \<not> succeeds e) (run_stage server directory known name)"
  by (rule completion.only_run_stage) (simp_all add: succeeds_def)

lemma any_intros [only_intros]:
  "only True (\<lambda>e. True) (checkpoint phase extra)" "only cw (\<lambda>e. True) (release_run server)"
  "only cw (\<lambda>e. True) (run_stage server directory known name)"
  "only cw (\<lambda>e. True) (stage directory known name)"
  unfolding stage_def
  by (intro timeless.only_checkpoint timeless.only_release_run timeless.only_run_stage
      only_andthen timeless.only_get_server TrueI)+

lemma silent_step:
  assumes "andthen m f w = (r, w')" "made succeeds w w'" "only False (\<lambda>e. \<not> succeeds e) m"
    "\<And>x. only True (\<lambda>e. True) (f x)"
  obtains x w1 where "m w = (Inr x, w1)" "f x w1 = (r, w')" "made succeeds w1 w'" "cell w1 = cell w"
  by (rule made_andthen [OF assms(1,3,2) assms(4)]) (auto intro: that dest: only_cell [OF assms(3)])

lemma get_server_Inr: "get_server w = (Inr s, w1) \<longleftrightarrow> s = JObj (cell w) \<and> w1 = w"
  by (auto simp: get_server_def andthen_def)

lemma stage_run: "stage directory known name w = run_stage (JObj (cell w)) directory known name w"
  by (simp add: stage_def get_server_run)

lemma silent_stage [only_intros]: "only cw (\<lambda>e. \<not> succeeds e) (stage directory known name)"
  unfolding stage_def by (intro only_andthen completion.only_get_server silent_run_stage)


lemma site_completes:
  "list_ex (\<lambda>x. written_phase (fst x) = Some (JStr ''Succeeded''))
     (history (snd (verify_completion ''/tmp'' ''/tmp/k'' site_world)))"
  by code_simp


section \<open>Checkpoints\<close>

text \<open>
  C8: a checkpoint that returns was committed: within five status writes, the last request of the
  pass is a write of the phase that the API accepted, bound to the UID and resource version of the
  run as it was read and revalidated against the pinned plan, and the local view is that run.
\<close>

theorem checkpoint_commits:
  assumes "checkpoint phase extra w = (Inr view, w')"
  shows "counted patches (added w w') \<le> 5 \<and> cell w' = view \<and>
    (\<exists>w1 w2 latest run updated ev d.
       current (JObj (cell w)) True True w1 = (Inr latest, w2) \<and>
       dsub latest ''_run'' = Inr run \<and>
       patch_request run (dmerge [(''phase'', JStr phase), (''currentStage'', JStr phase)] extra) = Inr ev \<and>
       history w' = history w2 @ [(ev, RJson (JObj d))] \<and> resource d = Inr updated \<and>
       with_run (JObj latest) updated = Inr view)"
proof -
  obtain w1 w2 h latest run updated where c: "current (JObj (cell w)) True True w1 = (Inr latest, w2)"
    "dsub latest ''_run'' = Inr run" "with_run (JObj latest) updated = Inr view" "cell w' = view"
    and p: "patch_status run (dmerge [(''phase'', JStr phase), (''currentStage'', JStr phase)] extra) w2 =
      (Inr updated, w'\<lparr>cell := cell w2\<rparr>)"
    by (rule checkpoint_returns [OF assms])
  from p obtain c n u rv d where q: "w'\<lparr>cell := cell w2\<rparr> = w2\<lparr>history := history w2 @
      [(ApiPatch c n u rv (dmerge [(''phase'', JStr phase), (''currentStage'', JStr phase)] extra), RJson (JObj d))]\<rparr>"
    "patch_request run (dmerge [(''phase'', JStr phase), (''currentStage'', JStr phase)] extra) =
      Inr (ApiPatch c n u rv (dmerge [(''phase'', JStr phase), (''currentStage'', JStr phase)] extra))"
    "resource d = Inr updated"
    by (rule patch_status_Inr)
  from arg_cong [OF q(1), of history] have "history w' = history w2 @
      [(ApiPatch c n u rv (dmerge [(''phase'', JStr phase), (''currentStage'', JStr phase)] extra), RJson (JObj d))]"
    by simp
  with c q(2,3) at_mostD(2) [OF at_most_checkpoint assms] show ?thesis by blast
qed

lemma site_checkpoint: "case fst (checkpoint ''Verifying'' [] site_world) of Inl e \<Rightarrow> False | Inr v \<Rightarrow> True"
  by code_simp

lemma checkpoint_commits_witness:
  "\<exists>view. counted patches (added site_world (snd (checkpoint ''Verifying'' [] site_world))) \<le> 5 \<and>
    cell (snd (checkpoint ''Verifying'' [] site_world)) = view"
proof -
  obtain r w' where c: "checkpoint ''Verifying'' [] site_world = (r, w')" by fastforce
  with site_checkpoint obtain view where "r = Inr view" by (cases r) auto
  with c checkpoint_commits [of "''Verifying''" "[]" site_world view w'] show ?thesis by simp
qed

section \<open>Waiting\<close>

text \<open>
  Under a clock that keeps up with its sleeps, the wait for administrative builds ends within
  its 62 rounds: a larger bound gives the same run, so it never ends for want of rounds.
\<close>

theorem drain_ends:
  assumes "keeps_time T (answers w)"
  shows "drain_commands w = andthen (ask_num Monotonic) (\<lambda>t. drain_rounds (62 + k) (t + 300)) w"
proof -
  obtain r w1 where m: "ask_num Monotonic w = (r, w1)" by fastforce
  note one = ask_monotonic [OF assms m]
  have "drain_rounds (Suc 61 + k) (T (history w) + 300) w1 = drain_rounds (Suc 61) (T (history w) + 300) w1"
    by (rule drain.enough) (use one assms in auto)
  then show ?thesis using m one by (simp add: drain_commands_def andthen_def)
qed

text \<open>A clock that only sleeps advance.\<close>

definition slept :: "history \<Rightarrow> rat" where
  "slept h = sum_list (map (\<lambda>x. case fst x of Sleep n \<Rightarrow> of_nat n | _ \<Rightarrow> 0) h)"

definition slow_answers :: "history \<Rightarrow> event \<Rightarrow> reply" where
  "slow_answers h ev = (case ev of
     Monotonic \<Rightarrow> RNum (slept h)
   | ApiList c \<Rightarrow> RJson (JObj [(''items'', JArr [JObj
       [(''apiVersion'', JStr ''homelab.io/v1alpha1''), (''kind'', JStr ''Command''),
        (''metadata'', JObj (site_meta ''job'')), (''spec'', JObj []),
        (''status'', JObj [(''phase'', JStr ''Running'')])]])])
   | _ \<Rightarrow> RUnit)"

definition slow_world :: world where
  "slow_world = \<lparr>answers = slow_answers, history = [], float_text = (\<lambda>q. []), cell = []\<rparr>"

lemma slow_clock: "keeps_time slept slow_answers"
  by (auto simp: keeps_time_def slow_answers_def slept_def split: event.splits)

lemma drain_ends_witness:
  "drain_commands slow_world = andthen (ask_num Monotonic) (\<lambda>t. drain_rounds (62 + 1000) (t + 300)) slow_world"
  by (rule drain_ends [of slept]) (simp add: slow_world_def slow_clock)

text \<open>
  C10: under such a clock the wait for a changed boot session ends within its 122 rounds.
\<close>

theorem await_ends:
  assumes "keeps_time T (answers w)"
  shows "await_session directory live w =
    andthen (ask_num Monotonic) (\<lambda>t. session_rounds (122 + k) (t + 600) directory live) w"
proof -
  obtain r w1 where m: "ask_num Monotonic w = (r, w1)" by fastforce
  note one = ask_monotonic [OF assms m]
  have "session_rounds (Suc 121 + k) (T (history w) + 600) directory live w1 =
      session_rounds (Suc 121) (T (history w) + 600) directory live w1"
    by (rule session.enough) (use one assms in auto)
  then show ?thesis using m one by (simp add: await_session_def andthen_def)
qed

lemma await_ends_witness:
  "await_session ''/tmp'' True slow_world =
    andthen (ask_num Monotonic) (\<lambda>t. session_rounds (122 + 1000) (t + 600) ''/tmp'' True) slow_world"
  by (rule await_ends [of slept]) (simp add: slow_world_def slow_clock)

end
