(* ===== verification/StorageLayout.thy ===== *)
theory StorageLayout
  imports ProvisionLab
begin

text \<open>
  What the pinned partition layout and the attestation of an installed disk mean: the specification
  of a layout, that \<open>validate_storage\<close> accepts nothing else, and that \<open>verify_installed_storage\<close>
  accepts only a disk that carries it.
\<close>

section \<open>The specification of a layout\<close>

abbreviation part_start :: "json \<Rightarrow> rat option" where
  "part_start p \<equiv> as_number (obj_field ''startMiB'' p)"

abbreviation part_end :: "json \<Rightarrow> rat option" where
  "part_end p \<equiv> as_number (obj_field ''endMiB'' p)"

text \<open>The partitions follow each other without a gap from \<open>a\<close>, none is empty, none passes the limit.\<close>

fun contiguous :: "rat \<Rightarrow> rat \<Rightarrow> json list \<Rightarrow> bool" where
  "contiguous limit a [] = True"
| "contiguous limit a (p # ps) =
     (part_start p = Some a \<and>
      (case part_end p of None \<Rightarrow> False | Some e \<Rightarrow> a < e \<and> e \<le> limit \<and> contiguous limit e ps))"

fun layout_end :: "rat \<Rightarrow> json list \<Rightarrow> rat" where
  "layout_end a [] = a"
| "layout_end a (p # ps) = layout_end (the (part_end p)) ps"

lemma contiguous_snoc:
  "contiguous limit a (ps @ [p]) \<longleftrightarrow>
     contiguous limit a ps \<and> part_start p = Some (layout_end a ps) \<and>
     (case part_end p of None \<Rightarrow> False | Some e \<Rightarrow> layout_end a ps < e \<and> e \<le> limit)"
  by (induction ps arbitrary: a) (auto split: option.splits)

lemma layout_end_snoc [simp]: "layout_end a (ps @ [p]) = the (part_end p)"
  by (induction ps arbitrary: a) simp_all

lemma contiguous_bounds:
  "contiguous limit a ps \<Longrightarrow> p \<in> set ps \<Longrightarrow>
   \<exists>s e. part_start p = Some s \<and> part_end p = Some e \<and> a \<le> s \<and> s < e \<and> e \<le> limit"
proof (induction ps arbitrary: a)
  case (Cons q ps)
  then obtain e where e: "part_start q = Some a" "part_end q = Some e" "a < e" "e \<le> limit"
    "contiguous limit e ps" by (auto split: option.splits)
  show ?case
  proof (cases "p = q")
    case False
    with Cons.prems Cons.IH [OF e(5)] e(3) show ?thesis by fastforce
  qed (use e in auto)
qed simp

lemma contiguous_disjoint:
  "contiguous limit a ps \<Longrightarrow> sorted_wrt (\<lambda>p q. the (part_end p) \<le> the (part_start q)) ps"
proof (induction ps arbitrary: a)
  case (Cons p ps)
  then obtain e where e: "part_end p = Some e" "contiguous limit e ps"
    by (auto split: option.splits)
  with Cons.IH contiguous_bounds [OF e(2)] show ?case by fastforce
qed simp

text \<open>The last usable MiB of the disk.\<close>

definition disk_limit :: "json \<Rightarrow> rat" where
  "disk_limit facts =
     of_int \<lfloor>the (as_number (obj_field ''size'' (obj_field ''disk'' facts))) / 1048576\<rfloor> - 1"

text \<open>
  A sound layout: contiguous from the first MiB within the disk, no partition number and no mount
  point twice, one root and one EFI partition.
\<close>

definition sound_layout :: "rat \<Rightarrow> json list \<Rightarrow> bool" where
  "sound_layout limit ps \<longleftrightarrow>
     contiguous limit 1 ps \<and>
     sorted_wrt (\<lambda>p q. \<not> py_eq (obj_field ''number'' q) (obj_field ''number'' p)) ps \<and>
     sorted_wrt (\<lambda>p q. truthy (obj_field ''mountPoint'' p) \<longrightarrow>
       \<not> py_eq (obj_field ''mountPoint'' q) (obj_field ''mountPoint'' p)) ps \<and>
     count_role ''root'' ps = 1 \<and> count_role ''efi'' ps = 1"

section \<open>Validation accepts only sound layouts\<close>

lemma add_partition_Inr:
  assumes "add_partition facts lay entry = Inr lay'"
  obtains p s e where "parts lay' = parts lay @ [p]"
    "part_start p = Some s" "part_end p = Some e" "as_number (previous_end lay') = Some e"
    "py_eq (obj_field ''startMiB'' p) (previous_end lay)" "s < e" "e \<le> disk_limit facts"
    "numbers lay' = obj_field ''number'' p # numbers lay"
    "\<forall>n\<in>set (numbers lay). \<not> py_eq (obj_field ''number'' p) n"
    "set (mounts lay) \<subseteq> set (mounts lay')"
    "truthy (obj_field ''mountPoint'' p) \<Longrightarrow> obj_field ''mountPoint'' p \<in> set (mounts lay')"
    "truthy (obj_field ''mountPoint'' p) \<Longrightarrow> \<forall>m\<in>set (mounts lay). \<not> py_eq (obj_field ''mountPoint'' p) m"
proof -
  from assms obtain spec start "end" number mount role filesystem mount_text where
    entry: "jsub entry ''spec'' = Inr spec" "jsub entry ''startMiB'' = Inr start" "jsub entry ''endMiB'' = Inr end"
    and ok: "geometry_invalid facts lay spec start end = Inr False"
    and number: "jsub spec ''number'' = Inr number" and mount: "jget spec ''mountPoint'' JNull = Inr mount"
    and default: "jget spec ''mountPoint'' (JStr []) = Inr mount_text"
    and lay': "lay' = \<lparr>parts = parts lay @ [JObj [(''number'', number), (''role'', role),
          (''filesystem'', filesystem), (''mountPoint'', mount_text), (''startMiB'', start), (''endMiB'', end)]],
        previous_end = end, numbers = number # numbers lay,
        mounts = (if truthy mount then mount # mounts lay else mounts lay)\<rparr>"
    unfolding add_partition_def refuse_def
    by (elim bindE) (auto simp: raise_if_eq_Inr split: if_splits)
  from ok obtain s e size where prev: "py_eq start (previous_end lay)"
    and se: "as_number start = Some s" "as_number end = Some e" "s < e"
    and size: "jpath facts [''disk'', ''size''] = Inr size" "as_number size \<noteq> None"
      "e \<le> of_int \<lfloor>the (as_number size) / 1048576\<rfloor> - 1"
    and n: "in_set number (numbers lay) = Inr False" and m: "in_set mount (mounts lay) = Inr False"
    unfolding geometry_invalid_def by (auto simp: exn_simps number mount)
  have "disk_limit facts = of_int \<lfloor>the (as_number size) / 1048576\<rfloor> - 1"
    using size(1) by (auto simp: disk_limit_def exn_simps map_of_dget)
  moreover have "mount = mount_text" if "truthy mount_text"
    using that mount default by (auto simp: exn_simps dgetd_def split: option.splits)
  ultimately show thesis
    using prev se size(3) n m
    by (intro that [of "JObj [(''number'', number), (''role'', role), (''filesystem'', filesystem),
          (''mountPoint'', mount_text), (''startMiB'', start), (''endMiB'', end)]" s e])
      (auto simp: lay' lookup_simps in_set_def list_ex_iff split: if_splits)
qed

definition layout_inv :: "json \<Rightarrow> layout \<Rightarrow> bool" where
  "layout_inv facts lay \<longleftrightarrow>
     contiguous (disk_limit facts) 1 (parts lay) \<and>
     as_number (previous_end lay) = Some (layout_end 1 (parts lay)) \<and>
     set (numbers lay) = obj_field ''number'' ` set (parts lay) \<and>
     (\<forall>p\<in>set (parts lay). truthy (obj_field ''mountPoint'' p) \<longrightarrow> obj_field ''mountPoint'' p \<in> set (mounts lay)) \<and>
     sorted_wrt (\<lambda>p q. \<not> py_eq (obj_field ''number'' q) (obj_field ''number'' p)) (parts lay) \<and>
     sorted_wrt (\<lambda>p q. truthy (obj_field ''mountPoint'' p) \<longrightarrow>
       \<not> py_eq (obj_field ''mountPoint'' q) (obj_field ''mountPoint'' p)) (parts lay)"

lemma py_eq_truthy: "py_eq a b \<Longrightarrow> truthy a = truthy b"
  by (subst (asm) py_eq.simps, cases a; cases b) (auto split: if_splits)

lemma layout_step:
  assumes "layout_inv facts lay" "add_partition facts lay entry = Inr lay'"
  shows "layout_inv facts lay'"
proof -
  from assms(2) obtain p s e where p: "parts lay' = parts lay @ [p]"
    "part_start p = Some s" "part_end p = Some e" "as_number (previous_end lay') = Some e"
    "py_eq (obj_field ''startMiB'' p) (previous_end lay)" "s < e" "e \<le> disk_limit facts"
    "numbers lay' = obj_field ''number'' p # numbers lay"
    "\<forall>n\<in>set (numbers lay). \<not> py_eq (obj_field ''number'' p) n"
    "set (mounts lay) \<subseteq> set (mounts lay')"
    "truthy (obj_field ''mountPoint'' p) \<Longrightarrow> obj_field ''mountPoint'' p \<in> set (mounts lay')"
    "truthy (obj_field ''mountPoint'' p) \<Longrightarrow> \<forall>m\<in>set (mounts lay). \<not> py_eq (obj_field ''mountPoint'' p) m"
    by (rule add_partition_Inr) blast
  have "s = layout_end 1 (parts lay)"
    using assms(1) p(2,5) as_number_py_eq [of "obj_field ''startMiB'' p" "previous_end lay"]
    by (simp add: layout_inv_def)
  moreover have "\<not> py_eq (obj_field ''mountPoint'' p) (obj_field ''mountPoint'' q)"
    if "q \<in> set (parts lay)" "truthy (obj_field ''mountPoint'' q)" for q
    using that assms(1) p(12) py_eq_truthy by (auto simp: layout_inv_def)
  ultimately show ?thesis
    using assms(1) p(1-4,6-11)
    by (auto simp: layout_inv_def contiguous_snoc sorted_wrt_append)
qed

lemma validate_storage_Inr:
  assumes "validate_storage run_status facts = Inr v"
  obtains ps where "v = JObj [(''partitions'', JArr ps)]" "sound_layout (disk_limit facts) ps"
proof -
  from assms obtain entries lay where fold: "foldM (add_partition facts) no_layout entries = Inr lay"
    and v: "v = JObj [(''partitions'', JArr (parts lay))]"
    and roles: "count_role ''root'' (parts lay) = 1" "count_role ''efi'' (parts lay) = 1"
    unfolding validate_storage_def by (elim bindE) (auto split: if_splits)
  have "layout_inv facts lay"
    by (rule foldM_invariant [OF fold, where P = "\<lambda>_. layout_inv facts"])
      (simp add: layout_inv_def no_layout_def, blast intro: layout_step)
  with roles v that show thesis by (auto simp: sound_layout_def layout_inv_def)
qed

section \<open>The installed disk\<close>

text \<open>An observed partition \<open>q\<close> carries the planned partition \<open>p\<close>.\<close>

definition carries :: "json \<Rightarrow> json \<Rightarrow> bool" where
  "carries q p \<longleftrightarrow>
     py_eq (obj_field ''number'' q) (obj_field ''number'' p) \<and>
     as_number (obj_field ''startBytes'' q) = Some (the (part_start p) * 1048576) \<and>
     as_number (obj_field ''size'' q) = Some ((the (part_end p) - the (part_start p)) * 1048576) \<and>
     py_eq (obj_field ''filesystem'' q) (obj_field ''filesystem'' p) \<and>
     truthy (obj_field ''uuid'' q) \<and> truthy (obj_field ''partUUID'' q) \<and>
     (if obj_field ''role'' p = JStr ''swap'' then truthy (obj_field ''activeSwap'' q)
      else py_in (obj_field ''mountPoint'' p) (obj_field ''mountPoints'' q) = Inr True)"

lemma kput_length: "length (kput k v d) \<le> Suc (length d)"
  "length (kput k v d) = Suc (length d) \<Longrightarrow> kput k v d = d @ [(k, v)]"
  by (induction d rule: kput.induct [of _ k v, case_names Nil Cons]) (auto split: if_splits)

lemma observed_fold:
  assumes "foldM (\<lambda>d p. bind (jsub p ''number'') (\<lambda>n.
      if hashable n then Inr (kput n p d) else Inl TypeError)) d ps = Inr d'"
  shows "length d' \<le> length d + length ps \<and>
    (length d' = length d + length ps \<longrightarrow>
       d' = d @ map (\<lambda>p. (obj_field ''number'' p, p)) ps \<and> (\<forall>p\<in>set ps. \<exists>o'. p = JObj o'))"
  using assms
proof (induction ps arbitrary: d)
  case (Cons p ps)
  then obtain n where n: "jsub p ''number'' = Inr n" and
    rest: "foldM (\<lambda>d p. bind (jsub p ''number'') (\<lambda>n.
      if hashable n then Inr (kput n p d) else Inl TypeError)) (kput n p d) ps = Inr d'"
    by (auto simp: bind_eq_Inr split: if_splits)
  from n have f: "obj_field ''number'' p = n" "\<exists>o'. p = JObj o'" by (auto simp: exn_simps map_of_dget)
  from Cons.IH [OF rest] kput_length [of n p d] f show ?case by auto
qed simp

lemma jiter_jlen: "jiter v = Inr xs \<Longrightarrow> jlen v = Inr n \<Longrightarrow> n = length xs"
  by (cases v) auto

lemma check_partition_Inr:
  assumes "check_partition (map (\<lambda>q. (obj_field ''number'' q, q)) qs) p = Inr u"
    "part_start p = Some s" "part_end p = Some e" "s < e" "\<forall>q\<in>set qs. \<exists>o'. q = JObj o'"
  shows "\<exists>q\<in>set qs. carries q p"
proof -
  from assms(1) obtain number actual where number: "jsub p ''number'' = Inr number"
    and actual: "kget (map (\<lambda>q. (obj_field ''number'' q, q)) qs) number (JObj []) = Inr actual"
    and ok: "geometry_matches actual p = Inr True" "filesystem_matches actual p = Inr True"
      "is_mounted actual p = Inr True"
    unfolding check_partition_def by (elim bindE) (auto simp: raise_if_eq_Inr)
  from number obtain d where p: "p = JObj d" "obj_field ''number'' p = number"
    by (auto simp: exn_simps map_of_dget)
  have s: "jsub p ''startMiB'' = Inr a \<longleftrightarrow> a = obj_field ''startMiB'' p"
    "jsub p ''endMiB'' = Inr a \<longleftrightarrow> a = obj_field ''endMiB'' p" for a
    using assms(2,3) p by (auto simp: exn_simps dget_def split: option.splits)
  have found: "find (\<lambda>x. py_eq (fst x) number) (map (\<lambda>q. (obj_field ''number'' q, q)) qs) \<noteq> None"
  proof
    assume "find (\<lambda>x. py_eq (fst x) number) (map (\<lambda>q. (obj_field ''number'' q, q)) qs) = None"
    with actual have "actual = JObj []" by (auto simp: kget_def split: if_splits)
    with ok(1) assms(2) show False
      by (auto simp: geometry_matches_def size_matches_def exn_simps dgetd_def)
  qed
  then obtain x where x: "find (\<lambda>x. py_eq (fst x) number) (map (\<lambda>q. (obj_field ''number'' q, q)) qs) = Some x"
    by blast
  then have "x \<in> set (map (\<lambda>q. (obj_field ''number'' q, q)) qs)" "py_eq (fst x) number"
    by (auto simp: find_Some_iff)
  moreover have "actual = snd x" using actual x by (auto simp: kget_def split: if_splits)
  ultimately obtain q where q: "q \<in> set qs" "py_eq (obj_field ''number'' q) number" "actual = q"
    by auto
  with assms(5) obtain o' where o': "q = JObj o'" by blast
  have "as_number (obj_field ''startBytes'' q) = Some (s * 1048576)"
    "as_number (obj_field ''size'' q) = Some ((e - s) * 1048576)"
    using ok(1) assms(2,3) q(3) o'
    by (auto simp: geometry_matches_def s scaled_eq_def size_matches_def exn_simps dgetd_def dget_def)
  moreover have "py_eq (obj_field ''filesystem'' q) (obj_field ''filesystem'' p)"
    "truthy (obj_field ''uuid'' q)" "truthy (obj_field ''partUUID'' q)"
    using ok(2) q(3) o' p by (auto simp: filesystem_matches_def holds_def exn_simps dgetd_def dget_def)
  moreover have "if obj_field ''role'' p = JStr ''swap'' then truthy (obj_field ''activeSwap'' q)
      else py_in (obj_field ''mountPoint'' p) (obj_field ''mountPoints'' q) = Inr True"
    using ok(3) q(3) o' p
    by (auto simp: is_mounted_def holds_def exn_simps dgetd_def dget_def split: if_splits option.splits)
  ultimately have "carries q p"
    using q(2) p(2) assms(2,3) by (simp add: carries_def)
  with q(1) show ?thesis by blast
qed

lemma verify_installed_storage_Inr:
  assumes "verify_installed_storage (JObj [(''partitions'', JArr ps)]) facts = Inr u" "contiguous limit 1 ps"
  obtains qs where "jget facts ''partitions'' (JArr []) = Inr (JArr qs) \<or> qs = []"
    "length qs = length ps" "\<forall>p\<in>set ps. \<exists>q\<in>set qs. carries q p"
proof -
  from assms(1) obtain listed observed qs where listed: "jget facts ''partitions'' (JArr []) = Inr listed"
    and qs: "jiter listed = Inr qs"
    and fold: "foldM (\<lambda>d p. bind (jsub p ''number'') (\<lambda>n.
      if hashable n then Inr (kput n p d) else Inl TypeError)) [] qs = Inr observed"
    and len: "length observed = length ps" "jlen listed = Inr (length observed)"
    and checks: "\<exists>us. mapM (check_partition observed) ps = Inr us"
  proof -
    from assms(1) [unfolded verify_installed_storage_def] obtain listed observed planned n bad where
      a: "jget facts ''partitions'' (JArr []) = Inr listed" "observed_partitions listed = Inr observed"
      "jget (JObj [(''partitions'', JArr ps)]) ''partitions'' (JArr []) = Inr planned" "jlen planned = Inr n"
      "(if length observed \<noteq> n then Inr True
        else bind (jlen listed) (\<lambda>k. Inr (length observed \<noteq> k))) = Inr bad"
      and rest: "(if bad then Inl (blocked ''Installed partition set differs from the plan'')
        else bind (jiter planned) (\<lambda>ps. bind (mapM (check_partition observed) ps) (\<lambda>_. Inr ()))) = Inr u"
      by (elim bindE)
    have "\<not> bad" using rest by (cases bad) simp_all
    with rest obtain ps' us where "jiter planned = Inr ps'" "mapM (check_partition observed) ps' = Inr us"
      by (simp only: if_False) (elim bindE)
    note a = a \<open>\<not> bad\<close> this
    from a(2) obtain qs where "jiter listed = Inr qs" "foldM (\<lambda>d p. bind (jsub p ''number'') (\<lambda>n.
      if hashable n then Inr (kput n p d) else Inl TypeError)) [] qs = Inr observed"
      unfolding observed_partitions_def by (elim bindE)
    moreover have "planned = JArr ps" using a(3) by (simp add: lookup_simps)
    ultimately show thesis
      using a by (intro that [of listed qs observed]) (auto simp: bind_eq_Inr split: if_splits)
  qed
  have n: "length observed = length qs" using jiter_jlen [OF qs len(2)] .
  with observed_fold [OF fold] have obs: "observed = map (\<lambda>p. (obj_field ''number'' p, p)) qs"
    "\<forall>q\<in>set qs. \<exists>o'. q = JObj o'" by auto
  have "\<exists>q\<in>set qs. carries q p" if p: "p \<in> set ps" for p
  proof -
    from checks obtain us where us: "mapM (check_partition observed) ps = Inr us" by blast
    from mapM_set2 [OF us p]
    obtain u where u: "check_partition (map (\<lambda>q. (obj_field ''number'' q, q)) qs) p = Inr u"
      unfolding obs(1) by auto
    obtain s e where "part_start p = Some s" "part_end p = Some e" "s < e"
      using contiguous_bounds [OF assms(2) p] by blast
    then show ?thesis by (rule check_partition_Inr [OF u]) (rule obs(2))
  qed
  moreover have "jget facts ''partitions'' (JArr []) = Inr (JArr qs) \<or> qs = []"
    using listed qs obs(2) by (cases listed; cases qs) auto
  ultimately show thesis using that n len by simp
qed

section \<open>The properties\<close>

text \<open>
  C5: a storage plan that validation accepts is a sound layout: its partitions start at the first
  MiB, follow each other without a gap or an overlap, are not empty, end a MiB before the end of the
  disk, carry distinct numbers and mount points, and one is the root and one the EFI partition.
\<close>

theorem storage_plan_sound:
  assumes "validate_storage run_status facts = Inr v"
  shows "\<exists>ps. v = JObj [(''partitions'', JArr ps)] \<and> sound_layout (disk_limit facts) ps \<and>
    sorted_wrt (\<lambda>p q. the (part_end p) \<le> the (part_start q)) ps \<and>
    (\<forall>p\<in>set ps. 1 \<le> the (part_start p) \<and> the (part_end p) \<le> disk_limit facts)"
proof -
  obtain ps where ps: "v = JObj [(''partitions'', JArr ps)]" "sound_layout (disk_limit facts) ps"
    by (rule validate_storage_Inr [OF assms])
  then have "contiguous (disk_limit facts) 1 ps" by (simp add: sound_layout_def)
  with ps contiguous_disjoint [OF this] contiguous_bounds [OF this] show ?thesis
    by (intro exI [of _ ps] conjI ballI) fastforce+
qed

definition site_storage_plan :: json where
  "site_storage_plan = JObj [(''storagePlan'', JObj [(''partitions'', JArr
    [JObj [(''spec'', JObj [(''number'', JInt 1), (''role'', JStr ''efi''), (''filesystem'', JStr ''vfat''),
        (''mountPoint'', JStr ''/boot'')]), (''startMiB'', JInt 1), (''endMiB'', JInt 513)],
     JObj [(''spec'', JObj [(''number'', JInt 2), (''role'', JStr ''root''), (''filesystem'', JStr ''ext4''),
        (''mountPoint'', JStr ''/'')]), (''startMiB'', JInt 513), (''endMiB'', JInt 20479)]])])]"

lemma site_plan_valid:
  "validate_storage site_storage_plan site_facts = Inr (JObj [(''partitions'', JArr site_parts)])"
  by code_simp

lemma storage_plan_sound_witness: "sound_layout (disk_limit site_facts) site_parts"
  using storage_plan_sound [OF site_plan_valid] by auto

text \<open>
  C6: the attestation of an installed disk is complete: when it passes for a plan that validation
  accepted, the disk has as many partitions as the plan, and each planned partition is carried by
  one: same number, start, size and file system, with its identifiers, and mounted (or swapped on)
  where the plan says.
\<close>

theorem installed_storage_attested:
  assumes "validate_storage run_status facts = Inr pinned" "verify_installed_storage pinned observed = Inr u"
  shows "\<exists>ps qs. pinned = JObj [(''partitions'', JArr ps)] \<and>
    (jget observed ''partitions'' (JArr []) = Inr (JArr qs) \<or> qs = []) \<and>
    length qs = length ps \<and> (\<forall>p\<in>set ps. \<exists>q\<in>set qs. carries q p)"
proof -
  obtain ps where ps: "pinned = JObj [(''partitions'', JArr ps)]" "sound_layout (disk_limit facts) ps"
    by (rule validate_storage_Inr [OF assms(1)])
  then have "contiguous (disk_limit facts) 1 ps" by (simp add: sound_layout_def)
  from verify_installed_storage_Inr [OF assms(2) [unfolded ps(1)] this] ps(1) show ?thesis by metis
qed

lemma site_storage_attested: "verify_installed_storage (JObj [(''partitions'', JArr site_parts)]) site_facts = Inr ()"
  by code_simp

lemma installed_storage_attested_witness:
  "\<exists>qs. length qs = length site_parts \<and> (\<forall>p\<in>set site_parts. \<exists>q\<in>set qs. carries q p)"
  using installed_storage_attested [OF site_plan_valid site_storage_attested] by auto

text \<open>
  C4: an installed system that passes attestation runs from disk under another boot session than
  the live one, on the identified disk, carries the marker of this Server, attempt, run and plan on
  its own root file system, reports the planned distribution and release and has its GRUB restored.
\<close>

theorem installed_system_attested:
  assumes "verify_installed server facts = Inr u"
  shows "let attempt = obj_field ''provisioning'' (obj_field ''status'' server);
             snapshot = obj_field ''snapshot'' attempt; inputs = obj_field ''inputs'' snapshot;
             target = obj_field ''operatingSystem'' (obj_field ''serverSpec'' inputs);
             marker = obj_field ''marker'' facts in
    \<not> truthy (obj_field ''live'' facts) \<and> obj_field ''rootType'' facts = JStr ''ext4'' \<and>
    \<not> py_eq (obj_field ''bootID'' facts) (obj_field ''liveBootID'' attempt) \<and>
    py_eq (obj_field ''disk'' facts) (obj_field ''diskIdentity'' snapshot) \<and>
    py_eq (obj_field ''serverUID'' marker) (obj_field ''uid'' (obj_field ''metadata'' server)) \<and>
    py_eq (obj_field ''attemptID'' marker) (obj_field ''attemptID'' attempt) \<and>
    py_eq (obj_field ''runUID'' marker) (obj_field ''uid'' (obj_field ''metadata'' (obj_field ''_run'' server))) \<and>
    py_eq (obj_field ''planDigest'' marker) (obj_field ''planDigest'' snapshot) \<and>
    truthy (obj_field ''rootUUID'' facts) \<and> truthy (obj_field ''rootOnTarget'' facts) \<and>
    py_eq (obj_field ''rootUUID'' marker) (obj_field ''rootUUID'' facts) \<and>
    os_differs target facts = Inr False \<and>
    truthy (obj_field ''grubReady'' facts) \<and> pending_entry facts = Inr False \<and>
    verify_installed_storage (obj_field ''storage'' inputs) facts = Inr ()"
proof -
  from assms obtain attempt m expected target storage where
    attempt: "jpath server [''status'', ''provisioning''] = Inr attempt" and m: "jget facts ''marker'' JNull = Inr m"
    and fresh: "not_fresh attempt facts = Inr False" and expected: "attempt_marker server = Inr expected"
    and marker: "marker_differs (or_empty m) expected = Inr False" "fails (jsub facts ''rootUUID'') = Inr False"
      "differs (jget (or_empty m) ''rootUUID'' JNull) (jsub facts ''rootUUID'') = Inr False"
      "fails (jget facts ''rootOnTarget'' JNull) = Inr False"
    and target: "jpath attempt [''snapshot'', ''inputs'', ''serverSpec'', ''operatingSystem''] = Inr target"
    and os: "os_differs target facts = Inr False"
    and grub: "fails (jsub facts ''grubReady'') = Inr False" "pending_entry facts = Inr False"
    and storage: "jpath attempt [''snapshot'', ''inputs'', ''storage''] = Inr storage"
      "verify_installed_storage storage facts = Inr u"
    unfolding verify_installed_def refuse_def
    by (elim bindE) (auto simp: raise_if_eq_Inr exn_simps)
  have server: "obj_field ''provisioning'' (obj_field ''status'' server) = attempt"
    using read_path [OF attempt] by simp
  have fields: "obj_field ''uid'' (obj_field ''metadata'' server) = dget expected ''serverUID''"
    "obj_field ''attemptID'' attempt = dget expected ''attemptID''"
    "obj_field ''uid'' (obj_field ''metadata'' (obj_field ''_run'' server)) = dget expected ''runUID''"
    "obj_field ''planDigest'' (obj_field ''snapshot'' attempt) = dget expected ''planDigest''"
    "\<forall>k\<in>{''serverUID'', ''attemptID'', ''runUID'', ''planDigest''}. (k, dget expected k) \<in> set expected"
    using expected attempt unfolding attempt_marker_def
    by (auto simp: lookup_simps exn_simps bind_eq_Inr map_of_dget)
  have "py_eq (obj_field k m) (dget expected k)"
    if "k \<in> {''serverUID'', ''attemptID'', ''runUID'', ''planDigest''}" for k
    using anyM_FalseD [OF marker(1) [unfolded marker_differs_def] fields(5) [rule_format, OF that]]
    by (auto elim!: bindE dest!: read_field simp: or_empty_field)
  moreover have "\<not> truthy (obj_field ''live'' facts)" "obj_field ''rootType'' facts = JStr ''ext4''"
    "\<not> py_eq (obj_field ''bootID'' facts) (obj_field ''liveBootID'' attempt)"
    "py_eq (obj_field ''disk'' facts) (obj_field ''diskIdentity'' (obj_field ''snapshot'' attempt))"
    using fresh unfolding not_fresh_def orM_Inr holds_def differs_def
    by (auto simp: exn_simps bind_eq_Inr map_of_dget dgetd_def dget_def py_eq_JStr split: option.splits)
  moreover have "truthy (obj_field ''rootUUID'' facts)" "truthy (obj_field ''rootOnTarget'' facts)"
    "py_eq (obj_field ''rootUUID'' m) (obj_field ''rootUUID'' facts)" "truthy (obj_field ''grubReady'' facts)"
    using marker(2-4) grub(1) unfolding fails_def differs_def
    by (auto elim!: bindE dest!: read_field simp: or_empty_field)
  ultimately show ?thesis
    using read_field(2) [OF m] read_path [OF target] read_path [OF storage(1)] storage(2) os grub(2)
    by (simp add: Let_def server fields)
qed

lemma installed_system_attested_witness:
  "obj_field ''planDigest'' (obj_field ''marker'' site_facts) = JStr ''p'' \<and>
    os_differs site_os site_facts = Inr False"
proof -
  have "verify_installed (JObj (cell site_world)) site_facts = Inr ()" by code_simp
  from installed_system_attested [OF this]
  have "py_eq (obj_field ''planDigest'' (obj_field ''marker'' site_facts)) (JStr ''p'')"
    "os_differs site_os site_facts = Inr False"
    by (simp_all add: Let_def site_world_def with_run_def site_server_def site_run_def site_attempt_def
      site_snapshot_def lookup_simps site_meta_def)
  then show ?thesis by (simp add: py_eq_JStr)
qed

end
