(* ===== verification/ConfigurationLab.thy ===== *)
theory ConfigurationLab
  imports ConfigurationEffects ProvisionLab
begin

text \<open>
  A concrete environment in which the properties of the Configuration operator are applied: a
  Configuration \<open>apps\<close> for the installed Server \<open>srv\<close>, claimed by the running Operation \<open>op\<close>; guards
  and the command succeed, and the command leaves no results.
\<close>

definition lab_resource :: "string \<Rightarrow> string \<Rightarrow> jobject \<Rightarrow> jobject \<Rightarrow> jobject" where
  "lab_resource kind name spec status =
     [(''kind'', JStr kind), (''metadata'', JObj (site_meta name)), (''spec'', JObj spec),
      (''status'', JObj status), (''apiVersion'', JStr ''homelab.io/v1alpha1'')]"

definition lab_apps :: jobject where
  "lab_apps = lab_resource ''Configuration'' ''apps''
     [(''targetRef'', JObj [(''kind'', JStr ''Server''), (''name'', JStr ''srv'')]),
      (''inventoryCaptureGroupRef'', JObj [(''name'', JStr ''grp'')]),
      (''source'', JObj [(''repositoryRef'', JObj [(''name'', JStr ''repo'')])]),
      (''command'', JObj [(''argv'', JArr [JStr ''ansible-playbook'', JStr ''apps.yml''])])] []"

definition lab_server :: jobject where
  "lab_server = lab_resource ''Server'' ''srv'' []
     [(''machineRef'', site_ref ''m1''), (''operationRef'', site_ref ''op''),
      (''provisioning'', JObj [(''provisioned'', JBool True), (''lastSuccessfulRunRef'', site_ref ''run'')]),
      (''hostSSH'', JObj [(''keyPairRef'', site_ref ''k1'')]),
      (''networking'', JObj [(''management'', JObj [(''address'', JObj [(''address'', JStr ''10.0.0.5'')])])])]"

definition lab_inventory :: jobject where
  "lab_inventory = [(''all'', JObj [(''hosts'', JObj [(''srv'', JObj [(''ansible_host'', JStr ''10.0.0.5'')])])])]"

fun lab_object :: "string \<Rightarrow> jobject" where
  "lab_object c =
     (if c = ''configurations'' then lab_apps
      else if c = ''servers'' then lab_server
      else if c = ''provisioning-runs'' then site_run ''Succeeded'' False
      else if c = ''machines'' then lab_resource ''Machine'' ''m1'' [] [(''serverRef'', site_ref ''srv'')]
      else if c = ''git-repositories'' then lab_resource ''GitRepository'' ''repo'' [(''url'', JStr ''git@site'')] []
      else if c = ''operations'' then
        lab_resource ''Operation'' ''op''
          [(''targetRef'', JObj [(''kind'', JStr ''Server''), (''name'', JStr ''srv''), (''uid'', JStr ''srv-uid'')])]
          [(''phase'', JStr ''Running'')]
      else lab_resource ''InventoryCaptureGroup'' ''grp'' [(''selector'', JObj [(''matchKinds'', only_servers)])]
          [(''observedGeneration'', JInt 1), (''inventory'', JObj lab_inventory)])"

fun lab_answers :: "history \<Rightarrow> event \<Rightarrow> reply" where
  "lab_answers h (ApiGet c n) = RJson (JObj (lab_object c))"
| "lab_answers h (ApiPatch c n u rv status) = RJson (JObj (lab_object c))"
| "lab_answers h (Process argv input limit) =
     (if last argv = ''origin'' then RText ''git@site''
      else if ''archive'' \<in> set argv then RText ''tar''
      else if last argv = ''--list'' then
        RJson (JObj [(''_meta'', JObj [(''hostvars'', JObj [(''srv'', JObj [(''ansible_host'', JStr ''10.0.0.5'')])])])])
      else RProc 0 ''commit'' [])"
| "lab_answers h (Ansible argv f limit) = RProc 0 [] []"
| "lab_answers h (Command argv cwd f limit) = RProc 0 [] []"
| "lab_answers h (Getenv k) = RText ''value''"
| "lab_answers h (TempDir prefix) = RText ''/work''"
| "lab_answers h (FileTest t path) = RJson (JBool False)"
| "lab_answers h Now = RText ''now''"
| "lab_answers h e = RUnit"

definition lab_world :: "history \<Rightarrow> jobject \<Rightarrow> world" where
  "lab_world h c = \<lparr>answers = lab_answers, history = h, float_text = (\<lambda>q. []), cell = c\<rparr>"

section \<open>What computations return there\<close>

text \<open>\<open>lab_returns m x\<close>: in this environment \<open>m\<close> returns \<open>x\<close>, whatever happened before.\<close>

definition lab_returns :: "'a io \<Rightarrow> 'a \<Rightarrow> bool" where
  "lab_returns m x \<longleftrightarrow> (\<forall>h c. fst (m (lab_world h c)) = Inr x)"

lemma lab_later: "later (lab_world h c) w \<Longrightarrow> \<exists>h' c'. w = lab_world h' c'"
  by (intro exI [of _ "history w"] exI [of _ "cell w"]) (simp add: later_def lab_world_def)

lemma lab_andthen:
  assumes "lab_returns m x" "only True (\<lambda>e. True) m" "lab_returns (f x) y"
  shows "lab_returns (andthen m f) y"
  unfolding lab_returns_def
proof (intro allI)
  fix h c
  obtain w where m: "m (lab_world h c) = (Inr x, w)"
    using assms(1) by (metis lab_returns_def prod.collapse)
  with lab_later [OF only_later [OF assms(2) m]] assms(3) show "fst (andthen m f (lab_world h c)) = Inr y"
    by (auto simp: andthen_def lab_returns_def)
qed

lemma lab_run: "lab_returns m x \<Longrightarrow> \<exists>w'. m (lab_world h c) = (Inr x, w')"
  by (metis lab_returns_def prod.collapse)

lemma lab_catch:
  assumes "lab_returns m x"
  shows "lab_returns (catch m handler) x"
  unfolding lab_returns_def
proof (intro allI)
  show "fst (catch m handler (lab_world h c)) = Inr x" for h c
    using lab_run [OF assms, of h c] by (auto simp: catch_def)
qed

lemma lab_finally:
  assumes "lab_returns m x" "only True (\<lambda>e. True) m" "lab_returns f ()"
  shows "lab_returns (and_finally m f) x"
  unfolding lab_returns_def
proof (intro allI)
  fix h c
  obtain w where m: "m (lab_world h c) = (Inr x, w)" using lab_run [OF assms(1)] by blast
  then obtain h' c' where "w = lab_world h' c'" using lab_later only_later [OF assms(2)] by blast
  with m show "fst (and_finally m f (lab_world h c)) = Inr x"
    using lab_run [OF assms(3), of h' c'] by (auto simp: and_finally_def andthen_def)
qed

lemma lab_each:
  assumes "\<And>x. x \<in> set xs \<Longrightarrow> lab_returns (f x) ()" "\<And>x. only True (\<lambda>e. True) (f x)"
  shows "lab_returns (each f xs) ()"
  using assms(1)
proof (induction xs)
  case (Cons x xs)
  then show ?case by (auto intro: lab_andthen assms(2))
qed (simp add: lab_returns_def)

lemma lab_ret: "lab_returns (ret x) x"
  by (simp add: lab_returns_def)

section \<open>Planning there\<close>

definition lab_planned :: "resolution \<times> jobject" where
  "lab_planned = (case plan_facts ''/src'' (plan_to ''/src'' 0) lab_apps [] (lab_world [] []) of
     (Inr x, w) \<Rightarrow> x | (Inl e, w) \<Rightarrow> undefined)"

definition lab_resolution :: resolution where
  "lab_resolution = (fst lab_planned)\<lparr>input_revision := digest (\<lambda>q. []) (JObj (snd lab_planned))\<rparr>"

lemma lab_plan_facts: "lab_returns (plan_facts ''/src'' planner lab_apps []) lab_planned"
  unfolding lab_returns_def by (intro allI) code_simp

lemma lab_planned_parts:
  "configuration_of (fst lab_planned) = lab_apps" "servers_of (fst lab_planned) = [lab_server]" "cluster_of (fst lab_planned) = None"
  by code_simp+

lemma lab_plan_parts [simp]:
  "configuration_of lab_resolution = lab_apps" "servers_of lab_resolution = [lab_server]" "cluster_of lab_resolution = None"
  by (simp_all add: lab_resolution_def lab_planned_parts)

lemma lab_plan_returns: "lab_returns (plan_configuration ''/src'' lab_apps) lab_resolution"
proof -
  have "plan_configuration ''/src'' lab_apps = plan_body ''/src'' (plan_to ''/src'' 499) lab_apps []"
    by (simp add: plan_configuration_def recursion_depth_def eval_nat_numeral del: plan_to.simps(1))
  moreover have "lab_returns (plan_body ''/src'' planner lab_apps []) lab_resolution" if "\<And>c s. only True (\<lambda>e. True) (planner c s)" for planner
    unfolding plan_body_def
    by (rule lab_andthen [OF lab_plan_facts anything.only_plan_facts [OF that]])
      (simp add: lab_returns_def lab_resolution_def lab_world_def andthen_def case_prod_beta)
  ultimately show ?thesis using anything.only_plan_to by metis
qed

section \<open>Running the commands there\<close>

lemma lab_claim: "lab_returns (verify_claim lab_server) ()"
  unfolding lab_returns_def by (intro allI) code_simp

lemma lab_claims: "set servers \<subseteq> {lab_server} \<Longrightarrow> lab_returns (verify_claims servers) ()"
  unfolding verify_claims_def
  by (rule lab_each) (use lab_claim in blast, unfold verify_claim_def, intro only_intros TrueI)

lemma lab_progress: "lab_returns (operation_progress (JObj lab_server) name) ()"
  unfolding lab_returns_def by (intro allI) code_simp

lemma lab_guard: "lab_returns (run_guard source directory) 0"
  by (simp add: lab_returns_def lab_world_def run_guard_def ask_proc_def ask_def andthen_def Let_def)

lemma lab_run_command: "lab_returns (run_command argv diagnostic limit cwd) 0"
  by (simp add: lab_returns_def lab_world_def run_command_def ask_proc_def act_def ask_def andthen_def Let_def)

lemma lab_settings_return: "lab_returns (set_environment vs) ()"
  unfolding set_environment_def
proof (rule lab_each)
  show "lab_returns (case p of (name, v) \<Rightarrow> act (Setenv name v)) ()" for p
    by (cases p) (simp add: lab_returns_def lab_world_def act_def ask_def andthen_def Let_def)
qed (intro only_intros TrueI)

end
