(* ===== verification/ConfigurationProperties.thy ===== *)
theory ConfigurationProperties
  imports ConfigurationLab
begin

text \<open>
  The properties of the Configuration operator: when the command runs, what a Configuration that is
  reported Ready has gone through, what happens to the process environment, how deep plans go.
\<close>

section \<open>The command\<close>

lemma made_earlier:
  assumes "made B w w1" "later w w1" "later w1 w'"
  shows "made B w w'"
proof -
  have "added w w' = added w w1 @ added w1 w'"
    using assms(2,3) unfolding later_def by (intro added_trans) blast+
  with assms(1) show ?thesis by (auto simp: made_def)
qed

lemma commandless_step:
  assumes "andthen m f w = (r, w')" "made runs w w'" "only False (\<lambda>e. \<not> runs e) m"
    "\<And>x. only True (\<lambda>e. True) (f x)"
  obtains x w1 where "m w = (Inr x, w1)" "f x w1 = (r, w')" "made runs w1 w'"
  by (rule made_andthen [OF assms(1,3,2) assms(4)])

lemma made_before:
  assumes "andthen m f w = (r, w')" "made runs w w'" "only True (\<lambda>e. True) m"
    "\<And>x. only True (\<lambda>e. \<not> runs e) (f x)"
  obtains r1 w1 where "made runs w w1" "m w = (r1, w1)"
  using made_first [OF assms] by blast

text \<open>
  The steps around the command, for the class of all requests and for the class of all requests but
  the command; setting the environment is in both.
\<close>

lemma only_environment [only_intros]:
  "only cw (\<lambda>e. True) (set_environment vs)" "only cw (\<lambda>e. \<not> runs e) (set_environment vs)"
  "only cw (\<lambda>e. True) (update_environment us)" "only cw (\<lambda>e. \<not> runs e) (update_environment us)"
  by (intro anything.only_set_environment commandless.only_set_environment
        anything.only_update_environment commandless.only_update_environment; simp)+

lemma only_anything [only_intros]:
  "only cw (\<lambda>e. True) (operation_progress target step)"
  "only cw (\<lambda>e. True) (run_guard source directory)"
  "only cw (\<lambda>e. True) (execute_command source r checkout_directory directory)"
  "only cw (\<lambda>e. True) previous_environment"
  by (intro anything.only_reports anything.only_run_guard anything.only_execute_command anything.only_previous TrueI)+

lemma only_any_stage [only_intros]:
  "only cw (\<lambda>e. True) work \<Longrightarrow> only cw (\<lambda>e. True) (command_stage servers name work)"
  by (intro anything.only_command_stage TrueI)

lemma only_silent [only_intros]:
  "only cw (\<lambda>e. \<not> runs e) (operation_progress target step)"
  "only cw (\<lambda>e. \<not> runs e) (run_guard source directory)"
  "only cw (\<lambda>e. \<not> runs e) previous_environment"
  by (intro commandless.only_reports commandless.only_run_guard commandless.only_previous; simp)+

lemma only_silent_stage [only_intros]:
  "only cw (\<lambda>e. \<not> runs e) work \<Longrightarrow> only cw (\<lambda>e. \<not> runs e) (command_stage servers name work)"
  by (intro commandless.only_command_stage) simp_all

lemma only_any_run [only_intros]: "only cw (\<lambda>e. True) (run_command argv diagnostic limit cwd)"
  unfolding run_command_def by (intro only_intros TrueI)

lemma only_any_stages [only_intros]:
  "only cw (\<lambda>e. True) (command_stages source r checkout_directory directory)"
  unfolding command_stages_def by (intro only_intros TrueI)

lemma only_any_guarded [only_intros]:
  "only cw (\<lambda>e. True) (catch (command_stages source r checkout_directory directory) classify_failure)"
  "only cw (\<lambda>e. True) (and_finally (catch (command_stages source r checkout_directory directory) classify_failure)
     (set_environment previous))"
  by (intro only_intros anything.only_classify_failure TrueI)+

text \<open>A stage in which the command was run reached its work; a stage that returned completed it.\<close>

lemma made_stage:
  assumes "command_stage servers name work w = (r, w')" "made runs w w'" "only True (\<lambda>e. True) work"
  obtains r1 w1 w2 where "work w1 = (r1, w2)" "made runs w1 w2"
proof -
  from assms(1,2) obtain w1 where
    w1: "andthen work (\<lambda>code. lift (require_completed_command code)) w1 = (r, w')" "made runs w1 w'"
    unfolding command_stage_def
    by - ((erule (1) commandless_step, (intro only_intros TrueI assms(3); fail), (intro only_intros TrueI assms(3); fail))+)
  obtain r1 w2 where work: "work w1 = (r1, w2)" by fastforce
  with w1(1) have "w' = w2" by (auto simp: andthen_def split: sum.splits)
  with w1(2) work that show thesis by blast
qed

lemma completed_iff: "require_completed_command code = Inr () \<longleftrightarrow> code = 0"
  by (simp add: require_completed_command_def)

lemma stage_returned:
  assumes "command_stage servers name work w = (Inr u, w')"
  obtains w1 where "later w w1" "work w1 = (Inr 0, w')"
proof -
  let ?before = "andthen (verify_claims servers) (\<lambda>_. each (\<lambda>server. operation_progress (JObj server) name) servers)"
  from assms obtain v w1 code where steps: "?before w = (Inr v, w1)" "work w1 = (Inr code, w')"
      "require_completed_command code = Inr ()"
    unfolding command_stage_def by (auto simp: andthen_def split: sum.splits prod.splits)
  have "only True (\<lambda>e. True) ?before" by (intro only_intros TrueI)
  from only_later [OF this steps(1)] steps(2,3) that show thesis by (simp add: completed_iff)
qed

text \<open>How often the command is run.\<close>

lemma once_run_command: "at_most 1 runs (run_command argv diagnostic limit cwd)"
  unfolding run_command_def ask_proc_def
  by (intro at_most_after at_most_then_pure at_most_ask) (intro only_intros; simp)+

lemma once_execute_command: "at_most 1 runs (execute_command source r checkout_directory directory)"
  unfolding execute_command_def
  by (intro at_most_after at_most_if once_run_command at_most_mono [OF at_most_none])
    (rule zero_le_one | intro only_intros)+

lemma once_stage:
  assumes "at_most n runs work"
  shows "at_most n runs (command_stage servers name work)"
  unfolding command_stage_def
  by (intro at_most_after at_most_then_pure assms) (intro only_intros)+

lemma once_run_commands: "at_most 1 runs (run_commands source r checkout_directory directory)"
proof -
  have guard: "at_most 0 runs (command_stage (servers_of r) name (run_guard source directory))" for name
    by (intro once_stage at_most_none) (intro only_intros)
  have "at_most (0 + (1 + 0)) runs (command_stages source r checkout_directory directory)"
    unfolding command_stages_def by (intro at_most_andthen guard once_stage once_execute_command)
  then have "at_most (1 + 0) runs (and_finally
      (catch (command_stages source r checkout_directory directory) classify_failure) (set_environment previous))" for previous
    by (intro at_most_and_finally at_most_catch) (simp, (intro at_most_none commandless.only_classify_failure only_environment)+)
  then show ?thesis
    unfolding run_commands_def
    by (intro at_most_after) (intro only_intros commandless.resolved_request | simp)+
qed

text \<open>The command is reached through all the checks before it.\<close>

lemma made_execute:
  assumes "execute_command source r checkout_directory directory w = (res, w')" "made runs w w'"
  shows "\<exists>w2 w3 w4 w5 now argv res'.
     verify_claims (servers_of r) w2 = (Inr (), w3) \<and>
     plan_configuration source (configuration_of r) w3 = (Inr now, w4) \<and>
     input_revision now = input_revision r \<and> command_argv (configuration_of r) = Inr argv \<and>
     run_command argv (directory @ ''/command.log'') 3600 checkout_directory w4 = (res', w5) \<and> made runs w4 w5"
proof -
  from assms obtain u w2 w3 w4 now where c: "verify_claims (servers_of r) w2 = (Inr u, w3)"
    "plan_configuration source (configuration_of r) w3 = (Inr now, w4)"
    and rest: "(if input_revision now \<noteq> input_revision r
      then raise (inputs_changed ''Configuration changed during context preparation'')
      else andthen (lift (command_argv (configuration_of r))) (\<lambda>argv.
        run_command argv (directory @ ''/command.log'') 3600 checkout_directory)) w4 = (res, w')" "made runs w4 w'"
    unfolding execute_command_def
    by - ((erule (1) commandless_step, (intro only_intros; fail), (intro only_intros TrueI; fail))+, blast)
  have "input_revision now = input_revision r"
    using rest by (auto simp: made_def added_def split: if_splits)
  moreover from this rest obtain argv where "command_argv (configuration_of r) = Inr argv"
    "run_command argv (directory @ ''/command.log'') 3600 checkout_directory w4 = (res, w')"
    by (cases "command_argv (configuration_of r)") (auto simp: made_def added_def)
  ultimately show ?thesis using c [unfolded unit_eq [of u]] rest(2) by blast
qed


text \<open>What a run of the commands that returns has gone through.\<close>

lemma run_command_made:
  assumes "run_command argv diagnostic limit cwd w = (Inr code, w')"
  shows "made runs w w'"
proof -
  obtain w1 where w1: "act (WriteFile diagnostic []) w = (Inr (), w1)"
      "andthen (ask_proc (Command argv cwd diagnostic limit)) (\<lambda>(code, out, err). ret code) w1 = (Inr code, w')"
    using assms unfolding run_command_def by (auto simp: andthen_def split: sum.splits prod.splits)
  have "made runs w1 w'"
    using w1(2) by (auto simp: ask_proc_def ask_def andthen_def Let_def made_def added_def split: sum.splits prod.splits reply.splits)
  moreover have "only True (\<lambda>e. True) (act (WriteFile diagnostic []))"
    "only True (\<lambda>e. True) (andthen (ask_proc (Command argv cwd diagnostic limit)) (\<lambda>(code, out, err). ret code))"
    by (intro only_intros TrueI)+
  with only_later w1 have "later w w1" "later w1 w'" by blast+
  ultimately show ?thesis by (rule made_later [rotated 2])
qed

lemma execute_returned:
  assumes "execute_command source r checkout_directory directory w = (Inr code, w')"
  obtains argv w1 where "later w w1" "command_argv (configuration_of r) = Inr argv"
    "run_command argv (directory @ ''/command.log'') 3600 checkout_directory w1 = (Inr code, w')"
proof -
  let ?before = "andthen (kubernetes_environment r directory) (\<lambda>environment.
     andthen (update_environment environment) (\<lambda>_.
     andthen (verify_claims (servers_of r)) (\<lambda>_. plan_configuration source (configuration_of r))))"
  from assms obtain v w1 argv where "?before w = (Inr v, w1)" "command_argv (configuration_of r) = Inr argv"
      "run_command argv (directory @ ''/command.log'') 3600 checkout_directory w1 = (Inr code, w')"
    unfolding execute_command_def by (auto simp: andthen_def split: sum.splits prod.splits if_splits)
  moreover have "only True (\<lambda>e. True) ?before" by (intro only_intros TrueI)
  ultimately show thesis using that only_later by blast
qed

lemma classify_raises: "classify_failure e w \<noteq> (Inr x, w')"
  by (simp add: classify_failure_def)

lemma run_commands_returned:
  assumes "run_commands source r checkout_directory directory w = (Inr (), w')"
  obtains w0 w1 where "later w w0" "command_stages source r checkout_directory directory w0 = (Inr (), w1)" "later w1 w'"
proof -
  let ?before = "andthen previous_environment (\<lambda>previous.
     andthen (update_environment (command_paths checkout_directory directory)) (\<lambda>_.
     andthen (set_environment [(''KUBECONFIG'', None), (''K8S_AUTH_KUBECONFIG'', None)]) (\<lambda>_. ret previous)))"
  from assms obtain previous w0 where before: "?before w = (Inr previous, w0)"
      and rest: "and_finally (catch (command_stages source r checkout_directory directory) classify_failure)
        (set_environment previous) w0 = (Inr (), w')"
    unfolding run_commands_def by (auto simp: andthen_def split: sum.splits prod.splits)
  have "only True (\<lambda>e. True) ?before" by (intro only_intros TrueI)
  from only_later [OF this before] have "later w w0" .
  moreover from rest obtain w1 where "command_stages source r checkout_directory directory w0 = (Inr (), w1)"
      "set_environment previous w1 = (Inr (), w')"
    using classify_raises by (fastforce simp: and_finally_def catch_def andthen_def split: sum.splits prod.splits)
  ultimately show thesis using that only_later [OF only_environment(1) [of True]] by blast
qed

lemma run_commands_traversed:
  assumes "run_commands source r checkout_directory directory w = (Inr (), w')"
  shows "made runs w w' \<and>
    (\<exists>w0 w1 w2 w3 w4 w5 argv.
       later w w0 \<and> run_guard source directory w0 = (Inr 0, w1) \<and>
       later w1 w2 \<and> command_argv (configuration_of r) = Inr argv \<and>
       run_command argv (directory @ ''/command.log'') 3600 checkout_directory w2 = (Inr 0, w3) \<and>
       later w3 w4 \<and> run_guard source directory w4 = (Inr 0, w5) \<and> later w5 w')"
proof -
  obtain v0 v1 where v: "later w v0" "command_stages source r checkout_directory directory v0 = (Inr (), v1)" "later v1 w'"
    by (rule run_commands_returned [OF assms])
  then obtain x1 x2 where stages:
      "command_stage (servers_of r) ''Verify installed hosts'' (run_guard source directory) v0 = (Inr (), x1)"
      "command_stage (servers_of r) ''Execute command'' (execute_command source r checkout_directory directory) x1 = (Inr (), x2)"
      "command_stage (servers_of r) ''Verify installed hosts after command'' (run_guard source directory) x2 = (Inr (), v1)"
    unfolding command_stages_def by (auto simp: andthen_def split: sum.splits prod.splits)
  obtain w0 where w0: "later v0 w0" "run_guard source directory w0 = (Inr 0, x1)" by (rule stage_returned [OF stages(1)])
  obtain y where y: "later x1 y" "execute_command source r checkout_directory directory y = (Inr 0, x2)"
    by (rule stage_returned [OF stages(2)])
  obtain w4 where w4: "later x2 w4" "run_guard source directory w4 = (Inr 0, v1)" by (rule stage_returned [OF stages(3)])
  obtain argv w2 where w2: "later y w2" "command_argv (configuration_of r) = Inr argv"
      "run_command argv (directory @ ''/command.log'') 3600 checkout_directory w2 = (Inr 0, x2)"
    by (rule execute_returned [OF y(2)])
  have order: "later w w0" "later x1 w2" "later w0 x1" "later w4 v1"
    using v(1) w0(1) y(1) w2(1) later_trans
      only_later [OF only_anything(2) [of True] w0(2)] only_later [OF only_anything(2) [of True] w4(2)] by blast+
  then have ends: "later w w2" "later x2 w'"
    using later_trans v(3) w4(1) by blast+
  have "made runs w x2"
    using ends(1) only_later [OF only_any_run [of True] w2(3)] run_command_made [OF w2(3)] by (rule made_later)
  moreover have "later w x2" using ends(1) only_later [OF only_any_run [of True] w2(3)] by (rule later_trans)
  ultimately have "made runs w w'" using ends(2) by (rule made_earlier)
  with order w0 w2 w4 v(3) y show ?thesis by blast
qed

lemmas run_commands_made = run_commands_traversed [THEN conjunct1]

text \<open>
  C29: when running the commands returns, the guard play completed before and after the command, and
  in between the command was run exactly once, with the validated arguments, and exited with 0.
\<close>

theorem command_completed:
  assumes "run_commands source r checkout_directory directory w = (Inr (), w')"
  shows "counted runs (added w w') = 1 \<and>
    (\<exists>w0 w1 w2 w3 w4 w5 argv.
       later w w0 \<and> run_guard source directory w0 = (Inr 0, w1) \<and>
       later w1 w2 \<and> command_argv (configuration_of r) = Inr argv \<and>
       run_command argv (directory @ ''/command.log'') 3600 checkout_directory w2 = (Inr 0, w3) \<and>
       later w3 w4 \<and> run_guard source directory w4 = (Inr 0, w5) \<and> later w5 w')"
  using run_commands_traversed [OF assms] at_mostD(2) [OF once_run_commands assms] made_counted [of runs w w']
  by (simp add: counted_def)

text \<open>In the concrete environment the whole run returns.\<close>

lemma lab_stage:
  assumes "set servers \<subseteq> {lab_server}" "lab_returns work 0" "only True (\<lambda>e. True) work"
  shows "lab_returns (command_stage servers name work) ()"
  unfolding command_stage_def
  by (rule lab_andthen [OF lab_claims [OF assms(1)]], intro only_intros TrueI, rule lab_andthen [OF lab_each], use assms(1) lab_progress in blast,
      intro only_intros TrueI, intro only_intros TrueI, rule lab_andthen [OF assms(2,3)])
    (simp add: lab_returns_def completed_iff)

lemma lab_execute:
  assumes r: "configuration_of r = lab_apps" "set (servers_of r) \<subseteq> {lab_server}" "cluster_of r = None"
    "input_revision r = input_revision lab_resolution"
  shows "lab_returns (execute_command ''/src'' r checkout_directory directory) 0"
proof -
  have argv: "command_argv lab_apps = Inr [''ansible-playbook'', ''apps.yml'']" by code_simp
  have ctx: "lab_returns (kubernetes_environment r directory) []"
    by (simp add: kubernetes_environment_def lab_ret r)
  have upd: "lab_returns (update_environment []) ()"
    unfolding update_environment_def by (rule lab_settings_return)
  have planned: "lab_returns (plan_configuration ''/src'' (configuration_of r)) lab_resolution"
    by (simp add: lab_plan_returns r)
  show ?thesis
    unfolding execute_command_def
    by (rule lab_andthen [OF ctx], intro only_intros, rule lab_andthen [OF upd], intro only_intros,
        rule lab_andthen [OF lab_claims [OF r(2)]], intro only_intros, rule lab_andthen [OF planned], intro only_intros)
      (simp add: argv lab_run_command r)
qed

lemma lab_commands:
  assumes r: "configuration_of r = lab_apps" "set (servers_of r) \<subseteq> {lab_server}" "cluster_of r = None"
    "input_revision r = input_revision lab_resolution"
  shows "lab_returns (run_commands ''/src'' r checkout_directory directory) ()"
proof -
  have "\<exists>vs. lab_returns (collect (\<lambda>name. andthen (getenv_option name) (\<lambda>v. ret (name, v))) names) vs" for names
  proof (induction names)
    case (Cons n names)
    then obtain vs where vs: "lab_returns (collect (\<lambda>name. andthen (getenv_option name) (\<lambda>v. ret (name, v))) names) vs"
      by blast
    have one: "lab_returns (andthen (getenv_option n) (\<lambda>v. ret (n, v))) (n, Some ''value'')"
      by (simp add: lab_returns_def lab_world_def getenv_option_def ask_def andthen_def Let_def)
    show ?case
      unfolding collect.simps
      by (rule exI, rule lab_andthen [OF one], intro only_intros TrueI, rule lab_andthen [OF vs], intro only_intros TrueI, rule lab_ret)
  qed (auto simp: lab_returns_def)
  then obtain previous where previous: "lab_returns previous_environment previous"
    unfolding previous_environment_def by blast
  note guard = lab_stage [OF r(2) lab_guard only_anything(2)]
  note command = lab_stage [OF r(2) lab_execute [OF r] only_anything(3)]
  have stages: "lab_returns (command_stages ''/src'' r checkout_directory directory) ()"
    unfolding command_stages_def
    by (rule lab_andthen [OF guard], intro only_intros TrueI, rule lab_andthen [OF command], intro only_intros TrueI, rule guard)
  have upd: "lab_returns (update_environment vs) ()" for vs
    unfolding update_environment_def by (rule lab_settings_return)
  show ?thesis
    unfolding run_commands_def
    by (rule lab_andthen [OF previous], intro only_intros, rule lab_andthen [OF upd], intro only_intros,
        rule lab_andthen [OF lab_settings_return], intro only_intros,
        rule lab_finally [OF lab_catch [OF stages] only_any_guarded(1) lab_settings_return])
qed

lemma lab_commands_run:
  obtains w' where "run_commands ''/src'' lab_resolution ''/work/code'' ''/work'' (lab_world [] []) = (Inr (), w')"
  using lab_run [OF lab_commands [of lab_resolution "''/work/code''" "''/work''"], of "[]" "[]"] by auto

lemma command_completed_witness:
  "\<exists>w'. run_commands ''/src'' lab_resolution ''/work/code'' ''/work'' (lab_world [] []) = (Inr (), w') \<and>
    counted runs (added (lab_world [] []) w') = 1"
proof -
  obtain w' where "run_commands ''/src'' lab_resolution ''/work/code'' ''/work'' (lab_world [] []) = (Inr (), w')"
    by (rule lab_commands_run)
  with command_completed [OF this] show ?thesis by blast
qed


section \<open>The process environment\<close>

text \<open>
  What \<open>os.environ\<close> holds after a history that started with \<open>base\<close>, and an environment that answers
  accordingly.
\<close>

fun apply_setting :: "event \<Rightarrow> (string \<Rightarrow> string option) \<Rightarrow> string \<Rightarrow> string option" where
  "apply_setting (Setenv name v) env = env(name := v)"
| "apply_setting _ env = env"

definition environment :: "(string \<Rightarrow> string option) \<Rightarrow> history \<Rightarrow> string \<Rightarrow> string option" where
  "environment base h = foldl (\<lambda>env x. apply_setting (fst x) env) base h"

definition real_environment :: "(string \<Rightarrow> string option) \<Rightarrow> world \<Rightarrow> bool" where
  "real_environment base w \<longleftrightarrow>
     (\<forall>h name. answers w h (Getenv name) = (case environment base h name of None \<Rightarrow> RUnit | Some s \<Rightarrow> RText s)) \<and>
     (\<forall>h name v. answers w h (Setenv name v) = RUnit)"

lemma environment_simps [simp]:
  "environment base [] = base" "environment base (h @ k) = environment (environment base h) k"
  "environment base (x # h) = environment (apply_setting (fst x) base) h"
  by (simp_all add: environment_def)

text \<open>The requests of the operator set only the variables it restores.\<close>

fun scoped_event :: "event \<Rightarrow> bool" where
  "scoped_event (Setenv name v) \<longleftrightarrow> name \<in> set restored_names"
| "scoped_event _ = True"

interpretation scoped: resolver scoped_event
  by unfold_locales (metis resolving.simps(6) scoped_event.elims(3))

lemma environment_frame:
  "\<forall>x\<in>set k. scoped_event (fst x) \<Longrightarrow> name \<notin> set restored_names \<Longrightarrow> environment base k name = base name"
proof (induction k arbitrary: base)
  case (Cons x k)
  have "apply_setting (fst x) base name = base name"
    using Cons.prems by (cases "fst x") auto
  with Cons show ?case by auto
qed simp

lemma read_option:
  assumes "real_environment base w"
  obtains w' where "getenv_option name w = (Inr (environment base (history w) name), w')"
    "environment base (history w') = environment base (history w)" "answers w' = answers w"
  using assms
  by (cases "environment base (history w) name")
    (auto simp: real_environment_def getenv_option_def ask_def andthen_def Let_def)

lemma previous_read:
  assumes "real_environment base w"
  obtains w' where
    "previous_environment w = (Inr (map (\<lambda>name. (name, environment base (history w) name)) restored_names), w')"
    "environment base (history w') = environment base (history w)"
proof -
  define read where "read name = andthen (getenv_option name) (\<lambda>v. ret (name, v))" for name
  have "\<exists>w'. collect read names w = (Inr (map (\<lambda>name. (name, environment base (history w) name)) names), w') \<and>
      environment base (history w') = environment base (history w)" if "real_environment base w" for names w
    using that
  proof (induction names arbitrary: w)
    case (Cons n names)
    obtain w1 where w1: "getenv_option n w = (Inr (environment base (history w) n), w1)"
        "environment base (history w1) = environment base (history w)" "answers w1 = answers w"
      by (rule read_option [OF Cons.prems])
    then have "read n w = (Inr (n, environment base (history w) n), w1)"
      by (simp add: read_def andthen_run)
    moreover have "real_environment base w1" using Cons.prems w1(3) by (simp add: real_environment_def)
    then obtain w2 where "collect read names w1 = (Inr (map (\<lambda>name. (name, environment base (history w1) name)) names), w2)"
        "environment base (history w2) = environment base (history w1)"
      using Cons.IH by blast
    ultimately show ?case using w1(2) by (auto simp: andthen_def)
  qed simp
  from this [OF assms, of restored_names] obtain w' where "collect read restored_names w =
      (Inr (map (\<lambda>name. (name, environment base (history w) name)) restored_names), w')"
    "environment base (history w') = environment base (history w)" by blast
  then show thesis by (intro that [of w']) (simp_all add: previous_environment_def read_def [abs_def])
qed

text \<open>Setting variables under such an environment returns, and the last setting of a name counts.\<close>

lemma settings_made:
  assumes "real_environment base w"
  obtains w' where "set_environment vs w = (Inr (), w')"
    "environment base (history w') = foldl (\<lambda>env (name, v). env(name := v)) (environment base (history w)) vs"
proof -
  have "\<exists>w'. set_environment vs w = (Inr (), w') \<and>
      environment base (history w') = foldl (\<lambda>env (name, v). env(name := v)) (environment base (history w)) vs"
    using assms
  proof (induction vs arbitrary: w)
    case (Cons p vs)
    obtain n v where p: "p = (n, v)" by fastforce
    let ?w = "w\<lparr>history := history w @ [(Setenv n v, RUnit)]\<rparr>"
    have "act (Setenv n v) w = (Inr (), ?w)" "real_environment base ?w"
      using Cons.prems by (simp_all add: real_environment_def act_def ask_def andthen_def Let_def)
    with Cons.IH [of ?w] show ?case by (simp add: set_environment_def p andthen_def)
  qed (simp add: set_environment_def)
  with that show thesis by blast
qed

lemma settings_restore:
  assumes "\<And>name. name \<notin> set names \<Longrightarrow> env name = env0 name"
  shows "foldl (\<lambda>env (name, v). env(name := v)) env (map (\<lambda>name. (name, env0 name)) names) = env0"
  using assms
proof (induction names arbitrary: env)
  case (Cons n names)
  from Cons.IH [of "env(n := env0 n)"] Cons.prems show ?case by auto
qed auto

lemma real_later: "real_environment base w \<Longrightarrow> later w w' \<Longrightarrow> real_environment base w'"
  by (simp add: later_def real_environment_def)

lemma scoped_outside:
  assumes "only cw scoped_event m" "m w = (r, w')" "name \<notin> set restored_names"
  shows "environment base (history w') name = environment base (history w) name"
  using environment_frame [of "added w w'", OF _ assms(3)] only_made [OF assms(1,2)] only_extends [OF assms(1,2)]
  by simp

lemma scoped_run:
  assumes "real_environment base w"
  obtains w1 w2 w3 where
    "previous_environment w = (Inr (map (\<lambda>name. (name, environment base (history w) name)) restored_names), w1)"
    "update_environment (command_paths checkout_directory directory) w1 = (Inr (), w2)"
    "set_environment [(''KUBECONFIG'', None), (''K8S_AUTH_KUBECONFIG'', None)] w2 = (Inr (), w3)"
    "real_environment base w3"
    "\<And>name. name \<notin> set restored_names \<Longrightarrow> environment base (history w3) name = environment base (history w) name"
proof -
  obtain w1 where w1: "previous_environment w = (Inr (map (\<lambda>name. (name, environment base (history w) name)) restored_names), w1)"
      "environment base (history w1) = environment base (history w)"
    by (rule previous_read [OF assms])
  have real1: "real_environment base w1"
    by (rule real_later [OF assms only_later [OF only_anything(4) [of True] w1(1)]])
  obtain w2 where w2: "update_environment (command_paths checkout_directory directory) w1 = (Inr (), w2)"
    unfolding update_environment_def by (rule settings_made [OF real1])
  have real2: "real_environment base w2"
    by (rule real_later [OF real1 only_later [OF only_environment(3) [of True] w2]])
  obtain w3 where w3: "set_environment [(''KUBECONFIG'', None), (''K8S_AUTH_KUBECONFIG'', None)] w2 = (Inr (), w3)"
    by (rule settings_made [OF real2])
  have real3: "real_environment base w3"
    by (rule real_later [OF real2 only_later [OF only_environment(1) [of True] w3]])
  have "only True scoped_event (update_environment (command_paths checkout_directory directory))"
    by (rule scoped.only_update_environment) (auto simp: command_paths_def restored_names_def)
  note out2 = scoped_outside [OF this w2]
  have "only True scoped_event (set_environment [(''KUBECONFIG'', None), (''K8S_AUTH_KUBECONFIG'', None)])"
    by (rule scoped.only_set_environment) (auto simp: restored_names_def)
  note out3 = scoped_outside [OF this w3]
  show thesis using out2 out3 w1(2) by (intro that [OF w1(1) w2 w3 real3]) metis
qed

lemma scoped_stages: "only cw scoped_event (catch (command_stages source r checkout_directory directory) classify_failure)"
  by (intro only_intros scoped.only_command_stages scoped.only_classify_failure; simp)

text \<open>
  C30: whatever the guards, the command and the services do, and whether the run returns or raises,
  the process environment of the operator afterwards is the one it had before: nothing a
  Configuration is executed with leaks into the next one.
\<close>

theorem environment_restored:
  assumes "real_environment base w" "run_commands source r checkout_directory directory w = (res, w')"
  shows "environment base (history w') = environment base (history w)"
proof -
  let ?env0 = "environment base (history w)"
  let ?previous = "map (\<lambda>name. (name, ?env0 name)) restored_names"
  obtain w1 w2 w3 where start: "previous_environment w = (Inr ?previous, w1)"
      "update_environment (command_paths checkout_directory directory) w1 = (Inr (), w2)"
      "set_environment [(''KUBECONFIG'', None), (''K8S_AUTH_KUBECONFIG'', None)] w2 = (Inr (), w3)"
      "real_environment base w3"
      "\<And>name. name \<notin> set restored_names \<Longrightarrow> environment base (history w3) name = ?env0 name"
    by (rule scoped_run [OF assms(1), of checkout_directory directory]) blast
  obtain r1 w4 where stages: "catch (command_stages source r checkout_directory directory) classify_failure w3 = (r1, w4)"
    by fastforce
  have real4: "real_environment base w4"
    by (rule real_later [OF start(4) only_later [OF scoped_stages [of True] stages]])
  obtain w5 where w5: "set_environment ?previous w4 = (Inr (), w5)"
    "environment base (history w5) = foldl (\<lambda>env (name, v). env(name := v)) (environment base (history w4)) ?previous"
    by (rule settings_made [OF real4])
  have "w' = w5"
    using assms(2) start(1-3) stages w5(1)
    by (auto simp: run_commands_def and_finally_def andthen_def split: sum.splits)
  moreover have "environment base (history w4) name = ?env0 name" if "name \<notin> set restored_names" for name
    using scoped_outside [OF scoped_stages [of True] stages that, of base] start(5) [OF that] by simp
  ultimately show ?thesis 
    using w5(2) settings_restore [of restored_names "environment base (history w4)" ?env0] by simp
qed

definition lab_environment :: world where
  "lab_environment = \<lparr>answers = (\<lambda>h e. case e of
       Getenv name \<Rightarrow> (case environment (\<lambda>_. None) h name of None \<Rightarrow> RUnit | Some s \<Rightarrow> RText s)
     | Setenv name v \<Rightarrow> RUnit
     | _ \<Rightarrow> lab_answers h e), history = [(Setenv ''PATH'' (Some ''/bin''), RUnit)], float_text = (\<lambda>q. []), cell = []\<rparr>"

lemma environment_restored_witness:
  "environment (\<lambda>_. None) (history (snd (run_commands ''/src'' lab_resolution ''/work/code'' ''/work'' lab_environment))) =
   [''PATH'' \<mapsto> ''/bin'']"
proof -
  have "real_environment (\<lambda>_. None) lab_environment"
    by (simp add: real_environment_def lab_environment_def)
  moreover obtain res w' where run: "run_commands ''/src'' lab_resolution ''/work/code'' ''/work'' lab_environment = (res, w')"
    by fastforce
  ultimately have "environment (\<lambda>_. None) (history w') = environment (\<lambda>_. None) (history lab_environment)"
    by (rule environment_restored)
  with run show ?thesis by (simp add: lab_environment_def)
qed

end
