(* ===== verification/ConfigurationReady.thy ===== *)
theory ConfigurationReady
  imports ConfigurationProperties
begin

text \<open>
  What a Configuration that is reported Ready has gone through: every Server was claimed, and the
  inputs it was verified with are the ones it was executed with.
\<close>

section \<open>Reservations\<close>

lemma only_any_reservation_steps [only_intros]:
  "only cw (\<lambda>e. True) (create_operation spec)" "only True (\<lambda>e. True) (confirm_claim s operation collection)"
  "only cw (\<lambda>e. True) (complete_operation operation outcome message)"
  unfolding create_operation_def confirm_claim_def
  by (intro only_intros anything.only_reports TrueI)+

lemma only_any_claim [only_intros]: "only True (\<lambda>e. True) refresh_claim_target"
  unfolding refresh_claim_target_def by (intro only_intros TrueI)

lemma only_any_reservation [only_intros]:
  assumes "\<And>operation. only True (\<lambda>e. True) (body operation)"
  shows "only True (\<lambda>e. True) (reservation action operator requested_by collection body)"
proof -
  have "only True (\<lambda>e. True) (abort_operation operation e)" for operation e
    unfolding abort_operation_def by (intro only_intros)
  then show ?thesis unfolding reservation_def by (intro only_intros assms)
qed

lemma only_any_claims [only_intros]:
  assumes "\<And>claimed. only True (\<lambda>e. True) (body claimed)"
  shows "only True (\<lambda>e. True) (claim_servers configuration servers claimed body)"
proof (induction servers arbitrary: claimed)
  case (Cons server servers)
  then show ?case unfolding claim_servers.simps by (intro only_intros)
qed (simp add: assms)

text \<open>The body ran inside the reservations of all the Servers, each as it was confirmed.\<close>

lemma claim_servers_returned:
  assumes "claim_servers configuration servers claimed body w = (Inr x, w')"
    and body: "\<And>claimed. only True (\<lambda>e. True) (body claimed)"
  obtains confirmed w1 w2 where "length confirmed = length servers" "later w w1"
    "body (claimed @ confirmed) w1 = (Inr x, w2)" "later w2 w'"
  using assms(1)
proof (induction servers arbitrary: claimed w w' thesis)
  case Nil
  show ?case by (rule Nil(1) [of "[]" w w']) (use Nil(2) in auto)
next
  case (Cons server servers)
  let ?inner = "\<lambda>operation. andthen get_cell (\<lambda>confirmed. claim_servers configuration servers (claimed @ [confirmed]) body)"
  let ?before = "andthen (set_cell server) (\<lambda>_. andthen refresh_claim_target (\<lambda>_. lift (configuration_owner configuration)))"
  from Cons.prems(2) obtain owner v where before: "?before w = (Inr owner, v)"
    and rest: "reservation ''configure'' ''configurations'' (Some owner) ''servers'' ?inner v = (Inr x, w')"
    by (auto simp: andthen_def split: sum.splits prod.splits)
  have only: "only True (\<lambda>e. True) ?before" "\<And>operation. only True (\<lambda>e. True) (?inner operation)"
    by (intro only_intros body TrueI)+
  obtain s operation v1 v2 v3 where res: "later v v1" "confirm_claim (JObj s) operation ''servers'' v1 = (Inr (), v2)"
    "?inner operation v2 = (Inr x, v3)" "later v3 w'"
    by (rule reservation_returned [OF rest only(2)])
  then have "claim_servers configuration servers (claimed @ [cell v2]) body v2 = (Inr x, v3)"
    by (simp add: andthen_def)
  then obtain confirmed w1 w2 where inner: "length confirmed = length servers" "later v2 w1"
    "body ((claimed @ [cell v2]) @ confirmed) w1 = (Inr x, w2)" "later w2 v3"
    by (rule Cons.IH [rotated])
  have "later w v" by (rule only_later [OF only(1) before])
  moreover have "later v1 v2" by (rule only_later [OF only_any_reservation_steps(2) res(2)])
  ultimately have "later w w1" using res(1) inner(2) later_trans by blast
  moreover have "later w2 w'" using inner(4) res(4) by (rule later_trans)
  ultimately show ?case using inner(1,3) by (intro Cons.prems(1) [of "cell v2 # confirmed" w1 w2]) simp_all
qed

section \<open>Ready\<close>

lemma only_any_published [only_intros]:
  "only cw (\<lambda>e. True) (publish_observations source r directory)" "only cw (\<lambda>e. True) (publish_target_status r status)"
  "only cw (\<lambda>e. True) (report configuration phase reason revision resolved outputs)"
  "only cw (\<lambda>e. True) (run_commands source r checkout_directory directory)"
  "only cw (\<lambda>e. True) (after_failure source r directory e)"
  by (intro anything.only_reports anything.only_run_commands anything.only_after_failure TrueI)+

lemma only_any_execution [only_intros]: "only cw (\<lambda>e. True) (execute_claimed source r checkout_directory directory claimed)"
  unfolding execute_claimed_def Let_def by (intro only_intros TrueI)

lemma same_inputs_returned:
  assumes "require_same_inputs source r message w = (Inr u, w')"
  obtains now where "plan_configuration source (configuration_of r) w = (Inr now, w')" "input_revision now = input_revision r"
  using assms
  by (auto simp: require_same_inputs_def andthen_def refuse_if_def split: sum.splits prod.splits if_splits)

lemma after_failure_raises: "after_failure source r directory e w \<noteq> (Inr x, w')"
  by (auto simp: after_failure_def andthen_def split: sum.splits prod.splits exn.splits)

lemma execute_claimed_returned:
  assumes "execute_claimed source r checkout_directory directory claimed w = (Inr outputs, w')"
  obtains before w1 w2 w3 w4 now w5 where
    "plan_configuration source (configuration_of r) w = (Inr before, w1)" "input_revision before = input_revision r"
    "later w1 w2" "run_commands source (r\<lparr>servers_of := claimed\<rparr>) checkout_directory directory w2 = (Inr (), w3)"
    "verify_claims claimed w3 = (Inr (), w4)"
    "plan_configuration source (configuration_of r) w4 = (Inr now, w5)" "input_revision now = input_revision r"
    "later w5 w'"
proof -
  let ?r = "r\<lparr>servers_of := claimed\<rparr>"
  let ?after = "andthen (read_public_result (directory @ ''/result.json'')) (\<lambda>outputs.
     andthen (publish_observations source ?r directory) (\<lambda>_.
     andthen (read_public_result (directory @ ''/target-status.json'')) (\<lambda>target_status.
     andthen (case target_status of None \<Rightarrow> ret () | Some status \<Rightarrow> publish_target_status ?r status) (\<lambda>_.
       ret (case outputs of None \<Rightarrow> [] | Some d \<Rightarrow> d)))))"
  have same: "configuration_of ?r = configuration_of r" "servers_of ?r = claimed" "input_revision ?r = input_revision r"
    by simp_all
  from assms obtain u1 u2 u3 u4 u5 w1 w2 w3 w4 w5 where steps:
      "require_same_inputs source ?r ''Configuration inputs changed before execution'' w = (Inr u1, w1)"
      "report (configuration_of r) ''Reconciling'' ''ExecutingCommand'' (input_revision r) (Some ?r) [] w1 = (Inr u2, w2)"
      "catch (run_commands source ?r checkout_directory directory) (after_failure source ?r directory) w2 = (Inr u3, w3)"
      "verify_claims claimed w3 = (Inr u4, w4)"
      "require_same_inputs source ?r ''Configuration inputs changed during execution'' w4 = (Inr u5, w5)"
      "?after w5 = (Inr outputs, w')"
    unfolding execute_claimed_def Let_def same
    by - (erule andthenE, erule andthenE, erule andthenE, erule andthenE, erule andthenE, blast)
  have only: "only True (\<lambda>e. True) ?after" by (intro only_intros TrueI)
  have "later w1 w2" by (rule only_later [OF only_any_published(3) [of True] steps(2)])
  moreover have "later w5 w'" by (rule only_later [OF only steps(6)])
  moreover have "run_commands source ?r checkout_directory directory w2 = (Inr (), w3)"
    using steps(3) after_failure_raises by (fastforce simp: catch_def split: sum.splits prod.splits)
  moreover obtain before where "plan_configuration source (configuration_of r) w = (Inr before, w1)" "input_revision before = input_revision r"
    using same_inputs_returned [OF steps(1)] by auto
  moreover obtain now where "plan_configuration source (configuration_of r) w4 = (Inr now, w5)" "input_revision now = input_revision r"
    using same_inputs_returned [OF steps(5)] by auto
  ultimately show thesis using that steps(4) by simp
qed


text \<open>The concrete run: the Configuration of the laboratory, with nothing left to claim.\<close>

definition lab_ready :: "string \<Rightarrow> resolution" where
  "lab_ready revision =
     \<lparr>configuration_of = lab_apps, target_of = lab_server, servers_of = [], hosts_of = [], input_revision = revision,
      source_revision = ''commit'', references_of = [], inventory_of = [], cluster_of = None\<rparr>"

lemma lab_ready_parts [simp]:
  "configuration_of (lab_ready v) = lab_apps" "servers_of (lab_ready v) = []" "cluster_of (lab_ready v) = None"
  "input_revision (lab_ready v) = v" "source_revision (lab_ready v) = ''commit''" "(lab_ready v)\<lparr>servers_of := []\<rparr> = lab_ready v"
  by (simp_all add: lab_ready_def)

lemma lab_ready_steps:
  "lab_returns (checkout ''/src'' lab_apps (''/work'' @ ''/code'') ''commit'') ''/work/code''"
  "lab_returns (prepare_execution (lab_ready revision) ''/work'') ()"
  "lab_returns (report lab_apps ''Ready'' ''CommandVerified'' revision (Some (lab_ready revision)) outputs) ()"
  "lab_returns (report lab_apps ''Reconciling'' ''ExecutingCommand'' revision (Some (lab_ready revision)) []) ()"
  "lab_returns (read_public_result (''/work'' @ name)) None"
  unfolding lab_returns_def by (intro allI, code_simp)+

lemma lab_same_inputs:
  assumes "configuration_of r = lab_apps" "input_revision r = input_revision lab_resolution"
  shows "lab_returns (require_same_inputs ''/src'' r message) ()"
  unfolding require_same_inputs_def assms(1)
  by (rule lab_andthen [OF lab_plan_returns], intro only_intros) (simp add: assms(2) lab_ret)

lemma lab_claimed:
  assumes "v = input_revision lab_resolution"
  shows "lab_returns (execute_claimed ''/src'' (lab_ready v) ''/work/code'' ''/work'' []) []"
proof -
  have same: "lab_returns (require_same_inputs ''/src'' (lab_ready v) message) ()" for message
    by (rule lab_same_inputs) (simp_all add: assms)
  have commands: "lab_returns (run_commands ''/src'' (lab_ready v) ''/work/code'' ''/work'') ()"
    by (rule lab_commands) (simp_all add: assms)
  have unpublished: "lab_returns (publish_observations ''/src'' (lab_ready v) ''/work'') ()"
    unfolding publish_observations_def
    by (rule lab_andthen [OF lab_ready_steps(5) [of "''/target-observation.json''"]], intro only_intros) (simp add: lab_ret)
  show ?thesis
    unfolding execute_claimed_def Let_def lab_ready_parts
    by (rule lab_andthen [OF same], intro only_intros, rule lab_andthen [OF lab_ready_steps(4)], intro only_intros,
        rule lab_andthen [OF lab_catch [OF commands]], intro only_intros, rule lab_andthen [OF lab_claims], simp, intro only_intros,
        rule lab_andthen [OF same], intro only_intros, rule lab_andthen [OF lab_ready_steps(5)], intro only_intros,
        rule lab_andthen [OF unpublished], intro only_intros, rule lab_andthen [OF lab_ready_steps(5)], intro only_intros)
      (simp add: lab_returns_def)
qed


section \<open>The pass\<close>

lemma configuration_pass_raises:
  assumes "configuration_pass source c w = (Inl e, w')"
  shows "\<not> is_exception e"
proof -
  have quiet: "fst (catch_all m (ret ()) v) = Inr () \<or> (\<exists>e. fst (catch_all m (ret ()) v) = Inl e \<and> \<not> is_exception e)"
    for m :: "unit io" and v
    by (auto simp: catch_all_def catch_def split: prod.splits sum.splits)
  show ?thesis
    using assms quiet unfolding configuration_pass_def Let_def
    by (auto simp: catch_def andthen_def split: prod.splits sum.splits if_splits) (metis fst_conv sum.inject(1) sum.distinct(1))+
qed


section \<open>Divergences\<close>

text \<open>
  A failure of the API while the commands are run is reported like a command that could not be
  started, and the Operations are completed as failed.
\<close>

lemma api_failure_reported_as_command:
  "classify_failure (HTTPError code) w = (Inl (command_failed ''Configuration command could not be executed''), w)"
  "abort_report (command_failed message) = (''Failed'', ''CommandFailed'')"
  by (simp_all add: classify_failure_def is_os_error_def command_failed_def abort_report_def)

text \<open>One Configuration whose dependencies are no list ends the pass over all of them.\<close>

lemma malformed_ends_pass:
  "pass_order [lab_configuration ''a'' [], [(''metadata'', JObj [(''name'', JStr ''b'')]),
     (''spec'', JObj [(''dependsOn'', JStr ''a'')])]] = Inl (ValueError ''dependsOn must be an array'')"
  by code_simp

text \<open>A Server without a management address is accepted as installed.\<close>

lemma unaddressed_installed:
  "lab_returns (installed_server (dput ''status'' (JObj (dput ''networking'' (JObj []) (case dget lab_server ''status'' of JObj d \<Rightarrow> d))) lab_server)) ()"
  unfolding lab_returns_def by (intro allI) code_simp

end
