(* ===== verification/ConfigurationPlans.thy ===== *)
theory ConfigurationPlans
  imports ConfigurationLab
begin

text \<open>
  Planning ends: the recursion through the prerequisites is as deep as there are Configurations at
  most, so the bound of the model (and the interpreter's) is never what decides.
\<close>

section \<open>Computations that agree\<close>

text \<open>\<open>agrees A m k\<close>: in every world whose environment answers with \<open>A\<close> the two computations do the same.\<close>

definition agrees :: "(history \<Rightarrow> event \<Rightarrow> reply) \<Rightarrow> 'a io \<Rightarrow> 'a io \<Rightarrow> bool" where
  "agrees A m k \<longleftrightarrow> (\<forall>w :: world. answers w = A \<longrightarrow> m w = k w)"

named_theorems agree_intros "rules that establish agreement by the structure of the computations"

lemma agrees_refl [agree_intros]: "agrees A m m"
  by (simp add: agrees_def)

lemma agrees_returned:
  assumes "only True (\<lambda>e. True) m" "\<And>x (w :: world) w'. answers w = A \<Longrightarrow> m w = (Inr x, w') \<Longrightarrow> agrees A (f x) (g x)"
  shows "agrees A (andthen m f) (andthen m g)"
  unfolding agrees_def
proof (intro allI impI)
  fix w :: world
  assume w: "answers w = A"
  obtain r w1 where m: "m w = (r, w1)" by fastforce
  then have "answers w1 = A" using only_answers [OF assms(1)] w by blast
  with assms(2) [OF w] m show "andthen m f w = andthen m g w"
    by (cases r) (auto simp: andthen_def agrees_def)
qed

lemma agrees_after [agree_intros]:
  "only True (\<lambda>e. True) m \<Longrightarrow> (\<And>x. agrees A (f x) (g x)) \<Longrightarrow> agrees A (andthen m f) (andthen m g)"
  by (rule agrees_returned)

lemma agrees_both:
  assumes "only True (\<lambda>e. True) m" "agrees A m k" "\<And>x. agrees A (f x) (g x)"
  shows "agrees A (andthen m f) (andthen k g)"
proof -
  have "agrees A (andthen m g) (andthen k g)" using assms(2) by (simp add: agrees_def andthen_def)
  moreover have "agrees A (andthen m f) (andthen m g)" using assms(1,3) by (rule agrees_after)
  ultimately show ?thesis by (simp add: agrees_def)
qed

lemma agrees_catch: "agrees A m k \<Longrightarrow> agrees A (catch m h) (catch k h)"
  by (simp add: agrees_def catch_def)

lemma agrees_if [agree_intros]:
  "(c \<Longrightarrow> agrees A m k) \<Longrightarrow> (\<not> c \<Longrightarrow> agrees A m' k') \<Longrightarrow> agrees A (if c then m else m') (if c then k else k')"
  by simp

lemma agrees_case_prod [agree_intros]:
  "(\<And>x y. agrees A (f x y) (g x y)) \<Longrightarrow> agrees A (case p of (x, y) \<Rightarrow> f x y) (case p of (x, y) \<Rightarrow> g x y)"
  by (cases p) simp

lemma agrees_Let [agree_intros]: "(\<And>x. agrees A (f x) (g x)) \<Longrightarrow> agrees A (let x = v in f x) (let x = v in g x)"
  by simp

section \<open>The depth of a plan\<close>

text \<open>The Configurations the API has are named in \<open>N\<close>.\<close>

definition named :: "string set \<Rightarrow> jobject \<Rightarrow> bool" where
  "named N c \<longleftrightarrow> (\<forall>name. config_name c = Inr name \<longrightarrow> name \<in> N)"

definition known_names :: "string set \<Rightarrow> (history \<Rightarrow> event \<Rightarrow> reply) \<Rightarrow> bool" where
  "known_names N A \<longleftrightarrow>
     (\<forall>h n v c. A h (ApiGet ''configurations'' n) = RJson (JObj v) \<longrightarrow> resource v = Inr c \<longrightarrow> named N c)"

lemma fetched_named:
  assumes "known_names N (answers w)" "fetch_reference ''configurations'' ref w = (Inr c, w')"
  shows "named N c"
proof -
  obtain n v where "answers w (history w) (ApiGet ''configurations'' n) = RJson (JObj v)" "resource v = Inr c"
    using assms(2)
    by (auto simp: fetch_reference_def catch_def andthen_def api_get_def request_def ask_json_def ask_def Let_def
        json_object_def split: sum.splits prod.splits reply.splits json.splits if_splits)
  with assms(1) show ?thesis by (auto simp: known_names_def)
qed

lemma prerequisites_agree:
  assumes "known_names N A" "\<And>c. named N c \<Longrightarrow> agrees A (p c stack) (q c stack)"
    and p: "\<And>c. only True (\<lambda>e. True) (p c stack)"
  shows "agrees A (prerequisites p stack refs revisions) (prerequisites q stack refs revisions)"
proof (induction refs arbitrary: revisions)
  case (Cons ref refs)
  have step: "agrees A (catch (p c stack) await_prerequisite) (catch (q c stack) await_prerequisite)"
    if "answers w = A" "fetch_reference ''configurations'' ref w = (Inr c, w')" for c and w :: world and w'
    by (rule agrees_catch, rule assms(2), rule fetched_named) (use that assms(1) in auto)
  show ?case
    unfolding prerequisites.simps
    by (rule agrees_returned [OF anything.only_fetch_reference agrees_both [OF _ step]])
      (intro agree_intros only_intros p Cons.IH TrueI | assumption)+
qed (simp add: agrees_refl)

lemma plan_facts_agree:
  assumes "known_names N A"
    and "\<And>c name. config_name configuration = Inr name \<Longrightarrow> name \<notin> set stack \<Longrightarrow> named N c \<Longrightarrow>
      agrees A (p c (stack @ [name])) (q c (stack @ [name]))"
    and p: "\<And>c s. only True (\<lambda>e. True) (p c s)"
  shows "agrees A (plan_facts source p configuration stack) (plan_facts source q configuration stack)"
proof (cases "config_name configuration")
  case (Inl e)
  then show ?thesis by (simp add: plan_facts_def agrees_refl del: run_simps)
next
  case (Inr name)
  have "agrees A (prerequisite_inputs p configuration stack) (prerequisite_inputs q configuration stack)"
    if "name \<notin> set stack"
  proof -
    have "agrees A (prerequisites p (stack @ [name]) refs []) (prerequisites q (stack @ [name]) refs [])" for refs
      using assms(1) by (rule prerequisites_agree) (rule assms(2) [OF Inr that] p; assumption?)+
    then show ?thesis
      unfolding prerequisite_inputs_def Inr andthen_simps by (intro agree_intros only_intros)
  qed
  note inner = agrees_both [OF _ this]
  show ?thesis
    unfolding plan_facts_def Inr andthen_simps
    by (intro agree_intros only_intros inner p TrueI | assumption)+
qed

text \<open>Two bounds give the same plan when both exceed what is left of the names.\<close>

lemma plan_to_agree:
  assumes "finite N" "known_names N A"
  shows "distinct stack \<Longrightarrow> set stack \<subseteq> N \<Longrightarrow> named N c \<Longrightarrow> card N < length stack + n \<Longrightarrow>
    card N < length stack + m \<Longrightarrow> agrees A (plan_to source n c stack) (plan_to source m c stack)"
proof (induction n arbitrary: m c stack)
  case 0
  then have "length stack \<le> card N" using assms(1) by (metis card_mono distinct_card)
  with 0 show ?case by simp
next
  case (Suc n)
  have "length stack \<le> card N" using assms(1) Suc.prems(1,2) by (metis card_mono distinct_card)
  with Suc.prems(5) obtain k where m: "m = Suc k" by (cases m) auto
  have "agrees A (plan_facts source (plan_to source n) c stack) (plan_facts source (plan_to source k) c stack)"
  proof (rule plan_facts_agree [OF assms(2)])
    fix c' name
    assume "config_name c = Inr name" "name \<notin> set stack" "named N c'"
    with Suc.prems m show "agrees A (plan_to source n c' (stack @ [name])) (plan_to source k c' (stack @ [name]))"
      by (intro Suc.IH) (auto simp: named_def)
  qed (intro only_intros)
  then show ?case
    unfolding m plan_to.simps plan_body_def by (intro agrees_both agree_intros) (intro only_intros)+
qed


text \<open>Two Configurations that depend on each other.\<close>

definition lab_pair :: "string \<Rightarrow> string \<Rightarrow> jobject" where
  "lab_pair name other =
     [(''kind'', JStr ''Configuration''), (''metadata'', JObj (site_meta name)),
      (''spec'', JObj [(''dependsOn'', JArr [JObj [(''name'', JStr other)]])])]"

definition lab_pairs :: world where
  "lab_pairs = (lab_world [] [])\<lparr>answers := (\<lambda>h e. case e of
     ApiGet c n \<Rightarrow>
       RJson (JObj (if c \<noteq> ''configurations'' then lab_object c
                    else if n = ''b'' then lab_pair ''b'' ''a'' else lab_pair ''a'' ''b''))
   | _ \<Rightarrow> lab_answers h e)\<rparr>"


end
