(* ===== verification/BootOrder.thy ===== *)
theory BootOrder
  imports Effects JsonText Address
begin

text \<open>
  The firmware boot entries of an installed system (\<open>roles/provision/files/verify_efi.py\<close>): from the text of
  \<open>efibootmgr -v\<close>, which active Homelab entry is on the EFI partition, and in which order the entries have
  to be. The two regular expressions are written out as scanners: both match from the start of
  a line, ignore the case of letters, and take white space greedily, also across lines.
\<close>

section \<open>Hexadecimal numbers\<close>

definition is_hex :: "char \<Rightarrow> bool" where
  "is_hex c = (hex_value c \<noteq> None)"

definition upper_char :: "char \<Rightarrow> char" where
  "upper_char c = (let n = code_point c in if 97 \<le> n \<and> n \<le> 122 then char_of (n - 32) else c)"

definition upper :: "string \<Rightarrow> string" where
  "upper s = map upper_char s"

text \<open>
  \<open>int(s, 16)\<close>: surrounding white space, a sign, a prefix and single underscores between digits are
  allowed; a string of ASCII characters is stripped of ASCII white space only.
\<close>

definition int_space :: "string \<Rightarrow> char \<Rightarrow> bool" where
  "int_space s c =
     (if list_all (\<lambda>x. code_point x < 128) s then code_point c \<in> {9, 10, 11, 12, 13, 32} else isspace_char c)"

definition strip_by :: "(char \<Rightarrow> bool) \<Rightarrow> string \<Rightarrow> string" where
  "strip_by p s = rev (dropWhile p (rev (dropWhile p s)))"

definition hex_number :: "string \<Rightarrow> nat option" where
  "hex_number s =
     (let parts = split_on (CHR ''_'') s in
      if list_all (\<lambda>w. w \<noteq> [] \<and> list_all is_hex w) parts
      then Some (foldl (\<lambda>n c. 16 * n + the (hex_value c)) 0 (concat parts)) else None)"

definition hex_prefixed :: "string \<Rightarrow> string" where
  "hex_prefixed s =
     (if startswith (lower s) ''0x''
      then (case drop 2 s of [] \<Rightarrow> [] | c # t \<Rightarrow> if c = CHR ''_'' then t else c # t) else s)"

definition int16 :: "string \<Rightarrow> exn + int" where
  "int16 s =
     (let t = strip_by (int_space s) s;
          (negative, u) = (case t of [] \<Rightarrow> (False, t)
             | c # v \<Rightarrow> if c = CHR ''-'' then (True, v) else if c = CHR ''+'' then (False, v) else (False, t)) in
      (case hex_number (hex_prefixed u) of
         None \<Rightarrow> Inl (LibError ''int'')
       | Some n \<Rightarrow> Inr (if negative then - int n else int n)))"

section \<open>UUIDs\<close>

definition uuid_digits :: "string \<Rightarrow> string" where
  "uuid_digits s =
     replace_char (CHR ''-'') []
       (strip_by (\<lambda>c. c \<in> {CHR 0x7B, CHR 0x7D}) (replace_text ''uuid:'' [] (replace_text ''urn:'' [] s)))"

definition uuid_form :: "nat \<Rightarrow> string" where
  "uuid_form n =
     (let h = hex_text n; d = replicate (32 - length h) (CHR ''0'') @ h in
      take 8 d @ ''-'' @ take 4 (drop 8 d) @ ''-'' @ take 4 (drop 12 d) @ ''-'' @ take 4 (drop 16 d) @ ''-'' @ drop 20 d)"

text \<open>\<open>str(UUID(s))\<close>\<close>

definition uuid_text :: "string \<Rightarrow> exn + string" where
  "uuid_text s =
     (if length (uuid_digits s) \<noteq> 32 then Inl (LibError ''UUID'')
      else bind (int16 (uuid_digits s)) (\<lambda>i.
        if i < 0 then Inl (LibError ''UUID'') else Inr (uuid_form (nat i))))"

section \<open>Lines\<close>

definition newline :: char where
  "newline = CHR 0x0A"

text \<open>What follows the first end of line.\<close>

definition next_line :: "string \<Rightarrow> string option" where
  "next_line s = (case dropWhile (\<lambda>c. c \<noteq> newline) s of [] \<Rightarrow> None | c # t \<Rightarrow> Some t)"

lemma next_line_shorter [termination_simp]: "next_line s = Some t \<Longrightarrow> length t < length s"
proof -
  assume "next_line s = Some t"
  then obtain c where "dropWhile (\<lambda>c. c \<noteq> newline) s = c # t"
    by (auto simp: next_line_def split: list.splits)
  then show ?thesis using length_dropWhile_le [of "\<lambda>c. c \<noteq> newline" s] by simp
qed

definition skip_literal :: "string \<Rightarrow> string \<Rightarrow> string option" where
  "skip_literal word s = (if startswith (lower s) word then Some (drop (length word) s) else None)"

text \<open>The boot order: the first line that names one.\<close>

definition order_char :: "char \<Rightarrow> bool" where
  "order_char c = (is_hex c \<or> c = CHR '','')"

definition order_at :: "string \<Rightarrow> string option" where
  "order_at s =
     (case skip_literal ''bootorder:'' s of
        None \<Rightarrow> None
      | Some t \<Rightarrow>
          let w = takeWhile order_char (dropWhile isspace_char t) in if w = [] then None else Some w)"

function order_text :: "string \<Rightarrow> string option" where
  "order_text s =
     (case order_at s of
        Some w \<Rightarrow> Some w
      | None \<Rightarrow> (case next_line s of None \<Rightarrow> None | Some t \<Rightarrow> order_text t))"
  by pat_completeness auto
termination
  by (relation "measure length") (auto simp: next_line_shorter)

text \<open>One active Homelab entry at the start of a line: its number, its path, and the text after it.\<close>

definition entry_at :: "string \<Rightarrow> (string \<times> string \<times> string) option" where
  "entry_at s =
     (case skip_literal ''boot'' s of
        None \<Rightarrow> None
      | Some t \<Rightarrow>
          let number = take 4 t; u = drop 4 t in
          if length number = 4 \<and> list_all is_hex number \<and> startswith u ''*'' \<and>
             u \<noteq> [] \<and> tl u \<noteq> [] \<and> isspace_char (hd (tl u))
          then (case skip_literal ''homelab'' (dropWhile isspace_char (tl u)) of
                  None \<Rightarrow> None
                | Some v \<Rightarrow>
                    if v \<noteq> [] \<and> isspace_char (hd v)
                    then let p = dropWhile isspace_char v in
                         Some (number, takeWhile (\<lambda>c. c \<noteq> newline) p, dropWhile (\<lambda>c. c \<noteq> newline) p)
                    else None)
          else None)"

lemma entry_at_shorter: "entry_at s = Some (n, p, r) \<Longrightarrow> length r \<le> length s"
proof -
  assume "entry_at s = Some (n, p, r)"
  then obtain t v where t: "skip_literal ''boot'' s = Some t"
      and v: "skip_literal ''homelab'' (dropWhile isspace_char (tl (drop 4 t))) = Some v"
      and r: "r = dropWhile (\<lambda>c. c \<noteq> newline) (dropWhile isspace_char v)"
    by (auto simp: entry_at_def Let_def split: option.splits if_splits)
  have "length r \<le> length v" unfolding r by (meson le_trans length_dropWhile_le)
  also have "length v \<le> length (dropWhile isspace_char (tl (drop 4 t)))"
    using v by (auto simp: skip_literal_def split: if_splits)
  also have "\<dots> \<le> length (tl (drop 4 t))" by (rule length_dropWhile_le)
  also have "\<dots> \<le> length t" by simp
  also have "\<dots> \<le> length s" using t by (auto simp: skip_literal_def split: if_splits)
  finally show ?thesis .
qed

function homelab_entries :: "string \<Rightarrow> (string \<times> string) list" where
  "homelab_entries s =
     (case entry_at s of
        Some (number, path, rest) \<Rightarrow>
          (number, path) # (case next_line rest of None \<Rightarrow> [] | Some t \<Rightarrow> homelab_entries t)
      | None \<Rightarrow> (case next_line s of None \<Rightarrow> [] | Some t \<Rightarrow> homelab_entries t))"
  by pat_completeness auto
termination
  by (relation "measure length") (auto dest!: next_line_shorter entry_at_shorter)

declare order_text.simps [simp del] homelab_entries.simps [simp del]

section \<open>The plan\<close>

definition loader_path :: string where
  "loader_path = [CHR 0x5C] @ ''efi'' @ [CHR 0x5C] @ ''homelab'' @ [CHR 0x5C] @ ''grubx64.efi''"

definition on_partition :: "string \<Rightarrow> string \<Rightarrow> bool" where
  "on_partition partition_uuid path =
     (contains (lower path) (''hd(1,gpt,'' @ partition_uuid @ '','') \<and> contains (lower path) loader_path)"

definition boot_matches :: "string \<Rightarrow> string \<Rightarrow> string list" where
  "boot_matches partition_uuid entries =
     map (upper \<circ> fst) (filter (on_partition partition_uuid \<circ> snd) (homelab_entries entries))"

fun least :: "string list \<Rightarrow> string" where
  "least [] = []"
| "least [w] = w"
| "least (w # v # ws) =
     (let m = least (v # ws) in if ord.lexordp (\<lambda>a b. code_point a < code_point b) m w then m else w)"

definition select_entry :: "string list \<Rightarrow> string list \<Rightarrow> string option" where
  "select_entry order matches =
     (case find (\<lambda>entry. entry \<in> set matches) order of
        Some entry \<Rightarrow> Some entry
      | None \<Rightarrow> if matches = [] then None else Some (least matches))"

definition desired_order :: "string option \<Rightarrow> string list \<Rightarrow> string list" where
  "desired_order selected order =
     (case selected of None \<Rightarrow> order | Some s \<Rightarrow> s # filter (\<lambda>entry. entry \<noteq> s) order)"

record efi_plan =
  selected_entry :: "string option"
  boot_order :: string
  needs_create :: bool
  needs_order :: bool

definition boot_plan :: "string \<Rightarrow> string \<Rightarrow> exn + efi_plan" where
  "boot_plan entries partition_uuid =
     bind (uuid_text partition_uuid) (\<lambda>uuid.
     (case order_text entries of
        None \<Rightarrow> Inl (RuntimeError ''No persistent firmware boot order'')
      | Some text \<Rightarrow>
          let order = split_on (CHR '','') (upper text);
              selected = select_entry order (boot_matches uuid entries);
              desired = desired_order selected order in
          Inr \<lparr>selected_entry = selected, boot_order = join '','' desired,
               needs_create = (selected = None), needs_order = (desired \<noteq> order)\<rparr>))"

text \<open>The script: \<open>--plan\<close> prints the plan, without it the entries have to be right already.\<close>

definition efi_script :: "string list \<Rightarrow> efi_plan option io" where
  "efi_script argv =
     (case argv of
        [] \<Rightarrow> raise IndexError
      | flag # rest \<Rightarrow>
          if flag = ''--plan'' \<and> rest = [] then raise IndexError
          else
            let uuid = (if flag = ''--plan'' then hd rest else flag) in
            andthen (ask_text (Process [''efibootmgr'', ''-v''] [] 30)) (\<lambda>entries.
            andthen (lift (boot_plan entries uuid)) (\<lambda>plan.
            if flag = ''--plan'' then ret (Some plan)
            else if needs_create plan \<or> needs_order plan
            then raise (RuntimeError ''Normal firmware boot does not select the new Homelab GRUB'')
            else ret None)))"


section \<open>Reading a listing\<close>

text \<open>A line before the boot order that is neither a boot order nor an entry.\<close>

definition header_line :: "string \<Rightarrow> bool" where
  "header_line l \<longleftrightarrow> newline \<notin> set l \<and> \<not> startswith (lower l) ''bootorder:'' \<and>
     (startswith (lower l) ''boot'' \<longrightarrow> \<not> list_all is_hex (take 4 (drop 4 (l @ [newline]))))"

definition header :: "string list \<Rightarrow> string" where
  "header ls = concat (map (\<lambda>l. l @ [newline]) ls)"

definition listing :: "string list \<Rightarrow> string \<Rightarrow> string \<Rightarrow> string" where
  "listing ls order rest = header ls @ ''BootOrder: '' @ order @ newline # rest"

lemma next_line_append: "newline \<notin> set l \<Longrightarrow> next_line (l @ newline # s) = Some s"
proof -
  assume "newline \<notin> set l"
  then have "dropWhile (\<lambda>c. c \<noteq> newline) (l @ newline # s) = newline # s" by (induction l) auto
  then show ?thesis by (simp add: next_line_def)
qed

lemma lower_newline: "lower_char c = newline \<longleftrightarrow> c = newline"
  by (cases c) (auto simp: lower_char_def newline_def Let_def split: if_splits)

lemma startswith_line:
  assumes "newline \<notin> set word" "startswith (lower (l @ newline # s)) word"
  shows "startswith (lower l) word"
proof -
  have t: "take (length word) (lower l @ newline # lower s) = word"
    using assms(2) lower_newline [of newline] by (simp add: startswith_def lower_def)
  show ?thesis
  proof (cases "length word \<le> length l")
    case True
    with t show ?thesis by (simp add: startswith_def lower_def)
  next
    case False
    then obtain k where "length word - length l = Suc k" by (metis Suc_diff_Suc not_le)
    with t have "newline \<in> set word" by (simp add: lower_def) (metis in_set_conv_decomp)
    with assms(1) show ?thesis by simp
  qed
qed

lemma is_hex_not_newline: "\<not> is_hex newline"
  by (simp add: is_hex_def hex_value_def newline_def)

lemma skip_literal_boot: "skip_literal ''boot'' s = Some t \<Longrightarrow> startswith (lower s) ''boot'' \<and> t = drop 4 s"
  by (cases "startswith (lower s) ''boot''") (auto simp: skip_literal_def numeral_eq_Suc)

lemma entry_at_None:
  assumes "\<And>t. skip_literal ''boot'' s = Some t \<Longrightarrow> \<not> (length (take 4 t) = 4 \<and> list_all is_hex (take 4 t))"
  shows "entry_at s = None"
proof (cases "skip_literal ''boot'' s")
  case (Some t)
  with assms [OF this] show ?thesis by (auto simp add: entry_at_def Let_def simp del: length_take)
qed (simp add: entry_at_def)

lemma header_line_skipped:
  assumes "header_line l"
  shows "order_at (l @ newline # s) = None" "entry_at (l @ newline # s) = None"
proof -
  have n: "newline \<notin> set ''bootorder:''" "newline \<notin> set ''boot''" by (simp_all add: newline_def)
  have b: "startswith (lower (l @ newline # s)) ''bootorder:'' \<Longrightarrow> startswith (lower l) ''bootorder:''"
    "startswith (lower (l @ newline # s)) ''boot'' \<Longrightarrow> startswith (lower l) ''boot''"
    by (erule startswith_line [OF n(1)], erule startswith_line [OF n(2)])
  show "order_at (l @ newline # s) = None"
    using b(1) assms by (auto simp: order_at_def skip_literal_def header_line_def)
  have "\<not> (length number = 4 \<and> list_all is_hex number)"
    if "startswith (lower l) ''boot''" "number = take 4 (drop 4 (l @ newline # s))" for number
  proof (cases "8 \<le> length l")
    case True
    then have "number = take 4 (drop 4 (l @ [newline]))" using that(2) by simp
    then show ?thesis using assms that(1) by (simp add: header_line_def)
  next
    case False
    have "4 \<le> length l" using that(1) by (auto simp: startswith_def lower_def dest!: arg_cong [of _ _ length])
    with False obtain k where "8 - length l = Suc k" by (metis Suc_diff_Suc not_le)
    with \<open>4 \<le> length l\<close> have "number = drop 4 l @ newline # take k s" using that(2) False by simp
    then have "newline \<in> set number" by simp
    then show ?thesis using is_hex_not_newline by (auto simp: list_all_iff)
  qed
  note number = this
  show "entry_at (l @ newline # s) = None"
  proof (rule entry_at_None)
    fix t assume t: "skip_literal ''boot'' (l @ newline # s) = Some t"
    then have "startswith (lower (l @ newline # s)) ''boot''" "t = drop 4 (l @ newline # s)"
      by (auto dest!: skip_literal_boot simp del: drop_append)
    with number [OF b(2)] show "\<not> (length (take 4 t) = 4 \<and> list_all is_hex (take 4 t))" by blast
  qed
qed

lemma header_skipped:
  assumes "list_all header_line ls"
  shows "order_text (header ls @ s) = order_text s" "homelab_entries (header ls @ s) = homelab_entries s"
proof -
  have "order_text (header ls @ s) = order_text s \<and> homelab_entries (header ls @ s) = homelab_entries s"
    using assms
  proof (induction ls)
    case (Cons l ls)
    then have l: "header_line l" by simp
    then have "newline \<notin> set l" by (simp add: header_line_def)
    with Cons header_line_skipped [OF l, of "header ls @ s"] show ?case
      by (simp add: header_def order_text.simps [of "l @ newline # _"] homelab_entries.simps [of "l @ newline # _"] next_line_append)
  qed (simp add: header_def)
  then show "order_text (header ls @ s) = order_text s" "homelab_entries (header ls @ s) = homelab_entries s" by simp_all
qed


lemma order_line:
  assumes "order \<noteq> []" "list_all order_char order"
  shows "order_at (''BootOrder: '' @ order @ newline # rest) = Some order"
    "entry_at (''BootOrder: '' @ order @ newline # rest) = None"
    "next_line (''BootOrder: '' @ order @ newline # rest) = Some rest"
proof -
  have n: "\<not> order_char newline" by (simp add: order_char_def is_hex_not_newline) (simp add: newline_def)
  have space: "order_char c \<Longrightarrow> \<not> isspace_char c" for c
    by (auto simp: order_char_def is_hex_def hex_value_def isspace_char_def Let_def split: if_splits)
  obtain c w where cw: "order = c # w" using assms(1) by (cases order) auto
  then have "dropWhile isspace_char (CHR '' '' # order @ newline # rest) = order @ newline # rest"
    using space [of c] assms(2) by (simp add: isspace_char_def)
  moreover have "takeWhile order_char (order @ newline # rest) = order"
    using assms(2) n by (induction order) auto
  ultimately show "order_at (''BootOrder: '' @ order @ newline # rest) = Some order"
    using assms(1) by (simp add: order_at_def skip_literal_def startswith_def lower_def lower_char_def Let_def)
  show "entry_at (''BootOrder: '' @ order @ newline # rest) = None"
    by (rule entry_at_None) (auto simp: skip_literal_def is_hex_def hex_value_def startswith_def split: if_splits)
  have "newline \<notin> set (''BootOrder: '' @ order)"
    using assms(2) n by (auto simp: list_all_iff) (auto simp: newline_def)
  then show "next_line (''BootOrder: '' @ order @ newline # rest) = Some rest"
    using next_line_append [of "''BootOrder: '' @ order" rest] by simp
qed

lemma listing_read:
  assumes "list_all header_line ls" "order \<noteq> []" "list_all order_char order"
  shows "order_text (listing ls order rest) = Some order"
    "homelab_entries (listing ls order rest) = homelab_entries rest"
proof -
  note line = order_line [OF assms(2,3), of rest]
  show "order_text (listing ls order rest) = Some order"
    unfolding listing_def header_skipped(1) [OF assms(1)] by (subst order_text.simps) (simp only: line option.case)
  show "homelab_entries (listing ls order rest) = homelab_entries rest"
    unfolding listing_def header_skipped(2) [OF assms(1)] by (subst homelab_entries.simps) (simp only: line option.case)
qed

section \<open>The selection\<close>

text \<open>The numbers of entries are four upper-case hexadecimal digits once they are compared.\<close>

lemma homelab_numbers: "(n, p) \<in> set (homelab_entries s) \<Longrightarrow> length n = 4 \<and> list_all is_hex n"
proof (induction s rule: homelab_entries.induct)
  case (1 s)
  show ?case
  proof (cases "entry_at s")
    case None
    show ?thesis
    proof (cases "next_line s")
      case (Some t)
      with 1 \<open>entry_at s = None\<close> show ?thesis by (simp add: homelab_entries.simps [of s])
    qed (use 1 None in \<open>simp add: homelab_entries.simps [of s]\<close>)
  next
    case (Some e)
    obtain number path r where e: "e = (number, path, r)" by (cases e)
    with Some have "length number = 4 \<and> list_all is_hex number"
      by (auto simp: entry_at_def Let_def split: option.splits if_splits)
    with Some e 1 show ?thesis
      by (cases "next_line r") (auto simp: homelab_entries.simps [of s])
  qed
qed

lemma is_hex_code:
  "is_hex c = (let n = code_point c in 48 \<le> n \<and> n \<le> 57 \<or> 65 \<le> n \<and> n \<le> 70 \<or> 97 \<le> n \<and> n \<le> 102)"
  by (simp add: is_hex_def hex_value_def Let_def)

definition order_word :: "string \<Rightarrow> bool" where
  "order_word w \<longleftrightarrow> list_all is_hex w \<and> upper w = w"

lemma upper_hex: "is_hex c \<Longrightarrow> is_hex (upper_char c)" "is_hex c \<Longrightarrow> upper_char (upper_char c) = upper_char c"
  by (auto simp: upper_char_def is_hex_code Let_def split: if_splits)

lemma upper_comma: "upper_char (CHR '','') = CHR '',''" "is_hex c \<Longrightarrow> c \<noteq> CHR '',''"
  by (auto simp: upper_char_def is_hex_def hex_value_def)

lemma order_word_upper: "list_all is_hex w \<Longrightarrow> order_word (upper w)"
  by (auto simp: order_word_def upper_def list_all_iff upper_hex)

lemma order_word_no_comma: "order_word w \<Longrightarrow> CHR '','' \<notin> set w"
  by (auto simp: order_word_def list_all_iff dest: upper_comma(2))

lemma boot_matches_words: "w \<in> set (boot_matches u s) \<Longrightarrow> order_word w \<and> w \<noteq> []"
  by (auto simp: boot_matches_def upper_def dest!: homelab_numbers intro: order_word_upper [unfolded upper_def])

lemma set_join: "w \<in> set ws \<Longrightarrow> set w \<subseteq> set (join c ws)"
  by (induction c ws rule: join.induct) auto

lemma split_on_subset: "w \<in> set (split_on c s) \<Longrightarrow> set w \<subseteq> set s"
  using join_split_on [of c s] set_join [of w "split_on c s" "[c]"] by simp

lemma split_words:
  assumes "list_all order_char t" "w \<in> set (split_on (CHR '','') (upper t))"
  shows "order_word w"
proof -
  have "set w \<subseteq> set (upper t)" using assms(2) by (rule split_on_subset)
  moreover have "CHR '','' \<notin> set w" using assms(2) by (rule split_on_no_sep)
  ultimately have digits: "is_hex c \<and> upper_char c = c" if "c \<in> set w" for c
  proof -
    have "c \<in> upper_char ` set t"
      using that \<open>set w \<subseteq> set (upper t)\<close> unfolding upper_def set_map by (rule rev_subsetD)
    then obtain d where d: "d \<in> set t" "c = upper_char d" by (rule imageE)
    moreover have "c \<noteq> CHR '',''" using that \<open>CHR '','' \<notin> set w\<close> by metis
    ultimately have "is_hex d" using assms(1) upper_comma(1) unfolding list_all_iff order_char_def by blast
    then show ?thesis using upper_hex [of d] d(2) by simp
  qed
  then show ?thesis by (simp add: order_word_def upper_def list_all_iff map_idI)
qed

lemma upper_join: "\<forall>w\<in>set ws. order_word w \<Longrightarrow> upper (join '','' ws) = join '','' ws"
  by (induction "'','' :: string" ws rule: join.induct) (auto simp: order_word_def upper_def upper_comma)

lemma join_order_chars: "\<forall>w\<in>set ws. order_word w \<Longrightarrow> list_all order_char (join '','' ws)"
  by (induction "'','' :: string" ws rule: join.induct) (auto simp: order_word_def order_char_def list_all_iff)

lemma least_member: "ws \<noteq> [] \<Longrightarrow> least ws \<in> set ws"
  by (induction ws rule: least.induct) (auto simp: Let_def)

lemma select_entry_member: "select_entry order matches = Some s \<Longrightarrow> s \<in> set matches"
  by (auto simp: select_entry_def find_Some_iff least_member split: option.splits if_splits)

lemma plan_converges:
  assumes header: "list_all header_line ls"
    and order: "old \<noteq> []" "list_all order_char old"
    and planned: "boot_plan (listing ls old rest) uuid = Inr p" "selected_entry p = Some s"
  shows "boot_plan (listing ls (boot_order p) rest) uuid = Inr (p\<lparr>needs_order := False\<rparr>)"
    and "split_on (CHR '','') (boot_order p) = s # filter (\<lambda>entry. entry \<noteq> s) (split_on (CHR '','') (upper old))"
    and "\<exists>u. uuid_text uuid = Inr u \<and> s \<in> set (boot_matches u rest)"
    and "\<not> needs_create p"
proof -
  let ?words = "split_on (CHR '','') (upper old)"
  note read = listing_read [OF header]
  obtain u where u: "uuid_text uuid = Inr u" using planned(1) by (auto simp: boot_plan_def elim: bindE)
  define matches where "matches = boot_matches u rest"
  have m: "boot_matches u (listing ls t rest) = matches" if "t \<noteq> []" "list_all order_char t" for t
    by (simp add: matches_def boot_matches_def read(2) [OF that])
  have p: "p = \<lparr>selected_entry = Some s, boot_order = join '','' (desired_order (Some s) ?words),
      needs_create = False, needs_order = (desired_order (Some s) ?words \<noteq> ?words)\<rparr>"
    and sel: "select_entry ?words matches = Some s"
    using planned u by (auto simp: boot_plan_def Let_def read(1) [OF order] m [OF order])
  show "\<not> needs_create p" by (simp add: p)
  have s: "s \<in> set matches" by (rule select_entry_member [OF sel])
  with u show "\<exists>u. uuid_text uuid = Inr u \<and> s \<in> set (boot_matches u rest)" by (simp add: matches_def)
  define words where "words = desired_order (Some s) ?words"
  have words: "words = s # filter (\<lambda>entry. entry \<noteq> s) ?words" by (simp add: words_def desired_order_def)
  have all: "\<forall>w\<in>set words. order_word w"
    using s boot_matches_words split_words [OF order(2)] by (auto simp: words matches_def)
  have bo: "boot_order p = join '','' words" by (simp add: p words_def)
  have split: "split_on (CHR '','') (boot_order p) = words"
    unfolding bo by (rule split_on_join) (use all order_word_no_comma in \<open>auto simp: words\<close>)
  then show "split_on (CHR '','') (boot_order p) = s # filter (\<lambda>entry. entry \<noteq> s) ?words" by (simp add: words)
  have "s \<noteq> []" using s boot_matches_words by (auto simp: matches_def)
  then have ne: "boot_order p \<noteq> []" unfolding bo words by (cases "filter (\<lambda>entry. entry \<noteq> s) ?words") auto
  have ok: "list_all order_char (boot_order p)" unfolding bo by (rule join_order_chars [OF all])
  have up: "upper (boot_order p) = boot_order p" unfolding bo by (rule upper_join [OF all])
  have "select_entry words matches = Some s" using s by (simp add: select_entry_def words)
  moreover have "desired_order (Some s) words = words" by (simp add: desired_order_def words)
  ultimately show "boot_plan (listing ls (boot_order p) rest) uuid = Inr (p\<lparr>needs_order := False\<rparr>)"
    by (simp only: boot_plan_def u bind_simps Let_def read(1) [OF ne ok] m [OF ne ok] up split option.case)
      (simp add: p words_def)
qed

text \<open>
  C40: Once a plan selects an entry, one write of its boot order settles the firmware: the plan of the
  resulting listing is the same without the reordering, the selected entry is an active Homelab
  entry of the asked partition, nothing has to be created, and the order written
  differs from the old one only in the place of that entry.
\<close>

theorem efi_converges:
  assumes "list_all header_line ls" "old \<noteq> []" "list_all order_char old"
    and "boot_plan (listing ls old rest) uuid = Inr p" "selected_entry p = Some s"
  shows "boot_plan (listing ls (boot_order p) rest) uuid = Inr (p\<lparr>needs_order := False\<rparr>) \<and>
    split_on (CHR '','') (boot_order p) = s # filter (\<lambda>entry. entry \<noteq> s) (split_on (CHR '','') (upper old)) \<and>
    (\<exists>u. uuid_text uuid = Inr u \<and> s \<in> set (boot_matches u rest)) \<and> \<not> needs_create p"
  by (intro conjI plan_converges [OF assms])

text \<open>
  A firmware whose order puts the network first: the plan moves the Homelab entry to the front,
  keeps the others, and the plan of the resulting listing asks for nothing.
\<close>

definition sample_entries :: string where
  "sample_entries =
     ''Boot0001* UEFI PXE'' @ [newline] @
     ''Boot000a* Homelab HD(1,GPT,6f1c0a52-0000-4000-8000-00000000000b,0x800)/'' @ loader_path @ [newline]"

lemma sample_uuid: "uuid_text ''6F1C0A52-0000-4000-8000-00000000000B'' = Inr ''6f1c0a52-0000-4000-8000-00000000000b''"
proof -
  let ?d = "''6F1C0A5200004000800000000000000B''" 
  have d: "uuid_digits ''6F1C0A52-0000-4000-8000-00000000000B'' = ?d" by code_simp
  have s: "strip_by (int_space ?d) ?d = ?d" "hex_prefixed ?d = ?d" by code_simp+
  have h: "hex_number ?d = Some 147689901164970301992979635425601650699"
    by (simp add: hex_number_def is_hex_def hex_value_def)
  have "uuid_form 147689901164970301992979635425601650699 = ''6f1c0a52-0000-4000-8000-00000000000b''"
    by (simp add: uuid_form_def hex_text_def digits_of.simps digit_char_def char_of_def bit_Suc_0_iff)
  then show ?thesis unfolding uuid_text_def d int16_def s Let_def by (simp add: s h)
qed

lemma efi_converges_witness:
  "\<exists>p. boot_plan (listing [''BootCurrent: 0001''] ''0001,000a'' sample_entries) ''6F1C0A52-0000-4000-8000-00000000000B'' = Inr p \<and>
     needs_order p \<and> boot_order p = ''000A,0001'' \<and>
     boot_plan (listing [''BootCurrent: 0001''] (boot_order p) sample_entries) ''6F1C0A52-0000-4000-8000-00000000000B'' =
       Inr (p\<lparr>needs_order := False\<rparr>)"
proof -
  let ?p = "\<lparr>selected_entry = Some ''000A'', boot_order = ''000A,0001'', needs_create = False, needs_order = True\<rparr>"
  have header: "list_all header_line [''BootCurrent: 0001'']" and order: "list_all order_char ''0001,000a''" by code_simp+
  have "order_text (listing [''BootCurrent: 0001''] ''0001,000a'' sample_entries) = Some ''0001,000a''" by code_simp
  moreover have "boot_matches ''6f1c0a52-0000-4000-8000-00000000000b''
      (listing [''BootCurrent: 0001''] ''0001,000a'' sample_entries) = [''000A'']" by code_simp
  moreover have "split_on (CHR '','') (upper ''0001,000a'') = [''0001'', ''000A'']" by code_simp
  ultimately have plan: "boot_plan (listing [''BootCurrent: 0001''] ''0001,000a'' sample_entries)
      ''6F1C0A52-0000-4000-8000-00000000000B'' = Inr ?p"
    by (simp add: boot_plan_def sample_uuid Let_def select_entry_def desired_order_def)
  show ?thesis using plan efi_converges [OF header _ order plan] by auto
qed
end
