(* ===== verification/Refinement.thy ===== *)
theory Refinement
  imports Effects
begin

text \<open>
  Refinement of computations. Most of the development models an exchange with a service, or a local
  command, as one request with one answer. The code below that line (\<open>operators/common.py\<close>) makes several
  finer requests of its own. A detailed computation refines a coarse one when whatever a run of it
  meets, there are answers to the requests of the coarse one under which that ends the same way.
  What holds of the coarse computation in every environment then holds of the detailed one.
\<close>

section \<open>Runs that follow a trace\<close>

text \<open>An environment that gives the answers of a trace, after a history.\<close>

definition consistent :: "(history \<Rightarrow> event \<Rightarrow> reply) \<Rightarrow> history \<Rightarrow> history \<Rightarrow> bool" where
  "consistent ans h t \<longleftrightarrow> (\<forall>i<length t. ans (h @ take i t) (fst (t ! i)) = snd (t ! i))"

lemma consistent_Nil [simp]: "consistent ans h []"
  by (simp add: consistent_def)

lemma consistent_single [simp]: "consistent ans h [(ev, r)] \<longleftrightarrow> ans h ev = r"
  by (auto simp: consistent_def)

lemma consistent_append:
  "consistent ans h (t @ u) \<longleftrightarrow> consistent ans h t \<and> consistent ans (h @ t) u"
proof -
  have "consistent ans h (t @ u)" if "consistent ans h t" "consistent ans (h @ t) u"
    unfolding consistent_def
  proof (intro allI impI)
    fix i assume i: "i < length (t @ u)"
    show "ans (h @ take i (t @ u)) (fst ((t @ u) ! i)) = snd ((t @ u) ! i)"
    proof (cases "i < length t")
      case True
      with that(1) show ?thesis by (simp add: consistent_def nth_append)
    next
      case False
      with i have "i - length t < length u" by simp
      with that(2) have "ans ((h @ t) @ take (i - length t) u) (fst (u ! (i - length t))) = snd (u ! (i - length t))"
        unfolding consistent_def by blast
      with False show ?thesis by (simp add: nth_append)
    qed
  qed
  moreover have "consistent ans h t" if "consistent ans h (t @ u)"
    unfolding consistent_def
  proof (intro allI impI)
    fix i assume "i < length t"
    with that show "ans (h @ take i t) (fst (t ! i)) = snd (t ! i)"
      unfolding consistent_def by (elim allE [of _ i]) (simp add: nth_append)
  qed
  moreover have "consistent ans (h @ t) u" if "consistent ans h (t @ u)"
    unfolding consistent_def
  proof (intro allI impI)
    fix i assume "i < length u"
    with that show "ans ((h @ t) @ take i u) (fst (u ! i)) = snd (u ! i)"
      unfolding consistent_def by (elim allE [of _ "length t + i"]) (simp add: nth_append)
  qed
  ultimately show ?thesis by blast
qed

text \<open>Every trace has an environment.\<close>

definition scripted :: "history \<Rightarrow> history \<Rightarrow> history \<Rightarrow> event \<Rightarrow> reply" where
  "scripted h t k ev =
     (if length h \<le> length k \<and> length k < length h + length t then snd (t ! (length k - length h)) else RUnit)"

lemma scripted_consistent: "consistent (scripted h t) h t"
  by (simp add: consistent_def scripted_def)

text \<open>
  \<open>performs m h c ft t r c'\<close>: after the history \<open>h\<close>, with the cell \<open>c\<close>, in every environment that answers
  along \<open>t\<close>, the computation \<open>m\<close> makes exactly the requests of \<open>t\<close>, ends with \<open>r\<close> and leaves the cell \<open>c'\<close>.
\<close>

definition performs ::
  "'a io \<Rightarrow> history \<Rightarrow> jobject \<Rightarrow> (rat \<Rightarrow> string) \<Rightarrow> history \<Rightarrow> exn + 'a \<Rightarrow> jobject \<Rightarrow> bool" where
  "performs m h c ft t r c' \<longleftrightarrow>
     (\<forall>ans. consistent ans h t \<longrightarrow>
        m \<lparr>answers = ans, history = h, float_text = ft, cell = c\<rparr> =
          (r, \<lparr>answers = ans, history = h @ t, float_text = ft, cell = c'\<rparr>))"

lemma performs_pure:
  "(\<And>ans. m \<lparr>answers = ans, history = h, float_text = ft, cell = c\<rparr> =
      (r, \<lparr>answers = ans, history = h, float_text = ft, cell = c'\<rparr>)) \<Longrightarrow> performs m h c ft [] r c'"
  by (simp add: performs_def)

text \<open>What a request returns or raises on an answer.\<close>

fun answered :: "reply \<Rightarrow> exn + reply" where
  "answered (RRaise e) = Inl (if e = Unfinished then OSError else e)"
| "answered r = Inr r"

lemma ask_answered: "ask ev w = (answered (answers w (history w) ev), w\<lparr>history := history w @ [(ev, answers w (history w) ev)]\<rparr>)"
  by (cases "answers w (history w) ev") (simp_all add: ask_def Let_def)

lemma performs_ask: "performs (ask ev) h c ft [(ev, r)] (answered r) c"
  by (simp add: performs_def ask_answered)

lemma performs_andthen:
  assumes "performs m h c ft t (Inr x) c1" "performs (f x) (h @ t) c1 ft u r c2"
  shows "performs (andthen m f) h c ft (t @ u) r c2"
  using assms by (simp add: performs_def andthen_def consistent_append)

lemma performs_andthen_raise:
  "performs m h c ft t (Inl e) c1 \<Longrightarrow> performs (andthen m f) h c ft t (Inl e) c1"
  by (simp add: performs_def andthen_def)

lemma performs_catch:
  assumes "performs m h c ft t (Inl e) c1" "performs (k e) (h @ t) c1 ft u r c2"
  shows "performs (catch m k) h c ft (t @ u) r c2"
  using assms by (simp add: performs_def catch_def consistent_append)

lemma performs_catch_return:
  "performs m h c ft t (Inr x) c1 \<Longrightarrow> performs (catch m k) h c ft t (Inr x) c1"
  by (simp add: performs_def catch_def)

section \<open>Refinement\<close>

definition refines :: "'a io \<Rightarrow> 'a io \<Rightarrow> bool" where
  "refines detailed coarse \<longleftrightarrow>
     (\<forall>w r w'. detailed w = (r, w') \<longrightarrow>
        float_text w' = float_text w \<and>
        (\<forall>h. \<exists>t. performs coarse h (cell w) (float_text w) t r (cell w')))"

lemma refinesI:
  assumes "\<And>w r w'. detailed w = (r, w') \<Longrightarrow> float_text w' = float_text w"
    and "\<And>w r w' h. detailed w = (r, w') \<Longrightarrow> \<exists>t. performs coarse h (cell w) (float_text w) t r (cell w')"
  shows "refines detailed coarse"
  unfolding refines_def using assms by blast

lemma refinesD:
  assumes "refines m n" "m w = (r, w')"
  obtains t where "performs n h (cell w) (float_text w) t r (cell w')" "float_text w' = float_text w"
  using assms unfolding refines_def by blast

named_theorems refines_intros "rules that establish a refinement by the structure of the computations"

lemma refines_basics [refines_intros]:
  "refines (ret x) (ret x)" "refines (raise e) (raise e)" "refines (lift s) (lift s)"
  "refines get_cell get_cell" "refines (set_cell d) (set_cell d)" "refines get_float_text get_float_text"
  by (rule refinesI; auto intro!: exI [of _ "[]"] performs_pure)+

lemma refines_ask [refines_intros]: "refines (ask ev) (ask ev)"
proof (rule refinesI)
  fix w r w' and h :: history
  assume a: "ask ev w = (r, w')"
  then show "float_text w' = float_text w" by (auto simp: ask_answered)
  from a have "r = answered (answers w (history w) ev)" "cell w' = cell w" by (auto simp: ask_answered)
  with performs_ask show "\<exists>t. performs (ask ev) h (cell w) (float_text w) t r (cell w')" by metis
qed

lemma refines_andthen [refines_intros]:
  assumes "refines m n" "\<And>x. refines (f x) (g x)"
  shows "refines (andthen m f) (andthen n g)"
proof (rule refinesI)
  fix w r w' and h :: history
  assume run: "andthen m f w = (r, w')"
  obtain r1 w1 where m: "m w = (r1, w1)" by fastforce
  obtain t where t: "performs n h (cell w) (float_text w) t r1 (cell w1)" "float_text w1 = float_text w"
    by (rule refinesD [OF assms(1) m])
  have "float_text w' = float_text w \<and> (\<exists>t. performs (andthen n g) h (cell w) (float_text w) t r (cell w'))"
  proof (cases r1)
    case (Inl e)
    with run m have "r = Inl e" "w' = w1" by (auto simp: andthen_def)
    with t Inl show ?thesis by (auto intro: performs_andthen_raise)
  next
    case (Inr x)
    with run m have f: "f x w1 = (r, w')" by (simp add: andthen_def)
    obtain u where "performs (g x) (h @ t) (cell w1) (float_text w1) u r (cell w')" "float_text w' = float_text w1"
      by (rule refinesD [OF assms(2) f])
    with t Inr show ?thesis by (auto intro: performs_andthen)
  qed
  then show "float_text w' = float_text w" "\<exists>t. performs (andthen n g) h (cell w) (float_text w) t r (cell w')"
    by simp_all
qed

lemma refines_catch [refines_intros]:
  assumes "refines m n" "\<And>e. refines (f e) (g e)"
  shows "refines (catch m f) (catch n g)"
proof (rule refinesI)
  fix w r w' and h :: history
  assume run: "catch m f w = (r, w')"
  obtain r1 w1 where m: "m w = (r1, w1)" by fastforce
  obtain t where t: "performs n h (cell w) (float_text w) t r1 (cell w1)" "float_text w1 = float_text w"
    by (rule refinesD [OF assms(1) m])
  have "float_text w' = float_text w \<and> (\<exists>t. performs (catch n g) h (cell w) (float_text w) t r (cell w'))"
  proof (cases r1)
    case (Inr x)
    with run m have "r = Inr x" "w' = w1" by (auto simp: catch_def)
    with t Inr show ?thesis by (auto intro: performs_catch_return)
  next
    case (Inl e)
    with run m have f: "f e w1 = (r, w')" by (simp add: catch_def)
    obtain u where "performs (g e) (h @ t) (cell w1) (float_text w1) u r (cell w')" "float_text w' = float_text w1"
      by (rule refinesD [OF assms(2) f])
    with t Inl show ?thesis by (auto intro: performs_catch)
  qed
  then show "float_text w' = float_text w" "\<exists>t. performs (catch n g) h (cell w) (float_text w) t r (cell w')"
    by simp_all
qed

lemma refines_if [refines_intros]:
  "(c \<Longrightarrow> refines m m') \<Longrightarrow> (\<not> c \<Longrightarrow> refines n n') \<Longrightarrow> refines (if c then m else n) (if c then m' else n')"
  by simp

lemma refines_case_option [refines_intros]:
  "refines m m' \<Longrightarrow> (\<And>x. refines (f x) (f' x)) \<Longrightarrow>
   refines (case v of None \<Rightarrow> m | Some x \<Rightarrow> f x) (case v of None \<Rightarrow> m' | Some x \<Rightarrow> f' x)"
  by (cases v) auto

lemma refines_case_prod [refines_intros]:
  "(\<And>x y. refines (f x y) (g x y)) \<Longrightarrow> refines (case p of (x, y) \<Rightarrow> f x y) (case p of (x, y) \<Rightarrow> g x y)"
  by (cases p) auto

lemma refines_trans_eq: "refines m n \<Longrightarrow> n = n' \<Longrightarrow> refines m n'"
  by simp

lemma refines_asks [refines_intros]:
  "refines (ask_json ev) (ask_json ev)" "refines (ask_text ev) (ask_text ev)" "refines (ask_num ev) (ask_num ev)"
  "refines (ask_proc ev) (ask_proc ev)" "refines (act ev) (act ev)"
proof -
  have "refines (case r of RJson v \<Rightarrow> ret v | _ \<Rightarrow> raise OSError) (case r of RJson v \<Rightarrow> ret v | _ \<Rightarrow> raise OSError)"
    "refines (case r of RText s \<Rightarrow> ret s | _ \<Rightarrow> raise OSError) (case r of RText s \<Rightarrow> ret s | _ \<Rightarrow> raise OSError)"
    "refines (case r of RNum q \<Rightarrow> ret q | _ \<Rightarrow> raise OSError) (case r of RNum q \<Rightarrow> ret q | _ \<Rightarrow> raise OSError)"
    "refines (case r of RProc c out err \<Rightarrow> ret (c, out, err) | _ \<Rightarrow> raise OSError)
       (case r of RProc c out err \<Rightarrow> ret (c, out, err) | _ \<Rightarrow> raise OSError)" for r
    by (cases r; simp add: refines_basics)+
  then show "refines (ask_json ev) (ask_json ev)" "refines (ask_text ev) (ask_text ev)"
    "refines (ask_num ev) (ask_num ev)" "refines (ask_proc ev) (ask_proc ev)" "refines (act ev) (act ev)"
    unfolding ask_json_def ask_text_def ask_num_def ask_proc_def act_def
    by (auto intro!: refines_intros)
qed

lemma and_finally_steps:
  "and_finally m f = andthen (catch (andthen m (\<lambda>x. ret (Inr x))) (\<lambda>e. ret (Inl e)))
     (\<lambda>r. andthen f (\<lambda>_. lift r))"
  by (auto simp: and_finally_def catch_def andthen_def fun_eq_iff split: prod.splits sum.splits)

lemma refines_and_finally [refines_intros]:
  "refines m n \<Longrightarrow> refines f g \<Longrightarrow> refines (and_finally m f) (and_finally n g)"
  unfolding and_finally_steps by (intro refines_intros)

lemma refines_each [refines_intros]: "(\<And>x. refines (f x) (g x)) \<Longrightarrow> refines (each f xs) (each g xs)"
  by (induction xs) (auto intro!: refines_intros)

lemma refines_collect [refines_intros]: "(\<And>x. refines (f x) (g x)) \<Longrightarrow> refines (collect f xs) (collect g xs)"
  by (induction xs) (auto intro!: refines_intros)

text \<open>A coarse computation of one request: an answer to it explains every run of the detailed one.\<close>

lemma refines_one:
  assumes "only False (\<lambda>_. True) detailed"
    and "\<And>w r w'. detailed w = (r, w') \<Longrightarrow>
      \<exists>a. \<forall>v. answers v (history v) ev = a \<longrightarrow> coarse v = (r, v\<lparr>history := history v @ [(ev, a)]\<rparr>)"
  shows "refines detailed coarse"
proof (rule refinesI)
  fix w r w' and h :: history
  assume d: "detailed w = (r, w')"
  have c: "cell w' = cell w" by (rule only_cell [OF assms(1) d])
  show "float_text w' = float_text w" by (rule only_float [OF assms(1) d])
  from assms(2) [OF d] obtain a
    where "\<forall>v. answers v (history v) ev = a \<longrightarrow> coarse v = (r, v\<lparr>history := history v @ [(ev, a)]\<rparr>)" ..
  then have "performs coarse h (cell w) (float_text w) [(ev, a)] r (cell w')"
    by (simp add: performs_def c)
  then show "\<exists>t. performs coarse h (cell w) (float_text w) t r (cell w')" ..
qed

text \<open>
  The environment cannot raise \<open>Unfinished\<close>, the mark of a bound of the model; a detailed computation that
  does not either, and leaves the cell alone, refines a request whose answer carries its result.
\<close>

definition finishes :: "'a io \<Rightarrow> bool" where
  "finishes m \<longleftrightarrow> (\<forall>w w'. m w \<noteq> (Inl Unfinished, w'))"

named_theorems finishes_intros "rules that exclude the mark of a bound by the structure of the computation"

lemma finishes_basics [finishes_intros]:
  "finishes (ret x)" "e \<noteq> Unfinished \<Longrightarrow> finishes (raise e)" "s \<noteq> Inl Unfinished \<Longrightarrow> finishes (lift s)"
  "finishes get_float_text"
  by (simp_all add: finishes_def)

lemma answered_not_unfinished: "answered a \<noteq> Inl Unfinished"
  by (cases a) simp_all

lemma finishes_andthen [finishes_intros]: "finishes m \<Longrightarrow> (\<And>x. finishes (f x)) \<Longrightarrow> finishes (andthen m f)"
  unfolding finishes_def by (auto simp: andthen_def split: prod.splits sum.splits)

lemma finishes_catch [finishes_intros]:
  assumes "\<And>e. e \<noteq> Unfinished \<Longrightarrow> finishes (h e)" "finishes m"
  shows "finishes (catch m h)"
  unfolding finishes_def
proof (intro allI notI)
  fix w w'
  assume run: "catch m h w = (Inl Unfinished, w')"
  obtain r w1 where m: "m w = (r, w1)" by fastforce
  show False
  proof (cases r)
    case (Inl e)
    with m assms(2) have "e \<noteq> Unfinished" by (auto simp: finishes_def)
    with assms(1) have "finishes (h e)" .
    with run m Inl show False by (simp add: finishes_def catch_def)
  qed (use run m in \<open>simp add: catch_def\<close>)
qed

lemma finishes_and_finally [finishes_intros]: "finishes m \<Longrightarrow> finishes f \<Longrightarrow> finishes (and_finally m f)"
  unfolding finishes_def by (fastforce simp: and_finally_def andthen_def split: prod.splits sum.splits)

lemma finishes_case_prod [finishes_intros]: "(\<And>x y. finishes (f x y)) \<Longrightarrow> finishes (case p of (x, y) \<Rightarrow> f x y)"
  by (cases p) auto

lemma finishes_asks [finishes_intros]:
  "finishes (ask ev)" "finishes (ask_json ev)" "finishes (ask_text ev)" "finishes (ask_num ev)"
  "finishes (ask_proc ev)" "finishes (act ev)"
proof -
  show a: "finishes (ask ev)" by (simp add: finishes_def ask_answered answered_not_unfinished)
  have "finishes (case r of RJson v \<Rightarrow> ret v | _ \<Rightarrow> raise OSError)"
    "finishes (case r of RText s \<Rightarrow> ret s | _ \<Rightarrow> raise OSError)"
    "finishes (case r of RNum q \<Rightarrow> ret q | _ \<Rightarrow> raise OSError)"
    "finishes (case r of RProc c out err \<Rightarrow> ret (c, out, err) | _ \<Rightarrow> raise OSError)" for r
    by (cases r; simp add: finishes_basics)+
  with a show "finishes (ask_json ev)" "finishes (ask_text ev)" "finishes (ask_num ev)"
    "finishes (ask_proc ev)" "finishes (act ev)"
    unfolding ask_json_def ask_text_def ask_num_def ask_proc_def act_def
    by (auto intro!: finishes_intros)
qed

lemma refines_proc:
  assumes "only False (\<lambda>_. True) detailed" "finishes detailed"
  shows "refines detailed (ask_proc ev)"
proof (rule refines_one [OF assms(1)])
  fix w r w'
  assume "detailed w = (r, w')"
  with assms(2) have r: "r \<noteq> Inl Unfinished" by (auto simp: finishes_def)
  let ?a = "case r of Inl e \<Rightarrow> RRaise e | Inr (code, out, err) \<Rightarrow> RProc code out err"
  have "\<forall>v. answers v (history v) ev = ?a \<longrightarrow> ask_proc ev v = (r, v\<lparr>history := history v @ [(ev, ?a)]\<rparr>)"
    using r by (cases r) (auto simp: ask_proc_def andthen_def ask_answered)
  then show "\<exists>a. \<forall>v. answers v (history v) ev = a \<longrightarrow> ask_proc ev v = (r, v\<lparr>history := history v @ [(ev, a)]\<rparr>)" ..
qed

lemma refines_act:
  assumes "only False (\<lambda>_. True) detailed" "finishes detailed"
  shows "refines detailed (act ev)"
proof (rule refines_one [OF assms(1)])
  fix w r w'
  assume "detailed w = (r, w')"
  with assms(2) have r: "r \<noteq> Inl Unfinished" by (auto simp: finishes_def)
  let ?a = "case r of Inl e \<Rightarrow> RRaise e | Inr _ \<Rightarrow> RUnit"
  have "\<forall>v. answers v (history v) ev = ?a \<longrightarrow> act ev v = (r, v\<lparr>history := history v @ [(ev, ?a)]\<rparr>)"
    using r by (cases r) (auto simp: act_def andthen_def ask_answered)
  then show "\<exists>a. \<forall>v. answers v (history v) ev = a \<longrightarrow> act ev v = (r, v\<lparr>history := history v @ [(ev, a)]\<rparr>)" ..
qed

section \<open>What a refinement carries over\<close>

theorem refined_outcome:
  assumes "refines detailed coarse" "\<And>v r v'. coarse v = (r, v') \<Longrightarrow> P r" "detailed w = (r, w')"
  shows "P r"
proof -
  obtain t where "performs coarse [] (cell w) (float_text w) t r (cell w')"
    by (rule refinesD [OF assms(1,3)])
  with scripted_consistent [of "[]" t] have
    "coarse \<lparr>answers = scripted [] t, history = [], float_text = float_text w, cell = cell w\<rparr> =
      (r, \<lparr>answers = scripted [] t, history = [] @ t, float_text = float_text w, cell = cell w'\<rparr>)"
    unfolding performs_def by blast
  then show ?thesis by (rule assms(2))
qed

end
