(* ===== verification/Transport.thy ===== *)
theory Transport
  imports Common JsonParse HostKeys Refinement
begin

text \<open>
  The HTTP transport of \<open>operators/common.py\<close>: where credentials may go (\<open>urlparse\<close>, the check of
  \<open>request_json\<close>, \<open>NoRedirect\<close>), the headers and the body of an exchange, and the API client above it, which
  refines the requests the rest of the development makes. An exchange answers with the status, the body and the
  redirect location of the response.
\<close>

section \<open>URLs\<close>

text \<open>\<open>urlparse(url)\<close>: leading control characters and spaces are dropped, tabs and ends of line removed.\<close>

definition cleaned_url :: "string \<Rightarrow> string" where
  "cleaned_url url = filter (\<lambda>c. code_point c \<notin> {9, 10, 13}) (dropWhile (\<lambda>c. code_point c \<le> 32) url)"

definition ascii_letter :: "char \<Rightarrow> bool" where
  "ascii_letter c = (let n = code_point c in 65 \<le> n \<and> n \<le> 90 \<or> 97 \<le> n \<and> n \<le> 122)"

definition scheme_char :: "char \<Rightarrow> bool" where
  "scheme_char c = (ascii_letter c \<or> is_dec c \<or> c \<in> {CHR ''+'', CHR ''-'', CHR ''.''})"

text \<open>The scheme in lower case and the rest; without a scheme, the whole text is the rest.\<close>

definition split_scheme :: "string \<Rightarrow> string \<times> string" where
  "split_scheme url =
     (let s = takeWhile (\<lambda>c. c \<noteq> CHR '':'') url; r = dropWhile (\<lambda>c. c \<noteq> CHR '':'') url in
      if r \<noteq> [] \<and> s \<noteq> [] \<and> ascii_letter (hd s) \<and> list_all scheme_char s then (lower s, tl r) else ([], url))"

definition network_location :: "string \<Rightarrow> string" where
  "network_location rest =
     (if startswith rest ''//'' then takeWhile (\<lambda>c. c \<notin> {CHR ''/'', CHR ''?'', CHR ''#''}) (drop 2 rest) else [])"

text \<open>The part of the location after the last at sign.\<close>

definition host_part :: "string \<Rightarrow> string" where
  "host_part netloc = rev (takeWhile (\<lambda>c. c \<noteq> CHR ''@'') (rev netloc))"

definition before_char :: "char \<Rightarrow> string \<Rightarrow> string" where
  "before_char c s = takeWhile (\<lambda>x. x \<noteq> c) s"

definition after_char :: "char \<Rightarrow> string \<Rightarrow> string" where
  "after_char c s = tl (dropWhile (\<lambda>x. x \<noteq> c) s)"

text \<open>A host in brackets is an IPv6 address or a future form, followed by nothing but a port.\<close>

definition future_address :: "string \<Rightarrow> bool" where
  "future_address s =
     (let n = before_char (CHR ''.'') (tl s); r = after_char (CHR ''.'') s in
      n \<noteq> [] \<and> list_all (\<lambda>c. hex_value c \<noteq> None) n \<and> CHR ''.'' \<in> set s \<and> r \<noteq> [] \<and> CHR 0x0A \<notin> set r)"

definition bracketed_host :: "string \<Rightarrow> bool" where
  "bracketed_host s =
     (if startswith s ''v'' then future_address s
      else (case ip_address s of Inl _ \<Rightarrow> False | Inr a \<Rightarrow> CHR '':'' \<in> set a))"

definition bracketed_location :: "string \<Rightarrow> bool" where
  "bracketed_location netloc =
     (let h = host_part netloc in
      if CHR ''['' \<in> set h
      then before_char (CHR ''['') h = [] \<and>
           (let b = after_char (CHR ''['') h; port = after_char (CHR '']'') b in
            (port = [] \<or> startswith port '':'') \<and> bracketed_host (before_char (CHR '']'') b))
      else bracketed_host (before_char (CHR '':'') h))"

definition host_name :: "string \<Rightarrow> string option" where
  "host_name netloc =
     (let h = host_part netloc;
          n = (if CHR ''['' \<in> set h then before_char (CHR '']'') (after_char (CHR ''['') h)
               else before_char (CHR '':'') h) in
      if n = [] then None
      else Some (lower (takeWhile (\<lambda>c. c \<noteq> CHR ''%'') n) @ dropWhile (\<lambda>c. c \<noteq> CHR ''%'') n))"

record parsed_url =
  url_scheme :: string
  url_host :: "string option"

definition urlparse :: "string \<Rightarrow> exn + parsed_url" where
  "urlparse url =
     (let (scheme, rest) = split_scheme (cleaned_url url); netloc = network_location rest in
      if (CHR ''['' \<in> set netloc) \<noteq> (CHR '']'' \<in> set netloc) then Inl (LibError ''urlparse'')
      else if CHR ''['' \<in> set netloc \<and> \<not> bracketed_location netloc then Inl (LibError ''urlparse'')
      else Inr \<lparr>url_scheme = scheme, url_host = host_name netloc\<rparr>)"

text \<open>Credentials travel over HTTPS, or to the loopback host.\<close>

definition carries_credentials :: "parsed_url \<Rightarrow> bool" where
  "carries_credentials u =
     (url_scheme u = ''https'' \<or>
      (url_scheme u = ''http'' \<and> url_host u \<in> {Some ''localhost'', Some ''127.0.0.1''}))"

text \<open>\<open>quote(name, safe='')\<close>: every byte of the UTF-8 text that is not plain becomes an escape.\<close>

definition plain_in_url :: "char \<Rightarrow> bool" where
  "plain_in_url c = (ascii_letter c \<or> is_dec c \<or> c \<in> set ''_.-~'')"

definition url_bytes :: "char \<Rightarrow> nat list" where
  "url_bytes c = (let n = code_point c in if n < 128 then [n] else [192 + n div 64, 128 + n mod 64])"

definition upper_hex :: "nat \<Rightarrow> char" where
  "upper_hex n = char_of (if n < 10 then n + 48 else n + 55)"

definition quoted_char :: "char \<Rightarrow> string" where
  "quoted_char c =
     (if plain_in_url c then [c]
      else concat (map (\<lambda>b. [CHR ''%'', upper_hex (b div 16), upper_hex (b mod 16)]) (url_bytes c)))"

definition quote :: "string \<Rightarrow> string" where
  "quote s = concat (map quoted_char s)"

section \<open>One exchange\<close>

definition put_header :: "string \<Rightarrow> string \<Rightarrow> (string \<times> string) list \<Rightarrow> (string \<times> string) list" where
  "put_header name v hs =
     (if name \<in> fst ` set hs then map (\<lambda>(n, w). if n = name then (n, v) else (n, w)) hs else hs @ [(name, v)])"

definition request_headers :: "string \<Rightarrow> string \<Rightarrow> (string \<times> string) list \<Rightarrow> (string \<times> string) list" where
  "request_headers token token_header headers =
     (let base = [(''Accept'', ''application/json''), (''Content-Type'', ''application/json'')];
          own = (if token = [] then base
                 else put_header token_header
                   ((if token_header = ''Authorization'' then ''Bearer '' else []) @ token) base) in
      foldl (\<lambda>hs (n, v). put_header n v hs) own headers)"

text \<open>
  The outcome of the response: the standard handlers raise for a status other than success; a redirect that
  names a web location reaches \<open>NoRedirect\<close>, which raises before anything is sent there.
\<close>

definition redirects :: "int \<Rightarrow> string \<Rightarrow> bool" where
  "redirects status location =
     (status \<in> {301, 302, 303, 307, 308} \<and> location \<noteq> [] \<and>
      fst (split_scheme (cleaned_url location)) \<in> {''http'', ''https'', ''ftp'', []})"

definition response_body :: "int \<Rightarrow> string \<Rightarrow> string \<Rightarrow> exn + string" where
  "response_body status body location =
     (if 200 \<le> status \<and> status < 300 then Inr body
      else if redirects status location
      then Inl (RuntimeError ''Credential-bearing requests must not redirect'')
      else Inl (HTTPError status))"

definition decoded_body :: "(string \<Rightarrow> rat) \<Rightarrow> string \<Rightarrow> exn + json" where
  "decoded_body float_value body = (if body = [] then Inr (JObj []) else json_loads float_value body)"

record http_request =
  http_url :: string
  http_token :: string
  http_method :: string
  http_body :: "jobject option"
  http_headers :: "(string \<times> string) list"
  http_token_header :: string

text \<open>What goes over the wire.\<close>

definition exchange :: "(rat \<Rightarrow> string) \<Rightarrow> http_request \<Rightarrow> event" where
  "exchange ft q =
     Exchange (http_method q) (http_url q) (request_headers (http_token q) (http_token_header q) (http_headers q))
       (map_option (\<lambda>d. dumps ft default_style (JObj d)) (http_body q))"

definition request_json :: "(string \<Rightarrow> rat) \<Rightarrow> http_request \<Rightarrow> jobject io" where
  "request_json float_value q =
     andthen (lift (urlparse (http_url q))) (\<lambda>parsed.
     if \<not> carries_credentials parsed
     then raise (RuntimeError ''Credentials require HTTPS (loopback HTTP is development-only)'') else
     andthen get_float_text (\<lambda>ft.
     andthen (ask_proc (exchange ft q)) (\<lambda>(status, text, location).
     andthen (lift (response_body status text location)) (\<lambda>text.
     andthen (lift (decoded_body float_value text)) (\<lambda>decoded.
       lift (json_object decoded ''API response''))))))"

section \<open>The API client\<close>

record client =
  client_url :: string
  client_token :: string

definition api_client :: "client io" where
  "api_client =
     andthen (getenv ''STIGMERGY_API_URL'') (\<lambda>url.
     andthen (getenv ''STIGMERGY_API_TOKEN'') (\<lambda>token.
     if strip token = [] then raise (RuntimeError ''An API token is required'')
     else ret \<lparr>client_url = rstrip_char (CHR ''/'') url @ ''/api/v1alpha1'', client_token = strip token\<rparr>))"

text \<open>The HTTP request behind each request to the API and to the secret store.\<close>

fun wire :: "client \<Rightarrow> event \<Rightarrow> http_request option" where
  "wire c (ApiGet collection name) =
     Some \<lparr>http_url = client_url c @ ''/'' @ collection @ ''/'' @ quote name, http_token = client_token c,
       http_method = ''GET'', http_body = None, http_headers = [], http_token_header = ''Authorization''\<rparr>"
| "wire c (ApiList collection) =
     Some \<lparr>http_url = client_url c @ ''/'' @ collection, http_token = client_token c,
       http_method = ''GET'', http_body = None, http_headers = [], http_token_header = ''Authorization''\<rparr>"
| "wire c (ApiPatch collection name uid version status) =
     Some \<lparr>http_url = client_url c @ ''/'' @ collection @ ''/'' @ quote name @ ''/status'', http_token = client_token c,
       http_method = ''PATCH'',
       http_body = Some [(''metadata'', JObj [(''uid'', JStr uid)]), (''status'', JObj status)],
       http_headers = [(''If-Match'', [CHR 0x22] @ version @ [CHR 0x22]), (''Content-Type'', ''application/merge-patch+json'')],
       http_token_header = ''Authorization''\<rparr>"
| "wire c (ApiCreate collection kind name spec) =
     Some \<lparr>http_url = client_url c @ ''/'' @ collection, http_token = client_token c, http_method = ''POST'',
       http_body = Some [(''apiVersion'', JStr ''homelab.io/v1alpha1''), (''kind'', JStr kind),
                         (''metadata'', JObj [(''name'', JStr name)]), (''spec'', JObj spec)],
       http_headers = [], http_token_header = ''Authorization''\<rparr>"
| "wire c (VaultRequest verb url token body) =
     Some \<lparr>http_url = url, http_token = token, http_method = verb,
       http_body = (if verb = ''GET'' then None else Some body), http_headers = [],
       http_token_header = ''X-Vault-Token''\<rparr>"
| "wire c _ = None"

definition call :: "(string \<Rightarrow> rat) \<Rightarrow> client \<Rightarrow> event \<Rightarrow> jobject io" where
  "call fv c ev = (case wire c ev of Some q \<Rightarrow> request_json fv q | None \<Rightarrow> request ev)"

definition client_get :: "(string \<Rightarrow> rat) \<Rightarrow> client \<Rightarrow> string \<Rightarrow> json \<Rightarrow> jobject io" where
  "client_get fv c collection name =
     andthen (lift (str_of TypeError name)) (\<lambda>n.
     andthen (call fv c (ApiGet collection n)) (\<lambda>v. lift (resource v)))"

definition client_list :: "(string \<Rightarrow> rat) \<Rightarrow> client \<Rightarrow> string \<Rightarrow> jobject list io" where
  "client_list fv c collection =
     andthen (call fv c (ApiList collection)) (\<lambda>response.
     (case dget response ''items'' of
        JArr items \<Rightarrow>
          lift (mapM (\<lambda>item. bind (json_object item ''collection item'') resource) items)
      | _ \<Rightarrow> raise (ValueError ''API collection.items must be a list'')))"

definition client_patch :: "(string \<Rightarrow> rat) \<Rightarrow> client \<Rightarrow> json \<Rightarrow> jobject \<Rightarrow> jobject io" where
  "client_patch fv c server status =
     andthen (lift (patch_request server status)) (\<lambda>ev.
     andthen (call fv c ev) (\<lambda>v. lift (resource v)))"

definition client_create :: "(string \<Rightarrow> rat) \<Rightarrow> client \<Rightarrow> string \<Rightarrow> string \<Rightarrow> string \<Rightarrow> jobject \<Rightarrow> jobject io" where
  "client_create fv c collection kind name spec =
     andthen (call fv c (ApiCreate collection kind name spec)) (\<lambda>v. lift (resource v))"

section \<open>Reading errors\<close>

text \<open>Whatever is wrong with a text, reading it raises a \<open>ValueError\<close>.\<close>

definition lib_error :: "exn \<Rightarrow> bool" where
  "lib_error e \<longleftrightarrow> (\<exists>m. e = LibError m)"

lemma bind_lib_error:
  assumes "bind m f = Inl e" "\<And>e. m = Inl e \<Longrightarrow> lib_error e" "\<And>x e. m = Inr x \<Longrightarrow> f x = Inl e \<Longrightarrow> lib_error e"
  shows "lib_error e"
  using assms by (cases m) auto

lemma bad_json_error [simp]: "lib_error bad_json"
  by (simp add: lib_error_def bad_json_def)

lemma unicode_error: "unicode_value a b c d = Inl e \<Longrightarrow> lib_error e"
  by (auto simp: unicode_value_def Let_def split: option.splits if_splits)

lemma scan_string_error: "scan_string s = Inl e \<Longrightarrow> lib_error e"
proof (induction s arbitrary: e rule: scan_string.induct)
  case (2 c s)
  from "2.prems" show ?case
    by (subst (asm) scan_string.simps(2))
      (auto split: if_splits list.splits option.splits elim!: bind_lib_error intro: unicode_error "2.IH")
qed simp

lemma scan_number_error: "scan_number fv s = Inl e \<Longrightarrow> lib_error e"
  by (auto simp: scan_number_def Let_def py_int_def lib_error_def bad_json_def bind_eq_Inl split: if_splits)

lemma read_errors:
  "(\<forall>e. read_value fv n s = Inl e \<longrightarrow> lib_error e) \<and> (\<forall>e. read_items fv n s = Inl e \<longrightarrow> lib_error e) \<and>
   (\<forall>d e. read_members fv n s d = Inl e \<longrightarrow> lib_error e)"
proof (induction n arbitrary: s)
  case (Suc n)
  have v: "lib_error e" if "read_value fv n s = Inl e" for s e using Suc that by blast
  have i: "lib_error e" if "read_items fv n s = Inl e" for s e using Suc that by blast
  have m: "lib_error e" if "read_members fv n s d = Inl e" for s d e using Suc that by blast
  have "lib_error e" if "read_value fv (Suc n) s = Inl e" for e
    using that by (simp only: read_value.simps)
      (auto split: if_splits list.splits elim!: bind_lib_error intro: scan_string_error scan_number_error i m)
  moreover have "lib_error e" if "read_items fv (Suc n) s = Inl e" for e
    using that by (auto split: if_splits list.splits elim!: bind_lib_error intro: v i)
  moreover have "lib_error e" if "read_members fv (Suc n) s d = Inl e" for d e
    using that by (auto split: if_splits list.splits elim!: bind_lib_error intro: scan_string_error) (erule v, erule m)
  ultimately show ?case by blast
qed simp

lemma json_loads_error: "json_loads fv s = Inl e \<Longrightarrow> lib_error e"
  using read_errors unfolding json_loads_def by (fastforce elim!: bind_lib_error split: if_splits)

section \<open>Confinement\<close>

lemma only_request_json [only_intros]:
  "(\<And>ft. A (exchange ft q)) \<Longrightarrow> only cw A (request_json fv q)"
  unfolding request_json_def by (intro only_intros)

text \<open>One exchange at most, and only where credentials may go.\<close>

lemma request_json_run:
  assumes "request_json fv q w = (r, w')"
  shows "w' = w \<or>
    (\<exists>u. urlparse (http_url q) = Inr u \<and> carries_credentials u) \<and>
    w' = w\<lparr>history := history w @ [(exchange (float_text w) q, answers w (history w) (exchange (float_text w) q))]\<rparr>"
  using assms
  by (cases "urlparse (http_url q)"; cases "answers w (history w) (exchange (float_text w) q)")
    (auto simp: request_json_def ask_proc_def andthen_def ask_answered split: sum.splits if_splits prod.splits)

text \<open>What a response decodes to.\<close>

fun decoded_reply :: "(string \<Rightarrow> rat) \<Rightarrow> reply \<Rightarrow> reply" where
  "decoded_reply fv (RProc status text location) =
     (case bind (response_body status text location) (decoded_body fv) of Inl e \<Rightarrow> RRaise e | Inr v \<Rightarrow> RJson v)"
| "decoded_reply fv (RRaise e) = RRaise e"
| "decoded_reply fv _ = RRaise OSError"

lemma request_json_decoded:
  assumes "urlparse (http_url q) = Inr u" "carries_credentials u"
    and "answers v (history v) ev = decoded_reply fv (answers w (history w) (exchange (float_text w) q))"
  shows "fst (request_json fv q w) = fst (request ev v)"
proof (cases "answers w (history w) (exchange (float_text w) q)")
  case (RProc status reply location)
  show ?thesis
  proof (cases "bind (response_body status reply location) (decoded_body fv)")
    case (Inl e)
    then have "e \<noteq> Unfinished"
      by (auto simp: response_body_def decoded_body_def bind_eq_Inl lib_error_def split: if_splits dest!: json_loads_error)
    with Inl RProc assms show ?thesis
      by (auto simp: request_json_def request_def ask_proc_def ask_json_def andthen_def ask_answered bind_eq_Inl)
  next
    case (Inr d)
    with RProc assms show ?thesis
      by (auto simp: request_json_def request_def ask_proc_def ask_json_def andthen_def ask_answered exn_simps)
  qed
qed (use assms in \<open>auto simp: request_json_def request_def ask_proc_def ask_json_def andthen_def ask_answered\<close>)

section \<open>The client refines the requests of the development\<close>

lemma never_unfinished:
  assumes "request_json fv q w = (Inl e, w')"
  shows "e \<noteq> Unfinished"
proof -
  have a: "answered a \<noteq> Inl Unfinished" for a by (cases a) simp_all
  have "urlparse url \<noteq> Inl Unfinished" for url by (auto simp: urlparse_def Let_def split: prod.splits)
  moreover have "decoded_body fv body \<noteq> Inl Unfinished" for body
    by (auto simp: decoded_body_def lib_error_def dest!: json_loads_error)
  moreover have "response_body status body location \<noteq> Inl Unfinished" for status body location
    by (simp add: response_body_def)
  moreover have "json_object v field \<noteq> Inl Unfinished" for v field by (cases v) (simp_all add: json_object_def)
  moreover have "ask_proc ev w \<noteq> (Inl Unfinished, w2)" for ev w w2
    using a [of "answers w (history w) ev"]
    by (cases "answers w (history w) ev") (auto simp: ask_proc_def andthen_def ask_answered)
  ultimately show ?thesis
    using assms
    by (auto simp: request_json_def andthen_def split: sum.splits if_splits prod.splits)
qed

lemma request_outcome:
  assumes "r \<noteq> Inl Unfinished"
    and "answers v (history v) ev = (case r of Inl e \<Rightarrow> RRaise e | Inr d \<Rightarrow> RJson (JObj d))"
  shows "request ev v = (r, v\<lparr>history := history v @ [(ev, answers v (history v) ev)]\<rparr>)"
  using assms by (cases r) (auto simp: request_def ask_json_def andthen_def ask_answered)

lemma call_refines [refines_intros]: "refines (call fv c ev) (request ev)"
proof (cases "wire c ev")
  case None
  then show ?thesis unfolding call_def request_def by (simp add: refines_intros)
next
  case (Some q)
  have "refines (request_json fv q) (request ev)"
  proof (rule refines_one)
    show "only False (\<lambda>_. True) (request_json fv q)" by (intro only_intros TrueI)
    fix w r w' assume "request_json fv q w = (r, w')"
    then have "r \<noteq> Inl Unfinished" by (auto dest: never_unfinished)
    from request_outcome [OF this] show
      "\<exists>a. \<forall>v. answers v (history v) ev = a \<longrightarrow> request ev v = (r, v\<lparr>history := history v @ [(ev, a)]\<rparr>)"
      by metis
  qed
  with Some show ?thesis by (simp add: call_def)
qed

lemma refines_case_json [refines_intros]:
  assumes "refines a a'" "\<And>b. refines (f1 b) (g1 b)" "\<And>i. refines (f2 i) (g2 i)" "\<And>q. refines (f3 q) (g3 q)"
    "\<And>s. refines (f4 s) (g4 s)" "\<And>xs. refines (f5 xs) (g5 xs)" "\<And>d. refines (f6 d) (g6 d)"
  shows "refines (case v of JNull \<Rightarrow> a | JBool b \<Rightarrow> f1 b | JInt i \<Rightarrow> f2 i | JFloat q \<Rightarrow> f3 q
    | JStr s \<Rightarrow> f4 s | JArr xs \<Rightarrow> f5 xs | JObj d \<Rightarrow> f6 d) (case v of JNull \<Rightarrow> a' | JBool b \<Rightarrow> g1 b | JInt i \<Rightarrow> g2 i | JFloat q \<Rightarrow> g3 q
    | JStr s \<Rightarrow> g4 s | JArr xs \<Rightarrow> g5 xs | JObj d \<Rightarrow> g6 d)"
  using assms by (cases v) auto

lemma client_operations_refine [refines_intros]:
  "refines (client_get fv c collection name) (api_get collection name)"
  "refines (client_list fv c collection) (api_list collection)"
  "refines (client_patch fv c server status) (patch_status server status)"
  "refines (client_create fv c collection kind n spec) (create_resource collection kind n spec)"
  unfolding client_get_def api_get_def client_list_def api_list_def client_patch_def patch_status_def
    client_create_def create_resource_def
  by (intro refines_intros)+

text \<open>A request that is allowed to carry credentials.\<close>

definition permitted :: "http_request \<Rightarrow> bool" where
  "permitted q = (case urlparse (http_url q) of Inl _ \<Rightarrow> False | Inr u \<Rightarrow> carries_credentials u)"


section \<open>Where credentials go\<close>

definition url_safe :: "char \<Rightarrow> bool" where
  "url_safe c \<longleftrightarrow> plain_in_url c \<or> c = CHR ''%''"

lemma upper_hex_plain: "n < 16 \<Longrightarrow> plain_in_url (upper_hex n)"
  by (auto simp: plain_in_url_def upper_hex_def ascii_letter_def is_dec_def Let_def)

lemma url_bytes_below: "b \<in> set (url_bytes c) \<Longrightarrow> b < 256"
proof -
  have "code_point c div 64 < 4" using nat_of_char_less_256 [of c] by (simp add: less_mult_imp_div_less)
  then show "b \<in> set (url_bytes c) \<Longrightarrow> b < 256" by (auto simp: url_bytes_def Let_def split: if_splits)
qed

lemma quote_safe: "list_all url_safe (quote s)"
proof -
  have "list_all url_safe (quoted_char c)" for c
    using url_bytes_below [of _ c]
    by (auto simp: quoted_char_def list_all_iff url_safe_def less_mult_imp_div_less intro!: upper_hex_plain)
  then show ?thesis by (auto simp: quote_def list_all_iff)
qed

text \<open>
  C21: Where credentials go. Whatever the URL, the token and the body, one request makes one exchange at
  most, with exactly the URL it was given, over HTTPS or to the loopback host; and a response that redirects is an error, never a second exchange. The name of a resource is
  one segment of the path: no slash, question mark or other separator of it reaches the URL unescaped.
\<close>

theorem credentials_confined:
  assumes "call fv c ev w = (r, w')" "wire c ev = Some q"
  shows "(added w w' = [] \<or>
      permitted q \<and>
      (\<exists>a. added w w' = [(exchange (float_text w) q, a)] \<and>
         (\<forall>status body location. a = RProc status body location \<longrightarrow> redirects status location \<longrightarrow>
            r = Inl (RuntimeError ''Credential-bearing requests must not redirect'')))) \<and>
    (\<forall>collection name. ev = ApiGet collection name \<longrightarrow>
      (\<exists>segment. list_all url_safe segment \<and> http_url q = client_url c @ ''/'' @ collection @ ''/'' @ segment)) \<and>
    (\<forall>collection name uid version status. ev = ApiPatch collection name uid version status \<longrightarrow>
      (\<exists>segment. list_all url_safe segment \<and>
        http_url q = client_url c @ ''/'' @ collection @ ''/'' @ segment @ ''/status''))"
proof (intro conjI)
  have run: "request_json fv q w = (r, w')" using assms by (simp add: call_def)
  let ?ev = "exchange (float_text w) q"
  show "added w w' = [] \<or> permitted q \<and>
      (\<exists>a. added w w' = [(?ev, a)] \<and>
         (\<forall>status body location. a = RProc status body location \<longrightarrow> redirects status location \<longrightarrow>
            r = Inl (RuntimeError ''Credential-bearing requests must not redirect'')))"
  proof (cases "w' = w")
    case False
    with request_json_run [OF run] obtain u where u: "urlparse (http_url q) = Inr u" "carries_credentials u"
      and w': "w' = w\<lparr>history := history w @ [(?ev, answers w (history w) ?ev)]\<rparr>" by blast
    have "r = Inl (RuntimeError ''Credential-bearing requests must not redirect'')"
      if "answers w (history w) ?ev = RProc status body location" "redirects status location" for status body location
      using run that u
      by (auto simp: request_json_def ask_proc_def andthen_def ask_answered response_body_def redirects_def split: if_splits)
    with u w' show ?thesis by (auto simp: permitted_def added_def)
  qed (simp add: added_def)
  show "\<forall>collection name. ev = ApiGet collection name \<longrightarrow>
      (\<exists>segment. list_all url_safe segment \<and> http_url q = client_url c @ ''/'' @ collection @ ''/'' @ segment)"
    using assms(2) quote_safe by auto
  show "\<forall>collection name uid version status. ev = ApiPatch collection name uid version status \<longrightarrow>
      (\<exists>segment. list_all url_safe segment \<and>
        http_url q = client_url c @ ''/'' @ collection @ ''/'' @ segment @ ''/status'')"
    using assms(2) quote_safe by auto
qed

section \<open>A service\<close>

text \<open>A service that knows one Server, and one that redirects to another host.\<close>

definition service :: "reply \<Rightarrow> world" where
  "service a = \<lparr>answers = (\<lambda>h ev. a), history = [], float_text = (\<lambda>_. []), cell = []\<rparr>"

definition sample_client :: client where
  "sample_client = \<lparr>client_url = ''https://api.example:8443/api/v1alpha1'', client_token = ''t''\<rparr>"

definition found :: reply where
  "found = RProc 200 ([CHR 0x7B, CHR 0x22] @ ''kind'' @ [CHR 0x22] @ '': '' @ [CHR 0x22] @ ''Server'' @ [CHR 0x22, CHR 0x7D]) []"

definition elsewhere :: reply where
  "elsewhere = RProc 302 [] ''https://other.example/''"

abbreviation (input) sample_get :: event where
  "sample_get \<equiv> ApiGet ''servers'' ''a/b?c''"

lemma sample_permitted:
  "permitted (the (wire sample_client sample_get))"
  "http_url (the (wire sample_client sample_get)) = ''https://api.example:8443/api/v1alpha1/servers/a%2Fb%3Fc''"
  by code_simp+


lemma credentials_confined_witness:
  "\<exists>w' a. call (\<lambda>_. 0) sample_client sample_get (service elsewhere) =
       (Inl (RuntimeError ''Credential-bearing requests must not redirect''), w') \<and>
     added (service elsewhere) w' = [(exchange (\<lambda>_. []) (the (wire sample_client sample_get)), a)]"
proof -
  let ?q = "the (wire sample_client sample_get)"
  obtain r w' where run: "call (\<lambda>_. 0) sample_client sample_get (service elsewhere) = (r, w')" by fastforce
  then have j: "request_json (\<lambda>_. 0) ?q (service elsewhere) = (r, w')" by (simp add: call_def)
  have made: "added (service elsewhere) w' \<noteq> []"
    using j sample_permitted(1)
    by (auto simp: permitted_def request_json_def ask_proc_def andthen_def ask_answered added_def service_def
        elsewhere_def response_body_def split: sum.splits if_splits)
  have "wire sample_client sample_get = Some ?q" by simp
  from credentials_confined [OF run this] made obtain a where
    a: "added (service elsewhere) w' = [(exchange (\<lambda>_. []) ?q, a)]"
    and r: "\<And>status body location. a = RProc status body location \<Longrightarrow> redirects status location \<Longrightarrow>
      r = Inl (RuntimeError ''Credential-bearing requests must not redirect'')"
    by (auto simp: service_def)
  have "a = elsewhere"
    using request_json_run [OF j] a by (auto simp: service_def added_def)
  moreover have "redirects 302 ''https://other.example/''" by code_simp
  ultimately have "r = Inl (RuntimeError ''Credential-bearing requests must not redirect'')"
    using r by (simp add: elsewhere_def)
  with run a show ?thesis by blast
qed

end
