(* ===== verification/Processes.thy ===== *)
theory Processes
  imports Configurations Refinement
begin

text \<open>
  Termination, private files and local commands (\<open>raise_on_termination\<close>, \<open>write_private\<close>, \<open>run_command\<close> and \<open>run_ansible\<close> of
  \<open>operators/common.py\<close>), in the requests they make of the operating system, the life of the process they start, and
  that they refine the single requests the operators are modelled with.
\<close>

section \<open>Termination\<close>

text \<open>
  \<open>raise_on_termination\<close> installs one handler for both signals an executor is stopped with; the first signal
  raises, and from then on both are ignored, so nothing interrupts the writes the unwinding makes.
\<close>

datatype stop_signal = SIGTERM | SIGHUP

datatype disposition = Default | Terminate | Ignored

datatype delivery = Ended | Raised exn | Unnoticed

definition raise_on_termination :: "(stop_signal \<Rightarrow> disposition) \<Rightarrow> stop_signal \<Rightarrow> disposition" where
  "raise_on_termination handlers = foldl (\<lambda>h s. h(s := Terminate)) handlers [SIGTERM, SIGHUP]"

definition deliver :: "stop_signal \<Rightarrow> (stop_signal \<Rightarrow> disposition) \<Rightarrow> delivery \<times> (stop_signal \<Rightarrow> disposition)" where
  "deliver s handlers =
     (case handlers s of
        Default \<Rightarrow> (Ended, handlers)
      | Terminate \<Rightarrow> (Raised TerminationRequested, foldl (\<lambda>h s. h(s := Ignored)) handlers [SIGTERM, SIGHUP])
      | Ignored \<Rightarrow> (Unnoticed, handlers))"

fun deliveries :: "stop_signal list \<Rightarrow> (stop_signal \<Rightarrow> disposition) \<Rightarrow> delivery list" where
  "deliveries [] handlers = []"
| "deliveries (s # ss) handlers = (case deliver s handlers of (d, h) \<Rightarrow> d # deliveries ss h)"

lemma both_signals: "foldl (\<lambda>h s. h(s := d)) handlers [SIGTERM, SIGHUP] = (\<lambda>_. d)"
proof
  fix s show "foldl (\<lambda>h s. h(s := d)) handlers [SIGTERM, SIGHUP] s = d" by (cases s) simp_all
qed

lemma ignored_deliveries: "deliveries ss (\<lambda>_. Ignored) = replicate (length ss) Unnoticed"
  by (induction ss) (simp_all add: deliver_def)

lemma signals_raise_once:
  "deliveries (s # ss) (raise_on_termination handlers) = Raised TerminationRequested # replicate (length ss) Unnoticed"
  unfolding raise_on_termination_def both_signals
  by (simp add: deliver_def both_signals ignored_deliveries del: foldl.simps)

section \<open>Private files\<close>

text \<open>
  The directory of the file is created for the owner only, the file is opened with the owner's
  permissions before anything is written to it, and it is closed however the writing ends.
\<close>

definition write_private :: "string \<Rightarrow> string \<Rightarrow> unit io" where
  "write_private path content =
     andthen (act (FileChange [''mkdir'', ''-p'', ''parent'', ''0700'', path])) (\<lambda>_.
     andthen (act (FileChange [''open'', ''write create truncate'', ''0600'', path])) (\<lambda>_.
     andthen (and_finally
       (act (FileChange [''write'', ''utf-8'', path, content]))
       (act (FileChange [''close'', path]))) (\<lambda>_.
       act (FileChange [''chmod'', ''0600'', path]))))"

section \<open>Local commands\<close>

text \<open>
  The wait for the process. \<open>except BaseException\<close> is every exception, so also the timeout and the
  request to terminate; a process group that is gone already answers the kill without an
  exception, which stands for the suppressed \<open>ProcessLookupError\<close>.
\<close>

definition kill_and_reap :: "exn \<Rightarrow> int io" where
  "kill_and_reap e =
     andthen (act KillGroup) (\<lambda>_.
     andthen (ask_proc (WaitProcess None)) (\<lambda>_. raise e))"

definition wait_for_exit :: "nat \<Rightarrow> int io" where
  "wait_for_exit limit =
     and_finally
       (catch (andthen (ask_proc (WaitProcess (Some limit))) (\<lambda>(code, _, _). ret code)) kill_and_reap)
       (act (JoinReader 10))"

text \<open>
  The whole command: the private log, the process in a session of its own with its output piped (so the
  stream exists), the thread that copies the output to the log, and the end of \<open>with\<close>, which closes the
  pipe and waits for the process.
\<close>

definition run_process :: "string list \<Rightarrow> string \<Rightarrow> nat \<Rightarrow> jobject option \<Rightarrow> string option \<Rightarrow> (int \<times> string \<times> string) io" where
  "run_process command diagnostic limit environment cwd =
     andthen (write_private diagnostic []) (\<lambda>_.
     andthen (act (Spawn command environment cwd)) (\<lambda>_.
     andthen (and_finally
       (andthen (act (StartReader diagnostic)) (\<lambda>_. wait_for_exit limit))
       (act CloseProcess)) (\<lambda>code.
     andthen (ask_text (ReadFile diagnostic)) (\<lambda>output. ret (code, output, [])))))"

definition ansible_settings :: "(string \<times> string) list" where
  "ansible_settings =
     [(''ANSIBLE_STDOUT_CALLBACK'', ''default''), (''ANSIBLE_NOCOLOR'', ''1''),
      (''ANSIBLE_DISPLAY_ARGS_TO_STDOUT'', ''false''), (''ANSIBLE_VERBOSITY'', ''0''),
      (''ANSIBLE_DISPLAY_SKIPPED_HOSTS'', ''false''), (''ANSIBLE_SSH_USETTY'', ''false''),
      (''ANSIBLE_INJECT_FACT_VARS'', ''false''), (''ANSIBLE_CALLBACK_RESULT_FORMAT'', ''yaml'')]"

definition run_ansible :: "string list \<Rightarrow> string \<Rightarrow> nat \<Rightarrow> (int \<times> string \<times> string) io" where
  "run_ansible command diagnostic limit =
     andthen (ask_json Environ) (\<lambda>v.
     andthen (lift (json_object v ''environment'')) (\<lambda>environment.
       run_process command diagnostic limit
         (Some (foldl (\<lambda>d (k, s). dput k (JStr s) d) environment ansible_settings)) None))"

section \<open>The life of the process\<close>

datatype child = Absent | Running | Doomed | Killed | Exited | Closed

definition raising :: "reply \<Rightarrow> bool" where
  "raising a \<longleftrightarrow> (\<exists>e. a = RRaise e)"

text \<open>
  What each request does to the process. A wait that is answered has its exit status; one that raises
  (the time limit, a signal) leaves a process that only the kill may follow. Requests about files leave the process alone.
\<close>

inductive child_step :: "child \<Rightarrow> event \<times> reply \<Rightarrow> child \<Rightarrow> bool" where
  files: "ev = ReadFile p \<or> (\<exists>change. ev = FileChange change) \<or> ev = Environ \<Longrightarrow> s \<in> {Absent, Closed} \<Longrightarrow> child_step s (ev, a) s"
| refused: "raising a \<Longrightarrow> child_step Absent (Spawn command environment cwd, a) Absent"
| spawned: "\<not> raising a \<Longrightarrow> child_step Absent (Spawn command environment cwd, a) Running"
| reader: "child_step Running (StartReader p, a) Running"
| exited: "child_step Running (WaitProcess (Some limit), RProc code out err) Exited"
| interrupted: "\<nexists>code out err. a = RProc code out err \<Longrightarrow> child_step Running (WaitProcess (Some limit), a) Doomed"
| killed: "\<not> raising a \<Longrightarrow> child_step Doomed (KillGroup, a) Killed"
| not_killed: "raising a \<Longrightarrow> child_step Doomed (KillGroup, a) Running"
| reaped: "child_step Killed (WaitProcess None, RProc code out err) Exited"
| not_reaped: "\<nexists>code out err. a = RProc code out err \<Longrightarrow> child_step Killed (WaitProcess None, a) Running"
| joined: "s \<in> {Running, Exited} \<Longrightarrow> child_step s (JoinReader limit, a) s"
| closed: "s \<in> {Running, Exited} \<Longrightarrow> \<not> raising a \<Longrightarrow> child_step s (CloseProcess, a) Closed"
| not_closed: "s \<in> {Running, Exited} \<Longrightarrow> raising a \<Longrightarrow> child_step s (CloseProcess, a) s"

inductive lives :: "child \<Rightarrow> history \<Rightarrow> child \<Rightarrow> bool" where
  lives_refl: "lives s [] s"
| lives_step: "child_step s x t \<Longrightarrow> lives t h u \<Longrightarrow> lives s (x # h) u"

inductive_cases lives_Nil_E [elim!]: "lives s [] t"
inductive_cases lives_Cons_E [elim!]: "lives s (x # h) t"
inductive_cases doomed_E: "child_step Doomed x t"

inductive_simps lives_simps: "lives s [] t" "lives s (x # h) t"

lemma lives_append: "lives s h t \<Longrightarrow> lives t k u \<Longrightarrow> lives s (h @ k) u"
  by (induction rule: lives.induct) (auto intro: lives.intros)

text \<open>Only a kill follows an interrupted wait.\<close>

lemma doomed_only_killed: "child_step Doomed x t \<Longrightarrow> fst x = KillGroup"
  by (erule doomed_E) auto

section \<open>Every command lives that life\<close>

text \<open>A request extends the history by itself and its answer; it returns unless the answer raises.\<close>

definition extended :: "world \<Rightarrow> event \<Rightarrow> world" where
  "extended w ev = w\<lparr>history := history w @ [(ev, answers w (history w) ev)]\<rparr>"

lemma act_run:
  "act ev w = ((case answered (answers w (history w) ev) of Inl e \<Rightarrow> Inl e | Inr _ \<Rightarrow> Inr ()), extended w ev)"
  by (simp add: act_def andthen_def ask_answered extended_def split: sum.splits)

lemma answered_raising: "raising a \<longleftrightarrow> (\<exists>e. answered a = Inl e)"
  by (cases a) (auto simp: raising_def)

text \<open>What a part of a run goes through: the life of the process from one state to another.\<close>

definition through :: "child \<Rightarrow> world \<Rightarrow> world \<Rightarrow> child \<Rightarrow> bool" where
  "through s w w' t \<longleftrightarrow> history w' = history w @ added w w' \<and> lives s (added w w') t"

lemma through_refl: "through s w w s"
  by (simp add: through_def added_def lives_refl)

lemma through_trans: "through s w w1 t \<Longrightarrow> through t w1 w2 u \<Longrightarrow> through s w w2 u"
  unfolding through_def by (metis added_trans append.assoc lives_append)

lemma through_one: "child_step s (ev, answers w (history w) ev) t \<Longrightarrow> through s w (extended w ev) t"
  by (simp add: through_def extended_def added_def lives_simps)

lemma through_file:
  assumes "only cw (\<lambda>ev. (\<exists>p. ev = ReadFile p) \<or> (\<exists>change. ev = FileChange change) \<or> ev = Environ) m"
    "m w = (r, w')" "s \<in> {Absent, Closed}"
  shows "through s w w' s"
proof -
  have "lives s h s" if "\<forall>x\<in>set h. (\<exists>p. fst x = ReadFile p) \<or> (\<exists>change. fst x = FileChange change) \<or> fst x = Environ" for h
    using that
  proof (induction h)
    case (Cons x h)
    then have "child_step s x s" using assms(3) by (cases x) (auto intro: files)
    with Cons show ?case by (auto intro: lives.intros)
  qed (rule lives_refl)
  with only_made [OF assms(1,2)] only_extends [OF assms(1,2)] show ?thesis by (auto simp: through_def)
qed

lemma act_through:
  assumes "act ev w = (r, w')"
    and "\<And>a. \<not> raising a \<Longrightarrow> child_step s (ev, a) t" "\<And>a. raising a \<Longrightarrow> child_step s (ev, a) t'"
  shows "through s w w' (case r of Inr _ \<Rightarrow> t | Inl _ \<Rightarrow> t')"
proof (cases "raising (answers w (history w) ev)")
  case True
  then obtain e where "r = Inl e" using assms(1) by (auto simp: act_run answered_raising)
  with assms True show ?thesis by (auto simp: act_run intro: through_one)
next
  case False
  then obtain x where "r = Inr x" using assms(1) by (auto simp: act_run answered_raising split: sum.splits)
  with assms False show ?thesis by (auto simp: act_run intro: through_one)
qed

lemma ask_proc_through:
  assumes "ask_proc ev w = (r, w')"
    and "\<And>code out err. child_step s (ev, RProc code out err) t"
    and "\<And>a. \<nexists>code out err. a = RProc code out err \<Longrightarrow> child_step s (ev, a) t'"
  shows "through s w w' (case r of Inr _ \<Rightarrow> t | Inl _ \<Rightarrow> t')"
proof -
  have "w' = extended w ev" using assms(1)
    by (auto simp: ask_proc_def andthen_def ask_answered extended_def split: sum.splits reply.splits)
  moreover have "child_step s (ev, answers w (history w) ev) (case r of Inr _ \<Rightarrow> t | Inl _ \<Rightarrow> t')"
    using assms
    by (cases "answers w (history w) ev") (auto simp: ask_proc_def andthen_def ask_answered)
  ultimately show ?thesis by (simp add: through_one)
qed

lemma wait_through:
  assumes "wait_for_exit limit w = (r, w')"
  shows "\<exists>s. s \<in> {Running, Exited} \<and> through Running w w' s \<and> (\<forall>code. r = Inr code \<longrightarrow> s = Exited)"
proof -
  let ?body = "andthen (ask_proc (WaitProcess (Some limit))) (\<lambda>(code, _, _). ret code)"
  obtain r1 w1 where a: "ask_proc (WaitProcess (Some limit)) w = (r1, w1)" by fastforce
  have one: "through Running w w1 (case r1 of Inr _ \<Rightarrow> Exited | Inl _ \<Rightarrow> Doomed)"
    using a by (rule ask_proc_through) (auto intro: child_step.intros)
  obtain r2 w2 where c: "catch ?body kill_and_reap w = (r2, w2)" by fastforce
  have two: "\<exists>s. s \<in> {Running, Exited} \<and> through Running w w2 s \<and> (\<forall>code. r2 = Inr code \<longrightarrow> s = Exited)"
  proof (cases r1)
    case (Inr x)
    with c a have "w2 = w1" by (auto simp: catch_def andthen_def split: prod.splits)
    with one Inr show ?thesis by auto
  next
    case (Inl e)
    with c a have k: "kill_and_reap e w1 = (r2, w2)" by (auto simp: catch_def andthen_def)
    obtain r3 w3 where act: "act KillGroup w1 = (r3, w3)" by fastforce
    have three: "through Doomed w1 w3 (case r3 of Inr _ \<Rightarrow> Killed | Inl _ \<Rightarrow> Running)"
      using act by (rule act_through) (auto intro: child_step.intros)
    obtain r4 w4 where p: "ask_proc (WaitProcess None) w3 = (r4, w4)" by fastforce
    have four: "through Killed w3 w4 (case r4 of Inr _ \<Rightarrow> Exited | Inl _ \<Rightarrow> Running)"
      using p by (rule ask_proc_through) (auto intro: child_step.intros)
    show ?thesis
    proof (cases r3)
      case (Inl e3)
      with k act have "w2 = w3" "\<exists>e. r2 = Inl e" by (auto simp: kill_and_reap_def andthen_def)
      with through_trans [OF one] three \<open>r1 = Inl e\<close> Inl show ?thesis by auto
    next
      case (Inr x)
      with k act p have "w2 = w4" "\<exists>e. r2 = Inl e" by (auto simp: kill_and_reap_def andthen_def split: sum.splits)
      moreover have "through Running w w4 (case r4 of Inr _ \<Rightarrow> Exited | Inl _ \<Rightarrow> Running)"
        using through_trans [OF through_trans [OF one]] three four \<open>r1 = Inl e\<close> Inr by simp
      ultimately show ?thesis by (cases r4) auto
    qed
  qed
  then obtain s where s: "s \<in> {Running, Exited}" "through Running w w2 s" "\<forall>code. r2 = Inr code \<longrightarrow> s = Exited" by blast
  obtain r5 w5 where j: "act (JoinReader 10) w2 = (r5, w5)" by fastforce
  have "through s w2 w5 (case r5 of Inr _ \<Rightarrow> s | Inl _ \<Rightarrow> s)"
    using j by (rule act_through) (use s(1) in \<open>auto intro: child_step.intros\<close>)
  then have "through Running w w5 s" using through_trans [OF s(2)] by (cases r5) auto
  moreover have "w' = w5" "\<forall>code. r = Inr code \<longrightarrow> r2 = Inr code"
    using assms c j by (auto simp: wait_for_exit_def and_finally_def andthen_def split: sum.splits)
  ultimately show ?thesis using s by blast
qed

lemma body_through:
  assumes "andthen (act (StartReader diagnostic)) (\<lambda>_. wait_for_exit limit) w = (r, w')"
  shows "\<exists>s. s \<in> {Running, Exited} \<and> through Running w w' s"
proof -
  obtain r1 w1 where a: "act (StartReader diagnostic) w = (r1, w1)" by fastforce
  have "through Running w w1 (case r1 of Inr _ \<Rightarrow> Running | Inl _ \<Rightarrow> Running)"
    using a by (rule act_through) (auto intro: child_step.intros)
  then have one: "through Running w w1 Running" by (cases r1) auto
  show ?thesis
  proof (cases r1)
    case (Inl e)
    with assms a have "w' = w1" by (simp add: andthen_def)
    with one show ?thesis by blast
  next
    case (Inr x)
    with assms a have "wait_for_exit limit w1 = (r, w')" by (simp add: andthen_def)
    from wait_through [OF this] one show ?thesis by (blast intro: through_trans)
  qed
qed


section \<open>The commands the operators are modelled with\<close>

lemma write_private_refines [refines_intros]: "refines (write_private path content) (act (WriteFile path content))"
  unfolding write_private_def
  by (rule refines_act) ((intro only_intros TrueI; fail), (intro finishes_intros; fail))

lemma kill_and_reap_finishes [finishes_intros]: "e \<noteq> Unfinished \<Longrightarrow> finishes (kill_and_reap e)"
  unfolding kill_and_reap_def by (intro finishes_intros)

lemma only_wait_for_exit [only_intros]: "only cw (\<lambda>_. True) (wait_for_exit limit)"
  unfolding wait_for_exit_def kill_and_reap_def by (intro only_intros TrueI)

lemma finishes_wait_for_exit [finishes_intros]: "finishes (wait_for_exit limit)"
  unfolding wait_for_exit_def by (intro finishes_intros)

lemma started_refines:
  "refines
     (andthen (act (Spawn command environment cwd)) (\<lambda>_.
      andthen (and_finally
        (andthen (act (StartReader diagnostic)) (\<lambda>_. wait_for_exit limit))
        (act CloseProcess)) (\<lambda>code.
      andthen (ask_text (ReadFile diagnostic)) (\<lambda>output. ret (code, output, [])))))
     (ask_proc ev)"
  by (rule refines_proc) ((intro only_intros TrueI; fail), (intro finishes_intros; fail))

lemma run_process_refines:
  "refines (andthen (run_process command diagnostic limit environment cwd) (\<lambda>(code, _, _). ret code))
     (run_command command diagnostic limit directory)"
  unfolding run_process_def run_command_def andthen_assoc [of "write_private diagnostic []"]
  by (intro refines_andthen write_private_refines started_refines refines_case_prod refines_basics)

lemma run_ansible_refines: "refines (run_ansible command diagnostic limit) (ask_proc (Ansible command diagnostic limit))"
proof (rule refines_proc)
  have "only False (\<lambda>_. True) (run_process command diagnostic limit environment cwd)" for environment cwd
    unfolding run_process_def write_private_def by (intro only_intros TrueI)
  then show "only False (\<lambda>_. True) (run_ansible command diagnostic limit)"
    unfolding run_ansible_def by (intro only_intros TrueI)
  have "finishes (run_process command diagnostic limit environment cwd)" for environment cwd
    unfolding run_process_def write_private_def by (intro finishes_intros)
  moreover have "json_object v field \<noteq> Inl Unfinished" for v field by (cases v) (simp_all add: json_object_def)
  ultimately show "finishes (run_ansible command diagnostic limit)"
    unfolding run_ansible_def by (intro finishes_intros)
qed

text \<open>
  A timeout or a request to terminate is not lost: when the kill, the reaping, the thread and the
  end of the \<open>with\<close> statement succeed, it is what the command raises.
\<close>

lemma interruption_propagates:
  assumes "answers w (history w) (WaitProcess (Some limit)) = RRaise e" "e \<noteq> Unfinished"
    and "\<And>h ev a. ev \<noteq> WaitProcess (Some limit) \<Longrightarrow> answers w h ev = a \<Longrightarrow> \<exists>code out err. a = RProc code out err"
  shows "fst (wait_for_exit limit w) = Inl e" "map fst (added w (snd (wait_for_exit limit w))) =
    [WaitProcess (Some limit), KillGroup, WaitProcess None, JoinReader 10]"
proof -
  have a: "\<exists>code out err. answers w h ev = RProc code out err" if "ev \<noteq> WaitProcess (Some limit)" for h ev
    using assms(3) that by blast
  let ?w1 = "extended w (WaitProcess (Some limit))"
  let ?w2 = "extended ?w1 KillGroup"
  let ?w3 = "extended ?w2 (WaitProcess None)"
  let ?w4 = "extended ?w3 (JoinReader 10)"
  have wait: "ask_proc (WaitProcess (Some limit)) w = (Inl e, ?w1)"
    using assms(1,2) by (simp add: ask_proc_def andthen_def ask_answered extended_def)
  have kill: "act KillGroup ?w1 = (Inr (), ?w2)"
    using a [of KillGroup "history ?w1"] by (auto simp: act_run) (auto simp: extended_def)
  have reap: "\<exists>p. ask_proc (WaitProcess None) ?w2 = (Inr p, ?w3)"
    using a [of "WaitProcess None" "history ?w2"] by (auto simp: ask_proc_def andthen_def ask_answered) (auto simp: extended_def)
  have join: "act (JoinReader 10) ?w3 = (Inr (), ?w4)"
    using a [of "JoinReader 10" "history ?w3"] by (auto simp: act_run) (auto simp: extended_def)
  have run: "wait_for_exit limit w = (Inl e, ?w4)"
    using wait kill reap join
    by (auto simp: wait_for_exit_def kill_and_reap_def and_finally_def catch_def andthen_def)
  then show "fst (wait_for_exit limit w) = Inl e" by simp
  show "map fst (added w (snd (wait_for_exit limit w))) =
    [WaitProcess (Some limit), KillGroup, WaitProcess None, JoinReader 10]"
    by (simp add: run added_def extended_def)
qed

text \<open>A command that exits with the status 3.\<close>

definition shell_world :: world where
  "shell_world = \<lparr>answers = (\<lambda>h ev. case ev of ReadFile p \<Rightarrow> RText ''log'' | _ \<Rightarrow> RProc 3 [] []), history = [],
     float_text = (\<lambda>_. []), cell = []\<rparr>"


end
