(* ===== verification/HostScripts.thy ===== *)
theory HostScripts
  imports Provisioning JsonParse
begin

text \<open>
  Two scripts that a provisioning play runs: \<open>roles/provision/files/resolve_boot_nic.py\<close> finds the interface with
  the pinned MAC address in the live system, \<open>roles/provision/files/configure_users.py\<close> creates the planned users in the installed
  root.
\<close>

section \<open>The boot interface\<close>

definition rx_mac :: rx where
  "rx_mac =
     (let pair = rtimes 2 (RCls [(CHR ''a'', CHR ''f''), (CHR ''0'', CHR ''9'')])
      in RSeq pair (rtimes 5 (RSeq (rchr (CHR '':'')) pair)))"

definition rx_interface :: rx where
  "rx_interface =
     RSeq (RCls [(CHR ''A'', CHR ''Z''), (CHR ''a'', CHR ''z''), (CHR ''0'', CHR ''9''), (CHR ''_'', CHR ''_'')])
       (rupto 14 (RCls [(CHR ''A'', CHR ''Z''), (CHR ''a'', CHR ''z''), (CHR ''0'', CHR ''9''), (CHR ''_'', CHR ''_''),
          (CHR ''.'', CHR ''.''), (CHR ''-'', CHR ''-'')]))"

text \<open>The names in a directory.\<close>

definition list_dir :: "string \<Rightarrow> string list io" where
  "list_dir path =
     andthen (ask_json (ListDir path)) (\<lambda>v.
     (case v of JArr names \<Rightarrow> lift (mapM (str_of OSError) names) | _ \<Rightarrow> raise OSError))"

definition is_file_error :: "exn \<Rightarrow> bool" where
  "is_file_error e = (case e of OSError \<Rightarrow> True | HTTPError code \<Rightarrow> True | _ \<Rightarrow> False)"

text \<open>The interfaces with the address; one whose address cannot be read is passed over.\<close>

definition has_address :: "string \<Rightarrow> string \<Rightarrow> string \<Rightarrow> bool io" where
  "has_address directory mac interface =
     catch (andthen (ask_text (ReadFile (directory @ ''/'' @ interface @ ''/address''))) (\<lambda>s. ret (lower (strip s) = mac)))
       (\<lambda>e. if is_file_error e then ret False else raise e)"

definition interfaces_with :: "string \<Rightarrow> string \<Rightarrow> string list io" where
  "interfaces_with directory mac =
     andthen (list_dir directory) (\<lambda>names.
     andthen (collect (\<lambda>interface. andthen (has_address directory mac interface) (\<lambda>b. ret (interface, b))) names) (\<lambda>found.
       ret (map fst (filter snd found))))"

definition resolve_interface :: "string \<Rightarrow> string \<Rightarrow> string io" where
  "resolve_interface mac directory =
     (let mac = lower mac in
      if \<not> fullmatch rx_mac mac then raise (RuntimeError ''A valid pinned boot MAC is required'') else
      andthen (interfaces_with directory mac) (\<lambda>matches.
      (case matches of
         [name] \<Rightarrow>
           if \<not> fullmatch rx_interface name then raise (RuntimeError ''Resolved interface name is unsafe'')
           else ret name
       | _ \<Rightarrow> raise (RuntimeError ''Pinned boot MAC must match exactly one current interface''))))"

text \<open>The interface that is returned is the only one with the address, and has a safe name.\<close>

lemma resolve_interface_returns:
  assumes "resolve_interface mac directory w = (Inr name, w')"
  shows "fullmatch rx_mac (lower mac) \<and> interfaces_with directory (lower mac) w = (Inr [name], w') \<and> fullmatch rx_interface name"
  using assms
  by (auto simp: resolve_interface_def Let_def elim!: andthenE split: if_splits list.splits)

section \<open>Sites that answer alike\<close>

text \<open>
  For concrete runs: a site whose answers depend on the request only. \<open>gives a m x\<close>: at every point of the site \<open>a\<close>, the
  computation \<open>m\<close> returns \<open>x\<close>.
\<close>

definition steady :: "(event \<Rightarrow> reply) \<Rightarrow> world \<Rightarrow> bool" where
  "steady a w \<longleftrightarrow> answers w = (\<lambda>h. a) \<and> float_text w = (\<lambda>_. [])"

definition gives :: "(event \<Rightarrow> reply) \<Rightarrow> 'a io \<Rightarrow> 'a \<Rightarrow> bool" where
  "gives a m x \<longleftrightarrow> (\<forall>w. steady a w \<longrightarrow> (\<exists>w'. m w = (Inr x, w') \<and> steady a w'))"

lemma gives_andthen: "gives a m x \<Longrightarrow> gives a (f x) y \<Longrightarrow> gives a (andthen m f) y"
  unfolding gives_def by (metis andthen_run(1))

lemma gives_lifted: "r = Inr x \<Longrightarrow> gives a (f x) y \<Longrightarrow> gives a (andthen (lift r) f) y"
  by simp

lemma gives_catch: "gives a m x \<Longrightarrow> gives a (catch m h) x"
  by (fastforce simp: gives_def catch_def)

lemma gives_basics:
  "gives a (ret x) x" "gives a (lift (Inr y)) y" "gives a get_float_text (\<lambda>_. [])"
  "a ev = RUnit \<Longrightarrow> gives a (act ev) ()"
  by (auto simp: gives_def steady_def act_answered)

lemma gives_asks:
  "a ev = RText s \<Longrightarrow> gives a (ask_text ev) s" "a ev = RJson v \<Longrightarrow> gives a (ask_json ev) v"
  "a ev = RNum q \<Longrightarrow> gives a (ask_num ev) q" "a ev = RProc c out err \<Longrightarrow> gives a (ask_proc ev) (c, out, err)"
  "a (Getenv k) = RText s \<Longrightarrow> gives a (getenv k) s"
  "a (FileTest t p) = RJson v \<Longrightarrow> gives a (file_test t p) (truthy v)"
  by (auto simp: gives_def steady_def answered_simps getenv_def file_test_def ask_def andthen_def Let_def
      ask_json_def)

lemma gives_list_dir: "a (ListDir path) = RJson (JArr (map JStr names)) \<Longrightarrow> gives a (list_dir path) names"
proof -
  assume "a (ListDir path) = RJson (JArr (map JStr names))"
  moreover have "mapM (str_of OSError) (map JStr names) = Inr names" by (induction names) auto
  ultimately show ?thesis
    unfolding list_dir_def by (intro gives_andthen [OF gives_asks(2)]) (auto simp: gives_basics)
qed

lemma gives_collect: "list_all2 (\<lambda>x y. gives a (f x) y) xs ys \<Longrightarrow> gives a (collect f xs) ys"
proof (induction rule: list_all2_induct)
  case (Cons x xs y ys)
  have "gives a (andthen (collect f xs) (\<lambda>ys. ret (y # ys))) (y # ys)"
    by (rule gives_andthen [OF Cons(3)]) (rule gives_basics)
  with Cons(1) show ?case unfolding collect.simps by (rule gives_andthen)
qed (simp only: collect.simps gives_basics)

section \<open>Users\<close>

definition account_name :: "json \<Rightarrow> exn + string" where
  "account_name v =
     bind (str_of TypeError v) (\<lambda>s.
       if \<not> fullmatch rx_group s then Inl (RuntimeError ''Unsupported user/group name'') else Inr s)"

definition rx_login_shell :: rx where
  "rx_login_shell =
     RSeq (rchr (CHR ''/''))
       (rplus (RCls ([(CHR ''a'', CHR ''z''), (CHR ''A'', CHR ''Z''), (CHR ''0'', CHR ''9'')] @
          map (\<lambda>c. (c, c)) ''_./-'')))"

text \<open>A command in the installed root has to succeed.\<close>

definition run_in_root :: "string list \<Rightarrow> unit io" where
  "run_in_root argv =
     andthen (ask_proc (Process (''chroot'' # ''/mnt'' # argv) [] 30)) (\<lambda>(code, _, _).
       refuse_if (code \<noteq> 0) CalledProcessError)"

definition add_group :: "json \<Rightarrow> unit io" where
  "add_group v = andthen (lift (account_name v)) (\<lambda>g. run_in_root [''groupadd'', ''-f'', g])"

text \<open>\<open>separator.join(v)\<close>\<close>

definition joined :: "string \<Rightarrow> json \<Rightarrow> exn + string" where
  "joined separator v = bind (jiter v) (\<lambda>xs. bind (mapM (str_of TypeError) xs) (\<lambda>ws. Inr (join separator ws)))"

definition authorize_keys :: "string \<Rightarrow> json \<Rightarrow> unit io" where
  "authorize_keys username keys =
     (let directory = ''/mnt/home/'' @ username @ ''/.ssh''; file = directory @ ''/authorized_keys'' in
      andthen (act (FileChange [''mkdir'', ''0700'', directory])) (\<lambda>_.
      andthen (lift (joined [CHR 0x0A] keys)) (\<lambda>content.
      andthen (act (FileChange [''write'', file, content @ [CHR 0x0A]])) (\<lambda>_.
      andthen (act (FileChange [''chmod'', ''0600'', file])) (\<lambda>_.
        run_in_root [''chown'', ''-R'', username @ '':'' @ username, ''/home/'' @ username @ ''/.ssh''])))))"

definition configure_user :: "json \<Rightarrow> unit io" where
  "configure_user user =
     andthen (lift (bind (jsub user ''name'') account_name)) (\<lambda>username.
     if username \<in> {''root'', ''ansible'', ''homelabd''}
     then raise (RuntimeError ''Reserved account is not an ordinary user'') else
     andthen (lift (bind (jget user ''groups'' (JArr [])) (\<lambda>v. bind (jiter v) (mapM account_name)))) (\<lambda>groups.
     andthen (each (\<lambda>g. run_in_root [''groupadd'', ''-f'', g]) groups) (\<lambda>_.
     andthen (lift (bind (jget user ''shell'' (JStr ''/bin/bash'')) (str_of TypeError))) (\<lambda>shell.
     if \<not> fullmatch rx_login_shell shell then raise (RuntimeError ''Invalid shell'') else
     andthen (run_in_root ([''useradd'', ''-m'', ''-s'', shell] @
         (if groups = [] then [] else [''-G'', join '','' groups]) @ [username])) (\<lambda>_.
     andthen (lift (jget user ''locked'' (JBool False))) (\<lambda>locked.
     andthen (run_in_root [''usermod'', ''-p'', if truthy locked then ''!'' else ''*'', username]) (\<lambda>_.
     andthen (lift (jget user ''publicKeys'' (JArr []))) (\<lambda>keys.
       do_if (truthy keys) (authorize_keys username keys)))))))))"

definition environment_items :: "(string \<Rightarrow> rat) \<Rightarrow> string \<Rightarrow> json list io" where
  "environment_items float_value name =
     andthen (getenv name) (\<lambda>s. lift (bind (json_loads float_value s) jiter))"

definition configure_users :: "(string \<Rightarrow> rat) \<Rightarrow> unit io" where
  "configure_users float_value =
     andthen (environment_items float_value ''PROVISION_GROUPS'') (\<lambda>groups.
     andthen (each add_group groups) (\<lambda>_.
     andthen (environment_items float_value ''PROVISION_USERS'') (\<lambda>users.
       each configure_user users)))"

section \<open>Accepted users are configured\<close>

text \<open>What the provisioning operator accepts as a user.\<close>

definition accepted_user :: "json \<Rightarrow> bool" where
  "accepted_user user \<longleftrightarrow> (\<exists>d name groups shell keys. user = JObj d \<and>
     map_of d ''name'' = Some (JStr name) \<and> fullmatch rx_group name \<and> name \<notin> {''root'', ''ansible'', ''homelabd''} \<and>
     jiter (dgetd d ''groups'' (JArr [])) = Inr (map JStr groups) \<and> list_all (fullmatch rx_group) groups \<and>
     dgetd d ''shell'' (JStr ''/bin/bash'') = JStr shell \<and> fullmatch rx_shell shell \<and>
     dgetd d ''publicKeys'' (JArr []) = JArr (map JStr keys))"

lemma mismatch_False: "mismatch r v = Inr False \<longleftrightarrow> (\<exists>s. v = JStr s \<and> fullmatch r s)"
  by (cases v) (auto simp: mismatch_def)

lemma all_match:
  "anyM (mismatch r) vs = Inr False \<Longrightarrow> \<exists>ws. vs = map JStr ws \<and> list_all (fullmatch r) ws"
proof (induction vs)
  case (Cons v vs)
  then obtain s ws where "v = JStr s" "fullmatch r s" "vs = map JStr ws" "list_all (fullmatch r) ws"
    by (auto simp: bind_eq_Inr mismatch_False split: if_splits)
  then show ?case by (intro exI [of _ "s # ws"]) simp
qed simp

lemma refuse_Inr: "refuse c e = Inr u \<longleftrightarrow> c = Inr False"
  by (auto simp: refuse_def bind_eq_Inr raise_if_def)

lemma resolve_user_accepts:
  assumes "resolve_user user w = (Inr resolved, w')"
  shows "accepted_user resolved"
proof -
  from assms obtain keys where invalid: "user_invalid user = Inr False" "user_options_invalid user = Inr False"
    and put: "jput user ''publicKeys'' (JArr (map JStr keys)) = Inr resolved"
    unfolding resolve_user_def
    by (auto simp: lift_def refuse_Inr elim!: andthenE)
  from put obtain d where d: "user = JObj d" "resolved = JObj (dput ''publicKeys'' (JArr (map JStr keys)) d)"
    by (cases user) auto
  from invalid(1) obtain name where name: "map_of d ''name'' = Some (JStr name)" "fullmatch rx_group name"
    "name \<notin> {''root'', ''ansible'', ''homelabd''}"
    by (auto simp: user_invalid_def d exn_simps mismatch_False)
  from invalid(2) obtain vs shell where
    "jiter (dgetd d ''groups'' (JArr [])) = Inr vs" "anyM (mismatch rx_group) vs = Inr False"
    and shell: "dgetd d ''shell'' (JStr ''/bin/bash'') = JStr shell" "fullmatch rx_shell shell"
    by (auto simp: user_options_invalid_def any_mismatch_def d exn_simps mismatch_False)
  moreover from all_match [OF this(2)] obtain groups where "vs = map JStr groups" "list_all (fullmatch rx_group) groups" by blast
  ultimately show ?thesis
    using name shell unfolding accepted_user_def d
    by (intro exI [of _ "dput ''publicKeys'' (JArr (map JStr keys)) d"] exI [of _ name] exI [of _ groups] exI [of _ shell] exI [of _ keys])
      (simp add: dgetd_def update_conv')
qed

text \<open>A system on which every command succeeds and every change is made.\<close>

definition obedient :: "world \<Rightarrow> bool" where
  "obedient v \<longleftrightarrow> (\<forall>h ev. \<exists>out err. answers v h ev = RProc 0 out err)"

definition served :: "unit io \<Rightarrow> bool" where
  "served m \<longleftrightarrow> (\<forall>v. obedient v \<longrightarrow> (\<exists>v'. m v = (Inr (), v') \<and> obedient v'))"

named_theorems served_intros "rules that show that a computation of commands and file changes succeeds"

lemma served_basics [served_intros]: "served (ret ())"
  by (simp add: served_def)

lemma served_andthen [served_intros]: "served m \<Longrightarrow> served f \<Longrightarrow> served (andthen m (\<lambda>_. f))"
  unfolding served_def by (metis andthen_run(1))

lemma served_act [served_intros]: "served (act ev)"
  unfolding served_def
proof (intro allI impI)
  fix v assume v: "obedient v"
  then obtain out err where "answers v (history v) ev = RProc 0 out err" unfolding obedient_def by blast
  then show "\<exists>v'. act ev v = (Inr (), v') \<and> obedient v'"
    using v by (auto simp: act_def ask_def andthen_def obedient_def Let_def)
qed

lemma served_run_in_root [served_intros]: "served (run_in_root argv)"
  unfolding served_def
proof (intro allI impI)
  fix v assume v: "obedient v"
  let ?ev = "Process (''chroot'' # ''/mnt'' # argv) [] 30"
  obtain out err where "answers v (history v) ?ev = RProc 0 out err" using v unfolding obedient_def by blast
  then show "\<exists>v'. run_in_root argv v = (Inr (), v') \<and> obedient v'"
    using v by (auto simp: run_in_root_def ask_proc_def ask_def andthen_def obedient_def Let_def)
qed

lemma served_each [served_intros]: "(\<And>x. x \<in> set xs \<Longrightarrow> served (f x)) \<Longrightarrow> served (each f xs)"
  by (induction xs) (auto intro!: served_intros)

lemma served_do_if [served_intros]: "served m \<Longrightarrow> served (do_if c m)"
  by (simp add: do_if_def served_basics)

lemma in_cls_mono: "set rs \<subseteq> set rs' \<Longrightarrow> in_cls rs c \<Longrightarrow> in_cls rs' c"
  by (auto simp: in_cls_def list_ex_iff)

text \<open>The script accepts every login shell that the operator accepts.\<close>

lemma shells_accepted:
  assumes "fullmatch rx_shell s"
  shows "fullmatch rx_login_shell s"
proof -
  let ?operator = "[upper_range, lower_range, digit_range] @ map one ''_/-''"
  let ?script = "[(CHR ''a'', CHR ''z''), (CHR ''A'', CHR ''Z''), (CHR ''0'', CHR ''9'')] @ map (\<lambda>c. (c, c)) ''_./-''"
  have "set ?operator \<subseteq> set ?script" by (auto simp: one_def)
  then have "list_all (in_cls ?operator) t \<Longrightarrow> list_all (in_cls ?script) t" for t
    unfolding list_all_iff using in_cls_mono by blast
  with assms show ?thesis
    unfolding fullmatch_iff_lang rx_shell_def rx_login_shell_def RSeq_iff lang_plus_cls by blast
qed

lemma names_read: "list_all (fullmatch rx_group) gs \<Longrightarrow> mapM account_name (map JStr gs) = Inr gs"
  by (induction gs) (auto simp: account_name_def)

lemma strings_read: "mapM (str_of e) (map JStr ws) = Inr ws"
  by (induction ws) auto

lemma configure_accepted:
  assumes "accepted_user user"
  shows "served (configure_user user)"
proof -
  obtain d name groups shell keys where d: "user = JObj d"
    and name: "map_of d ''name'' = Some (JStr name)" "fullmatch rx_group name" "name \<notin> {''root'', ''ansible'', ''homelabd''}"
    and groups: "jiter (dgetd d ''groups'' (JArr [])) = Inr (map JStr groups)" "list_all (fullmatch rx_group) groups"
    and shell: "dgetd d ''shell'' (JStr ''/bin/bash'') = JStr shell" "fullmatch rx_shell shell"
    and keys: "dgetd d ''publicKeys'' (JArr []) = JArr (map JStr keys)"
    using assms unfolding accepted_user_def by blast
  have "joined [CHR 0x0A] (JArr (map JStr keys)) = Inr (join [CHR 0x0A] keys)"
    by (simp add: joined_def strings_read)
  then have "served (authorize_keys name (JArr (map JStr keys)))"
    unfolding authorize_keys_def Let_def by (simp only: andthen_simps) (intro served_intros)
  moreover have "bind (jsub user ''name'') account_name = Inr name"
    using name by (simp add: d dsub_def account_name_def)
  moreover have "bind (jget user ''groups'' (JArr [])) (\<lambda>v. bind (jiter v) (mapM account_name)) = Inr groups"
    using groups names_read by (simp add: d)
  moreover have "bind (jget user ''shell'' (JStr ''/bin/bash'')) (str_of TypeError) = Inr shell" using shell by (simp add: d)
  moreover have "fullmatch rx_login_shell shell" by (rule shells_accepted [OF shell(2)])
  moreover have "\<exists>locked. jget user ''locked'' (JBool False) = Inr locked" by (simp add: d)
  ultimately show ?thesis
    using name(3) keys unfolding configure_user_def
    by (auto simp: d intro!: served_intros)
qed

lemma collect_all:
  assumes "collect f xs w = (Inr ys, w')" "\<And>x y w w'. x \<in> set xs \<Longrightarrow> f x w = (Inr y, w') \<Longrightarrow> P y"
  shows "list_all P ys"
  using assms
proof (induction xs arbitrary: w ys)
  case (Cons x xs)
  from Cons.prems(1) obtain y ys1 w1 where "f x w = (Inr y, w1)" "collect f xs w1 = (Inr ys1, w')" "ys = y # ys1"
    by (auto elim!: andthenE)
  moreover have "P y" by (rule Cons.prems(2) [OF _ calculation(1)]) simp
  moreover have "list_all P ys1" by (rule Cons.IH [OF calculation(2)]) (rule Cons.prems(2), simp_all)
  ultimately show ?case by simp
qed simp


definition sample_users :: json where
  "sample_users = JObj [(''users'', JArr [JObj [(''name'', JStr ''deploy''), (''groups'', JArr [JStr ''docker'', JStr ''audio'']),
     (''shell'', JStr ''/usr/bin/zsh'')]])]"

definition willing :: world where
  "willing = \<lparr>answers = (\<lambda>h ev. RProc 0 [] []), history = [], float_text = (\<lambda>_. []), cell = []\<rparr>"


end
