(* ===== verification/Publishing.thy ===== *)
theory Publishing
  imports Transport HostScripts
begin

text \<open>
  Publication of a built image (\<open>roles/os/files/ci/publish.py\<close>): the artifacts are uploaded first, each in three attempts at
  most, and the manifest that names them with their digests last. The answer to an upload is the status, the body and the
  redirect location of its response; a file that cannot be opened is an upload that raises.
\<close>

section \<open>Where artifacts go\<close>

record upload_url =
  up_scheme :: string
  up_host :: "string option"
  up_username :: string
  up_password :: string
  up_query :: string
  up_fragment :: string

text \<open>\<open>urlsplit\<close>, with the parts the check reads.\<close>

definition user_info :: "string \<Rightarrow> string" where
  "user_info netloc = (if CHR ''@'' \<in> set netloc then take (length netloc - length (host_part netloc) - 1) netloc else [])"

definition urlsplit :: "string \<Rightarrow> exn + upload_url" where
  "urlsplit url =
     bind (urlparse url) (\<lambda>u.
       let rest = snd (split_scheme (cleaned_url url));
           netloc = network_location rest;
           tail = (if startswith rest ''//'' then drop (2 + length netloc) rest else rest);
           info = user_info netloc in
       Inr \<lparr>up_scheme = url_scheme u, up_host = url_host u,
             up_username = before_char (CHR '':'') info, up_password = after_char (CHR '':'') info,
             up_query = after_char (CHR ''?'') (before_char (CHR ''#'') tail), up_fragment = after_char (CHR ''#'') tail\<rparr>)"

definition upload_refused :: "upload_url \<Rightarrow> bool" where
  "upload_refused u =
     ((up_scheme u \<noteq> ''https'' \<and> \<not> (up_scheme u = ''http'' \<and> up_host u \<in> {Some ''localhost'', Some ''127.0.0.1''})) \<or>
      up_host u = None \<or> up_username u \<noteq> [] \<or> up_password u \<noteq> [] \<or> up_query u \<noteq> [] \<or> up_fragment u \<noteq> [])"

text \<open>A value that is not a string: \<open>urlsplit\<close> takes an empty one as no URL, and fails on another one.\<close>

definition url_text :: "json \<Rightarrow> exn + string" where
  "url_text v = (case v of JStr s \<Rightarrow> Inr s | _ \<Rightarrow> if truthy v then Inl AttributeError else Inr [])"

section \<open>One upload\<close>

definition upload_once :: "string \<Rightarrow> string \<Rightarrow> string \<Rightarrow> unit io" where
  "upload_once password path target =
     andthen (ask_num (FileSize path)) (\<lambda>size.
     andthen (ask_proc (Upload path target
         [(''PW'', ''pipeline:'' @ password), (''Content-Type'', ''application/octet-stream''),
          (''Content-Length'', int_text \<lfloor>size\<rfloor>)])) (\<lambda>(status, _, location).
     if status \<in> {200, 201, 204} then ret ()
     else if 200 \<le> status \<and> status < 300 then raise (RuntimeError ''Upload failed'')
     else if redirects status location then raise (ValueError ''Artifact upload redirects are not accepted'')
     else raise (HTTPError status)))"

text \<open>\<open>for attempt in range(3)\<close>: the last exception is raised, the earlier ones are slept on, longer each time.\<close>

fun retry :: "nat \<Rightarrow> nat \<Rightarrow> unit io \<Rightarrow> unit io" where
  "retry 0 attempt once = once"
| "retry (Suc n) attempt once =
     catch once (\<lambda>e.
       if is_exception e then andthen (act (Sleep (2 ^ attempt))) (\<lambda>_. retry n (Suc attempt) once) else raise e)"

definition upload :: "string \<Rightarrow> string \<Rightarrow> string \<Rightarrow> unit io" where
  "upload password path target = retry 2 0 (upload_once password path target)"

section \<open>The publication\<close>

record publication =
  pub_base :: string
  pub_metadata :: jobject
  pub_build :: string
  pub_files :: "(string \<times> string \<times> string) list"
  pub_password :: string

definition read_document :: "(string \<Rightarrow> rat) \<Rightarrow> string \<Rightarrow> json io" where
  "read_document float_value path = andthen (ask_text (ReadFile path)) (\<lambda>s. lift (json_loads float_value s))"

text \<open>\<open>glob('*.iso')\<close>: a directory that cannot be listed has no entries.\<close>

definition completed_isos :: "string \<Rightarrow> string list io" where
  "completed_isos directory =
     catch (andthen (list_dir directory) (\<lambda>names. ret (filter (\<lambda>n. endswith n ''.iso'') names)))
       (\<lambda>e. if is_file_error e then ret [] else raise e)"

definition image_files :: "string \<Rightarrow> string \<Rightarrow> string \<Rightarrow> (string \<times> string \<times> string) list" where
  "image_files directory medium rootfs =
     [(''iso'', directory @ ''/iso/'' @ medium, medium),
      (''kernel'', directory @ ''/netboot/vmlinuz'', ''netboot/vmlinuz''),
      (''initrd'', directory @ ''/netboot/initrd.img'', ''netboot/initrd.img''),
      (''rootfs'', directory @ ''/netboot/'' @ rootfs, ''netboot/'' @ rootfs)]"

definition upload_base :: "json \<Rightarrow> json \<Rightarrow> exn + string" where
  "upload_base url metadata =
     bind (str_of AttributeError url) (\<lambda>u.
     bind (bind (jsub metadata ''isoUid'') (str_of TypeError)) (\<lambda>uid.
       Inr (rstrip_char (CHR ''/'') u @ ''/iso-resources/'' @ uid)))"

definition publication_of :: "(string \<Rightarrow> rat) \<Rightarrow> string \<Rightarrow> publication io" where
  "publication_of float_value directory =
     andthen (read_document float_value (directory @ ''/image.yaml'')) (\<lambda>configuration.
     andthen (read_document float_value (directory @ ''/build.json'')) (\<lambda>metadata.
     andthen (lift (jsub configuration ''artifactBaseURL'')) (\<lambda>url.
     andthen (lift (bind (url_text url) urlsplit)) (\<lambda>endpoint.
     if upload_refused endpoint
     then raise (ValueError ''Artifact uploads require HTTPS (loopback HTTP is test-only)'') else
     andthen (lift (upload_base url metadata)) (\<lambda>base.
     andthen (lift (bind (jsub metadata ''buildId'') (str_of TypeError))) (\<lambda>build.
     andthen (completed_isos (directory @ ''/iso'')) (\<lambda>isos.
     (case isos of
        [medium] \<Rightarrow>
          andthen (lift (jsub configuration ''distribution'')) (\<lambda>distribution.
          andthen (getenv ''FILE_REGISTRY_PASSWORD'') (\<lambda>password.
            ret \<lparr>pub_base = base, pub_metadata = (case metadata of JObj d \<Rightarrow> d | _ \<Rightarrow> []), pub_build = build,
                 pub_files = image_files directory medium
                   (if distribution = JStr ''arch'' then ''arch/x86_64/airootfs.sfs'' else ''filesystem.squashfs''),
                 pub_password = password\<rparr>))
      | _ \<Rightarrow> raise (ValueError ''Expected exactly one completed ISO'')))))))))"

definition artifact_address :: "publication \<Rightarrow> string \<Rightarrow> string" where
  "artifact_address p name = pub_base p @ ''/builds/'' @ pub_build p @ ''/'' @ name"

definition manifest_address :: "publication \<Rightarrow> string" where
  "manifest_address p = pub_base p @ ''/manifests/'' @ pub_build p @ ''.json''"

definition publish_artifact :: "publication \<Rightarrow> string \<times> string \<times> string \<Rightarrow> json io" where
  "publish_artifact p file =
     (case file of (kind, path, name) \<Rightarrow>
     andthen (ask_text (ReadFile path)) (\<lambda>content.
     andthen (upload (pub_password p) path (artifact_address p name)) (\<lambda>_.
       ret (JObj [(''type'', JStr kind), (''url'', JStr (artifact_address p name)),
                  (''sha256'', JStr (hexdigest (sha256 content)))]))))"

definition publish_manifest :: "publication \<Rightarrow> string \<Rightarrow> json list \<Rightarrow> unit io" where
  "publish_manifest p directory artifacts =
     (let manifest = directory @ ''/manifest.json'' in
      andthen get_float_text (\<lambda>ft.
      andthen (act (FileChange [''write'', manifest,
          dumps ft default_style (JObj (dput ''artifacts'' (JArr artifacts) (pub_metadata p)))])) (\<lambda>_.
        upload (pub_password p) manifest (manifest_address p))))"

definition publish :: "(string \<Rightarrow> rat) \<Rightarrow> string \<Rightarrow> unit io" where
  "publish float_value directory =
     andthen (publication_of float_value directory) (\<lambda>p.
     andthen (collect (publish_artifact p) (pub_files p)) (\<lambda>artifacts.
       publish_manifest p directory artifacts))"

section \<open>The manifest is the last thing published\<close>

definition uploads_to :: "string \<Rightarrow> event \<Rightarrow> bool" where
  "uploads_to target ev \<longleftrightarrow> (\<exists>path headers. ev = Upload path target headers)"

lemma uploads_to_simps [simp]:
  "uploads_to target (Upload path other headers) \<longleftrightarrow> other = target" "\<not> uploads_to target (ReadFile path)"
  "\<not> uploads_to target (FileSize path)" "\<not> uploads_to target (Sleep n)" "\<not> uploads_to target (FileChange change)"
  "\<not> uploads_to target (ListDir path)" "\<not> uploads_to target (Getenv k)"
  by (auto simp: uploads_to_def)

text \<open>An upload that was accepted, since a world.\<close>

definition accepted_upload :: "string \<Rightarrow> world \<Rightarrow> world \<Rightarrow> bool" where
  "accepted_upload target w w' \<longleftrightarrow>
     (\<exists>path headers status body location. (Upload path target headers, RProc status body location) \<in> set (added w w') \<and>
        status \<in> {200, 201, 204})"

lemma only_upload_once [only_intros]:
  "(\<And>headers. A (Upload path target headers)) \<Longrightarrow> A (FileSize path) \<Longrightarrow> only cw A (upload_once password path target)"
  unfolding upload_once_def by (intro only_intros)

lemma only_retry [only_intros]:
  "only cw A once \<Longrightarrow> (\<And>n. A (Sleep n)) \<Longrightarrow> only cw A (retry n k once)"
  by (induction n arbitrary: k) (auto intro!: only_intros)

lemma only_upload [only_intros]:
  assumes "\<And>headers. A (Upload path target headers)" "A (FileSize path)" "\<And>n. A (Sleep n)"
  shows "only cw A (upload password path target)"
  unfolding upload_def by (intro only_intros assms)

lemma only_publish_artifact [only_intros]:
  assumes "\<And>path name headers. A (Upload path (artifact_address p name) headers)" "\<And>path. A (FileSize path)"
    "\<And>path. A (ReadFile path)" "\<And>n. A (Sleep n)"
  shows "only cw A (publish_artifact p file)"
  unfolding publish_artifact_def by (intro only_intros assms)

lemma only_publication_of [only_intros]:
  assumes "\<And>path. A (ReadFile path)" "\<And>path. A (ListDir path)" "\<And>k. A (Getenv k)"
  shows "only cw A (publication_of float_value directory)"
proof -
  have one: "only cw A (completed_isos d)" for d
    unfolding completed_isos_def list_dir_def by (intro only_intros assms)
  have two: "only cw A (case isos of [x] \<Rightarrow> f x | _ \<Rightarrow> raise e)" if "\<And>x. only cw A (f x)" for isos f e
    using that by (auto split: list.splits intro: only_intros)
  show ?thesis
    unfolding publication_of_def read_document_def by (intro one two only_intros assms)
qed

lemma upload_once_accepted:
  assumes "upload_once password path target w = (Inr u, w')"
  shows "accepted_upload target w w'"
proof -
  from assms obtain size headers status body location where
    "w' = w\<lparr>history := (history w @ [(FileSize path, RNum size)]) @ [(Upload path target headers, RProc status body location)]\<rparr>"
    "status \<in> {200, 201, 204}"
    unfolding upload_once_def
    by (auto simp: answered_simps elim!: andthenE split: if_splits)
  then show ?thesis by (auto simp: accepted_upload_def added_def)
qed

lemma accepted_later: "accepted_upload target w1 w2 \<Longrightarrow> later w w1 \<Longrightarrow> later w1 w2 \<Longrightarrow> later w2 w' \<Longrightarrow> accepted_upload target w w'"
proof -
  assume a: "accepted_upload target w1 w2" and l: "later w w1" "later w1 w2" "later w2 w'"
  have "added w w' = added w w1 @ added w1 w2 @ added w2 w'"
    using l later_trans [OF l(2,3)] unfolding later_def
    by (metis added_trans)
  with a show ?thesis unfolding accepted_upload_def by fastforce
qed

lemma retry_accepted:
  assumes "retry n k once w = (Inr u, w')" "\<And>w u w'. once w = (Inr u, w') \<Longrightarrow> accepted_upload target w w'"
    and "only True (\<lambda>_. True) once"
  shows "accepted_upload target w w'"
  using assms(1)
proof (induction n arbitrary: k w)
  case (Suc n)
  obtain r w1 where o: "once w = (r, w1)" by fastforce
  show ?case
  proof (cases r)
    case (Inr x)
    with Suc.prems o assms(2) show ?thesis by (simp add: catch_def)
  next
    case (Inl e)
    with Suc.prems o obtain w2 x where s: "act (Sleep (2 ^ k)) w1 = (Inr x, w2)" "retry n (Suc k) once w2 = (Inr u, w')"
      by (auto simp: catch_def elim!: andthenE split: if_splits)
    have "only True (\<lambda>_. True) (act (Sleep (2 ^ k)))" "only True (\<lambda>_. True) (retry n (Suc k) once)"
      by (intro only_intros assms(3) TrueI)+
    from only_later [OF this(1) s(1)] only_later [OF this(2) s(2)]
    have "later w1 w2" "later w2 w'" .
    moreover have "later w w1" by (rule only_later [OF assms(3) o])
    ultimately show ?thesis using Suc.IH [OF s(2)] accepted_later by (meson later_refl later_trans)
  qed
qed (simp add: assms(2))

lemma upload_accepted:
  assumes "upload password path target w = (Inr u, w')"
  shows "accepted_upload target w w'"
proof -
  have "only True (\<lambda>_. True) (upload_once password path target)" by (intro only_intros TrueI)
  from retry_accepted [OF assms [unfolded upload_def] upload_once_accepted this] show ?thesis .
qed

lemma artifacts_accepted:
  assumes "collect (publish_artifact p) files w = (Inr artifacts, w')" "(kind, path, name) \<in> set files"
  shows "accepted_upload (artifact_address p name) w w'"
  using assms
proof (induction files arbitrary: w artifacts)
  case (Cons g files)
  then obtain y ys w1 where f: "publish_artifact p g w = (Inr y, w1)" "collect (publish_artifact p) files w1 = (Inr ys, w')"
    by (auto elim!: andthenE)
  have one: "only True (\<lambda>_. True) (publish_artifact p f)" for f by (intro only_intros TrueI)
  have l: "later w w1" "later w1 w'"
    by (rule only_later [OF one f(1)], rule only_later [OF only_collect [OF one] f(2)])
  show ?case
  proof (cases "g = (kind, path, name)")
    case True
    with f(1) obtain content w2 u w3 where r: "ask_text (ReadFile path) w = (Inr content, w2)"
      "upload (pub_password p) path (artifact_address p name) w2 = (Inr u, w3)" "w1 = w3"
      by (auto simp: publish_artifact_def elim!: andthenE)
    have o: "only True (\<lambda>_. True) (ask_text (ReadFile path))"
      "only True (\<lambda>_. True) (upload (pub_password p) path (artifact_address p name))"
      by (intro only_intros TrueI)+
    have "later w w2" by (rule only_later [OF o(1) r(1)])
    moreover have "later w2 w3" by (rule only_later [OF o(2) r(2)])
    ultimately show ?thesis using upload_accepted [OF r(2)] l(2) r(3) accepted_later by blast
  next
    case False
    with Cons f have "accepted_upload (artifact_address p name) w1 w'" by auto
    with l show ?thesis using accepted_later later_refl by blast
  qed
qed simp

definition is_upload :: "event \<Rightarrow> bool" where
  "is_upload ev \<longleftrightarrow> (\<exists>path target headers. ev = Upload path target headers)"

lemma is_upload_simps [simp]:
  "is_upload (Upload path target headers)" "\<not> is_upload (ReadFile path)" "\<not> is_upload (ListDir path)"
  "\<not> is_upload (Getenv k)"
  by (simp_all add: is_upload_def)

lemma addresses_differ: "artifact_address p name \<noteq> manifest_address p"
  by (simp add: artifact_address_def manifest_address_def)

text \<open>Where the base of a publication comes from.\<close>

definition base_allowed :: "string \<Rightarrow> bool" where
  "base_allowed base \<longleftrightarrow>
     (\<exists>url u rest. urlsplit url = Inr u \<and> \<not> upload_refused u \<and> base = rstrip_char (CHR ''/'') url @ ''/iso-resources/'' @ rest)"

lemma publication_base:
  assumes "publication_of fv directory w = (Inr p, w1)"
  shows "base_allowed (pub_base p)"
proof -
  have s: "str_of AttributeError url = Inr u \<Longrightarrow> url_text url = Inr u" for url u
    by (cases url) (simp_all add: url_text_def)
  from assms have "\<exists>url endpoint metadata. bind (url_text url) urlsplit = Inr endpoint \<and> \<not> upload_refused endpoint \<and>
      upload_base url metadata = Inr (pub_base p)"
    unfolding publication_of_def
    by (auto simp: lift_def elim!: andthenE split: if_splits list.splits) blast+
  then obtain url endpoint metadata where
    e: "bind (url_text url) urlsplit = Inr endpoint" "\<not> upload_refused endpoint"
    and b: "upload_base url metadata = Inr (pub_base p)" by blast
  from b have "\<exists>u uid. str_of AttributeError url = Inr u \<and> pub_base p = rstrip_char (CHR ''/'') u @ ''/iso-resources/'' @ uid"
    by (auto simp: upload_base_def bind_eq_Inr) (intro exI, rule sym, assumption)
  then obtain u uid where u: "str_of AttributeError url = Inr u"
    "pub_base p = rstrip_char (CHR ''/'') u @ ''/iso-resources/'' @ uid" by blast
  from e(1) s [OF u(1)] have "urlsplit u = Inr endpoint" by simp
  with e(2) u(2) show ?thesis unfolding base_allowed_def by blast
qed

lemma only_publish_manifest [only_intros]: "only True (\<lambda>_. True) (publish_manifest p directory artifacts)"
  unfolding publish_manifest_def by (intro only_intros TrueI)

lemma publish_accepts:
  assumes "publish fv directory w = (Inr (), w')"
  shows "\<exists>p w1. publication_of fv directory w = (Inr p, w1) \<and> accepted_upload (manifest_address p) w w'"
proof -
  from assms obtain p w1 artifacts w2 where p: "publication_of fv directory w = (Inr p, w1)"
    and c: "collect (publish_artifact p) (pub_files p) w1 = (Inr artifacts, w2)"
    and m: "publish_manifest p directory artifacts w2 = (Inr (), w')"
    by (auto simp: publish_def elim!: andthenE)
  from m obtain ev w4 u where a: "act ev w2 = (Inr u, w4)"
    "upload (pub_password p) (directory @ ''/manifest.json'') (manifest_address p) w4 = (Inr (), w')"
    by (auto simp: publish_manifest_def Let_def get_float_text_def elim!: andthenE)
  have o: "only True (\<lambda>_. True) (publication_of fv directory)" "only True (\<lambda>_. True) (act ev)"
    "only True (\<lambda>_. True) (collect (publish_artifact p) (pub_files p))"
    "only True (\<lambda>_. True) (upload (pub_password p) (directory @ ''/manifest.json'') (manifest_address p))"
    by (intro only_intros TrueI)+
  have "later w w4"
    using only_later [OF o(1) p] only_later [OF o(3) c] only_later [OF o(2) a(1)] later_trans by blast
  with only_later [OF o(4) a(2)] p show ?thesis using accepted_later [OF upload_accepted [OF a(2)]] by blast
qed

text \<open>
  C37: The manifest is published last. A run that uploads anything has read a publication whose base URL
  passed the check. If it uploads the manifest, every artifact was accepted before, and the manifest was not
  uploaded before them; and a run that returns had its manifest accepted.
\<close>

theorem manifest_last:
  assumes "publish fv directory w = (r, w')" "made is_upload w w'"
  shows "\<exists>p w1. publication_of fv directory w = (Inr p, w1) \<and> base_allowed (pub_base p) \<and>
    (made (uploads_to (manifest_address p)) w w' \<longrightarrow>
      (\<exists>w2. later w1 w2 \<and> later w2 w' \<and> \<not> made (uploads_to (manifest_address p)) w w2 \<and>
        (\<forall>(kind, path, name)\<in>set (pub_files p). accepted_upload (artifact_address p name) w1 w2))) \<and>
    (r = Inr () \<longrightarrow> accepted_upload (manifest_address p) w w')"
proof -
  have planned: "only True (\<lambda>ev. \<not> B ev) (publication_of fv directory)"
    if "\<And>path. \<not> B (ReadFile path)" "\<And>path. \<not> B (ListDir path)" "\<And>k. \<not> B (Getenv k)" for B
    by (intro only_intros that)
  have artifact: "only True (\<lambda>ev. \<not> uploads_to (manifest_address p) ev) (publish_artifact p f)" for p f
    by (intro only_intros) (simp_all add: addresses_differ)
  have rest: "only True (\<lambda>_. True) (andthen (collect (publish_artifact p) (pub_files p)) (publish_manifest p directory))" for p
    by (intro only_intros TrueI)
  obtain p w1 where p: "publication_of fv directory w = (Inr p, w1)"
      and m: "andthen (collect (publish_artifact p) (pub_files p)) (publish_manifest p directory) w1 = (r, w')"
    using assms(1) unfolding publish_def
    by (rule made_andthen [OF _ planned assms(2) rest]) auto
  have w1: "later w w1" "\<not> made (uploads_to (manifest_address p)) w w1"
    using only_later [OF planned p, of is_upload] only_not_made [OF planned p, of "uploads_to (manifest_address p)"] by auto
  obtain s w2 where c: "collect (publish_artifact p) (pub_files p) w1 = (s, w2)" by fastforce
  have w2: "later w1 w2" "\<not> made (uploads_to (manifest_address p)) w1 w2"
    using only_later [OF only_collect [OF artifact] c] only_not_made [OF only_collect [OF artifact] c] by blast+
  have none: "\<not> made (uploads_to (manifest_address p)) w w2"
    using w1 w2 added_trans [of w1 w w2] unfolding later_def made_def by auto
  show ?thesis
  proof (rule exI [of _ p], rule exI [of _ w1], intro conjI impI p publication_base [OF p])
    assume "made (uploads_to (manifest_address p)) w w'"
    with none have "w' \<noteq> w2" by blast
    then obtain artifacts where s: "s = Inr artifacts" using m c by (cases s) (simp_all add: andthen_def)
    with m c have "publish_manifest p directory artifacts w2 = (r, w')" by (simp add: andthen_def)
    then have "later w2 w'" by (rule only_later [OF only_publish_manifest])
    with none w2 artifacts_accepted [OF c [unfolded s]] show
      "\<exists>w2. later w1 w2 \<and> later w2 w' \<and> \<not> made (uploads_to (manifest_address p)) w w2 \<and>
        (\<forall>(kind, path, name)\<in>set (pub_files p). accepted_upload (artifact_address p name) w1 w2)" by blast
  next
    assume "r = Inr ()"
    with assms(1) p show "accepted_upload (manifest_address p) w w'" using publish_accepts by fastforce
  qed
qed

section \<open>An image that is published\<close>

definition registry_answer :: "event \<Rightarrow> reply" where
  "registry_answer ev =
     (case ev of
        ReadFile path \<Rightarrow>
          if path = ''out/image.yaml''
          then RText (dumps (\<lambda>_. []) default_style (JObj [(''artifactBaseURL'', JStr ''https://files.example/''), (''distribution'', JStr ''arch'')]))
          else if path = ''out/build.json''
          then RText (dumps (\<lambda>_. []) default_style (JObj [(''isoUid'', JStr ''i-1''), (''buildId'', JStr ''b-1'')]))
          else RText ''content''
      | ListDir path \<Rightarrow> RJson (JArr [JStr ''live.iso'', JStr ''live.iso.sig''])
      | Getenv name \<Rightarrow> RText ''secret''
      | FileSize path \<Rightarrow> RNum 7
      | Upload path target headers \<Rightarrow> RProc 201 [] []
      | _ \<Rightarrow> RUnit)"

definition registry :: world where
  "registry = \<lparr>answers = (\<lambda>h. registry_answer), history = [], float_text = (\<lambda>_. []), cell = []\<rparr>"

definition sample_publication :: publication where
  "sample_publication =
     \<lparr>pub_base = ''https://files.example/iso-resources/i-1'', pub_metadata = [(''isoUid'', JStr ''i-1''), (''buildId'', JStr ''b-1'')],
      pub_build = ''b-1'', pub_files = image_files ''out'' ''live.iso'' ''arch/x86_64/airootfs.sfs'', pub_password = ''secret''\<rparr>"

lemma registry_reads:
  assumes "registry_answer (ReadFile path) = RText (dumps (\<lambda>_. []) default_style v)" "plain_json v"
  shows "gives registry_answer (read_document fv path) v"
  unfolding read_document_def
  by (rule gives_andthen, rule gives_asks(1), rule assms(1), simp only: json_roundtrip [OF assms(2)] gives_basics)

lemma registry_uploads: "gives registry_answer (upload password path target) ()"
proof -
  have size: "gives registry_answer (ask_num (FileSize path)) 7"
    and put: "gives registry_answer (ask_proc (Upload path target hs)) (201, [], [])" for hs
    by (simp_all add: gives_asks registry_answer_def)
  have "gives registry_answer (upload_once password path target) ()"
    unfolding upload_once_def
    by (rule gives_andthen [OF size], rule gives_andthen [OF put]) (simp add: gives_basics)
  then show ?thesis by (simp add: upload_def numeral_2_eq_2 gives_catch)
qed

lemma registry_publishes: "\<exists>y. gives registry_answer (publish_artifact p f) y"
proof -
  obtain kind path name where f: "f = (kind, path, name)" by (cases f)
  have "\<exists>content. registry_answer (ReadFile path) = RText content" by (simp add: registry_answer_def)
  then obtain content where "gives registry_answer (ask_text (ReadFile path)) content" using gives_asks(1) by blast
  then show ?thesis unfolding publish_artifact_def f
    using gives_andthen [OF _ gives_andthen [OF registry_uploads gives_basics(1)]] by fastforce
qed

lemma registry_collects: "\<exists>ys. gives registry_answer (collect (publish_artifact p) fs) ys"
proof -
  have "list_all2 (\<lambda>f y. gives registry_answer (publish_artifact p f) y) fs
      (map (\<lambda>f. SOME y. gives registry_answer (publish_artifact p f) y) fs)"
    using someI_ex [OF registry_publishes] by (simp add: list_all2_conv_all_nth)
  from gives_collect [OF this] show ?thesis ..
qed

definition sample_endpoint :: upload_url where
  "sample_endpoint =
     \<lparr>up_scheme = ''https'', up_host = Some ''files.example'', up_username = [], up_password = [], up_query = [], up_fragment = []\<rparr>"

lemma registry_publication: "gives registry_answer (publication_of fv ''out'') sample_publication"
proof -
  let ?image = "JObj [(''artifactBaseURL'', JStr ''https://files.example/''), (''distribution'', JStr ''arch'')]"
  let ?build = "JObj [(''isoUid'', JStr ''i-1''), (''buildId'', JStr ''b-1'')]"
  have r1: "gives registry_answer (read_document fv (''out'' @ ''/image.yaml'')) ?image"
    and r2: "gives registry_answer (read_document fv (''out'' @ ''/build.json'')) ?build"
    by (rule registry_reads; simp add: registry_answer_def)+
  have l1: "jsub ?image ''artifactBaseURL'' = Inr (JStr ''https://files.example/'')"
    "bind (url_text (JStr ''https://files.example/'')) urlsplit = Inr sample_endpoint"
    "upload_refused sample_endpoint = False"
    "upload_base (JStr ''https://files.example/'') ?build = Inr ''https://files.example/iso-resources/i-1''"
    "bind (jsub ?build ''buildId'') (str_of TypeError) = Inr ''b-1''"
    "jsub ?image ''distribution'' = Inr (JStr ''arch'')"
    by code_simp+
  have dir: "gives registry_answer (list_dir (''out'' @ ''/iso'')) [''live.iso'', ''live.iso.sig'']"
    by (rule gives_list_dir) (simp add: registry_answer_def)
  have "filter (\<lambda>n. endswith n ''.iso'') [''live.iso'', ''live.iso.sig''] = [''live.iso'']" by code_simp
  then have isos: "gives registry_answer (completed_isos (''out'' @ ''/iso'')) [''live.iso'']"
    unfolding completed_isos_def by (intro gives_catch gives_andthen [OF dir]) (simp only: gives_basics)
  have env: "gives registry_answer (getenv ''FILE_REGISTRY_PASSWORD'') ''secret''"
    by (rule gives_asks) (simp add: registry_answer_def)
  have "gives registry_answer
      (andthen (lift (jsub ?image ''distribution'')) (\<lambda>distribution.
       andthen (getenv ''FILE_REGISTRY_PASSWORD'') (\<lambda>password.
         ret \<lparr>pub_base = ''https://files.example/iso-resources/i-1'',
              pub_metadata = (case ?build of JObj d \<Rightarrow> d | _ \<Rightarrow> []), pub_build = ''b-1'',
              pub_files = image_files ''out'' ''live.iso''
                (if distribution = JStr ''arch'' then ''arch/x86_64/airootfs.sfs'' else ''filesystem.squashfs''),
              pub_password = password\<rparr>))) sample_publication"
    by (rule gives_lifted [OF l1(6)], rule gives_andthen [OF env]) (simp add: sample_publication_def gives_basics)
  note last = this
  show ?thesis
    unfolding publication_of_def
    by (rule gives_andthen [OF r1], rule gives_andthen [OF r2], rule gives_lifted [OF l1(1)], rule gives_lifted [OF l1(2)],
        simp only: l1(3) if_False, rule gives_lifted [OF l1(4)], rule gives_lifted [OF l1(5)], rule gives_andthen [OF isos],
        simp only: list.case, rule last)
qed

lemma manifest_last_witness:
  "\<exists>w'. publish (\<lambda>_. 0) ''out'' registry = (Inr (), w') \<and> made is_upload registry w' \<and>
     accepted_upload ''https://files.example/iso-resources/i-1/manifests/b-1.json'' registry w'"
proof -
  obtain artifacts where a: "gives registry_answer (collect (publish_artifact sample_publication) (pub_files sample_publication)) artifacts"
    using registry_collects by blast
  have "gives registry_answer (publish_manifest sample_publication ''out'' artifacts) ()"
    unfolding publish_manifest_def Let_def
    by (rule gives_andthen [OF gives_basics(3)], rule gives_andthen [OF gives_basics(4) registry_uploads]) (simp add: registry_answer_def)
  with a have "gives registry_answer (publish (\<lambda>_. 0) ''out'') ()"
    unfolding publish_def by (intro gives_andthen [OF registry_publication]) (rule gives_andthen)
  moreover have site: "steady registry_answer registry" by (simp add: steady_def registry_def)
  ultimately obtain w' where run: "publish (\<lambda>_. 0) ''out'' registry = (Inr (), w')"
    unfolding gives_def by blast
  have address: "manifest_address sample_publication = ''https://files.example/iso-resources/i-1/manifests/b-1.json''"
    by (simp add: manifest_address_def sample_publication_def)
  from publish_accepts [OF run] have made: "made is_upload registry w'"
    unfolding accepted_upload_def made_def by force
  obtain w1 where "publication_of (\<lambda>_. 0) ''out'' registry = (Inr sample_publication, w1)"
    using registry_publication site unfolding gives_def by blast
  with manifest_last [OF run made] have "accepted_upload (manifest_address sample_publication) registry w'" by auto
  with run made address show ?thesis by auto
qed

end
