(* ===== verification/Probe.thy ===== *)
theory Probe
  imports HostScripts BootOrder
begin

text \<open>
  The read-only probe of a managed host (\<open>roles/provision/files/probe.py\<close>): it finds the selected disk
  under its stable name, refuses everything that is not that physical disk, and reports the facts that the
  provisioning operator decides on.
\<close>

section \<open>Text\<close>

text \<open>\<open>Path(p).name\<close>\<close>

definition path_name :: "string \<Rightarrow> string" where
  "path_name p =
     (case rev (filter (\<lambda>c. c \<noteq> [] \<and> c \<noteq> ''.'') (split_on (CHR ''/'') p)) of [] \<Rightarrow> [] | c # cs \<Rightarrow> c)"

text \<open>\<open>int(s)\<close>: white space around, a sign, single underscores between decimal digits.\<close>

definition int_value :: "string \<Rightarrow> exn + int" where
  "int_value s =
     (let t = strip_by (int_space s) s;
          (negative, u) = (case t of [] \<Rightarrow> (False, t)
             | c # v \<Rightarrow> if c = CHR ''-'' then (True, v) else if c = CHR ''+'' then (False, v) else (False, t));
          parts = split_on (CHR ''_'') u in
      if list_all (\<lambda>w. w \<noteq> []) parts
      then bind (py_int (concat parts)) (\<lambda>n. Inr (if negative then - int n else int n))
      else Inl (LibError ''int''))"

text \<open>\<open>a or b\<close>, of JSON values\<close>

definition either :: "json \<Rightarrow> json \<Rightarrow> json" where
  "either a b = (if truthy a then a else b)"

definition rx_mmc_area :: rx where
  "rx_mmc_area =
     (let digits = rplus (RCls [(CHR ''0'', CHR ''9'')]) in
      RSeq (rlit ''mmcblk'') (RSeq digits
        (RAlt (RSeq (rlit ''boot'') digits) (RAlt (rlit ''rpmb'') (RSeq (rlit ''gp'') digits)))))"

definition is_mmc_hardware_area :: "string \<Rightarrow> bool" where
  "is_mmc_hardware_area device_path = fullmatch rx_mmc_area (path_name device_path)"

text \<open>\<open>/dev/disk/by-id/[^/]+\<close>\<close>

definition is_by_id :: "string \<Rightarrow> bool" where
  "is_by_id target =
     (startswith target ''/dev/disk/by-id/'' \<and>
      (let n = removeprefix target ''/dev/disk/by-id/'' in n \<noteq> [] \<and> CHR ''/'' \<notin> set n))"

section \<open>Reading the host\<close>

definition command_output :: "string list \<Rightarrow> string io" where
  "command_output argv = andthen (ask_text (Process argv [] 30)) (\<lambda>s. ret (strip s))"

definition read_text :: "string \<Rightarrow> string io" where
  "read_text path = ask_text (ReadFile path)"

definition real_path :: "string \<Rightarrow> string io" where
  "real_path path = ask_text (RealPath path)"

definition disk_identity :: "json \<Rightarrow> exn + json" where
  "disk_identity disk =
     bind (jget disk ''size'' JNull) (\<lambda>size.
     bind (mapM (\<lambda>field. bind (jget disk field JNull) (\<lambda>v. Inr (field, either v (JStr [])))) [''serial'', ''wwn'', ''model'', ''tran''])
       (\<lambda>texts. Inr (JObj ((''size'', size) # texts))))"

text \<open>Octal escapes of white space and backslashes; their values are below 256.\<close>

definition octal_digit :: "char \<Rightarrow> bool" where
  "octal_digit c = (48 \<le> code_point c \<and> code_point c \<le> 55)"

fun unescape_octal :: "string \<Rightarrow> string" where
  "unescape_octal (c # x # y # z # s) =
     (if c = CHR 0x5C \<and> octal_digit x \<and> octal_digit y \<and> octal_digit z
      then char_of ((code_point x - 48) * 64 + (code_point y - 48) * 8 + (code_point z - 48)) # unescape_octal s
      else c # unescape_octal (x # y # z # s))"
| "unescape_octal s = s"

definition swap_path :: "string \<Rightarrow> string list io" where
  "swap_path line =
     (if strip line = [] then ret []
      else andthen (real_path (unescape_octal (hd (split_ws line)))) (\<lambda>p. ret [p]))"

definition active_swap_paths :: "string list io" where
  "active_swap_paths =
     andthen (read_text ''/proc/swaps'') (\<lambda>s.
     andthen (collect swap_path (tl (splitlines s))) (\<lambda>ps. ret (concat ps)))"

definition block_devices :: "(string \<Rightarrow> rat) \<Rightarrow> string list \<Rightarrow> json list io" where
  "block_devices float_value argv =
     andthen (command_output argv) (\<lambda>s.
       lift (bind (json_loads float_value s) (\<lambda>v. bind (jsub v ''blockdevices'') jiter)))"

definition identity_columns :: "string list" where
  "identity_columns = [''lsblk'', ''--json'', ''--bytes'', ''--nodeps'', ''-o'', ''PATH,TYPE,SIZE,MODEL,SERIAL,WWN,TRAN'']"

definition tree_columns :: "string list" where
  "tree_columns =
     [''lsblk'', ''--json'', ''--tree'', ''--bytes'', ''-o'',
      ''PATH,TYPE,SIZE,MODEL,SERIAL,WWN,TRAN,RM,RO,FSTYPE,UUID,PARTUUID,MOUNTPOINTS'']"

section \<open>The selected disk\<close>

text \<open>A list comprehension over a test that may raise.\<close>

fun filterM :: "('a \<Rightarrow> 'e + bool) \<Rightarrow> 'a list \<Rightarrow> 'e + 'a list" where
  "filterM p [] = Inr []"
| "filterM p (x # xs) = bind (p x) (\<lambda>b. bind (filterM p xs) (\<lambda>ys. Inr (if b then x # ys else ys)))"

definition is_selected :: "json \<Rightarrow> json \<Rightarrow> exn + bool" where
  "is_selected expected disk =
     andM (bind (jsub disk ''type'') (\<lambda>t. Inr (t = JStr ''disk'')))
          (bind (disk_identity disk) (\<lambda>i. Inr (py_eq i expected)))"

definition alias_of :: "json \<Rightarrow> string \<Rightarrow> string list io" where
  "alias_of disk name =
     (let path = ''/dev/disk/by-id/'' @ name in
      andthen (real_path path) (\<lambda>r.
      andthen (lift (jsub disk ''path'')) (\<lambda>p. ret (if JStr r = p then [path] else []))))"

definition stable_alias :: "(string \<Rightarrow> rat) \<Rightarrow> json \<Rightarrow> string io" where
  "stable_alias float_value expected =
     andthen (block_devices float_value identity_columns) (\<lambda>devices.
     andthen (lift (filterM (is_selected expected) devices)) (\<lambda>matches.
     (case matches of
        [disk] \<Rightarrow>
          andthen (list_dir ''/dev/disk/by-id'') (\<lambda>names.
          andthen (collect (alias_of disk) names) (\<lambda>found.
          if concat found = [] then raise (RuntimeError ''Selected disk has no stable by-id alias'')
          else ret (least (concat found))))
      | _ \<Rightarrow> raise (RuntimeError ''Selected disk identity changed or is ambiguous''))))"

definition expected_disk :: "(string \<Rightarrow> rat) \<Rightarrow> string \<Rightarrow> (json option \<times> string) io" where
  "expected_disk float_value target =
     (if startswith target [CHR 0x7B]
      then andthen (lift (json_loads float_value target)) (\<lambda>expected.
           andthen (stable_alias float_value expected) (\<lambda>path. ret (Some expected, path)))
      else ret (None, target))"

definition unphysical :: "json \<Rightarrow> exn + bool" where
  "unphysical disk =
     orM (bind (jsub disk ''type'') (\<lambda>t. Inr (t \<noteq> JStr ''disk'')))
    (orM (bind (jget disk ''rm'' JNull) (\<lambda>v. Inr (truthy v)))
    (orM (bind (jget disk ''ro'' JNull) (\<lambda>v. Inr (truthy v)))
         (bind (jget disk ''tran'' JNull) (\<lambda>v. Inr (v \<notin> JStr ` {''sata'', ''nvme'', ''ata'', ''mmc''})))))"

definition unverifiable :: "json \<Rightarrow> exn + bool" where
  "unverifiable disk =
     andM (bind (jget disk ''serial'' JNull) (\<lambda>v. Inr (\<not> truthy v)))
          (bind (jget disk ''wwn'' JNull) (\<lambda>v. Inr (\<not> truthy v)))"

definition target_disk :: "(string \<Rightarrow> rat) \<Rightarrow> json option \<Rightarrow> string \<Rightarrow> (json \<times> string) io" where
  "target_disk float_value expected target =
     andthen (do_if (\<not> is_by_id target) (raise (RuntimeError ''A stable physical disk identity is required''))) (\<lambda>_.
     andthen (real_path target) (\<lambda>resolved.
     andthen (refuse_if (is_mmc_hardware_area resolved)
       (RuntimeError ''MMC hardware areas are not provisioning targets'')) (\<lambda>_.
     andthen (block_devices float_value tree_columns) (\<lambda>disks.
     andthen (lift (filterM (\<lambda>disk. bind (jsub disk ''path'') (\<lambda>p. Inr (p = JStr resolved))) disks)) (\<lambda>matches.
     (case matches of
        [disk] \<Rightarrow>
          andthen (lift (case expected of None \<Rightarrow> Inr False
                         | Some v \<Rightarrow> bind (disk_identity disk) (\<lambda>i. Inr (\<not> py_eq i v)))) (\<lambda>changed.
          andthen (refuse_if changed (RuntimeError ''Selected disk changed during inspection'')) (\<lambda>_.
          andthen (lift (unphysical disk)) (\<lambda>bad.
          andthen (refuse_if bad (RuntimeError ''USB, removable, read-only and nonphysical targets are forbidden'')) (\<lambda>_.
          andthen (lift (unverifiable disk)) (\<lambda>unknown.
          andthen (refuse_if unknown (RuntimeError ''Target has no verifiable serial/WWN'')) (\<lambda>_.
            ret (disk, resolved)))))))
      | _ \<Rightarrow> raise (RuntimeError ''Target is not exactly one top-level physical disk'')))))))"

section \<open>The nodes of the disk\<close>

lemma member_smaller [termination_simp]: "map_of d k = Some v \<Longrightarrow> size v < size (JObj d)"
  by (induction d) (auto split: if_splits)

text \<open>A node and all below it; the children have to be mappings themselves.\<close>

function descendants :: "json \<Rightarrow> exn + json list" where
  "descendants node =
     (case node of
        JObj d \<Rightarrow>
          (case map_of d ''children'' of
             None \<Rightarrow> Inr [node]
           | Some (JArr xs) \<Rightarrow> bind (mapM descendants xs) (\<lambda>ys. Inr (node # concat ys))
           | Some v \<Rightarrow> bind (jiter v) (\<lambda>xs. if xs = [] then Inr [node] else Inl AttributeError))
      | _ \<Rightarrow> Inl AttributeError)"
  by pat_completeness auto
termination
proof (relation "measure size")
  fix node d a xs x
  assume "node = JObj d" "map_of d ''children'' = Some a" "a = JArr xs" "x \<in> set xs"
  moreover from this have "size x < size (JArr xs)"
    using size_list_estimation' [of x xs "size x" size] by simp
  ultimately show "(x, node) \<in> measure size" using member_smaller by fastforce
qed simp

declare descendants.simps [simp del]

definition mount_points :: "json \<Rightarrow> exn + json list" where
  "mount_points node = bind (jget node ''mountpoints'' JNull) (\<lambda>v. jiter (either v (JArr [])))"

definition swapped :: "string list \<Rightarrow> json \<Rightarrow> exn + bool" where
  "swapped swap_paths node = bind (jsub node ''path'') (\<lambda>p. in_set p (map JStr swap_paths))"

definition in_use :: "string list \<Rightarrow> json \<Rightarrow> exn + bool" where
  "in_use swap_paths node =
     orM (bind (mount_points node) (\<lambda>ms. Inr (list_ex truthy ms))) (swapped swap_paths node)"

definition holds_root :: "json \<Rightarrow> exn + bool" where
  "holds_root node = bind (jget node ''mountpoints'' JNull) (\<lambda>v. py_in (JStr ''/'') (either v (JArr [])))"

definition read_int :: "string \<Rightarrow> int io" where
  "read_int path = andthen (read_text path) (\<lambda>s. lift (int_value s))"

definition block_directory :: "string \<Rightarrow> string" where
  "block_directory path = ''/sys/class/block/'' @ path_name path"

definition partition_entry :: "string list \<Rightarrow> json \<Rightarrow> json list io" where
  "partition_entry swap_paths node =
     andthen (lift (jsub node ''type'')) (\<lambda>type.
     if type \<noteq> JStr ''part'' then ret [] else
     andthen (lift (bind (jsub node ''path'') (str_of TypeError))) (\<lambda>path.
     andthen (read_int (block_directory path @ ''/partition'')) (\<lambda>number.
     andthen (read_int (block_directory path @ ''/start'')) (\<lambda>start.
     andthen (lift (jsub node ''size'')) (\<lambda>size.
     andthen (lift (jget node ''fstype'' JNull)) (\<lambda>filesystem.
     andthen (lift (jget node ''uuid'' JNull)) (\<lambda>uuid.
     andthen (lift (jget node ''partuuid'' JNull)) (\<lambda>part_uuid.
     andthen (lift (mount_points node)) (\<lambda>mounts.
     andthen (lift (swapped swap_paths node)) (\<lambda>swap.
       ret [JObj [(''number'', JInt number), (''startBytes'', JInt (start * 512)), (''size'', size),
                  (''filesystem'', either filesystem (JStr [])), (''uuid'', either uuid (JStr [])),
                  (''partUUID'', either part_uuid (JStr [])), (''mountPoints'', JArr (filter truthy mounts)),
                  (''activeSwap'', JBool swap)]]))))))))))"

definition disk_partitions :: "string list \<Rightarrow> json \<Rightarrow> json io" where
  "disk_partitions swap_paths disk =
     andthen (lift (bind (jget disk ''children'' (JArr [])) jiter)) (\<lambda>children.
     andthen (collect (partition_entry swap_paths) children) (\<lambda>entries. ret (JArr (concat entries))))"

section \<open>The state of the host\<close>

definition marker_at :: "(string \<Rightarrow> rat) \<Rightarrow> string \<Rightarrow> json io" where
  "marker_at float_value path =
     andthen (file_test ''is_file'' path) (\<lambda>present.
     if present then andthen (read_text path) (\<lambda>s. lift (json_loads float_value s)) else ret JNull)"

text \<open>\<open>glob(prefix + '*')\<close> in the directory of the firmware variables: one that cannot be listed has no entries.\<close>

definition efi_variables :: "string \<Rightarrow> string list io" where
  "efi_variables prefix =
     catch (andthen (list_dir ''/sys/firmware/efi/efivars'') (\<lambda>names. ret (filter (\<lambda>n. startswith n prefix) names)))
       (\<lambda>e. if is_file_error e then ret [] else raise e)"

definition variable_bytes :: "string \<Rightarrow> string io" where
  "variable_bytes name = read_text (''/sys/firmware/efi/efivars/'' @ name)"

definition secure_boot :: "json io" where
  "secure_boot =
     andthen (efi_variables ''SecureBoot-'') (\<lambda>names.
     andthen (case names of [] \<Rightarrow> ret [] | n # ns \<Rightarrow> variable_bytes n) (\<lambda>b.
       ret (if 5 \<le> length b then JBool (code_point (b ! 4) \<noteq> 0) else JNull)))"

definition hex_upper :: "nat \<Rightarrow> string" where
  "hex_upper n =
     (let h = map (\<lambda>i. let k = n div 16 ^ i mod 16 in char_of (if k < 10 then k + 48 else k + 55)) [3, 2, 1, 0] in h)"

definition boot_next :: "json io" where
  "boot_next =
     andthen (efi_variables ''BootNext-'') (\<lambda>names.
     (case names of
        [] \<Rightarrow> ret (JStr [])
      | n # ns \<Rightarrow> andthen (variable_bytes n) (\<lambda>b.
          ret (JStr (hex_upper (foldr (\<lambda>c k. code_point c + 256 * k) (take 2 (drop 4 b)) 0))))))"

definition enabled_service :: "string \<Rightarrow> json list io" where
  "enabled_service name =
     andthen (ask_proc (Process [''systemctl'', ''is-enabled'', name] [] 10)) (\<lambda>(code, _, _).
       ret (if code = 0 then [JStr name] else []))"

definition text_if_exists :: "string \<Rightarrow> string io \<Rightarrow> json io" where
  "text_if_exists path m =
     andthen (file_test ''exists'' path) (\<lambda>present. if present then andthen m (\<lambda>s. ret (JStr s)) else ret (JStr []))"

fun all_files :: "string list \<Rightarrow> bool io" where
  "all_files [] = ret True"
| "all_files (p # ps) = andthen (file_test ''is_file'' p) (\<lambda>present. if present then all_files ps else ret False)"

definition grub_ready :: "bool io" where
  "grub_ready =
     andthen (all_files [''/boot/grub/grub.cfg'', ''/boot/grub/grubenv'', ''/boot/ipxe/ipxe.efi'']) (\<lambda>present.
     if present then andthen (read_text ''/boot/grub/grub.cfg'') (\<lambda>s. ret (contains s ''homelab-netboot''))
     else ret False)"

text \<open>The lines of \<open>os-release\<close> that hold an equals sign.\<close>

definition os_fields :: "string \<Rightarrow> jobject" where
  "os_fields s =
     foldl (\<lambda>d line. dput (takeWhile (\<lambda>c. c \<noteq> CHR ''='') line)
                        (JStr (tl (dropWhile (\<lambda>c. c \<noteq> CHR ''='') line))) d) []
       (filter (\<lambda>line. CHR ''='' \<in> set line) (splitlines s))"

definition findmnt :: "string \<Rightarrow> string io" where
  "findmnt column = command_output [''findmnt'', ''-n'', ''-o'', column, ''--target'', ''/'']"

text \<open>Everything that is read before the report is put together.\<close>

record observation_record =
  seen_nodes :: "json list"
  seen_partitions :: json
  seen_live :: bool
  seen_mounted :: bool
  seen_marker :: json
  seen_staged :: json
  seen_secure_boot :: json
  seen_boot_next :: json
  seen_services :: "json list"

definition observe :: "(string \<Rightarrow> rat) \<Rightarrow> json \<Rightarrow> observation_record io" where
  "observe float_value disk =
     andthen (lift (descendants disk)) (\<lambda>nodes.
     andthen active_swap_paths (\<lambda>swap_paths.
     andthen (disk_partitions swap_paths disk) (\<lambda>partitions.
     andthen (file_test ''exists'' ''/var/lib/is_live_env'') (\<lambda>live.
     andthen (lift (anyM (in_use swap_paths) nodes)) (\<lambda>mounted.
     andthen (marker_at float_value ''/var/lib/homelab/provisioning.json'') (\<lambda>marker.
     andthen (marker_at float_value ''/mnt/var/lib/homelab/provisioning.json'') (\<lambda>staged.
     andthen secure_boot (\<lambda>secure.
     andthen boot_next (\<lambda>next_entry.
     andthen (collect enabled_service [''linux-priority-boot.service'', ''bootorderd.service'']) (\<lambda>services.
       ret \<lparr>seen_nodes = nodes, seen_partitions = partitions, seen_live = live, seen_mounted = mounted,
            seen_marker = marker, seen_staged = staged, seen_secure_boot = secure, seen_boot_next = next_entry,
            seen_services = concat services\<rparr>))))))))))"

definition host_report :: "string \<Rightarrow> json \<Rightarrow> string \<Rightarrow> observation_record \<Rightarrow> jobject io" where
  "host_report target disk resolved seen =
     andthen (read_text ''/proc/sys/kernel/random/boot_id'') (\<lambda>boot_id.
     andthen (text_if_exists ''/etc/homelabd/live-build-id''
        (andthen (read_text ''/etc/homelabd/live-build-id'') (\<lambda>s. ret (strip s)))) (\<lambda>build_id.
     andthen (file_test ''is_dir'' ''/sys/firmware/efi'') (\<lambda>uefi.
     andthen (lift (disk_identity disk)) (\<lambda>identity_fields.
     andthen (read_int (block_directory resolved @ ''/queue/logical_block_size'')) (\<lambda>sector.
     andthen (lift (orM (bind (jget disk ''children'' JNull) (\<lambda>v. Inr (truthy v)))
                        (bind (jget disk ''fstype'' JNull) (\<lambda>v. Inr (truthy v))))) (\<lambda>partitioned.
     andthen (all_files [''/mnt/boot/grub/grub.cfg'', ''/mnt/boot/ipxe/ipxe.efi'']) (\<lambda>staged_ready.
     andthen (findmnt ''UUID'') (\<lambda>root_uuid.
     andthen (findmnt ''FSTYPE'') (\<lambda>root_type.
     andthen (lift (anyM holds_root (seen_nodes seen))) (\<lambda>root_on_target.
     andthen (read_text ''/etc/os-release'') (\<lambda>release.
     andthen grub_ready (\<lambda>ready.
     andthen (text_if_exists ''/boot/grub/grubenv'' (command_output [''grub-editenv'', ''/boot/grub/grubenv'', ''list'']))
       (\<lambda>grub_environment.
       ret [(''targetDisk'', JStr target), (''bootID'', JStr (strip boot_id)), (''live'', JBool (seen_live seen)),
            (''liveBuildID'', build_id), (''uefi'', JBool uefi), (''secureBoot'', seen_secure_boot seen),
            (''firmwareBootNext'', seen_boot_next seen), (''competingBootServices'', JArr (seen_services seen)),
            (''disk'', identity_fields), (''partitions'', seen_partitions seen), (''device'', JStr resolved),
            (''logicalSectorSize'', JInt sector), (''partitioned'', JBool partitioned),
            (''mounted'', JBool (seen_mounted seen)), (''marker'', seen_marker seen), (''stagedMarker'', seen_staged seen),
            (''stagedBootReady'', JBool staged_ready), (''rootUUID'', JStr root_uuid), (''rootType'', JStr root_type),
            (''rootOnTarget'', JBool root_on_target), (''os'', JObj (os_fields release)), (''grubReady'', JBool ready),
            (''grubEnvironment'', grub_environment)])))))))))))))"

definition probe :: "(string \<Rightarrow> rat) \<Rightarrow> string \<Rightarrow> jobject io" where
  "probe float_value given =
     andthen (expected_disk float_value given) (\<lambda>(expected, target).
     andthen (target_disk float_value expected target) (\<lambda>(disk, resolved).
     andthen (observe float_value disk) (\<lambda>seen.
       host_report target disk resolved seen)))"

section \<open>What a reported disk is\<close>

text \<open>A physical disk that may be a target: of a fixed transport, writable, with a verifiable identity.\<close>

definition physical_disk :: "json \<Rightarrow> bool" where
  "physical_disk disk \<longleftrightarrow> (\<exists>d. disk = JObj d \<and> dget d ''type'' = JStr ''disk'' \<and>
     \<not> truthy (dget d ''rm'') \<and> \<not> truthy (dget d ''ro'') \<and>
     (\<exists>t\<in>{''sata'', ''nvme'', ''ata'', ''mmc''}. dget d ''tran'' = JStr t) \<and>
     (truthy (dget d ''serial'') \<or> truthy (dget d ''wwn'')))"

lemma filterM_member: "filterM p xs = Inr ys \<Longrightarrow> y \<in> set ys \<Longrightarrow> y \<in> set xs \<and> p y = Inr True"
  by (induction xs arbitrary: ys) (auto simp: bind_eq_Inr split: if_splits)

lemma refuse_if_returns: "refuse_if c e w = (Inr u, w') \<longleftrightarrow> \<not> c \<and> w' = w"
  by (auto simp: refuse_if_def)

lemma target_disk_found:
  assumes "target_disk fv expected target w = (Inr (disk, resolved), w')"
  shows "is_by_id target" "\<not> is_mmc_hardware_area resolved" "physical_disk disk" "jsub disk ''path'' = Inr (JStr resolved)"
    "\<And>v. expected = Some v \<Longrightarrow> \<exists>i. disk_identity disk = Inr i \<and> py_eq i v"
proof -
  from assms have id: "is_by_id target" by (auto simp: target_disk_def do_if_def elim!: andthenE split: if_splits)
  from assms have "\<not> is_mmc_hardware_area resolved \<and>
      (\<exists>disks. filterM (\<lambda>disk. bind (jsub disk ''path'') (\<lambda>p. Inr (p = JStr resolved))) disks = Inr [disk]) \<and>
      (case expected of None \<Rightarrow> Inr False | Some v \<Rightarrow> bind (disk_identity disk) (\<lambda>i. Inr (\<not> py_eq i v))) = Inr False \<and>
      unphysical disk = Inr False \<and> unverifiable disk = Inr False"
    unfolding target_disk_def
    by (auto simp: lift_def refuse_if_returns elim!: andthenE split: list.splits) blast+
  then obtain disks where facts: "\<not> is_mmc_hardware_area resolved"
      "filterM (\<lambda>disk. bind (jsub disk ''path'') (\<lambda>p. Inr (p = JStr resolved))) disks = Inr [disk]"
      "(case expected of None \<Rightarrow> Inr False | Some v \<Rightarrow> bind (disk_identity disk) (\<lambda>i. Inr (\<not> py_eq i v))) = Inr False"
      "unphysical disk = Inr False" "unverifiable disk = Inr False" by blast
  show "is_by_id target" "\<not> is_mmc_hardware_area resolved" by (rule id, rule facts(1))
  show "jsub disk ''path'' = Inr (JStr resolved)" using filterM_member [OF facts(2), of disk] by (auto simp: bind_eq_Inr)
  then obtain d where d: "disk = JObj d" by (cases disk) auto
  have "dget d ''type'' = JStr ''disk''" using facts(4) by (auto simp: unphysical_def d exn_simps dget_def)
  moreover have "\<not> truthy (dget d ''rm'')" "\<not> truthy (dget d ''ro'')"
    "dget d ''tran'' \<in> JStr ` {''sata'', ''nvme'', ''ata'', ''mmc''}"
    using facts(4) by (simp_all add: unphysical_def d exn_simps dgetd_def dget_def)
  moreover have "truthy (dget d ''serial'') \<or> truthy (dget d ''wwn'')"
    using facts(5) by (auto simp: unverifiable_def d exn_simps dgetd_def dget_def)
  ultimately show "physical_disk disk" unfolding physical_disk_def d by blast
  show "\<exists>i. disk_identity disk = Inr i \<and> py_eq i v" if "expected = Some v" for v
    using facts(3) that by (auto simp: bind_eq_Inr)
qed

lemma report_fields:
  assumes "host_report target disk resolved seen w = (Inr facts, w')"
  shows "dget facts ''targetDisk'' = JStr target" "dget facts ''device'' = JStr resolved"
    "disk_identity disk = Inr (dget facts ''disk'')"
  using assms unfolding host_report_def
  by (auto simp: lift_def ret_def dget_def elim!: andthenE)


section \<open>A host\<close>

text \<open>A live system with one NVMe disk and a USB stick.\<close>

definition sample_disk :: jobject where
  "sample_disk = [(''size'', JInt 1000), (''serial'', JStr ''S1''), (''wwn'', JStr []), (''model'', JStr ''M''), (''tran'', JStr ''nvme'')]"

definition listed_disk :: json where
  "listed_disk = JObj ((''path'', JStr ''/dev/nvme0n1'') # (''type'', JStr ''disk'') # sample_disk)"

definition listed_stick :: json where
  "listed_stick = JObj [(''path'', JStr ''/dev/sda''), (''type'', JStr ''disk''), (''size'', JInt 9), (''tran'', JStr ''usb'')]"

definition host_answer :: "event \<Rightarrow> reply" where
  "host_answer ev =
     (case ev of
        Process argv input limit \<Rightarrow>
          if hd argv = ''lsblk''
          then RText (dumps (\<lambda>_. []) default_style (JObj [(''blockdevices'', JArr [listed_disk, listed_stick])]))
          else if hd argv = ''systemctl'' then RProc 1 [] [] else RText ''overlay''
      | ListDir path \<Rightarrow>
          RJson (JArr (if path = ''/dev/disk/by-id'' then [JStr ''nvme-M_S1'', JStr ''usb-stick''] else []))
      | RealPath path \<Rightarrow> RText (if path = ''/dev/disk/by-id/nvme-M_S1'' then ''/dev/nvme0n1'' else ''/dev/sda'')
      | FileTest test path \<Rightarrow> RJson (JBool False)
      | ReadFile path \<Rightarrow> RText (if path = ''/sys/class/block/nvme0n1/queue/logical_block_size'' then ''512'' else ''Filename'')
      | _ \<Rightarrow> RUnit)"

definition host :: world where
  "host = \<lparr>answers = (\<lambda>h. host_answer), history = [], float_text = (\<lambda>_. []), cell = []\<rparr>"

definition sample_given :: string where
  "sample_given = dumps (\<lambda>_. []) default_style (JObj sample_disk)"

definition listed :: json where
  "listed = JObj [(''blockdevices'', JArr [listed_disk, listed_stick])]"

lemma host_devices:
  assumes "hd argv = ''lsblk''"
  shows "gives host_answer (block_devices fv argv) [listed_disk, listed_stick]"
proof -
  let ?text = "dumps (\<lambda>_. []) default_style listed"
  have t: "host_answer (Process argv [] 30) = RText ?text" using assms by (simp add: host_answer_def listed_def)
  have s: "strip ?text = ?text" by code_simp
  have c: "gives host_answer (command_output argv) ?text"
    unfolding command_output_def
    by (rule gives_andthen, rule gives_asks(1), rule t, subst s, rule gives_basics)
  have "plain_json listed" by code_simp
  then have "bind (json_loads fv ?text) (\<lambda>v. bind (jsub v ''blockdevices'') jiter) = Inr [listed_disk, listed_stick]"
    by (simp add: json_roundtrip) (simp add: listed_def dsub_def)
  then show ?thesis unfolding block_devices_def by (intro gives_andthen [OF c]) (simp only: gives_basics)
qed

lemma host_real_path: "host_answer (RealPath path) = RText r \<Longrightarrow> gives host_answer (real_path path) r"
  unfolding real_path_def by (rule gives_asks)

lemma host_alias: "gives host_answer (stable_alias fv (JObj sample_disk)) ''/dev/disk/by-id/nvme-M_S1''"
proof -
  have m: "filterM (is_selected (JObj sample_disk)) [listed_disk, listed_stick] = Inr [listed_disk]" by code_simp
  have l: "gives host_answer (list_dir ''/dev/disk/by-id'') [''nvme-M_S1'', ''usb-stick'']"
    by (rule gives_list_dir) (simp add: host_answer_def)
  have p: "jsub listed_disk ''path'' = Inr (JStr ''/dev/nvme0n1'')" by code_simp
  have a: "gives host_answer (alias_of listed_disk ''nvme-M_S1'') [''/dev/disk/by-id/nvme-M_S1'']"
    unfolding alias_of_def Let_def
    by (rule gives_andthen [OF host_real_path [where r = "''/dev/nvme0n1''"]], simp add: host_answer_def, rule gives_lifted [OF p])
      (simp add: gives_basics)
  have b: "gives host_answer (alias_of listed_disk ''usb-stick'') []"
    unfolding alias_of_def Let_def
    by (rule gives_andthen [OF host_real_path [where r = "''/dev/sda''"]], simp add: host_answer_def, rule gives_lifted [OF p])
      (simp add: gives_basics)
  have c: "gives host_answer (collect (alias_of listed_disk) [''nvme-M_S1'', ''usb-stick'']) [[''/dev/disk/by-id/nvme-M_S1''], []]"
    by (rule gives_collect) (simp add: a b)
  show ?thesis
    unfolding stable_alias_def
    by (rule gives_andthen [OF host_devices], simp add: identity_columns_def, rule gives_lifted [OF m], simp only: list.case,
        rule gives_andthen [OF l], rule gives_andthen [OF c]) (simp add: gives_basics)
qed

lemma host_expected: "gives host_answer (expected_disk fv sample_given) (Some (JObj sample_disk), ''/dev/disk/by-id/nvme-M_S1'')"
proof -
  have b: "startswith sample_given [CHR 0x7B] = True" by code_simp
  have "plain_json (JObj sample_disk)" by code_simp
  then have j: "json_loads fv sample_given = Inr (JObj sample_disk)" unfolding sample_given_def by (rule json_roundtrip)
  show ?thesis
    unfolding expected_disk_def b if_True
    by (rule gives_lifted [OF j], rule gives_andthen [OF host_alias], rule gives_basics)
qed

lemma host_target:
  "gives host_answer (target_disk fv (Some (JObj sample_disk)) ''/dev/disk/by-id/nvme-M_S1'') (listed_disk, ''/dev/nvme0n1'')"
proof -
  have pure: "is_by_id ''/dev/disk/by-id/nvme-M_S1''" "\<not> is_mmc_hardware_area ''/dev/nvme0n1''"
    "filterM (\<lambda>disk. bind (jsub disk ''path'') (\<lambda>p. Inr (p = JStr ''/dev/nvme0n1''))) [listed_disk, listed_stick] = Inr [listed_disk]"
    "bind (disk_identity listed_disk) (\<lambda>i. Inr (\<not> py_eq i (JObj sample_disk))) = Inr False"
    "unphysical listed_disk = Inr False" "unverifiable listed_disk = Inr False"
    by code_simp+
  show ?thesis
    unfolding target_disk_def
    by (simp only: pure do_if_def refuse_if_def not_True_eq_False if_False andthen_simps,
        rule gives_andthen [OF host_real_path [where r = "''/dev/nvme0n1''"]], simp add: host_answer_def,
        simp only: pure if_False andthen_simps,
        rule gives_andthen [OF host_devices], simp add: tree_columns_def,
        simp only: pure list.case option.case if_False andthen_simps gives_basics)
qed

lemma host_tests: "gives host_answer (file_test t p) False"
  using gives_asks(6) [of host_answer t p "JBool False"] by (simp add: host_answer_def)

lemma host_reads:
  "path \<noteq> ''/sys/class/block/nvme0n1/queue/logical_block_size'' \<Longrightarrow> gives host_answer (read_text path) ''Filename''"
  unfolding read_text_def by (rule gives_asks) (simp add: host_answer_def)

lemma host_commands:
  assumes "hd argv \<noteq> ''lsblk''" "hd argv \<noteq> ''systemctl''"
  shows "gives host_answer (command_output argv) ''overlay''"
proof -
  have t: "host_answer (Process argv [] 30) = RText ''overlay''" using assms by (simp add: host_answer_def)
  have s: "strip ''overlay'' = ''overlay''" by code_simp
  show ?thesis
    unfolding command_output_def by (rule gives_andthen, rule gives_asks(1), rule t, subst s, rule gives_basics)
qed

definition sample_seen :: observation_record where
  "sample_seen =
     \<lparr>seen_nodes = [listed_disk], seen_partitions = JArr [], seen_live = False, seen_mounted = False, seen_marker = JNull,
      seen_staged = JNull, seen_secure_boot = JNull, seen_boot_next = JStr [], seen_services = []\<rparr>"

lemma host_observed: "gives host_answer (observe fv listed_disk) sample_seen"
proof -
  have pure: "descendants listed_disk = Inr [listed_disk]" "anyM (in_use []) [listed_disk] = Inr False"
    "bind (jget listed_disk ''children'' (JArr [])) jiter = Inr []" "tl (splitlines ''Filename'') = []"
    by code_simp+
  have none: "gives host_answer (collect f []) []" for f :: "'a \<Rightarrow> 'b io"
    by (simp only: collect.simps gives_basics)
  have swaps: "gives host_answer active_swap_paths []"
    unfolding active_swap_paths_def
    by (rule gives_andthen [OF host_reads], simp, simp only: pure, rule gives_andthen [OF none]) (simp add: gives_basics)
  have parts: "gives host_answer (disk_partitions [] listed_disk) (JArr [])"
    unfolding disk_partitions_def
    by (rule gives_lifted [OF pure(3)], rule gives_andthen [OF none]) (simp add: gives_basics)
  have marker: "gives host_answer (marker_at fv path) JNull" for path
    unfolding marker_at_def by (rule gives_andthen [OF host_tests]) (simp add: gives_basics)
  have dir: "gives host_answer (list_dir ''/sys/firmware/efi/efivars'') []"
    by (rule gives_list_dir) (simp add: host_answer_def)
  have variables: "gives host_answer (efi_variables prefix) []" for prefix
    unfolding efi_variables_def by (rule gives_catch, rule gives_andthen [OF dir], simp only: filter.simps gives_basics)
  have secure: "gives host_answer secure_boot JNull"
    unfolding secure_boot_def
    by (rule gives_andthen [OF variables], simp only: list.case, rule gives_andthen [OF gives_basics(1)]) (simp add: gives_basics)
  have entry: "gives host_answer boot_next (JStr [])"
    unfolding boot_next_def by (rule gives_andthen [OF variables], simp only: list.case, rule gives_basics)
  have "gives host_answer (ask_proc (Process [''systemctl'', ''is-enabled'', name] [] 10)) (1, [], [])" for name
    by (rule gives_asks) (simp add: host_answer_def)
  then have "gives host_answer (enabled_service name) []" for name
    unfolding enabled_service_def by (rule gives_andthen) (simp add: gives_basics)
  then have services: "gives host_answer (collect enabled_service [''linux-priority-boot.service'', ''bootorderd.service'']) [[], []]"
    by (intro gives_collect) simp
  have "gives host_answer (ret sample_seen) sample_seen" by (rule gives_basics)
  then show ?thesis
    unfolding observe_def
    by (intro gives_lifted [OF pure(1)] gives_andthen [OF swaps] gives_andthen [OF parts] gives_andthen [OF host_tests]
        gives_lifted [OF pure(2)] gives_andthen [OF marker] gives_andthen [OF secure] gives_andthen [OF entry]
        gives_andthen [OF services]) (simp add: sample_seen_def)
qed

lemma host_reported:
  "\<exists>facts. gives host_answer (host_report ''/dev/disk/by-id/nvme-M_S1'' listed_disk ''/dev/nvme0n1'' sample_seen) facts"
proof -
  have pure: "disk_identity listed_disk = Inr (JObj sample_disk)"
    "orM (bind (jget listed_disk ''children'' JNull) (\<lambda>v. Inr (truthy v))) (bind (jget listed_disk ''fstype'' JNull) (\<lambda>v. Inr (truthy v))) = Inr False"
    "anyM holds_root (seen_nodes sample_seen) = Inr False" "int_value ''512'' = Inr 512"
    "block_directory ''/dev/nvme0n1'' @ ''/queue/logical_block_size'' = ''/sys/class/block/nvme0n1/queue/logical_block_size''"
    by code_simp+
  have size: "gives host_answer (read_int ''/sys/class/block/nvme0n1/queue/logical_block_size'') 512"
    unfolding read_int_def read_text_def
    by (rule gives_andthen, rule gives_asks(1), simp add: host_answer_def) (simp only: pure gives_basics)
  have texts: "gives host_answer (text_if_exists path m) (JStr [])" for path m
    unfolding text_if_exists_def by (rule gives_andthen [OF host_tests]) (simp add: gives_basics)
  have files: "gives host_answer (all_files (p # ps)) False" for p ps
    by (simp, rule gives_andthen [OF host_tests]) (simp add: gives_basics)
  have grub: "gives host_answer grub_ready False"
    unfolding grub_ready_def by (rule gives_andthen [OF files]) (simp add: gives_basics)
  have mounts: "gives host_answer (findmnt column) ''overlay''" for column
    unfolding findmnt_def by (rule host_commands) simp_all
  have boot: "gives host_answer (read_text ''/proc/sys/kernel/random/boot_id'') ''Filename''"
    and release: "gives host_answer (read_text ''/etc/os-release'') ''Filename''"
    by (rule host_reads, simp)+
  show ?thesis
    unfolding host_report_def pure(5)
    by (rule exI, rule gives_andthen [OF boot], rule gives_andthen [OF texts], rule gives_andthen [OF host_tests],
        rule gives_lifted [OF pure(1)], rule gives_andthen [OF size], rule gives_lifted [OF pure(2)], rule gives_andthen [OF files],
        rule gives_andthen [OF mounts], rule gives_andthen [OF mounts], rule gives_lifted [OF pure(3)],
        rule gives_andthen [OF release], rule gives_andthen [OF grub], rule gives_andthen [OF texts], rule gives_basics)
qed


end
