(* ===== verification/Spec2Isabelle.thy ===== *)
theory Spec2Isabelle
  imports KubeProperties KubeFlannel RunnerCredentials SystemLab ProvisionProperties StorageLayout ConfigurationReady ConfigurationPlans BootOrder Transport Processes Publishing Probe
begin

text \<open>
  The operators of this repository drive machines whose disks they erase, whose host keys they trust and whose
  clusters they form. This development models the Python that decides and acts, and proves what it has to get right.

  \<^bold>\<open>The parts of the program.\<close> An API service holds resources (Servers, ProvisioningRuns, Configurations,
  KubeClusters, Operations). Four operators are started periodically and do one pass each:
  \<open>operators/ssh_host_keys.py\<close> replaces and pins the SSH host identity of a Server,
  \<open>operators/provisioning.py\<close> installs an operating system on one, \<open>operators/configurations.py\<close> executes the
  command of a Configuration on claimed Servers, \<open>operators/system_operations.py\<close> reboots one or repairs its boot.
  All four own a target through one Operation at a time (\<open>operators/server_operation.py\<close>), read and
  write resources through one client and reach hosts under one SSH trust (\<open>operators/common.py\<close>, \<open>operators/models.py\<close>).
  A runner prepares its trust, its credentials and its cluster context with \<open>operators/runner_trust.py\<close>,
  \<open>operators/runner_credentials.py\<close> and \<open>operators/runner_kubernetes.py\<close>. The cluster plays call the pure functions
  of \<open>filter_plugins/kube_plan.py\<close>. The plays
  that install a system run scripts of their own on the managed host: \<open>probe.py\<close> reports its facts, \<open>resolve_boot_nic.py\<close> finds its boot
  interface, \<open>configure_users.py\<close> creates its users, \<open>verify_efi.py\<close> orders its firmware entries (all in \<open>roles/provision/files\<close>). The
  image pipeline publishes its builds with \<open>roles/os/files/ci/publish.py\<close>.

  \<^bold>\<open>The base.\<close> \<open>Prelude\<close>: exceptions as values, the sequencing of fallible steps, insertion-ordered
  dictionaries. \<open>PyStr\<close>: strings and an executable matcher of regular expressions with its soundness. \<open>Json\<close>: the JSON
  values and their subscripts, with the exception each wrong shape raises, and Python's equality, which ignores
  the order of members. \<open>Codec\<close>: Base64 and SHA-256. \<open>Address\<close> and \<open>Ipv4\<close>: \<open>ipaddress\<close>. \<open>JsonText\<close> and
  \<open>JsonParse\<close>: \<open>json.dumps\<close>, shell words, lines, \<open>json.loads\<close> and their round trip.
  \<open>Effects\<close>: computations that ask an environment; \<open>world\<close> is the state they thread, \<open>only\<close> bounds the
  requests of a computation by its structure, \<open>at_most\<close> counts them, \<open>made\<close> leads from a request back to the steps before it.

  \<^bold>\<open>The components.\<close> Each definition has the name of the function it translates, or of the part of it.
  \<open>Models\<close> (\<open>models.py\<close>), \<open>Common\<close> (\<open>common.py\<close>), \<open>ServerOperation\<close>
  (\<open>server_operation.py\<close>), \<open>HostKeys\<close> (\<open>ssh_host_keys.py\<close>), \<open>RunnerTrust\<close>, \<open>RunnerKubernetes\<close> and
  \<open>RunnerCredentials\<close> (the runner modules), \<open>ProvisionChecks\<close> and \<open>Provisioning\<close> (\<open>provisioning.py\<close>, the checks that
  only read and refuse, then the steps that act), \<open>DependencyOrder\<close> and \<open>Configurations\<close> (\<open>configurations.py\<close>),
  \<open>SystemOperations\<close> (\<open>system_operations.py\<close>), \<open>KubePlan\<close>, \<open>KubeHost\<close>, \<open>KubeNodes\<close>, \<open>KubeRegistration\<close> and
  \<open>KubeManifests\<close> (\<open>kube_plan.py\<close> in the order of the file), \<open>BootOrder\<close> (\<open>verify_efi.py\<close>), \<open>Probe\<close> (\<open>probe.py\<close>), \<open>HostScripts\<close> (\<open>resolve_boot_nic.py\<close>, \<open>configure_users.py\<close>), \<open>Publishing\<close> (\<open>publish.py\<close>).
  \<open>Transport\<close> and \<open>Processes\<close> model the lower half of \<open>common.py\<close>: one HTTP exchange (\<open>request_json\<close>, \<open>NoRedirect\<close>, the operations of \<open>API\<close>), private
  files and the life of one local command (\<open>write_private\<close>, \<open>run_command\<close>, \<open>run_ansible\<close>).

  \<^bold>\<open>What the lemmas show.\<close> Provisioning: \<open>ProvisionEffects\<close> bounds what each step asks for, \<open>ProvisionSafety\<close> shows
  when a disk is erased, what an interrupted installation does and what completion rests on, \<open>ProvisionTime\<close> that
  the waiting loops end, \<open>StorageLayout\<close> what a partition plan and the attestation of a disk mean, and \<open>ProvisionProperties\<close>
  collects the properties of a pass. Configurations: \<open>DependencyOrder\<close> shows that the walk is a topological
  order or finds a cycle, \<open>ConfigurationPlans\<close> that planning ends within its bound, \<open>ConfigurationProperties\<close> and
  \<open>ConfigurationReady\<close> under which claims and inputs the command runs and the result is published.
  \<open>SystemProperties\<close> shows the same of a system operation. \<open>KubeProperties\<close> and \<open>KubeFlannel\<close> show what a plan, a verified cluster, a repaired registration and an
  adapted manifest hold. The theories named \<open>...Lab\<close> are concrete environments, on which
  the hypotheses of the properties hold.
  \<open>Refinement\<close> defines when a computation refines a coarser one; by it \<open>Transport\<close> and \<open>Processes\<close> show that the HTTP client and the
  process runner end as the single requests do that the operators are proved over, so what holds of an operator
  for every environment holds over them. \<open>Transport\<close> also shows where credentials may go, \<open>Processes\<close> which life every local command takes,
  as a step relation on the state of the process. \<open>BootOrder\<close> shows that one write of a planned order settles the firmware, \<open>Probe\<close> that facts are
  only reported about the selected physical disk, \<open>HostScripts\<close> that the script accepts every user the operator resolves, \<open>Publishing\<close> that the manifest is published last.
  The contracts between components are locales, interpreted on the model: \<open>optimistic_update\<close> (a status write),
  \<open>claimed_work\<close> (work under an Operation), \<open>polling\<close> (a waiting loop), \<open>resolver\<close> and \<open>reader\<close> (what a class of requests excludes).

  \<^bold>\<open>The environment.\<close> API service, Ansible, SSH, OpenBao, git, clock, file system and local processes are the function
  \<open>answers\<close> of the world. Every answer may depend on the whole history, and the properties hold for all such functions. An answer of a shape the request
  does not have counts as \<open>OSError\<close>. A command whose JSON output is read answers with the
  decoded value. Console output is not modelled. The process environment is changed by \<open>Setenv\<close> requests. The one dictionary that the
  provisioning operator mutates in place is \<open>cell\<close>.

  \<^bold>\<open>Data.\<close> Characters are code points below 256; other text is outside the model. Floating-point numbers are exact rationals, their text and its
  reading are the parameters \<open>float_text\<close> and \<open>float_value\<close>; NaN and Infinity are outside the model. \<open>LibError\<close> is a \<open>ValueError\<close> that the
  standard library raises. \<open>HTTPError\<close> counts as \<open>OSError\<close> where Python's classes make it one. Instants are read by the
  parameter \<open>read_instant\<close>. Command-line arguments arrive parsed. The constants of SHA-256 are written in decimal.

  \<^bold>\<open>Bounds.\<close> The polling loops run in rounds: 62 while other builds drain (at most 300 seconds), 122 while a boot session is awaited (at most 600). A
  round that goes on sleeps five seconds, so with a clock that keeps up with the sleeps the deadline of the code comes first, and
  \<open>Unfinished\<close>, the value of the rounds that are left over, is never the outcome (\<open>ProvisionTime\<close>). The recursion of a Configuration plan is bounded by the recursion depth 500 of the interpreter's
  budget, beyond which the model raises the \<open>RuntimeError\<close> that Python raises; a plan needs one level per Configuration
  (\<open>ConfigurationPlans\<close>). The JSON reader has two steps of fuel per character, which its own round trip shows to be enough.

  \<^bold>\<open>Not modelled.\<close> A signal that interrupts a pass is the exception \<open>TerminationRequested\<close>, which every request may raise; the handler that raises it
  once is modelled by itself (\<open>Processes\<close>). The thread that copies the output of a command is a request to start and one to join it. Opening
  a file is part of the request that reads or uploads it, and a directory that cannot be listed has no entries where the code uses \<open>glob\<close>.
  How \<open>urlparse\<close> treats text beyond the parts the code reads (paths, parameters) is left out, and the request itself is sent as given. The depth of
  recursion is not bounded in the probe and in the JSON reader and writer. Printing, imports, type aliases of \<open>operators/models.py\<close> and the table of filters at the end of
  \<open>kube_plan.py\<close> hold no logic. Plays, roles, charts, templates and shell scripts are not Python: they are what a run of
  Ansible or of a command answers. The tests under \<open>operators/tests\<close> and the \<open>experiments\<close> are not part of the program.
\<close>

end
